(* ===== verification/Prelude.thy ===== *)
theory Prelude
  imports Main "HOL-Library.Word" "HOL-Library.AList"
begin

section \<open>Prelude: results, options, association lists and words\<close>

text \<open>
  What every component of the development shares. A Rust \<open>Result<T, E>\<close> is the sum \<open>'e + 'a\<close>,
  \<open>Inl\<close> the error; \<open>and_then\<close>, \<open>map_ok\<close>, \<open>map_err\<close>, \<open>ok_or\<close> and \<open>transpose_opt\<close> are the
  combinators of \<open>core::result\<close> and \<open>core::option\<close> that the source composes its parsers with (a
  \<open>?\<close> is an \<open>and_then\<close>). A Rust \<open>String\<close> is its list of UTF-8 bytes, a HOL \<open>string\<close>. A
  \<open>HashMap\<close> is an association list with distinct keys, because the code counts and lists its
  entries; \<open>wire\<close> collects the rewrite rules of the JSON shapes.
\<close>

named_theorems wire \<open>rewrite rules of the JSON wire shapes\<close>
named_theorems result_iff \<open>inversion of a composed result\<close>

type_synonym u8 = "8 word"
type_synonym u16 = "16 word"
type_synonym u32 = "32 word"
type_synonym u64 = "64 word"
type_synonym u256 = "256 word"

text \<open>A \<open>uuid::Uuid\<close>: its 128 bits.\<close>

type_synonym uuid = "128 word"

subsection \<open>Results\<close>

fun and_then :: "'e + 'a \<Rightarrow> ('a \<Rightarrow> 'e + 'b) \<Rightarrow> 'e + 'b" where
  "and_then (Inl e) f = Inl e"
| "and_then (Inr x) f = f x"

fun map_ok :: "('a \<Rightarrow> 'b) \<Rightarrow> 'e + 'a \<Rightarrow> 'e + 'b" where
  "map_ok f (Inl e) = Inl e"
| "map_ok f (Inr x) = Inr (f x)"

fun map_err :: "('e \<Rightarrow> 'f) \<Rightarrow> 'e + 'a \<Rightarrow> 'f + 'a" where
  "map_err f (Inl e) = Inl (f e)"
| "map_err f (Inr x) = Inr x"

fun ok_or :: "'a option \<Rightarrow> 'e \<Rightarrow> 'e + 'a" where
  "ok_or None e = Inl e"
| "ok_or (Some x) e = Inr x"

fun ok :: "'e + 'a \<Rightarrow> 'a option" where
  "ok (Inl e) = None"
| "ok (Inr x) = Some x"

fun is_ok :: "'e + 'a \<Rightarrow> bool" where
  "is_ok (Inl e) = False"
| "is_ok (Inr x) = True"

fun transpose_opt :: "('e + 'a) option \<Rightarrow> 'e + 'a option" where
  "transpose_opt None = Inr None"
| "transpose_opt (Some (Inl e)) = Inl e"
| "transpose_opt (Some (Inr x)) = Inr (Some x)"

definition unwrap_or :: "'a option \<Rightarrow> 'a \<Rightarrow> 'a" where
  "unwrap_or x d = (case x of None \<Rightarrow> d | Some v \<Rightarrow> v)"

lemma unwrap_or_simps [simp]:
  "unwrap_or None d = d" "unwrap_or (Some v) d = v"
  by (simp_all add: unwrap_or_def)

fun list_of_opt :: "'a option \<Rightarrow> 'a list" where
  "list_of_opt None = []"
| "list_of_opt (Some x) = [x]"

lemma and_then_Inr_iff [result_iff]: "and_then m f = Inr y \<longleftrightarrow> (\<exists>x. m = Inr x \<and> f x = Inr y)"
  by (cases m) auto

lemma and_then_Inl_iff:
  "and_then m f = Inl e \<longleftrightarrow> m = Inl e \<or> (\<exists>x. m = Inr x \<and> f x = Inl e)"
  by (cases m) auto

lemma map_ok_Inr_iff [result_iff]: "map_ok f m = Inr y \<longleftrightarrow> (\<exists>x. m = Inr x \<and> y = f x)"
  by (cases m) auto

lemma map_ok_Inl_iff [simp]: "map_ok f m = Inl e \<longleftrightarrow> m = Inl e"
  by (cases m) auto

lemma map_err_Inr_iff [result_iff, simp]: "map_err f m = Inr y \<longleftrightarrow> m = Inr y"
  by (cases m) auto

lemma map_err_Inl_iff: "map_err f m = Inl e \<longleftrightarrow> (\<exists>e'. m = Inl e' \<and> e = f e')"
  by (cases m) auto

lemma ok_or_Inr_iff [result_iff, simp]: "ok_or m e = Inr y \<longleftrightarrow> m = Some y"
  by (cases m) auto

lemma ok_or_Inl_iff [simp]: "ok_or m e = Inl e' \<longleftrightarrow> m = None \<and> e' = e"
  by (cases m) auto

lemma ok_Some_iff [result_iff, simp]: "ok m = Some y \<longleftrightarrow> m = Inr y"
  by (cases m) auto

lemma ok_None_iff [simp]: "ok m = None \<longleftrightarrow> (\<exists>e. m = Inl e)"
  by (cases m) auto

lemma is_ok_iff: "is_ok m \<longleftrightarrow> (\<exists>x. m = Inr x)"
  by (cases m) auto

lemma transpose_opt_Inr_iff [result_iff]:
  "transpose_opt m = Inr y \<longleftrightarrow> (m = None \<and> y = None) \<or> (\<exists>x. m = Some (Inr x) \<and> y = Some x)"
  by (cases m rule: transpose_opt.cases) auto

lemma transpose_opt_Inl_iff: "transpose_opt m = Inl e \<longleftrightarrow> m = Some (Inl e)"
  by (cases m rule: transpose_opt.cases) auto

lemma transpose_opt_map_Inr [simp]:
  "(\<And>x. f x = Inr (g x)) \<Longrightarrow> transpose_opt (map_option f m) = Inr (map_option g m)"
  by (cases m) auto

lemma map_err_map_ok: "map_err g (map_ok f m) = map_ok f (map_err g m)"
  by (cases m) auto

text \<open>The successes of a \<open>collect::<Result<Vec<_>, _>>()\<close>: stop at the first error.\<close>

fun collect_results :: "('a \<Rightarrow> 'e + 'b) \<Rightarrow> 'a list \<Rightarrow> 'e + 'b list" where
  "collect_results f [] = Inr []"
| "collect_results f (x # xs) =
     and_then (f x) (\<lambda>y. and_then (collect_results f xs) (\<lambda>ys. Inr (y # ys)))"

lemma collect_results_Inr_iff:
  "collect_results f xs = Inr ys \<longleftrightarrow> list_all2 (\<lambda>x y. f x = Inr y) xs ys"
proof (induction xs arbitrary: ys)
  case Nil
  then show ?case by auto
next
  case (Cons x xs)
  show ?case by (cases ys) (auto simp: result_iff Cons.IH)
qed

lemma collect_results_map_Inr:
  "(\<And>x. x \<in> set xs \<Longrightarrow> f (g x) = Inr x) \<Longrightarrow> collect_results f (map g xs) = Inr xs"
  by (induction xs) auto

subsection \<open>Association lists with distinct keys\<close>

definition keys_distinct :: "('k \<times> 'v) list \<Rightarrow> bool" where
  "keys_distinct al \<longleftrightarrow> distinct (map fst al)"

lemma keys_distinct_Nil [simp, intro]: "keys_distinct []"
  by (simp add: keys_distinct_def)

lemma keys_distinct_update [simp, intro]: "keys_distinct al \<Longrightarrow> keys_distinct (AList.update k v al)"
  by (simp add: keys_distinct_def distinct_update)

lemma keys_distinct_delete [simp, intro]: "keys_distinct al \<Longrightarrow> keys_distinct (AList.delete k al)"
  by (simp add: keys_distinct_def distinct_delete)

lemma length_eq_card_dom: "keys_distinct al \<Longrightarrow> length al = card (dom (map_of al))"
  using distinct_card [of "map fst al"]
  by (simp add: keys_distinct_def dom_map_of_conv_image_fst)

lemma set_keys_eq_dom: "set (map fst al) = dom (map_of al)"
  by (simp add: dom_map_of_conv_image_fst)

lemma map_of_delete_eq: "map_of (AList.delete k al) = (map_of al)(k := None)"
  by (rule ext) (simp add: delete_conv')

lemma map_of_update_eq: "map_of (AList.update k v al) = (map_of al)(k \<mapsto> v)"
  by (rule ext) (simp add: update_conv')

subsection \<open>The fields of an object\<close>

text \<open>
  \<open>skip_serializing_if = "Option::is_none"\<close>: an optional field is left out of the object, never
  written as null.
\<close>

definition opt_field :: "string \<Rightarrow> ('a \<Rightarrow> 'j) \<Rightarrow> 'a option \<Rightarrow> (string \<times> 'j) list" where
  "opt_field k f x = (case x of None \<Rightarrow> [] | Some v \<Rightarrow> [(k, f v)])"

lemma opt_field_None [simp]: "opt_field k f None = []"
  by (simp add: opt_field_def)

lemma opt_field_Some: "opt_field k f (Some v) = [(k, f v)]"
  by (simp add: opt_field_def)

lemma map_of_opt_field [wire]:
  "map_of (opt_field k f x) k' = (if k' = k then map_option f x else None)"
  by (cases x) (auto simp: opt_field_def)

lemma map_add_right [wire]: "n k = None \<Longrightarrow> (m ++ n) k = m k"
  by (simp add: map_add_def)

lemma map_add_left [wire]: "m k = None \<Longrightarrow> (m ++ n) k = n k"
  by (simp add: map_add_def split: option.splits)

lemma map_add_found [wire]: "n k = Some v \<Longrightarrow> (m ++ n) k = Some v"
  by (simp add: map_add_def)

end
