(* ===== verification/Rust_Std.thy ===== *)
theory Rust_Std
  imports Prelude
begin

section \<open>The parts of the Rust standard library the sources use\<close>

text \<open>
  Strings and unsigned integers as \<open>core\<close> has them: \<open>str::strip_prefix\<close>, \<open>to_ascii_lowercase\<close>,
  \<open>trim\<close>, \<open>trim_end_matches\<close>, \<open>u16::from_str\<close> and its siblings with their error texts, \<open>Display\<close> of an
  unsigned integer and the \<open>{:08}\<close> padding. A string is its UTF-8 bytes. The lemmas characterise
  the integer parser on every input and show that it inverts the printer.
\<close>

subsection \<open>Slices of strings\<close>

definition quote_char :: char where
  "quote_char = CHR 0x27"

definition quoted :: "string \<Rightarrow> string" where
  "quoted s = quote_char # s @ [quote_char]"

definition strip_prefix :: "string \<Rightarrow> string \<Rightarrow> string option" where
  "strip_prefix p s = (if take (length p) s = p then Some (drop (length p) s) else None)"

lemma strip_prefix_append [simp]: "strip_prefix p (p @ s) = Some s"
  by (simp add: strip_prefix_def)

lemma strip_prefix_Some_iff [result_iff]: "strip_prefix p s = Some r \<longleftrightarrow> s = p @ r"
  by (auto simp: strip_prefix_def) (metis append_take_drop_id)

lemma strip_prefix_None_iff: "strip_prefix p s = None \<longleftrightarrow> (\<nexists>r. s = p @ r)"
  by (auto simp: strip_prefix_def) (metis append_take_drop_id)

definition ascii_lower :: "char \<Rightarrow> char" where
  "ascii_lower c =
     (if 65 \<le> (of_char c :: nat) \<and> (of_char c :: nat) \<le> 90 then char_of ((of_char c :: nat) + 32) else c)"

definition to_ascii_lowercase :: "string \<Rightarrow> string" where
  "to_ascii_lowercase s = map ascii_lower s"

definition is_ascii_hexdigit :: "char \<Rightarrow> bool" where
  "is_ascii_hexdigit c =
     (let n = (of_char c :: nat)
      in (48 \<le> n \<and> n \<le> 57) \<or> (65 \<le> n \<and> n \<le> 70) \<or> (97 \<le> n \<and> n \<le> 102))"

definition trim_end_matches :: "char \<Rightarrow> string \<Rightarrow> string" where
  "trim_end_matches c s = rev (dropWhile (\<lambda>x. x = c) (rev s))"

text \<open>The UTF-8 encodings of the characters with the Unicode property \<open>White_Space\<close>.\<close>

definition whitespace :: "string list" where
  "whitespace = map (map char_of)
     ([[9], [10], [11], [12], [13], [32], [0xC2, 0x85], [0xC2, 0xA0], [0xE1, 0x9A, 0x80]]
      @ map (\<lambda>k. [0xE2, 0x80, k]) [0x80, 0x81, 0x82, 0x83, 0x84, 0x85, 0x86, 0x87, 0x88, 0x89, 0x8A]
      @ [[0xE2, 0x80, 0xA8], [0xE2, 0x80, 0xA9], [0xE2, 0x80, 0xAF], [0xE2, 0x81, 0x9F],
         [0xE3, 0x80, 0x80 :: nat]])"

definition some_prefix :: "string list \<Rightarrow> string \<Rightarrow> string option" where
  "some_prefix ws s =
     (case find (\<lambda>w. w \<noteq> [] \<and> take (length w) s = w) ws of
        None \<Rightarrow> None
      | Some w \<Rightarrow> Some (drop (length w) s))"

lemma some_prefix_shorter: "some_prefix ws s = Some r \<Longrightarrow> length r < length s"
  by (auto simp: some_prefix_def find_Some_iff split: option.splits)
    (metis add_diff_cancel_left' append_take_drop_id diff_less length_append length_drop
      length_greater_0_conv add_gr_0)

function trim_with :: "string list \<Rightarrow> string \<Rightarrow> string" where
  "trim_with ws s = (case some_prefix ws s of None \<Rightarrow> s | Some r \<Rightarrow> trim_with ws r)"
  by pat_completeness auto
termination
  by (relation "measure (\<lambda>(ws, s). length s)") (auto simp: some_prefix_shorter)

declare trim_with.simps [simp del]

text \<open>
  \<open>str::trim\<close>. The end is trimmed on the reversed bytes; in well-formed UTF-8 a suffix that spells
  an encoding is that character.
\<close>

definition trim :: "string \<Rightarrow> string" where
  "trim s = rev (trim_with (map rev whitespace) (rev (trim_with whitespace s)))"

subsection \<open>Unsigned integers\<close>

datatype int_error = IntEmpty | InvalidDigit | PosOverflow | ZeroValue

fun int_error_show :: "int_error \<Rightarrow> string" where
  "int_error_show IntEmpty = ''cannot parse integer from empty string''"
| "int_error_show InvalidDigit = ''invalid digit found in string''"
| "int_error_show PosOverflow = ''number too large to fit in target type''"
| "int_error_show ZeroValue = ''number would be zero for non-zero type''"

definition digit_of :: "char \<Rightarrow> nat option" where
  "digit_of c = (let n = of_char c in if 48 \<le> n \<and> n \<le> 57 then Some (n - 48) else None)"

text \<open>
  The loop of \<open>from_str_radix(s, 10)\<close>: a digit that is none is reported before an overflow of the
  same step.
\<close>

fun digits_loop :: "nat \<Rightarrow> nat \<Rightarrow> string \<Rightarrow> int_error + nat" where
  "digits_loop mx acc [] = Inr acc"
| "digits_loop mx acc (c # cs) =
     (case digit_of c of
        None \<Rightarrow> Inl InvalidDigit
      | Some d \<Rightarrow>
          if mx < 10 * acc + d then Inl PosOverflow else digits_loop mx (10 * acc + d) cs)"

definition parse_uint :: "nat \<Rightarrow> string \<Rightarrow> int_error + nat" where
  "parse_uint mx s =
     (if s = [] then Inl IntEmpty
      else if s = ''+'' \<or> s = ''-'' then Inl InvalidDigit
      else if hd s = CHR ''+'' then digits_loop mx 0 (tl s)
      else digits_loop mx 0 s)"

definition parse_word :: "string \<Rightarrow> int_error + 'a::len word" where
  "parse_word s = map_ok of_nat (parse_uint (2 ^ LENGTH('a) - 1) s)"

text \<open>\<open>NonZeroU64::from_str\<close>: the same parser, then the zero check.\<close>

definition parse_nonzero :: "string \<Rightarrow> int_error + 'a::len word" where
  "parse_nonzero s = and_then (parse_word s) (\<lambda>w. if w = 0 then Inl ZeroValue else Inr w)"

fun dec :: "nat \<Rightarrow> string" where
  "dec n = (if n < 10 then [char_of (48 + n)] else dec (n div 10) @ [char_of (48 + n mod 10)])"

declare dec.simps [simp del]

definition show_word :: "'a::len word \<Rightarrow> string" where
  "show_word w = dec (unat w)"

text \<open>Zero padding to a width, as \<open>{:08}\<close> does.\<close>

definition pad_zeros :: "nat \<Rightarrow> string \<Rightarrow> string" where
  "pad_zeros w s = replicate (w - length s) (CHR ''0'') @ s"

subsection \<open>The value of a digit string\<close>

definition all_digits :: "string \<Rightarrow> bool" where
  "all_digits s \<longleftrightarrow> (\<forall>c\<in>set s. digit_of c \<noteq> None)"

fun dec_val :: "nat \<Rightarrow> string \<Rightarrow> nat" where
  "dec_val acc [] = acc"
| "dec_val acc (c # cs) = dec_val (10 * acc + (case digit_of c of None \<Rightarrow> 0 | Some d \<Rightarrow> d)) cs"

lemma dec_val_append [simp]: "dec_val acc (s @ t) = dec_val (dec_val acc s) t"
  by (induction s arbitrary: acc) auto

lemma dec_val_ge: "acc \<le> dec_val acc s"
proof (induction s arbitrary: acc)
  case (Cons c s)
  have "acc \<le> 10 * acc + (case digit_of c of None \<Rightarrow> 0 | Some d \<Rightarrow> d)" by simp
  also have "\<dots> \<le> dec_val acc (c # s)" using Cons.IH by simp
  finally show ?case .
qed simp

lemma all_digits_simps [simp]:
  "all_digits []" "all_digits (c # s) \<longleftrightarrow> digit_of c \<noteq> None \<and> all_digits s"
  "all_digits (s @ t) \<longleftrightarrow> all_digits s \<and> all_digits t"
  by (auto simp: all_digits_def)

lemma digits_loop_Inr_iff:
  "acc \<le> mx \<Longrightarrow> digits_loop mx acc s = Inr n \<longleftrightarrow> all_digits s \<and> n = dec_val acc s \<and> n \<le> mx"
proof (induction s arbitrary: acc)
  case Nil
  then show ?case by auto
next
  case (Cons c s)
  show ?case
  proof (cases "digit_of c")
    case None
    then show ?thesis by simp
  next
    case (Some d)
    show ?thesis
    proof (cases "mx < 10 * acc + d")
      case True
      with Some dec_val_ge [of "10 * acc + d" s] show ?thesis by auto
    next
      case False
      with Some Cons.IH [of "10 * acc + d"] show ?thesis by auto
    qed
  qed
qed

lemma digit_of_char_of [simp]: "d < 10 \<Longrightarrow> digit_of (char_of (48 + d)) = Some d"
  by (simp add: digit_of_def Let_def)

lemma dec_nonempty [simp]: "dec n \<noteq> []"
  by (subst dec.simps) simp

lemma all_digits_dec [simp]: "all_digits (dec n)"
proof (induction n rule: dec.induct)
  case (1 n)
  then show ?case by (subst dec.simps) (auto simp del: of_char_of)
qed

lemma dec_val_dec [simp]: "dec_val 0 (dec n) = n"
proof (induction n rule: dec.induct)
  case (1 n)
  then show ?case by (subst dec.simps) auto
qed

lemma all_digits_no_sign: "all_digits s \<Longrightarrow> s \<noteq> [] \<Longrightarrow> hd s \<noteq> CHR ''+'' \<and> hd s \<noteq> CHR ''-''"
  by (cases s) (auto simp: digit_of_def)

lemma parse_uint_Inr_iff:
  "parse_uint mx s = Inr n \<longleftrightarrow>
     (\<exists>ds. (s = ds \<or> s = CHR ''+'' # ds) \<and> ds \<noteq> [] \<and> all_digits ds \<and> n = dec_val 0 ds \<and> n \<le> mx)"
proof (cases s)
  case Nil
  then show ?thesis by (simp add: parse_uint_def)
next
  case (Cons c cs)
  have sign: "digit_of (CHR ''+'') = None" "digit_of (CHR ''-'') = None"
    by (simp_all add: digit_of_def)
  show ?thesis
  proof (cases "c = CHR ''+''")
    case True
    then show ?thesis
      using Cons sign digits_loop_Inr_iff [of 0 mx cs n] by (auto simp: parse_uint_def)
  next
    case False
    then show ?thesis
      using Cons sign digits_loop_Inr_iff [of 0 mx s n] by (auto simp: parse_uint_def)
  qed
qed

lemma parse_uint_le: "parse_uint mx s = Inr n \<Longrightarrow> n \<le> mx"
  by (auto simp: parse_uint_Inr_iff)

lemma parse_uint_dec [simp]: "n \<le> mx \<Longrightarrow> parse_uint mx (dec n) = Inr n"
  by (auto simp: parse_uint_Inr_iff)

lemma parse_word_show [simp]: "parse_word (show_word w) = Inr w"
proof -
  have "unat w \<le> 2 ^ LENGTH('a) - 1"
    using unsigned_less [of w, where ?'a = nat] by (simp add: less_Suc_eq_le [symmetric])
  then show ?thesis by (simp add: parse_word_def show_word_def)
qed

lemma parse_word_unat:
  "parse_word s = Inr (w :: 'a::len word) \<Longrightarrow> parse_uint (2 ^ LENGTH('a) - 1) s = Inr (unat w)"
proof -
  assume "parse_word s = Inr w"
  then obtain n where n: "parse_uint (2 ^ LENGTH('a) - 1) s = Inr n" "w = of_nat n"
    by (auto simp: parse_word_def result_iff)
  then have "n < 2 ^ LENGTH('a)"
    using parse_uint_le [OF n(1)] by (simp add: le_less_trans less_diff_conv)
  with n show ?thesis by (simp add: unsigned_of_nat take_bit_nat_eq_self)
qed

lemma parse_nonzero_Inr_iff [result_iff]:
  "parse_nonzero s = Inr w \<longleftrightarrow> parse_word s = Inr w \<and> w \<noteq> 0"
  by (auto simp: parse_nonzero_def result_iff)

lemma parse_nonzero_show [simp]: "w \<noteq> 0 \<Longrightarrow> parse_nonzero (show_word w) = Inr w"
  by (simp add: parse_nonzero_def)

lemma show_word_inject [simp]: "show_word v = show_word w \<longleftrightarrow> v = w"
  by (metis parse_word_show sum.inject(2))

subsection \<open>Trimming\<close>

lemma trim_with_id: "some_prefix ws s = None \<Longrightarrow> trim_with ws s = s"
  by (simp add: trim_with.simps)

lemma trim_end_matches_append:
  "s = [] \<or> last s \<noteq> c \<Longrightarrow> trim_end_matches c (s @ replicate k c) = s"
  by (cases s rule: rev_cases) (auto simp: trim_end_matches_def dropWhile_append)

lemma takeWhile_eq_replicate:
  "takeWhile (\<lambda>x. x = c) s = replicate (length (takeWhile (\<lambda>x. x = c) s)) c"
  by (induction s) auto

lemma trim_end_matches_split:
  "s = trim_end_matches c s @ replicate (length (takeWhile (\<lambda>x. x = c) (rev s))) c"
proof -
  have "rev s = replicate (length (takeWhile (\<lambda>x. x = c) (rev s))) c @ dropWhile (\<lambda>x. x = c) (rev s)"
    using takeWhile_dropWhile_id [of "\<lambda>x. x = c" "rev s"] takeWhile_eq_replicate [of c "rev s"]
    by simp
  then have "rev (rev s) =
      rev (replicate (length (takeWhile (\<lambda>x. x = c) (rev s))) c @ dropWhile (\<lambda>x. x = c) (rev s))"
    by (rule arg_cong)
  then show ?thesis by (simp add: trim_end_matches_def)
qed

end
