(* ===== verification/Json.thy ===== *)
theory Json
  imports Rust_Std
begin

section \<open>JSON values and the library functions the sources call\<close>

text \<open>
  \<open>serde_json::Value\<close> is a public enum that the sources match on; \<open>json\<close> has its documented
  constructors, with the three documented forms of a \<open>Number\<close> (an \<open>i64\<close> and an \<open>f64\<close> by their
  bits). An object is its list of fields, keys distinct. \<open>jget\<close>, \<open>as_str\<close>, \<open>as_u64\<close>, \<open>as_bool\<close> and
  \<open>as_array\<close> are the accessors of the same names.

  Functions of other packages are parameters, the fields of \<open>core_ext\<close>: nothing is known of them but
  the laws a theorem names. \<open>hex_laws\<close> states what the \<open>hex\<close> package documents, \<open>uuid_laws\<close> that a
  printed id reads back.
\<close>

datatype jnum = PosInt u64 | NegInt u64 | JFloat u64

datatype json =
    JNull
  | JBool bool
  | JNumber jnum
  | JString string
  | JArray "json list"
  | JObject "(string \<times> json) list"

fun jget :: "json \<Rightarrow> string \<Rightarrow> json option" where
  "jget (JObject fs) k = map_of fs k"
| "jget _ k = None"

fun as_str :: "json \<Rightarrow> string option" where
  "as_str (JString s) = Some s"
| "as_str _ = None"

fun as_u64 :: "json \<Rightarrow> u64 option" where
  "as_u64 (JNumber (PosInt n)) = Some n"
| "as_u64 _ = None"

fun as_bool :: "json \<Rightarrow> bool option" where
  "as_bool (JBool b) = Some b"
| "as_bool _ = None"

fun as_array :: "json \<Rightarrow> json list option" where
  "as_array (JArray xs) = Some xs"
| "as_array _ = None"

lemma as_str_Some_iff [simp]: "as_str v = Some s \<longleftrightarrow> v = JString s"
  by (cases v) auto

lemma as_u64_Some_iff [simp]: "as_u64 v = Some n \<longleftrightarrow> v = JNumber (PosInt n)"
  by (cases v rule: as_u64.cases) auto

lemma as_bool_Some_iff [simp]: "as_bool v = Some b \<longleftrightarrow> v = JBool b"
  by (cases v) auto

lemma as_array_Some_iff [simp]: "as_array v = Some xs \<longleftrightarrow> v = JArray xs"
  by (cases v) auto

lemma jget_Some_object: "jget v k = Some x \<Longrightarrow> \<exists>fs. v = JObject fs \<and> map_of fs k = Some x"
  by (cases v) auto

text \<open>An approval URL or an RPC endpoint: a \<open>url::Url\<close>, which is its serialization.\<close>

type_synonym url = string

record core_ext =
  x_debug :: "string \<Rightarrow> string"
  x_hex_encode :: "u8 list \<Rightarrow> string"
  x_hex_decode :: "string \<Rightarrow> string + u8 list"
  x_json_parse :: "string \<Rightarrow> string + json"
  x_json_show :: "json \<Rightarrow> string"
  x_uuid_show :: "uuid \<Rightarrow> string"
  x_uuid_parse :: "string \<Rightarrow> uuid option"
  x_url_parse :: "string \<Rightarrow> string + url"

definition hex_laws :: "'x core_ext_scheme \<Rightarrow> bool" where
  "hex_laws X \<longleftrightarrow>
     (\<forall>bs. x_hex_decode X (x_hex_encode X bs) = Inr bs) \<and>
     (\<forall>bs. length (x_hex_encode X bs) = 2 * length bs) \<and>
     (\<forall>bs. list_all is_ascii_hexdigit (x_hex_encode X bs))"

definition uuid_laws :: "'x core_ext_scheme \<Rightarrow> bool" where
  "uuid_laws X \<longleftrightarrow> (\<forall>i. x_uuid_parse X (x_uuid_show X i) = Some i)"

lemma hex_laws_decode: "hex_laws X \<Longrightarrow> x_hex_decode X (x_hex_encode X bs) = Inr bs"
  by (simp add: hex_laws_def)

lemma hex_laws_length: "hex_laws X \<Longrightarrow> length (x_hex_encode X bs) = 2 * length bs"
  by (simp add: hex_laws_def)

text \<open>Encoded bytes never start with the \<open>0x\<close> that the parsers strip.\<close>

lemma hex_laws_no_prefix: "hex_laws X \<Longrightarrow> strip_prefix ''0x'' (x_hex_encode X bs) = None"
proof -
  assume "hex_laws X"
  then have "list_all is_ascii_hexdigit (x_hex_encode X bs)" by (simp add: hex_laws_def)
  then show ?thesis
    by (auto simp: strip_prefix_None_iff is_ascii_hexdigit_def)
qed

end
