(* ===== verification/Core_Parse.thy ===== *)
theory Core_Parse
  imports Json
begin

section \<open>Errors and the field readers of a request body\<close>

text \<open>
  \<open>errors.rs\<close> and \<open>parse.rs\<close> of \<open>browser-web3-signer-core\<close>: the error a signer returns, the error of
  a domain type's \<open>FromStr\<close>, and the readers each chain's \<open>from_json\<close> builds a request from. A
  reader takes the type's parser and the \<open>Display\<close> of its error as arguments, as the trait bounds of
  the source do. The locale \<open>wire_codec\<close> is the contract between a type's printer and its parser; in
  it the readers invert the field writers, once for every type.
\<close>

subsection \<open>errors.rs\<close>

definition WRONG_WALLET_ADDRESS :: string where
  "WRONG_WALLET_ADDRESS = ''WRONG_WALLET_ADDRESS''"

datatype signer_error =
    Rejected string "string option"
  | Timeout u64
  | Cancelled string
  | Http string
  | Rpc string
  | Invalid string

fun signer_error_show :: "signer_error \<Rightarrow> string" where
  "signer_error_show (Rejected message code) = message"
| "signer_error_show (Timeout secs) = ''request timed out after '' @ show_word secs @ '' seconds''"
| "signer_error_show (Cancelled s) = ''request cancelled: '' @ s"
| "signer_error_show (Http s) = ''http server error: '' @ s"
| "signer_error_show (Rpc s) = ''rpc error: '' @ s"
| "signer_error_show (Invalid s) = ''invalid input: '' @ s"

fun error_code :: "signer_error \<Rightarrow> string option" where
  "error_code (Rejected message code) = code"
| "error_code _ = None"

fun is_wrong_wallet_address :: "signer_error \<Rightarrow> bool" where
  "is_wrong_wallet_address (Rejected message (Some c)) \<longleftrightarrow> c = WRONG_WALLET_ADDRESS"
| "is_wrong_wallet_address _ \<longleftrightarrow> False"

lemma is_wrong_wallet_address_iff:
  "is_wrong_wallet_address e \<longleftrightarrow> error_code e = Some WRONG_WALLET_ADDRESS"
  by (cases e rule: is_wrong_wallet_address.cases) auto

subsection \<open>parse.rs\<close>

record domain_parse_error =
  dpe_kind :: string
  dpe_input :: string
  dpe_source :: string

definition dpe_new :: "string \<Rightarrow> string \<Rightarrow> string \<Rightarrow> domain_parse_error" where
  "dpe_new kind input source = \<lparr>dpe_kind = kind, dpe_input = input, dpe_source = source\<rparr>"

definition dpe_show :: "domain_parse_error \<Rightarrow> string" where
  "dpe_show e = ''invalid '' @ dpe_kind e @ '' '' @ quoted (dpe_input e) @ '': '' @ dpe_source e"

definition str_field :: "json \<Rightarrow> string \<Rightarrow> string + string" where
  "str_field body key =
     ok_or (Option.bind (jget body key) as_str)
       (''missing or non-string field '' @ quoted key)"

definition invalid_field :: "string \<Rightarrow> ('e \<Rightarrow> string) \<Rightarrow> 'e \<Rightarrow> string" where
  "invalid_field key show_err e = ''invalid '' @ quoted key @ '': '' @ show_err e"

definition req_parsed ::
  "('e \<Rightarrow> string) \<Rightarrow> (string \<Rightarrow> 'e + 'a) \<Rightarrow> json \<Rightarrow> string \<Rightarrow> string + 'a" where
  "req_parsed show_err parse body key =
     and_then (str_field body key) (\<lambda>s. map_err (invalid_field key show_err) (parse s))"

definition opt_parsed ::
  "('e \<Rightarrow> string) \<Rightarrow> (string \<Rightarrow> 'e + 'a) \<Rightarrow> json \<Rightarrow> string \<Rightarrow> string + 'a option" where
  "opt_parsed show_err parse body key =
     transpose_opt
       (map_option (\<lambda>s. map_err (invalid_field key show_err) (parse s))
         (Option.bind (jget body key) as_str))"

lemma str_field_Inr_iff [result_iff]: "str_field body key = Inr s \<longleftrightarrow> jget body key = Some (JString s)"
  by (auto simp: str_field_def bind_eq_Some_conv)

lemma req_parsed_Inr_iff [result_iff]:
  "req_parsed se parse body key = Inr x \<longleftrightarrow> (\<exists>s. jget body key = Some (JString s) \<and> parse s = Inr x)"
  by (auto simp: req_parsed_def result_iff)

text \<open>
  An optional field is \<open>None\<close> when it is absent, and also when it is there with another JSON type than
  a string.
\<close>

lemma opt_parsed_None_iff:
  "opt_parsed se parse body key = Inr None \<longleftrightarrow> (\<nexists>s. jget body key = Some (JString s))"
  by (cases "jget body key")
    (auto simp: opt_parsed_def transpose_opt_Inr_iff bind_eq_None_conv map_option_case
      split: option.splits json.splits elim: as_str.elims)

lemma opt_parsed_Some_iff:
  "opt_parsed se parse body key = Inr (Some x) \<longleftrightarrow>
     (\<exists>s. jget body key = Some (JString s) \<and> parse s = Inr x)"
  by (auto simp: opt_parsed_def transpose_opt_Inr_iff bind_eq_Some_conv)

lemma str_field_wire [wire]: "jget body key = Some (JString s) \<Longrightarrow> str_field body key = Inr s"
  by (simp add: str_field_def)

lemma opt_parsed_absent [wire]: "jget body key = None \<Longrightarrow> opt_parsed se parse body key = Inr None"
  by (simp add: opt_parsed_def)

subsection \<open>The contract between a printer and a parser\<close>

locale wire_codec =
  fixes parse :: "string \<Rightarrow> 'e + 'a"
    and render :: "'a \<Rightarrow> string"
  assumes parse_render: "parse (render x) = Inr x"
begin

lemma req_parsed_render:
  "jget body key = Some (JString (render x)) \<Longrightarrow> req_parsed se parse body key = Inr x"
  by (simp add: req_parsed_def str_field_def parse_render)

lemma opt_parsed_render:
  "jget body key = map_option (\<lambda>x. JString (render x)) v \<Longrightarrow> opt_parsed se parse body key = Inr v"
  by (cases v) (simp_all add: opt_parsed_def parse_render)

lemma render_inject: "render x = render y \<longleftrightarrow> x = y"
  by (metis parse_render sum.inject(2))

end

interpretation word_codec: wire_codec "parse_word :: string \<Rightarrow> int_error + 'w::len word" show_word
  by unfold_locales simp

end
