(* ===== verification/Core_Config.thy ===== *)
theory Core_Config
  imports Core_Parse
begin

section \<open>Ports, environment variables and approval URLs\<close>

text \<open>
  \<open>config.rs\<close> and \<open>browser.rs\<close> of \<open>browser-web3-signer-core\<close>. A \<open>Port\<close> is a \<open>NonZeroU16\<close>: the type
  invariant \<open>port_ok\<close> is shown of every function that makes a port. The process environment is a
  function from names to what \<open>std::env::var\<close> returns; the OS text of a value that is not Unicode is
  part of that result. \<open>browser_open\<close> returns the URLs it hands to the \<open>opener\<close> package, because a
  failure there is only logged.
\<close>

subsection \<open>Port and BindPort\<close>

datatype port = Port (port_get: u16)

definition port_ok :: "port \<Rightarrow> bool" where
  "port_ok p \<longleftrightarrow> port_get p \<noteq> 0"

definition port_try_new :: "u16 \<Rightarrow> port option" where
  "port_try_new n = (if n = 0 then None else Some (Port n))"

definition port_show :: "port \<Rightarrow> string" where
  "port_show p = show_word (port_get p)"

definition port_from_str :: "'x core_ext_scheme \<Rightarrow> string \<Rightarrow> string + port" where
  "port_from_str X s =
     and_then
       (map_err (\<lambda>e. ''invalid port '' @ x_debug X s @ '': '' @ int_error_show e) (parse_word s))
       (\<lambda>n. ok_or (port_try_new n) ''port must be non-zero'')"

datatype bind_port = Preferred port | Ephemeral

text \<open>The derived \<open>Ord\<close> of a port.\<close>

instantiation port :: linorder
begin

definition less_eq_port :: "port \<Rightarrow> port \<Rightarrow> bool" where
  "less_eq_port p q \<longleftrightarrow> port_get p \<le> port_get q"

definition less_port :: "port \<Rightarrow> port \<Rightarrow> bool" where
  "less_port p q \<longleftrightarrow> port_get p < port_get q"

instance
  by standard (auto simp: less_eq_port_def less_port_def port.expand)

end

definition DEFAULT_PORT :: port where
  "DEFAULT_PORT = Port 3847"

lemma port_try_new_ok: "port_try_new n = Some p \<Longrightarrow> port_ok p"
  by (auto simp: port_try_new_def port_ok_def split: if_splits)

lemma port_try_new_get: "port_ok p \<Longrightarrow> port_try_new (port_get p) = Some p"
  by (simp add: port_try_new_def port_ok_def)

lemma port_from_str_Inr_iff [result_iff]:
  "port_from_str X s = Inr p \<longleftrightarrow> parse_word s = Inr (port_get p) \<and> port_ok p"
  by (cases p) (auto simp: port_from_str_def result_iff port_try_new_def port_ok_def)

lemma port_roundtrip: "port_ok p \<Longrightarrow> port_from_str X (port_show p) = Inr p"
  by (simp add: port_from_str_Inr_iff port_show_def)

subsection \<open>Environment variables\<close>

datatype env_value = EnvSet string | EnvNotPresent | EnvNotUnicode string

type_synonym environment = "string \<Rightarrow> env_value"

definition env_ok :: "environment \<Rightarrow> string \<Rightarrow> string option" where
  "env_ok env name = (case env name of EnvSet v \<Rightarrow> Some v | _ \<Rightarrow> None)"

definition port_from_env :: "'x core_ext_scheme \<Rightarrow> environment \<Rightarrow> string \<Rightarrow> port \<Rightarrow> port" where
  "port_from_env X env env_name default_port =
     unwrap_or (Option.bind (env_ok env env_name) (\<lambda>v. ok (port_from_str X v))) default_port"

definition parse_account :: "('e \<Rightarrow> string) \<Rightarrow> (string \<Rightarrow> 'e + 'a) \<Rightarrow> string \<Rightarrow> string + 'a option" where
  "parse_account show_err parse value =
     (if value = [] then Inr None else map_err show_err (map_ok Some (parse value)))"

definition not_unicode_show :: "string \<Rightarrow> string" where
  "not_unicode_show os = ''environment variable was not valid unicode: '' @ os"

definition account_from_env ::
  "('e \<Rightarrow> string) \<Rightarrow> (string \<Rightarrow> 'e + 'a) \<Rightarrow> environment \<Rightarrow> string \<Rightarrow> string + 'a option" where
  "account_from_env show_err parse env env_name =
     map_err (\<lambda>e. ''invalid '' @ env_name @ '': '' @ e)
       (case env env_name of
          EnvSet value \<Rightarrow> parse_account show_err parse value
        | EnvNotPresent \<Rightarrow> Inr None
        | EnvNotUnicode os \<Rightarrow> Inl (not_unicode_show os))"

lemma port_from_env_ok: "port_ok default_port \<Longrightarrow> port_ok (port_from_env X env env_name default_port)"
proof (cases "Option.bind (env_ok env env_name) (\<lambda>v. ok (port_from_str X v))")
  case None
  then show "port_ok default_port \<Longrightarrow> ?thesis" by (simp add: port_from_env_def)
next
  case (Some p)
  then have "port_from_env X env env_name default_port = p" by (simp add: port_from_env_def)
  moreover from Some have "port_ok p" by (auto simp: bind_eq_Some_conv port_from_str_Inr_iff)
  ultimately show ?thesis by simp
qed

lemma port_from_env_set:
  "env env_name = EnvSet v \<Longrightarrow> port_from_str X v = Inr p \<Longrightarrow> port_from_env X env env_name d = p"
  by (simp add: port_from_env_def env_ok_def)

lemma port_from_env_invalid:
  "env env_name = EnvSet v \<Longrightarrow> port_from_str X v = Inl e \<Longrightarrow> port_from_env X env env_name d = d"
  by (simp add: port_from_env_def env_ok_def)

lemma account_from_env_None_iff:
  "account_from_env se parse env name = Inr None \<longleftrightarrow>
     env name = EnvNotPresent \<or> env name = EnvSet []"
  by (cases "env name") (auto simp: account_from_env_def parse_account_def result_iff)

lemma account_from_env_Some_iff:
  "account_from_env se parse env name = Inr (Some a) \<longleftrightarrow>
     (\<exists>v. env name = EnvSet v \<and> v \<noteq> [] \<and> parse v = Inr a)"
  by (cases "env name") (auto simp: account_from_env_def parse_account_def result_iff)

subsection \<open>browser.rs\<close>

datatype url_kind = KConnect | KSign

datatype browser_choice = BDefault | BPrint

definition url_segment :: "url_kind \<Rightarrow> string" where
  "url_segment kind = (case kind of KConnect \<Rightarrow> ''connect'' | KSign \<Rightarrow> ''sign'')"

definition url_text :: "'x core_ext_scheme \<Rightarrow> port \<Rightarrow> uuid \<Rightarrow> url_kind \<Rightarrow> string" where
  "url_text X port i kind =
     ''http://127.0.0.1:'' @ port_show port @ ''/'' @ url_segment kind @ ''/'' @ x_uuid_show X i"

text \<open>\<open>None\<close> is the panic of the source's \<open>expect\<close>.\<close>

definition build_url :: "'x core_ext_scheme \<Rightarrow> port \<Rightarrow> uuid \<Rightarrow> url_kind \<Rightarrow> url option" where
  "build_url X port i kind = ok (x_url_parse X (url_text X port i kind))"

definition browser_open :: "url \<Rightarrow> browser_choice \<Rightarrow> url list" where
  "browser_open url choice = (case choice of BPrint \<Rightarrow> [] | BDefault \<Rightarrow> [url])"

text \<open>
  \<open>Url::parse\<close> on the bridge's URLs, as its crate documents it: they parse, and the text of the parsed URL
  is the parsed one, except that the default port of the scheme, 80, is left out of it.
\<close>

definition port_part :: "port \<Rightarrow> string" where
  "port_part port = (if port = Port 80 then [] else '':'' @ port_show port)"

definition bridge_url :: "'x core_ext_scheme \<Rightarrow> port \<Rightarrow> uuid \<Rightarrow> url_kind \<Rightarrow> url" where
  "bridge_url X port i kind =
     ''http://127.0.0.1'' @ port_part port @ ''/'' @ url_segment kind @ ''/'' @ x_uuid_show X i"

definition bridge_url_laws :: "'x core_ext_scheme \<Rightarrow> bool" where
  "bridge_url_laws X \<longleftrightarrow>
     (\<forall>port i kind. port_ok port \<longrightarrow> x_url_parse X (url_text X port i kind) = Inr (bridge_url X port i kind))"

lemma build_url_eq:
  "bridge_url_laws X \<Longrightarrow> port_ok port \<Longrightarrow> build_url X port i kind = Some (bridge_url X port i kind)"
  by (simp add: bridge_url_laws_def build_url_def)

lemma bridge_url_other_port: "port \<noteq> Port 80 \<Longrightarrow> bridge_url X port i kind = url_text X port i kind"
  by (simp add: bridge_url_def url_text_def port_part_def)

lemma url_segment_inject: "url_segment k = url_segment k' \<longleftrightarrow> k = k'"
  by (cases k; cases k') (auto simp: url_segment_def)

end
