(* ===== verification/Core_Types.thy ===== *)
theory Core_Types
  imports Core_Config
begin

section \<open>The request interface and the results of a request\<close>

text \<open>
  \<open>types.rs\<close> of \<open>browser-web3-signer-core\<close>. The traits \<open>Request\<close> and \<open>ExpectedAccount\<close> are records of
  their methods, which the engine, the bridge and the control API take as an argument; a fresh id
  that \<open>RequestMeta::new\<close> draws is an argument of \<open>r_from_json\<close>. The locale \<open>request_impl\<close> states what
  the generic code relies on of a chain's implementation, \<open>account_impl\<close> adds the contract of
  \<open>expecting\<close>; each chain interprets both. \<open>RequestResult\<close> and \<open>CompleteApiRequest\<close> come with the
  (de)serializers that their derive attributes name.
\<close>

subsection \<open>RequestMeta, Request, ExpectedAccount\<close>

record request_meta =
  meta_id :: uuid

definition request_meta_new :: "uuid \<Rightarrow> request_meta" where
  "request_meta_new fresh = \<lparr>meta_id = fresh\<rparr>"

lemma request_meta_new_id [simp]: "request_meta_new (meta_id m) = m"
  by (cases m) (simp add: request_meta_new_def)

definition meta_fields :: "'x core_ext_scheme \<Rightarrow> request_meta \<Rightarrow> (string \<times> json) list" where
  "meta_fields X m = [(''id'', JString (x_uuid_show X (meta_id m)))]"

text \<open>An internally tagged variant: its \<open>type\<close>, the flattened metadata, its fields.\<close>

definition tagged ::
  "'x core_ext_scheme \<Rightarrow> string \<Rightarrow> request_meta \<Rightarrow> (string \<times> json) list \<Rightarrow> json" where
  "tagged X tag m fs = JObject ([(''type'', JString tag)] @ meta_fields X m @ fs)"

lemma jget_tagged [wire]:
  "jget (tagged X t m fs) ''type'' = Some (JString t)"
  "jget (tagged X t m fs) ''id'' = Some (JString (x_uuid_show X (meta_id m)))"
  "k \<noteq> ''type'' \<Longrightarrow> k \<noteq> ''id'' \<Longrightarrow> jget (tagged X t m fs) k = map_of fs k"
  by (simp_all add: tagged_def meta_fields_def)

record 'r request_ops =
  r_id :: "'r \<Rightarrow> uuid"
  r_url_kind :: "'r \<Rightarrow> url_kind"
  r_serialize :: "'r \<Rightarrow> json"
  r_from_json :: "uuid \<Rightarrow> json \<Rightarrow> string + 'r"
  r_check_result :: "'r \<Rightarrow> string \<Rightarrow> string + unit"

record ('r, 'a) account_ops = "'r request_ops" +
  a_account_env :: string
  a_parse :: "string \<Rightarrow> string + 'a"
  a_expecting :: "'r \<Rightarrow> 'a \<Rightarrow> string + 'r"

text \<open>The default \<open>check_result\<close>.\<close>

definition accept_any :: "'r \<Rightarrow> string \<Rightarrow> string + unit" where
  "accept_any r result = Inr ()"

definition configured_account :: "('r, 'a, 'y) account_ops_scheme \<Rightarrow> environment \<Rightarrow> string + 'a option" where
  "configured_account R env = account_from_env (\<lambda>e. e) (a_parse R) env (a_account_env R)"

text \<open>\<open>expect_account\<close> on a field: the field it leaves, or the reason (the field is then unchanged).\<close>

definition expect_account :: "('a \<Rightarrow> string) \<Rightarrow> 'a option \<Rightarrow> 'a \<Rightarrow> string + 'a option" where
  "expect_account show_acct field account =
     (case field of
        None \<Rightarrow> Inr (Some account)
      | Some named \<Rightarrow>
          if named = account then Inr (Some named)
          else Inl (''the request names account '' @ show_acct named @ '', not the expected '' @ show_acct account))"

lemma expect_account_Inr_iff [result_iff]:
  "expect_account sa field account = Inr f \<longleftrightarrow> (field = None \<or> field = Some account) \<and> f = Some account"
  by (auto simp: expect_account_def split: option.splits)

lemma expect_account_refuses:
  "field = Some named \<Longrightarrow> named \<noteq> account \<Longrightarrow>
     expect_account sa field account =
       Inl (''the request names account '' @ sa named @ '', not the expected '' @ sa account)"
  by (simp add: expect_account_def)

subsection \<open>RequestResult and CompleteApiRequest\<close>

datatype request_result = RSuccess string | RError string "string option"

fun result_serialize :: "request_result \<Rightarrow> json" where
  "result_serialize (RSuccess res) = JObject [(''success'', JBool True), (''result'', JString res)]"
| "result_serialize (RError err code) =
     JObject ([(''success'', JBool False), (''error'', JString err)] @ opt_field ''code'' JString code)"

text \<open>
  A derived reader takes a struct from an object, or from an array of its fields in order. An optional
  field is absent, null or a string; a missing array element is the field's default.
\<close>

definition de_flag :: "bool \<Rightarrow> json option \<Rightarrow> bool" where
  "de_flag b v = (v = Some (JBool b))"

fun de_opt_string :: "json option \<Rightarrow> string option option" where
  "de_opt_string None = Some None"
| "de_opt_string (Some JNull) = Some None"
| "de_opt_string (Some (JString s)) = Some (Some s)"
| "de_opt_string (Some _) = None"

definition de_field :: "string list \<Rightarrow> json \<Rightarrow> string \<Rightarrow> json option" where
  "de_field names v name =
     (case v of
        JArray xs \<Rightarrow> (if length xs \<le> length names then map_of (zip names xs) name else None)
      | _ \<Rightarrow> jget v name)"

definition de_arity :: "string list \<Rightarrow> json \<Rightarrow> bool" where
  "de_arity names v =
     (case v of JArray xs \<Rightarrow> length xs \<le> length names | JObject fs \<Rightarrow> True | _ \<Rightarrow> False)"

definition success_fields :: "string list" where
  "success_fields = [''success'', ''result'']"

definition error_fields :: "string list" where
  "error_fields = [''success'', ''error'', ''code'']"

text \<open>\<open>#[serde(untagged)]\<close>: the first variant that reads.\<close>

definition result_deserialize :: "json \<Rightarrow> request_result option" where
  "result_deserialize v =
     (case Option.bind (de_field success_fields v ''result'') as_str of
        Some res \<Rightarrow>
          if de_arity success_fields v \<and> de_flag True (de_field success_fields v ''success'')
          then Some (RSuccess res)
          else None
      | None \<Rightarrow> None)"

definition error_deserialize :: "json \<Rightarrow> request_result option" where
  "error_deserialize v =
     (case Option.bind (de_field error_fields v ''error'') as_str of
        Some err \<Rightarrow>
          if de_arity error_fields v \<and> de_flag False (de_field error_fields v ''success'')
          then map_option (RError err) (de_opt_string (de_field error_fields v ''code''))
          else None
      | None \<Rightarrow> None)"

definition request_result_deserialize :: "json \<Rightarrow> request_result option" where
  "request_result_deserialize v =
     (case result_deserialize v of Some r \<Rightarrow> Some r | None \<Rightarrow> error_deserialize v)"

record complete_api_request =
  car_success :: bool
  car_result :: "string option"
  car_error :: "string option"
  car_code :: "string option"

definition complete_fields :: "string list" where
  "complete_fields = [''success'', ''result'', ''error'', ''code'']"

definition complete_deserialize :: "json \<Rightarrow> complete_api_request option" where
  "complete_deserialize v =
     (if de_arity complete_fields v
      then case Option.bind (de_field complete_fields v ''success'') as_bool of
             None \<Rightarrow> None
           | Some b \<Rightarrow>
               Option.bind (de_opt_string (de_field complete_fields v ''result'')) (\<lambda>res.
               Option.bind (de_opt_string (de_field complete_fields v ''error'')) (\<lambda>err.
               Option.bind (de_opt_string (de_field complete_fields v ''code'')) (\<lambda>code.
                 Some \<lparr>car_success = b, car_result = res, car_error = err, car_code = code\<rparr>)))
      else None)"

definition result_from_complete :: "complete_api_request \<Rightarrow> request_result" where
  "result_from_complete body =
     (if car_success body then RSuccess (unwrap_or (car_result body) [])
      else RError (unwrap_or (car_error body) ''Unknown error'') (car_code body))"

definition pending_response :: "json \<Rightarrow> json" where
  "pending_response request = JObject [(''request'', request)]"

lemma request_result_reads_back: "request_result_deserialize (result_serialize r) = Some r"
proof (cases r)
  case (RSuccess res)
  then show ?thesis
    by (simp add: request_result_deserialize_def result_deserialize_def de_field_def de_arity_def
        de_flag_def)
next
  case (RError err code)
  then show ?thesis
    by (cases code)
      (simp_all add: request_result_deserialize_def result_deserialize_def error_deserialize_def
        de_field_def de_arity_def de_flag_def opt_field_def)
qed

text \<open>A serialized result is also a body of \<open>POST /api/complete\<close>, and means the same there.\<close>

lemma complete_of_result:
  "\<exists>body. complete_deserialize (result_serialize r) = Some body \<and> result_from_complete body = r"
proof (cases r)
  case (RSuccess res)
  then show ?thesis
    by (simp add: complete_deserialize_def de_field_def de_arity_def result_from_complete_def)
next
  case (RError err code)
  then show ?thesis
    by (cases code)
      (simp_all add: complete_deserialize_def de_field_def de_arity_def result_from_complete_def
        opt_field_def)
qed

subsection \<open>The interface of a chain\<close>

locale request_impl =
  fixes X :: "'x core_ext_scheme"
    and R :: "('r, 'y) request_ops_scheme"
  assumes wire_id: "jget (r_serialize R r) ''id'' = Some (JString (x_uuid_show X (r_id R r)))"
    and fresh_id: "r_from_json R fresh body = Inr r \<Longrightarrow> r_id R r = fresh"
    and same_type: "r_from_json R fresh body = Inr r \<Longrightarrow> jget (r_serialize R r) ''type'' = jget body ''type''"
    and page_of_type: "r_url_kind R r = KConnect \<longleftrightarrow> jget (r_serialize R r) ''type'' = Some (JString ''connect'')"
begin

lemma page_of_body:
  "r_from_json R fresh body = Inr r \<Longrightarrow>
     r_url_kind R r = KConnect \<longleftrightarrow> jget body ''type'' = Some (JString ''connect'')"
  using page_of_type [of r] same_type [of fresh body r] by simp

lemma sign_page: "jget (r_serialize R r) ''type'' \<noteq> Some (JString ''connect'') \<Longrightarrow> r_url_kind R r = KSign"
  using page_of_type [of r] url_kind.exhaust by auto

lemma distinct_ids:
  "r_from_json R i body = Inr r \<Longrightarrow> r_from_json R j body' = Inr r' \<Longrightarrow> i \<noteq> j \<Longrightarrow> r_id R r \<noteq> r_id R r'"
  using fresh_id by blast

end

locale account_impl = request_impl X R
  for X :: "'x core_ext_scheme"
    and R :: "('r, 'a, 'y) account_ops_scheme" +
  fixes named_account :: "'r \<Rightarrow> 'c option"
    and account_value :: "'a \<Rightarrow> 'c"
  assumes expecting_names: "a_expecting R r a = Inr r' \<Longrightarrow> named_account r' = Some (account_value a)"
    and expecting_agrees:
      "a_expecting R r a = Inr r' \<Longrightarrow> named_account r = None \<or> named_account r = Some (account_value a)"
    and expecting_id: "a_expecting R r a = Inr r' \<Longrightarrow> r_id R r' = r_id R r"
    and expecting_page: "a_expecting R r a = Inr r' \<Longrightarrow> r_url_kind R r' = r_url_kind R r"
    and expecting_named: "named_account r = Some (account_value a) \<Longrightarrow> a_expecting R r a = Inr r' \<Longrightarrow> r' = r"
begin

lemma expecting_refuses_other:
  "named_account r = Some c \<Longrightarrow> c \<noteq> account_value a \<Longrightarrow> \<exists>reason. a_expecting R r a = Inl reason"
  by (metis expecting_agrees option.distinct(1) option.inject sum.exhaust)

lemma expecting_idempotent:
  "a_expecting R r a = Inr r' \<Longrightarrow> a_expecting R r' a = Inr r'' \<Longrightarrow> r'' = r'"
  using expecting_names expecting_named by blast

end

end
