(* ===== verification/Core_Store.thy ===== *)
theory Core_Store
  imports Core_Types
begin

section \<open>The store of pending requests\<close>

text \<open>
  \<open>pending_store.rs\<close> of \<open>browser-web3-signer-core\<close>. The \<open>HashMap\<close> under the mutex is an association
  list; every method takes the lock once, so each is one atomic function of the state. A
  \<open>tokio::sync::oneshot\<close> channel is a cell of the list \<open>st_chans\<close>, named by its position: what its
  receiver would see, and whether the receiver is still there. \<open>os_send\<close>, \<open>os_drop_tx\<close> and
  \<open>os_drop_rx\<close> are the documented effects of sending, of dropping the sender and of dropping the
  receiver. \<open>HashMap::insert\<close> returns the entry it replaces, and dropping that entry drops its sender:
  \<open>store_create\<close> does so.

  The locale \<open>pending_store\<close> is the contract the engine and the HTTP bridge rely on: the operations on
  an abstract map from ids to requests and channels.
\<close>

subsection \<open>Oneshot channels\<close>

datatype cell = Empty | Sent request_result | TxDropped

record oneshot =
  os_cell :: cell
  os_rx_alive :: bool

type_synonym chan = nat

definition os_new :: oneshot where
  "os_new = \<lparr>os_cell = Empty, os_rx_alive = True\<rparr>"

definition os_put :: "oneshot list \<Rightarrow> chan \<Rightarrow> (oneshot \<Rightarrow> cell) \<Rightarrow> oneshot list" where
  "os_put chs c f =
     (if c < length chs \<and> os_cell (chs ! c) = Empty
      then chs[c := (chs ! c)\<lparr>os_cell := f (chs ! c)\<rparr>] else chs)"

definition os_send :: "oneshot list \<Rightarrow> chan \<Rightarrow> request_result \<Rightarrow> oneshot list" where
  "os_send chs c v = os_put chs c (\<lambda>ch. if os_rx_alive ch then Sent v else TxDropped)"

definition os_drop_tx :: "oneshot list \<Rightarrow> chan \<Rightarrow> oneshot list" where
  "os_drop_tx chs c = os_put chs c (\<lambda>ch. TxDropped)"

definition os_drop_rx :: "oneshot list \<Rightarrow> chan \<Rightarrow> oneshot list" where
  "os_drop_rx chs c = (if c < length chs then chs[c := (chs ! c)\<lparr>os_rx_alive := False\<rparr>] else chs)"

definition os_recv :: "oneshot list \<Rightarrow> chan \<Rightarrow> cell" where
  "os_recv chs c = (if c < length chs then os_cell (chs ! c) else TxDropped)"

definition os_listening :: "oneshot list \<Rightarrow> chan \<Rightarrow> bool" where
  "os_listening chs c \<longleftrightarrow> c < length chs \<and> os_rx_alive (chs ! c)"

lemma os_put_length [simp]: "length (os_put chs c f) = length chs"
  by (simp add: os_put_def)

lemma os_recv_put:
  "os_recv (os_put chs c f) d =
     (if c = d \<and> os_recv chs c = Empty then f (chs ! c) else os_recv chs d)"
  by (auto simp: os_put_def os_recv_def nth_list_update)

lemma os_listening_put [simp]: "os_listening (os_put chs c f) d = os_listening chs d"
  by (cases "c = d") (auto simp: os_put_def os_listening_def nth_list_update)

lemma os_send_length [simp]: "length (os_send chs c v) = length chs"
  by (simp add: os_send_def)

lemma os_drop_tx_length [simp]: "length (os_drop_tx chs c) = length chs"
  by (simp add: os_drop_tx_def)

lemma os_drop_rx_length [simp]: "length (os_drop_rx chs c) = length chs"
  by (simp add: os_drop_rx_def)

lemma os_recv_send:
  "os_recv (os_send chs c v) d =
     (if c = d \<and> os_recv chs c = Empty
      then (if os_listening chs c then Sent v else TxDropped) else os_recv chs d)"
  unfolding os_send_def os_recv_put by (auto simp: os_listening_def os_recv_def split: if_splits)

lemma os_recv_drop_tx:
  "os_recv (os_drop_tx chs c) d =
     (if c = d \<and> os_recv chs c = Empty then TxDropped else os_recv chs d)"
  by (auto simp: os_drop_tx_def os_recv_put)

lemma os_recv_drop_rx [simp]: "os_recv (os_drop_rx chs c) d = os_recv chs d"
  by (auto simp: os_drop_rx_def os_recv_def nth_list_update)

lemma os_listening_drop_rx [simp]: "os_listening (os_drop_rx chs c) d \<longleftrightarrow> c \<noteq> d \<and> os_listening chs d"
  by (cases "c = d") (auto simp: os_drop_rx_def os_listening_def nth_list_update)

lemma os_listening_send [simp]: "os_listening (os_send chs c v) d = os_listening chs d"
  by (simp add: os_send_def)

lemma os_listening_drop_tx [simp]: "os_listening (os_drop_tx chs c) d = os_listening chs d"
  by (simp add: os_drop_tx_def)

lemma os_recv_append:
  "os_recv (chs @ [os_new]) d = (if d = length chs then Empty else os_recv chs d)"
  by (auto simp: os_recv_def os_new_def nth_append)

lemma os_listening_append:
  "os_listening (chs @ [os_new]) d \<longleftrightarrow> d = length chs \<or> os_listening chs d"
  by (auto simp: os_listening_def os_new_def nth_append)

subsection \<open>PendingStore\<close>

text \<open>\<open>REQUEST_TIMEOUT\<close> in seconds.\<close>

definition REQUEST_TIMEOUT :: nat where
  "REQUEST_TIMEOUT = 5 * 60"

record 'r entry =
  e_request :: 'r
  e_tx :: chan

record 'r store =
  st_pending :: "(uuid \<times> 'r entry) list"
  st_chans :: "oneshot list"

definition store_new :: "'r store" where
  "store_new = \<lparr>st_pending = [], st_chans = []\<rparr>"

definition drop_entry :: "'r entry option \<Rightarrow> oneshot list \<Rightarrow> oneshot list" where
  "drop_entry e chs = (case e of None \<Rightarrow> chs | Some e \<Rightarrow> os_drop_tx chs (e_tx e))"

definition store_create :: "('r, 'y) request_ops_scheme \<Rightarrow> 'r store \<Rightarrow> 'r \<Rightarrow> 'r store \<times> chan" where
  "store_create R st r =
     (let tx = length (st_chans st);
          old = map_of (st_pending st) (r_id R r)
      in (\<lparr>st_pending = AList.update (r_id R r) \<lparr>e_request = r, e_tx = tx\<rparr> (st_pending st),
           st_chans = drop_entry old (st_chans st @ [os_new])\<rparr>,
          tx))"

definition store_get :: "'r store \<Rightarrow> uuid \<Rightarrow> 'r option" where
  "store_get st i = map_option e_request (map_of (st_pending st) i)"

definition store_complete :: "'r store \<Rightarrow> uuid \<Rightarrow> request_result \<Rightarrow> 'r store \<times> bool" where
  "store_complete st i res =
     (case map_of (st_pending st) i of
        Some e \<Rightarrow>
          (st\<lparr>st_pending := AList.delete i (st_pending st),
              st_chans := os_send (st_chans st) (e_tx e) res\<rparr>, True)
      | None \<Rightarrow> (st, False))"

definition store_cancel :: "'r store \<Rightarrow> uuid \<Rightarrow> 'r store \<times> bool" where
  "store_cancel st i =
     (case map_of (st_pending st) i of
        Some e \<Rightarrow>
          (st\<lparr>st_pending := AList.delete i (st_pending st),
              st_chans := os_drop_tx (st_chans st) (e_tx e)\<rparr>, True)
      | None \<Rightarrow> (st, False))"

definition store_has :: "'r store \<Rightarrow> uuid \<Rightarrow> bool" where
  "store_has st i \<longleftrightarrow> map_of (st_pending st) i \<noteq> None"

definition store_pending_ids :: "'r store \<Rightarrow> uuid list" where
  "store_pending_ids st = map fst (st_pending st)"

definition store_len :: "'r store \<Rightarrow> nat" where
  "store_len st = length (st_pending st)"

definition store_is_empty :: "'r store \<Rightarrow> bool" where
  "store_is_empty st \<longleftrightarrow> store_len st = 0"

text \<open>The receiver's end, which the engine's future holds and drops.\<close>

definition store_recv :: "'r store \<Rightarrow> chan \<Rightarrow> cell" where
  "store_recv st c = os_recv (st_chans st) c"

definition store_listening :: "'r store \<Rightarrow> chan \<Rightarrow> bool" where
  "store_listening st c \<longleftrightarrow> os_listening (st_chans st) c"

definition store_drop_rx :: "'r store \<Rightarrow> chan \<Rightarrow> 'r store" where
  "store_drop_rx st c = st\<lparr>st_chans := os_drop_rx (st_chans st) c\<rparr>"

subsection \<open>The invariant and the abstract map\<close>

definition store_abs :: "'r store \<Rightarrow> uuid \<rightharpoonup> 'r \<times> chan" where
  "store_abs st i = map_option (\<lambda>e. (e_request e, e_tx e)) (map_of (st_pending st) i)"

definition store_inv :: "('r, 'y) request_ops_scheme \<Rightarrow> 'r store \<Rightarrow> bool" where
  "store_inv R st \<longleftrightarrow>
     keys_distinct (st_pending st) \<and>
     (\<forall>i r c. store_abs st i = Some (r, c) \<longrightarrow> r_id R r = i \<and> store_recv st c = Empty) \<and>
     (\<forall>i j r r' c. store_abs st i = Some (r, c) \<longrightarrow> store_abs st j = Some (r', c) \<longrightarrow> i = j)"

lemma store_inv_new [simp]: "store_inv R store_new"
  by (simp add: store_inv_def store_new_def store_abs_def)

lemma store_inv_recv: "store_inv R st \<Longrightarrow> store_abs st i = Some (r, c) \<Longrightarrow> store_recv st c = Empty"
  unfolding store_inv_def by blast

lemma store_inv_chan: "store_inv R st \<Longrightarrow> store_abs st i = Some (r, c) \<Longrightarrow> c < length (st_chans st)"
  using store_inv_recv [of R st i r c] by (auto simp: store_recv_def os_recv_def split: if_splits)

lemma store_inv_key: "store_inv R st \<Longrightarrow> store_abs st i = Some (r, c) \<Longrightarrow> r_id R r = i"
  unfolding store_inv_def by blast

lemma store_inv_inj:
  "store_inv R st \<Longrightarrow> store_abs st i = Some (r, c) \<Longrightarrow> store_abs st j = Some (r', c) \<Longrightarrow> i = j"
  unfolding store_inv_def by blast

lemma store_abs_map_of:
  "map_of (st_pending st) i = Some e \<Longrightarrow> store_abs st i = Some (e_request e, e_tx e)"
  "map_of (st_pending st) i = None \<Longrightarrow> store_abs st i = None"
  by (simp_all add: store_abs_def)

lemma store_abs_create:
  "store_abs (fst (store_create R st r)) = (store_abs st)(r_id R r \<mapsto> (r, length (st_chans st)))"
  by (rule ext) (simp add: store_abs_def store_create_def Let_def map_of_update_eq)

lemma store_abs_complete: "store_abs (fst (store_complete st i res)) = (store_abs st)(i := None)"
  by (rule ext) (auto simp: store_abs_def store_complete_def map_of_delete_eq split: option.splits)

lemma store_abs_cancel: "store_abs (fst (store_cancel st i)) = (store_abs st)(i := None)"
  by (rule ext) (auto simp: store_abs_def store_cancel_def map_of_delete_eq split: option.splits)

lemma store_abs_drop_rx [simp]: "store_abs (store_drop_rx st c) = store_abs st"
  by (rule ext) (simp add: store_abs_def store_drop_rx_def)

lemma store_recv_drop_rx [simp]: "store_recv (store_drop_rx st c) d = store_recv st d"
  by (simp add: store_recv_def store_drop_rx_def)

lemma store_listening_drop_rx [simp]:
  "store_listening (store_drop_rx st c) d \<longleftrightarrow> c \<noteq> d \<and> store_listening st d"
  by (simp add: store_listening_def store_drop_rx_def)

lemma store_recv_create:
  "store_inv R st \<Longrightarrow>
   store_recv (fst (store_create R st r)) d =
     (if d = length (st_chans st) then Empty
      else if \<exists>r'. store_abs st (r_id R r) = Some (r', d) then TxDropped
      else store_recv st d)"
  using store_inv_chan [of R st "r_id R r"] store_inv_recv [of R st "r_id R r"]
  by (cases "map_of (st_pending st) (r_id R r)")
    (auto simp: store_recv_def store_create_def Let_def drop_entry_def os_recv_drop_tx
      os_recv_append store_abs_map_of)

lemma store_listening_create:
  "store_listening (fst (store_create R st r)) d \<longleftrightarrow> d = length (st_chans st) \<or> store_listening st d"
  by (cases "map_of (st_pending st) (r_id R r)")
    (auto simp: store_listening_def store_create_def Let_def drop_entry_def os_listening_append)

lemma store_recv_complete:
  "store_inv R st \<Longrightarrow>
   store_recv (fst (store_complete st i res)) d =
     (if \<exists>r. store_abs st i = Some (r, d)
      then (if store_listening st d then Sent res else TxDropped) else store_recv st d)"
  using store_inv_recv [of R st i]
  by (cases "map_of (st_pending st) i")
    (auto simp: store_recv_def store_complete_def os_recv_send store_abs_map_of store_listening_def)

lemma store_listening_complete [simp]:
  "store_listening (fst (store_complete st i res)) d = store_listening st d"
  by (auto simp: store_listening_def store_complete_def split: option.splits)

lemma store_recv_cancel:
  "store_inv R st \<Longrightarrow>
   store_recv (fst (store_cancel st i)) d =
     (if \<exists>r. store_abs st i = Some (r, d) then TxDropped else store_recv st d)"
  using store_inv_recv [of R st i]
  by (cases "map_of (st_pending st) i")
    (auto simp: store_recv_def store_cancel_def os_recv_drop_tx store_abs_map_of)

lemma store_listening_cancel [simp]:
  "store_listening (fst (store_cancel st i)) d = store_listening st d"
  by (auto simp: store_listening_def store_cancel_def split: option.splits)

lemma store_inv_create: "store_inv R st \<Longrightarrow> store_inv R (fst (store_create R st r))"
proof -
  assume inv: "store_inv R st"
  have chan: "c \<noteq> length (st_chans st)" if "store_abs st i = Some (r', c)" for i r' c
    using store_inv_chan [OF inv that] by simp
  have dist: "keys_distinct (st_pending (fst (store_create R st r)))"
    using inv by (simp add: store_inv_def store_create_def Let_def)
  show ?thesis
    unfolding store_inv_def store_abs_create store_recv_create [OF inv]
    using dist chan store_inv_key [OF inv] store_inv_recv [OF inv] store_inv_inj [OF inv]
    by (auto split: if_splits)
qed

lemma store_inv_complete: "store_inv R st \<Longrightarrow> store_inv R (fst (store_complete st i res))"
proof -
  assume inv: "store_inv R st"
  have dist: "keys_distinct (st_pending (fst (store_complete st i res)))"
    using inv by (auto simp: store_inv_def store_complete_def split: option.splits)
  show ?thesis
    unfolding store_inv_def store_abs_complete store_recv_complete [OF inv]
    using dist store_inv_key [OF inv] store_inv_recv [OF inv] store_inv_inj [OF inv]
    by (auto split: if_splits)
qed

lemma store_inv_cancel: "store_inv R st \<Longrightarrow> store_inv R (fst (store_cancel st i))"
proof -
  assume inv: "store_inv R st"
  have dist: "keys_distinct (st_pending (fst (store_cancel st i)))"
    using inv by (auto simp: store_inv_def store_cancel_def split: option.splits)
  show ?thesis
    unfolding store_inv_def store_abs_cancel store_recv_cancel [OF inv]
    using dist store_inv_key [OF inv] store_inv_recv [OF inv] store_inv_inj [OF inv]
    by (auto split: if_splits)
qed

lemma store_inv_drop_rx [simp]: "store_inv R (store_drop_rx st c) = store_inv R st"
  by (simp add: store_inv_def) (simp add: store_drop_rx_def)

subsection \<open>The contract of the store\<close>

definition store_known :: "'r store \<Rightarrow> chan \<Rightarrow> bool" where
  "store_known st c \<longleftrightarrow> c < length (st_chans st)"

lemma store_known_create:
  "store_known (fst (store_create R st r)) d \<longleftrightarrow> d = length (st_chans st) \<or> store_known st d"
  by (cases "map_of (st_pending st) (r_id R r)")
    (auto simp: store_known_def store_create_def Let_def drop_entry_def)

lemma store_known_complete [simp]: "store_known (fst (store_complete st i res)) d = store_known st d"
  by (auto simp: store_known_def store_complete_def split: option.splits)

lemma store_known_cancel [simp]: "store_known (fst (store_cancel st i)) d = store_known st d"
  by (auto simp: store_known_def store_cancel_def split: option.splits)

lemma store_known_drop_rx [simp]: "store_known (store_drop_rx st c) d = store_known st d"
  by (simp add: store_known_def store_drop_rx_def)

lemma store_create_chan: "snd (store_create R st r) = length (st_chans st)"
  by (simp add: store_create_def Let_def)

lemma store_complete_found: "snd (store_complete st i res) \<longleftrightarrow> store_abs st i \<noteq> None"
  by (auto simp: store_complete_def store_abs_def split: option.splits)

lemma store_cancel_found: "snd (store_cancel st i) \<longleftrightarrow> store_abs st i \<noteq> None"
  by (auto simp: store_cancel_def store_abs_def split: option.splits)

lemma store_get_abs: "store_get st i = map_option fst (store_abs st i)"
  by (simp add: store_get_def store_abs_def option.map_comp comp_def)

lemma store_has_abs: "store_has st i \<longleftrightarrow> store_abs st i \<noteq> None"
  by (simp add: store_has_def store_abs_def)

lemma store_len_abs: "store_inv R st \<Longrightarrow> store_len st = card (dom (store_abs st))"
proof -
  assume "store_inv R st"
  then have "store_len st = card (dom (map_of (st_pending st)))"
    by (simp add: store_inv_def store_len_def length_eq_card_dom)
  moreover have "dom (map_of (st_pending st)) = dom (store_abs st)"
    by (auto simp: dom_def store_abs_def)
  ultimately show ?thesis by simp
qed

lemma store_pending_ids_abs: "set (store_pending_ids st) = dom (store_abs st)"
proof -
  have "dom (store_abs st) = dom (map_of (st_pending st))"
    by (auto simp: dom_def store_abs_def)
  then show ?thesis by (simp only: store_pending_ids_def set_keys_eq_dom)
qed

lemma store_abs_known: "store_inv R st \<Longrightarrow> store_abs st i = Some (r, c) \<Longrightarrow> store_known st c"
  by (simp add: store_known_def store_inv_chan)

locale pending_store =
  fixes ident :: "'r \<Rightarrow> uuid"
    and inv :: "'s \<Rightarrow> bool"
    and contents :: "'s \<Rightarrow> uuid \<rightharpoonup> 'r \<times> chan"
    and known :: "'s \<Rightarrow> chan \<Rightarrow> bool"
    and recv :: "'s \<Rightarrow> chan \<Rightarrow> cell"
    and listening :: "'s \<Rightarrow> chan \<Rightarrow> bool"
    and create :: "'s \<Rightarrow> 'r \<Rightarrow> 's \<times> chan"
    and complete :: "'s \<Rightarrow> uuid \<Rightarrow> request_result \<Rightarrow> 's \<times> bool"
    and cancel :: "'s \<Rightarrow> uuid \<Rightarrow> 's \<times> bool"
    and drop_rx :: "'s \<Rightarrow> chan \<Rightarrow> 's"
  assumes inv_create: "inv s \<Longrightarrow> inv (fst (create s r))"
    and inv_complete: "inv s \<Longrightarrow> inv (fst (complete s i v))"
    and inv_cancel: "inv s \<Longrightarrow> inv (fst (cancel s i))"
    and inv_drop_rx: "inv s \<Longrightarrow> inv (drop_rx s c)"
    and contents_create: "contents (fst (create s r)) = (contents s)(ident r \<mapsto> (r, snd (create s r)))"
    and contents_complete: "contents (fst (complete s i v)) = (contents s)(i := None)"
    and contents_cancel: "contents (fst (cancel s i)) = (contents s)(i := None)"
    and contents_drop_rx: "contents (drop_rx s c) = contents s"
    and complete_found: "snd (complete s i v) \<longleftrightarrow> contents s i \<noteq> None"
    and cancel_found: "snd (cancel s i) \<longleftrightarrow> contents s i \<noteq> None"
    and contents_known: "inv s \<Longrightarrow> contents s i = Some (r, c) \<Longrightarrow> known s c \<and> recv s c = Empty"
    and contents_inj: "inv s \<Longrightarrow> contents s i = Some (r, c) \<Longrightarrow> contents s j = Some (r', c) \<Longrightarrow> i = j"
    and create_unknown: "\<not> known s (snd (create s r))"
    and known_create: "known (fst (create s r)) d \<longleftrightarrow> d = snd (create s r) \<or> known s d"
    and known_complete: "known (fst (complete s i v)) d = known s d"
    and known_cancel: "known (fst (cancel s i)) d = known s d"
    and known_drop_rx: "known (drop_rx s c) d = known s d"
    and recv_create: "inv s \<Longrightarrow> recv (fst (create s r)) d =
      (if d = snd (create s r) then Empty
       else if \<exists>r'. contents s (ident r) = Some (r', d) then TxDropped else recv s d)"
    and recv_complete: "inv s \<Longrightarrow> recv (fst (complete s i v)) d =
      (if \<exists>r. contents s i = Some (r, d)
       then (if listening s d then Sent v else TxDropped) else recv s d)"
    and recv_cancel: "inv s \<Longrightarrow> recv (fst (cancel s i)) d =
      (if \<exists>r. contents s i = Some (r, d) then TxDropped else recv s d)"
    and recv_drop_rx: "recv (drop_rx s c) d = recv s d"
    and listening_create: "listening (fst (create s r)) d \<longleftrightarrow> d = snd (create s r) \<or> listening s d"
    and listening_complete: "listening (fst (complete s i v)) d = listening s d"
    and listening_cancel: "listening (fst (cancel s i)) d = listening s d"
    and listening_drop_rx: "listening (drop_rx s c) d \<longleftrightarrow> c \<noteq> d \<and> listening s d"
begin

lemmas inv_ops = inv_create inv_complete inv_cancel inv_drop_rx

lemmas contents_ops = contents_create contents_complete contents_cancel contents_drop_rx

lemmas known_ops = known_create known_complete known_cancel known_drop_rx

lemmas recv_ops = recv_create recv_complete recv_cancel recv_drop_rx

lemmas listening_ops = listening_create listening_complete listening_cancel listening_drop_rx

lemma complete_once: "snd (complete (fst (complete s i v)) i w) = False"
  by (simp add: complete_found contents_complete)

lemma complete_after_cancel: "snd (complete (fst (cancel s i)) i v) = False"
  by (simp add: complete_found contents_cancel)

lemma created_is_pending:
  "create s r = (s', c) \<Longrightarrow> contents s' (ident r) = Some (r, c)"
  using contents_create [of s r] by simp

lemma complete_delivers:
  "inv s \<Longrightarrow> contents s i = Some (r, c) \<Longrightarrow> listening s c \<Longrightarrow> recv (fst (complete s i v)) c = Sent v"
  by (simp add: recv_complete)

text \<open>What a channel holds once it holds something never changes again.\<close>

lemma settled_create:
  "inv s \<Longrightarrow> known s c \<Longrightarrow> recv s c \<noteq> Empty \<Longrightarrow> recv (fst (create s r)) c = recv s c"
  using create_unknown [of s r] contents_known [of s "ident r" _ c] by (auto simp: recv_create)

lemma settled_complete: "inv s \<Longrightarrow> recv s c \<noteq> Empty \<Longrightarrow> recv (fst (complete s i v)) c = recv s c"
  using contents_known [of s i _ c] by (auto simp: recv_complete)

lemma settled_cancel: "inv s \<Longrightarrow> recv s c \<noteq> Empty \<Longrightarrow> recv (fst (cancel s i)) c = recv s c"
  using contents_known [of s i _ c] by (auto simp: recv_cancel)

text \<open>Completing one request leaves every other one as it was.\<close>

lemma complete_frame:
  "inv s \<Longrightarrow> j \<noteq> i \<Longrightarrow> contents s j = Some (r, c) \<Longrightarrow>
     contents (fst (complete s i v)) j = Some (r, c) \<and> recv (fst (complete s i v)) c = Empty"
  using contents_inj [of s i _ c j r] contents_known [of s j r c]
  by (auto simp: contents_complete recv_complete)

end

interpretation ps: pending_store "r_id R" "store_inv R" store_abs store_known store_recv
    store_listening "store_create R" store_complete store_cancel store_drop_rx
  for R :: "('r, 'y) request_ops_scheme"
proof unfold_locales
  fix st :: "'r store" and r :: 'r and d :: chan
  show "\<not> store_known st (snd (store_create R st r))"
    by (simp add: store_known_def store_create_chan)
  show "store_known (fst (store_create R st r)) d \<longleftrightarrow>
      d = snd (store_create R st r) \<or> store_known st d"
    by (simp add: store_known_create store_create_chan)
  show "store_listening (fst (store_create R st r)) d \<longleftrightarrow>
      d = snd (store_create R st r) \<or> store_listening st d"
    by (simp add: store_listening_create store_create_chan)
qed (simp_all add: store_inv_create store_inv_complete store_inv_cancel store_abs_create
    store_create_chan store_abs_complete store_abs_cancel store_complete_found store_cancel_found
    store_recv_create store_recv_complete store_recv_cancel store_abs_known store_inv_recv store_inv_inj)

end
