(* ===== verification/Core_Engine.thy ===== *)
theory Core_Engine
  imports Core_Store
begin

section \<open>The engine\<close>

text \<open>
  \<open>engine.rs\<close> of \<open>browser-web3-signer-core\<close>: starting and stopping the HTTP bridge, registering a
  request, and the future that waits for its result. The operating system's sockets are a parameter
  (\<open>net\<close>): what binding a port gives, and the port a listener reports. The async mutex is held across
  the whole of \<open>start_with\<close>, so it is one function. \<open>prepare\<close> returns \<open>None\<close> where the source panics
  (a bridge URL that does not parse).

  The future is a state machine driven by \<open>poll\<close>. Its first poll sets the deadline, because the source
  builds the \<open>timeout\<close> inside the async block; a poll looks at the channel before the clock, as
  \<open>tokio::time::timeout\<close> does; an error outcome cancels the store's entry in a step of its own, since the
  receiver is dropped before and another task can run in between.
\<close>

subsection \<open>Results\<close>

definition map_result :: "request_result \<Rightarrow> signer_error + string" where
  "map_result res = (case res of RSuccess v \<Rightarrow> Inr v | RError err code \<Rightarrow> Inl (Rejected err code))"

lemma map_result_Inr_iff [result_iff, simp]: "map_result res = Inr v \<longleftrightarrow> res = RSuccess v"
  by (cases res) (auto simp: map_result_def)

lemma map_result_Inl_iff: "map_result res = Inl e \<longleftrightarrow> (\<exists>err code. res = RError err code \<and> e = Rejected err code)"
  by (cases res) (auto simp: map_result_def)

lemma map_result_wrong_wallet:
  "map_result res = Inl e \<Longrightarrow>
     is_wrong_wallet_address e \<longleftrightarrow> (\<exists>err. res = RError err (Some WRONG_WALLET_ADDRESS))"
  by (auto simp: map_result_Inl_iff is_wrong_wallet_address_iff)

subsection \<open>Binding the listener\<close>

record io_error =
  io_addr_in_use :: bool
  io_text :: string

record 'l net =
  tcp_bind :: "u16 \<Rightarrow> io_error + 'l"
  local_port :: "'l \<Rightarrow> io_error + u16"

definition bind_ephemeral :: "'l net \<Rightarrow> signer_error + 'l \<times> port" where
  "bind_ephemeral N =
     and_then (map_err (\<lambda>e. Http (''bind ephemeral port: '' @ io_text e)) (tcp_bind N 0)) (\<lambda>listener.
     and_then (map_err (\<lambda>e. Http (io_text e)) (local_port N listener)) (\<lambda>raw.
     and_then (ok_or (port_try_new raw) (Http ''OS assigned port 0'')) (\<lambda>p.
       Inr (listener, p))))"

definition bind_listener :: "'l net \<Rightarrow> bind_port \<Rightarrow> signer_error + 'l \<times> port" where
  "bind_listener N bind =
     (case bind of
        Ephemeral \<Rightarrow> bind_ephemeral N
      | Preferred preferred \<Rightarrow>
          (case tcp_bind N (port_get preferred) of
             Inr listener \<Rightarrow> Inr (listener, preferred)
           | Inl e \<Rightarrow>
               if io_addr_in_use e then bind_ephemeral N
               else Inl (Http (''bind 127.0.0.1:'' @ port_show preferred @ '': '' @ io_text e))))"

lemma bind_ephemeral_Inr_iff [result_iff]:
  "bind_ephemeral N = Inr (l, p) \<longleftrightarrow>
     tcp_bind N 0 = Inr l \<and> local_port N l = Inr (port_get p) \<and> port_ok p"
  by (cases p) (auto simp: bind_ephemeral_def result_iff port_try_new_def port_ok_def)

lemma bind_ephemeral_Http: "bind_ephemeral N = Inl e \<Longrightarrow> \<exists>s. e = Http s"
  by (auto simp: bind_ephemeral_def and_then_Inl_iff map_err_Inl_iff)

text \<open>What a successful bind guarantees: a listener the OS handed out, on the port that is reported.\<close>

lemma bind_listener_ok:
  assumes "bind_listener N bind = Inr (l, p)"
    and "\<And>q. bind = Preferred q \<Longrightarrow> port_ok q"
  shows "port_ok p"
    and "tcp_bind N (port_get p) = Inr l \<or> tcp_bind N 0 = Inr l \<and> local_port N l = Inr (port_get p)"
  using assms by (auto simp: bind_listener_def result_iff split: bind_port.splits sum.splits if_splits)

lemma bind_listener_preferred_free:
  "tcp_bind N (port_get q) = Inr l \<Longrightarrow> bind_listener N (Preferred q) = Inr (l, q)"
  by (simp add: bind_listener_def)

lemma bind_listener_falls_back:
  "tcp_bind N (port_get q) = Inl e \<Longrightarrow> io_addr_in_use e \<Longrightarrow>
     bind_listener N (Preferred q) = bind_listener N Ephemeral"
  by (simp add: bind_listener_def)

lemma bind_listener_Http: "bind_listener N bind = Inl e \<Longrightarrow> \<exists>s. e = Http s"
  by (auto simp: bind_listener_def dest: bind_ephemeral_Http split: bind_port.splits sum.splits if_splits)

subsection \<open>The engine's state\<close>

text \<open>
  The server task runs \<open>build_router_with\<close> of the store, the page and the extra routes it was started
  with; its shutdown sender is there until \<open>shutdown\<close> takes the whole state.
\<close>

record 'x server_state =
  srv_port :: port
  srv_extra :: "'x option"

record ('r, 'x) engine =
  eng_store :: "'r store"
  eng_index_html :: string
  eng_bind :: bind_port
  eng_browser :: browser_choice
  eng_server :: "'x server_state option"

definition engine_new :: "string \<Rightarrow> bind_port \<Rightarrow> browser_choice \<Rightarrow> ('r, 'x) engine" where
  "engine_new index_html bind browser =
     \<lparr>eng_store = store_new, eng_index_html = index_html, eng_bind = bind, eng_browser = browser,
      eng_server = None\<rparr>"

definition start_with ::
  "'l net \<Rightarrow> 'x option \<Rightarrow> ('r, 'x) engine \<Rightarrow> (signer_error + port) \<times> ('r, 'x) engine" where
  "start_with N extra eng =
     (case eng_server eng of
        Some state \<Rightarrow> (Inr (srv_port state), eng)
      | None \<Rightarrow>
          (case bind_listener N (eng_bind eng) of
             Inl e \<Rightarrow> (Inl e, eng)
           | Inr (listener, port) \<Rightarrow>
               (Inr port, eng\<lparr>eng_server := Some \<lparr>srv_port = port, srv_extra = extra\<rparr>\<rparr>)))"

definition start :: "'l net \<Rightarrow> ('r, 'x) engine \<Rightarrow> (signer_error + port) \<times> ('r, 'x) engine" where
  "start N eng = start_with N None eng"

definition shutdown :: "('r, 'x) engine \<Rightarrow> ('r, 'x) engine" where
  "shutdown eng = eng\<lparr>eng_server := None\<rparr>"

definition engine_open :: "('r, 'x) engine \<Rightarrow> url \<Rightarrow> url list" where
  "engine_open eng url = browser_open url (eng_browser eng)"

record prepared =
  p_id :: uuid
  p_url :: url
  p_rx :: chan

text \<open>
  \<open>prepare\<close> runs in two sections with no await between them: \<open>start\<close>, under the server's lock, and the
  registration of the request under the port that \<open>start\<close> gave, under the store's.
\<close>

definition register ::
  "'e core_ext_scheme \<Rightarrow> ('r, 'y) request_ops_scheme \<Rightarrow> port \<Rightarrow> 'r \<Rightarrow> 'r store \<Rightarrow> prepared option \<times> 'r store" where
  "register X R port request st =
     (let i = r_id R request;
          kind = r_url_kind R request;
          created = store_create R st request
      in (map_option (\<lambda>url. \<lparr>p_id = i, p_url = url, p_rx = snd created\<rparr>) (build_url X port i kind),
          fst created))"

definition prepare ::
  "'e core_ext_scheme \<Rightarrow> ('r, 'y) request_ops_scheme \<Rightarrow> 'l net \<Rightarrow> 'r \<Rightarrow> ('r, 'x) engine \<Rightarrow>
     (signer_error + prepared) option \<times> ('r, 'x) engine" where
  "prepare X R N request eng =
     (case start N eng of
        (Inl e, eng') \<Rightarrow> (Some (Inl e), eng')
      | (Inr port, eng') \<Rightarrow>
          (let registered = register X R port request (eng_store eng')
           in (map_option Inr (fst registered), eng'\<lparr>eng_store := snd registered\<rparr>)))"

text \<open>
  \<open>Engine::submit\<close>: the URLs it opens and what the await of the result future gives, a function of the
  engine in which the request is registered (\<open>None\<close> is the panic of \<open>prepare\<close>).
\<close>

definition engine_submit ::
  "'e core_ext_scheme \<Rightarrow> ('r, 'y) request_ops_scheme \<Rightarrow> 'l net \<Rightarrow>
     (('r, 'x) engine \<Rightarrow> prepared \<Rightarrow> signer_error + string) \<Rightarrow> 'r \<Rightarrow> ('r, 'x) engine \<Rightarrow>
     url list \<times> (signer_error + string) option" where
  "engine_submit X R N await request eng =
     (case prepare X R N request eng of
        (None, eng') \<Rightarrow> ([], None)
      | (Some (Inl e), eng') \<Rightarrow> ([], Some (Inl e))
      | (Some (Inr p), eng') \<Rightarrow> (engine_open eng' (p_url p), Some (await eng' p)))"

lemma register_Some:
  "register X R port r st = (Some p, st') \<Longrightarrow>
     p_id p = r_id R r \<and> p_rx p = snd (store_create R st r) \<and> st' = fst (store_create R st r)"
  by (auto simp: register_def Let_def)

lemma prepare_Inr_iff:
  "prepare X R N r eng = (Some (Inr p), eng') \<longleftrightarrow>
     (\<exists>port started st. start N eng = (Inr port, started) \<and>
        register X R port r (eng_store started) = (Some p, st) \<and> eng' = started\<lparr>eng_store := st\<rparr>)"
  by (auto simp: prepare_def Let_def prod_eq_iff split: sum.split prod.splits)

lemma start_with_running:
  "eng_server eng = Some state \<Longrightarrow> start_with N extra eng = (Inr (srv_port state), eng)"
  by (simp add: start_with_def)

lemma start_with_running_after:
  "start_with N extra eng = (Inr p, eng') \<Longrightarrow>
     \<exists>state. eng_server eng' = Some state \<and> srv_port state = p"
  by (auto simp: start_with_def split: option.splits sum.splits)

lemma start_with_store: "eng_store (snd (start_with N extra eng)) = eng_store eng"
  by (auto simp: start_with_def split: option.splits sum.splits)

lemma start_with_failed: "start_with N extra eng = (Inl e, eng') \<Longrightarrow> eng' = eng \<and> eng_server eng = None"
  by (auto simp: start_with_def split: option.splits sum.splits)

lemma start_with_port_ok:
  assumes "fst (start_with N extra eng) = Inr p"
    and "\<And>state. eng_server eng = Some state \<Longrightarrow> port_ok (srv_port state)"
    and "\<And>q. eng_bind eng = Preferred q \<Longrightarrow> port_ok q"
  shows "port_ok p"
proof (cases "eng_server eng")
  case None
  then obtain l where "bind_listener N (eng_bind eng) = Inr (l, p)"
    using assms(1) by (auto simp: start_with_def split: sum.splits)
  then show ?thesis
    by (rule bind_listener_ok(1)) (rule assms(3))
next
  case (Some state)
  then show ?thesis
    using assms(1,2) by (simp add: start_with_def)
qed

subsection \<open>The result future\<close>

type_synonym outcome = "signer_error + string"

datatype fut_state =
    FCreated
  | FWaiting nat
  | FClosing signer_error
  | FDone outcome
  | FDropped

record future =
  fut_id :: uuid
  fut_rx :: chan
  fut_state :: fut_state

definition future_of :: "prepared \<Rightarrow> future" where
  "future_of p = \<lparr>fut_id = p_id p, fut_rx = p_rx p, fut_state = FCreated\<rparr>"

definition cancelled_error :: "'e core_ext_scheme \<Rightarrow> uuid \<Rightarrow> signer_error" where
  "cancelled_error X i = Cancelled (x_uuid_show X i)"

definition timeout_error :: signer_error where
  "timeout_error = Timeout (of_nat REQUEST_TIMEOUT)"

text \<open>One poll of \<open>timeout(REQUEST_TIMEOUT, rx)\<close> under its deadline.\<close>

definition poll_timeout :: "'e core_ext_scheme \<Rightarrow> nat \<Rightarrow> uuid \<Rightarrow> cell \<Rightarrow> nat \<Rightarrow> outcome option" where
  "poll_timeout X now i c deadline =
     (case c of
        Sent res \<Rightarrow> Some (map_result res)
      | TxDropped \<Rightarrow> Some (Inl (cancelled_error X i))
      | Empty \<Rightarrow> if deadline \<le> now then Some (Inl timeout_error) else None)"

definition settle :: "outcome \<Rightarrow> fut_state" where
  "settle res = (case res of Inl e \<Rightarrow> FClosing e | Inr v \<Rightarrow> FDone (Inr v))"

definition poll_waiting ::
  "'e core_ext_scheme \<Rightarrow> nat \<Rightarrow> nat \<Rightarrow> 'r store \<Rightarrow> future \<Rightarrow> 'r store \<times> future" where
  "poll_waiting X now deadline st f =
     (case poll_timeout X now (fut_id f) (store_recv st (fut_rx f)) deadline of
        None \<Rightarrow> (st, f\<lparr>fut_state := FWaiting deadline\<rparr>)
      | Some res \<Rightarrow> (store_drop_rx st (fut_rx f), f\<lparr>fut_state := settle res\<rparr>))"

definition fut_poll :: "'e core_ext_scheme \<Rightarrow> nat \<Rightarrow> 'r store \<Rightarrow> future \<Rightarrow> 'r store \<times> future" where
  "fut_poll X now st f =
     (case fut_state f of
        FCreated \<Rightarrow> poll_waiting X now (now + REQUEST_TIMEOUT) st f
      | FWaiting deadline \<Rightarrow> poll_waiting X now deadline st f
      | FClosing e \<Rightarrow> (fst (store_cancel st (fut_id f)), f\<lparr>fut_state := FDone (Inl e)\<rparr>)
      | FDone res \<Rightarrow> (st, f)
      | FDropped \<Rightarrow> (st, f))"

text \<open>Dropping a future that has not finished drops its receiver; the store keeps its entry.\<close>

definition fut_drop :: "'r store \<Rightarrow> future \<Rightarrow> 'r store \<times> future" where
  "fut_drop st f =
     (case fut_state f of
        FDone res \<Rightarrow> (st, f)
      | FClosing e \<Rightarrow> (st, f)
      | _ \<Rightarrow> (store_drop_rx st (fut_rx f), f\<lparr>fut_state := FDropped\<rparr>))"

definition fut_live :: "future \<Rightarrow> bool" where
  "fut_live f \<longleftrightarrow> (case fut_state f of FCreated \<Rightarrow> True | FWaiting d \<Rightarrow> True | _ \<Rightarrow> False)"

lemma fut_poll_id [simp]: "fut_id (snd (fut_poll X now st f)) = fut_id f"
  by (auto simp: fut_poll_def poll_waiting_def split: fut_state.splits option.splits)

lemma fut_poll_rx [simp]: "fut_rx (snd (fut_poll X now st f)) = fut_rx f"
  by (auto simp: fut_poll_def poll_waiting_def split: fut_state.splits option.splits)

lemma fut_drop_id [simp]: "fut_id (snd (fut_drop st f)) = fut_id f"
  by (auto simp: fut_drop_def split: fut_state.splits)

lemma fut_drop_rx [simp]: "fut_rx (snd (fut_drop st f)) = fut_rx f"
  by (auto simp: fut_drop_def split: fut_state.splits)

lemma poll_waiting_due:
  "deadline \<le> now \<Longrightarrow> \<exists>res. snd (poll_waiting X now deadline st f) = f\<lparr>fut_state := settle res\<rparr>"
  by (cases "store_recv st (fut_rx f)") (auto simp: poll_waiting_def poll_timeout_def)

text \<open>Two polls at or after the deadline finish a future: the outcome, then the cleanup.\<close>

lemma fut_poll_finishes:
  assumes "fut_state f = FWaiting deadline" and "deadline \<le> now"
  shows "\<exists>res. fut_state (snd (fut_poll X now' st' (snd (fut_poll X now st f)))) = FDone res"
proof -
  obtain res where "snd (poll_waiting X now deadline st f) = f\<lparr>fut_state := settle res\<rparr>"
    using poll_waiting_due [OF assms(2)] by blast
  then have "snd (fut_poll X now st f) = f\<lparr>fut_state := settle res\<rparr>"
    using assms(1) by (simp add: fut_poll_def)
  then show ?thesis
    by (cases res) (auto simp: fut_poll_def settle_def)
qed

text \<open>From any state but a dropped one, three polls with the timeout passing after the first do.\<close>

lemma fut_three_polls:
  assumes "fut_state f \<noteq> FDropped" and "\<And>d. fut_state f = FWaiting d \<Longrightarrow> d \<le> now + REQUEST_TIMEOUT"
    and "now + REQUEST_TIMEOUT \<le> t"
  shows "\<exists>out. fut_state (snd (fut_poll X t' st'' (snd (fut_poll X t st' (snd (fut_poll X now st f)))))) = FDone out"
proof -
  let ?g = "snd (fut_poll X now st f)"
  have "(\<exists>d. fut_state ?g = FWaiting d \<and> d \<le> now + REQUEST_TIMEOUT) \<or> (\<exists>e. fut_state ?g = FClosing e) \<or>
      (\<exists>out. fut_state ?g = FDone out)"
    using assms(1,2)
    by (cases "fut_state f") (auto simp: fut_poll_def poll_waiting_def settle_def split: option.split sum.split)
  then consider d where "fut_state ?g = FWaiting d" "d \<le> now + REQUEST_TIMEOUT" | e where "fut_state ?g = FClosing e"
    | out where "fut_state ?g = FDone out"
    by blast
  then show ?thesis
  proof cases
    case 1
    then have "d \<le> t" using assms(3) by simp
    then show ?thesis by (rule fut_poll_finishes [OF 1(1)])
  qed (simp_all add: fut_poll_def)
qed

end
