(* ===== verification/Core_Http.thy ===== *)
theory Core_Http
  imports Core_Engine
begin

section \<open>The HTTP bridge\<close>

text \<open>
  \<open>http.rs\<close> of \<open>browser-web3-signer-core\<close>: which handler answers a method and a path, and the handlers.
  A handler's answer is its status, its headers and its body. The extractors \<open>Path<Uuid>\<close> and
  \<open>Json<T>\<close> and the two answers that axum gives by itself are parameters (\<open>axum\<close>); so are the embedded
  files and the version (\<open>assets\<close>). \<open>post_complete\<close> takes the store's lock twice, so it is two
  functions, \<open>post_check\<close> and \<open>post_finish\<close>, between which other tasks can run; \<open>post_complete\<close> is
  their composition when none does.
\<close>

subsection \<open>Responses\<close>

datatype body = BJson json | BText string

record response =
  rs_status :: nat
  rs_headers :: "(string \<times> string) list"
  rs_body :: body

definition json_response :: "nat \<Rightarrow> json \<Rightarrow> response" where
  "json_response status v =
     \<lparr>rs_status = status, rs_headers = [(''content-type'', ''application/json'')], rs_body = BJson v\<rparr>"

definition json_error :: "nat \<Rightarrow> string \<Rightarrow> response" where
  "json_error status message = json_response status (JObject [(''error'', JString message)])"

definition file_response :: "string \<Rightarrow> string \<Rightarrow> response" where
  "file_response content_type text =
     \<lparr>rs_status = 200,
      rs_headers = [(''content-type'', content_type), (''cache-control'', ''no-cache'')],
      rs_body = BText text\<rparr>"

text \<open>What a handler takes from axum: a path parameter, a JSON body, the rejection of a body of
  another shape. The CORS layer, a package of its own, answers preflights from the configuration that
  \<open>cors_layer\<close> makes; the headers it adds to the other answers are not kept in \<open>response\<close>.\<close>

datatype http_method = GET | HEAD | POST | OPTIONS | OtherMethod string

record cors_config =
  cors_any_origin :: bool
  cors_methods :: "http_method list"
  cors_headers :: "string list"

definition cors_layer :: cors_config where
  "cors_layer =
     \<lparr>cors_any_origin = True, cors_methods = [GET, POST, OPTIONS],
      cors_headers = [''content-type'', ''authorization'']\<rparr>"

record 'b axum =
  ax_path_id :: "string \<Rightarrow> response + uuid"
  ax_json :: "'b \<Rightarrow> response + json"
  ax_shape :: "json \<Rightarrow> response"
  ax_preflight :: "cors_config \<Rightarrow> response"
  ax_method_not_allowed :: response

record assets =
  as_core_js :: string
  as_core_css :: string
  as_version :: string

subsection \<open>The handlers\<close>

definition not_found :: response where
  "not_found = json_error 404 ''Request not found''"

definition completed :: response where
  "completed = json_response 200 (JObject [(''ok'', JBool True)])"

definition complete_failed :: response where
  "complete_failed = json_error 500 ''Failed to complete request''"

definition get_pending :: "('r, 'y) request_ops_scheme \<Rightarrow> 'r store \<Rightarrow> uuid \<Rightarrow> response" where
  "get_pending R st i =
     (case store_get st i of
        None \<Rightarrow> not_found
      | Some request \<Rightarrow> json_response 200 (pending_response (r_serialize R request)))"

definition post_check :: "'r store \<Rightarrow> uuid \<Rightarrow> response option" where
  "post_check st i = (if \<not> store_has st i then Some not_found else None)"

definition post_finish :: "'r store \<Rightarrow> uuid \<Rightarrow> request_result \<Rightarrow> 'r store \<times> response" where
  "post_finish st i res =
     (case store_complete st i res of
        (st', True) \<Rightarrow> (st', completed)
      | (st', False) \<Rightarrow> (st', complete_failed))"

definition post_complete :: "'r store \<Rightarrow> uuid \<Rightarrow> complete_api_request \<Rightarrow> 'r store \<times> response" where
  "post_complete st i body =
     (case post_check st i of
        Some r \<Rightarrow> (st, r)
      | None \<Rightarrow> post_finish st i (result_from_complete body))"

definition get_health :: "assets \<Rightarrow> 'r store \<Rightarrow> response" where
  "get_health A st =
     json_response 200 (JObject
       [(''status'', JString ''ok''),
        (''pendingRequests'', JNumber (PosInt (of_nat (store_len st)))),
        (''version'', JString (as_version A))])"

definition serve_app_core :: "assets \<Rightarrow> response" where
  "serve_app_core A = file_response ''application/javascript; charset=utf-8'' (as_core_js A)"

definition serve_app_core_css :: "assets \<Rightarrow> response" where
  "serve_app_core_css A = file_response ''text/css; charset=utf-8'' (as_core_css A)"

definition serve_index :: "string \<Rightarrow> response" where
  "serve_index index_html = file_response ''text/html'' index_html"

subsection \<open>The router\<close>

datatype route =
    RPreflight
  | RMethodNotAllowed
  | RPending string
  | RComplete string
  | RHealth
  | RAppCore
  | RAppCoreCss
  | RIndex

definition getting :: "http_method \<Rightarrow> route \<Rightarrow> route" where
  "getting m r = (if m = GET \<or> m = HEAD then r else RMethodNotAllowed)"

definition posting :: "http_method \<Rightarrow> route \<Rightarrow> route" where
  "posting m r = (if m = POST then r else RMethodNotAllowed)"

text \<open>A path template \<open>prefix/{id}\<close> matches one segment that is not empty.\<close>

definition path_id :: "string \<Rightarrow> string \<Rightarrow> string option" where
  "path_id prefix path =
     (case strip_prefix prefix path of
        None \<Rightarrow> None
      | Some s \<Rightarrow> if s \<noteq> [] \<and> CHR ''/'' \<notin> set s then Some s else None)"

definition bridge_route :: "http_method \<Rightarrow> string \<Rightarrow> route" where
  "bridge_route m path =
     (if m = OPTIONS then RPreflight
      else case path_id ''/api/pending/'' path of
        Some s \<Rightarrow> getting m (RPending s)
      | None \<Rightarrow>
          (case path_id ''/api/complete/'' path of
             Some s \<Rightarrow> posting m (RComplete s)
           | None \<Rightarrow>
               if path = ''/api/health'' then getting m RHealth
               else if path = ''/app-core.js'' then getting m RAppCore
               else if path = ''/app-core.css'' then getting m RAppCoreCss
               else RIndex))"

record app_state =
  app_index_html :: string
  app_assets :: assets

definition bridge_answer ::
  "'b axum \<Rightarrow> ('r, 'y) request_ops_scheme \<Rightarrow> app_state \<Rightarrow> http_method \<Rightarrow> string \<Rightarrow> 'b \<Rightarrow> 'r store \<Rightarrow>
     'r store \<times> response" where
  "bridge_answer H R S m path b st =
     (case bridge_route m path of
        RPreflight \<Rightarrow> (st, ax_preflight H cors_layer)
      | RMethodNotAllowed \<Rightarrow> (st, ax_method_not_allowed H)
      | RPending s \<Rightarrow>
          (case ax_path_id H s of Inl r \<Rightarrow> (st, r) | Inr i \<Rightarrow> (st, get_pending R st i))
      | RComplete s \<Rightarrow>
          (case ax_path_id H s of
             Inl r \<Rightarrow> (st, r)
           | Inr i \<Rightarrow>
               (case ax_json H b of
                  Inl r \<Rightarrow> (st, r)
                | Inr v \<Rightarrow>
                    (case complete_deserialize v of
                       None \<Rightarrow> (st, ax_shape H v)
                     | Some req \<Rightarrow> post_complete st i req)))
      | RHealth \<Rightarrow> (st, get_health (app_assets S) st)
      | RAppCore \<Rightarrow> (st, serve_app_core (app_assets S))
      | RAppCoreCss \<Rightarrow> (st, serve_app_core_css (app_assets S))
      | RIndex \<Rightarrow> (st, serve_index (app_index_html S)))"

subsection \<open>What the handlers answer\<close>

lemma responses_distinct [simp]:
  "completed \<noteq> not_found" "not_found \<noteq> completed"
  "completed \<noteq> complete_failed" "complete_failed \<noteq> completed"
  "not_found \<noteq> complete_failed" "complete_failed \<noteq> not_found"
  by (simp_all add: completed_def not_found_def complete_failed_def json_error_def json_response_def)

lemma post_finish_store: "fst (post_finish st i res) = fst (store_complete st i res)"
  by (auto simp: post_finish_def split: prod.splits bool.splits)

lemma post_finish_completed: "snd (post_finish st i res) = completed \<longleftrightarrow> store_abs st i \<noteq> None"
  using store_complete_found [of st i res]
  by (auto simp: post_finish_def split: prod.splits bool.splits)

lemma post_finish_cases:
  "snd (post_finish st i res) = (if store_abs st i \<noteq> None then completed else complete_failed)"
  using store_complete_found [of st i res]
  by (auto simp: post_finish_def split: prod.splits bool.splits)

lemma post_check_None_iff: "post_check st i = None \<longleftrightarrow> store_abs st i \<noteq> None"
  by (simp add: post_check_def store_has_abs)

text \<open>With no task in between, the body either completes its request or is refused with 404.\<close>

lemma post_complete_eq:
  "post_complete st i body =
     (if store_abs st i = None then (st, not_found)
      else (fst (store_complete st i (result_from_complete body)), completed))"
proof (cases "store_abs st i")
  case None
  then show ?thesis by (simp add: post_complete_def post_check_def store_has_abs)
next
  case (Some rc)
  then have "post_check st i = None" by (simp add: post_check_None_iff)
  then show ?thesis
    using Some post_finish_cases [of st i "result_from_complete body"]
      post_finish_store [of st i "result_from_complete body"]
    by (simp add: post_complete_def prod_eq_iff)
qed

lemma post_complete_twice:
  "snd (post_complete (fst (post_complete st i body)) i body') = not_found"
  by (simp add: post_complete_eq store_abs_complete)

lemma get_pending_abs:
  "get_pending R st i =
     (case store_abs st i of
        None \<Rightarrow> not_found
      | Some (r, c) \<Rightarrow> json_response 200 (pending_response (r_serialize R r)))"
  by (auto simp: get_pending_def store_get_abs split: option.splits)

lemma bridge_route_pending:
  "m = GET \<or> m = HEAD \<Longrightarrow> s \<noteq> [] \<Longrightarrow> CHR ''/'' \<notin> set s \<Longrightarrow>
     bridge_route m (''/api/pending/'' @ s) = RPending s"
  by (auto simp: bridge_route_def path_id_def getting_def strip_prefix_def)

lemma bridge_route_complete:
  "s \<noteq> [] \<Longrightarrow> CHR ''/'' \<notin> set s \<Longrightarrow> bridge_route POST (''/api/complete/'' @ s) = RComplete s"
  by (simp add: bridge_route_def path_id_def strip_prefix_def posting_def)

text \<open>Only a POST to a completion path changes the store; every other request leaves it alone.\<close>

lemma bridge_answer_store:
  assumes "fst (bridge_answer H R S m path b st) \<noteq> st"
  shows "\<exists>s i v req. m = POST \<and> path_id ''/api/complete/'' path = Some s \<and> ax_path_id H s = Inr i \<and>
    ax_json H b = Inr v \<and> complete_deserialize v = Some req \<and> store_abs st i \<noteq> None \<and>
    bridge_answer H R S m path b st = (fst (store_complete st i (result_from_complete req)), completed)"
proof -
  obtain s where s: "bridge_route m path = RComplete s"
    using assms by (cases "bridge_route m path") (auto simp: bridge_answer_def split: sum.splits)
  then obtain i v req where x: "ax_path_id H s = Inr i" "ax_json H b = Inr v"
      "complete_deserialize v = Some req"
    using assms by (auto simp: bridge_answer_def split: sum.splits option.splits)
  then have eq: "bridge_answer H R S m path b st = post_complete st i req"
    using s by (simp add: bridge_answer_def)
  then have found: "store_abs st i \<noteq> None"
    using assms by (auto simp: post_complete_eq split: if_splits)
  have "m = POST \<and> path_id ''/api/complete/'' path = Some s"
    using s by (auto simp: bridge_route_def getting_def posting_def split: if_splits option.splits)
  with x eq found show ?thesis by (auto simp: post_complete_eq)
qed

end
