(* ===== verification/Bridge.thy ===== *)
theory Bridge
  imports Core_Http
begin

section \<open>The running bridge\<close>

text \<open>
  The engine, the futures it handed out and the \<open>POST /api/complete\<close> requests in flight, as one
  transition system. A step is what one task does between two points where another can run: a
  \<open>prepare\<close>, or its second section alone, with a port from an earlier \<open>start\<close>; one poll of a result future or its drop, one of the two locked sections of
  \<open>post_complete\<close>, a \<open>start_with\<close>, a \<open>shutdown\<close>, a \<open>cancel\<close> by a holder of \<open>Engine::store\<close>, or the
  clock. The steps interleave freely; a listener handle is a natural number, and what the operating
  system answers to a bind may differ at every step. \<open>bridge_inv\<close> holds in every reachable state; it
  ties each entry of the store to the future that waits for it, each channel that holds a result to
  the POST that was answered with 200, and counts those answers.
\<close>

subsection \<open>State and steps\<close>

datatype post_phase = PCheck | PFinish | PAnswered response

record post =
  po_id :: uuid
  po_result :: request_result
  po_phase :: post_phase

record ('r, 'x) bridge =
  br_engine :: "('r, 'x) engine"
  br_futs :: "future list"
  br_posts :: "post list"
  br_now :: nat

definition br_store :: "('r, 'x) bridge \<Rightarrow> 'r store" where
  "br_store b = eng_store (br_engine b)"

definition put_store :: "'r store \<Rightarrow> ('r, 'x) bridge \<Rightarrow> ('r, 'x) bridge" where
  "put_store st b = b\<lparr>br_engine := (br_engine b)\<lparr>eng_store := st\<rparr>\<rparr>"

definition bridge_init :: "('r, 'x) engine \<Rightarrow> ('r, 'x) bridge" where
  "bridge_init eng = \<lparr>br_engine = eng, br_futs = [], br_posts = [], br_now = 0\<rparr>"

definition put_future :: "nat \<Rightarrow> 'r store \<times> future \<Rightarrow> ('r, 'x) bridge \<Rightarrow> ('r, 'x) bridge" where
  "put_future k sf b = (put_store (fst sf) b)\<lparr>br_futs := (br_futs b)[k := snd sf]\<rparr>"

definition poll_step :: "'e core_ext_scheme \<Rightarrow> nat \<Rightarrow> ('r, 'x) bridge \<Rightarrow> ('r, 'x) bridge" where
  "poll_step X k b = put_future k (fut_poll X (br_now b) (br_store b) (br_futs b ! k)) b"

definition drop_step :: "nat \<Rightarrow> ('r, 'x) bridge \<Rightarrow> ('r, 'x) bridge" where
  "drop_step k b = put_future k (fut_drop (br_store b) (br_futs b ! k)) b"

definition put_phase :: "nat \<Rightarrow> post_phase \<Rightarrow> ('r, 'x) bridge \<Rightarrow> ('r, 'x) bridge" where
  "put_phase j ph b = b\<lparr>br_posts := (br_posts b)[j := (br_posts b ! j)\<lparr>po_phase := ph\<rparr>]\<rparr>"

definition check_step :: "nat \<Rightarrow> ('r, 'x) bridge \<Rightarrow> ('r, 'x) bridge" where
  "check_step j b =
     put_phase j
       (case post_check (br_store b) (po_id (br_posts b ! j)) of
          Some r \<Rightarrow> PAnswered r
        | None \<Rightarrow> PFinish) b"

definition finish_step :: "nat \<Rightarrow> ('r, 'x) bridge \<Rightarrow> ('r, 'x) bridge" where
  "finish_step j b =
     (let p = br_posts b ! j; sr = post_finish (br_store b) (po_id p) (po_result p)
      in put_phase j (PAnswered (snd sr)) (put_store (fst sr) b))"

inductive bridge_step ::
  "'e core_ext_scheme \<Rightarrow> ('r, 'y) request_ops_scheme \<Rightarrow> ('r, 'x) bridge \<Rightarrow> ('r, 'x) bridge \<Rightarrow> bool"
  for X R where
  submit: "prepare X R (N :: nat net) r (br_engine b) = (Some (Inr p), eng') \<Longrightarrow>
     bridge_step X R b (b\<lparr>br_engine := eng', br_futs := br_futs b @ [future_of p]\<rparr>)"
| submit_failed: "prepare X R (N :: nat net) r (br_engine b) = (Some (Inl e), eng') \<Longrightarrow>
     bridge_step X R b (b\<lparr>br_engine := eng'\<rparr>)"
| registers: "register X R port r (br_store b) = (Some p, st) \<Longrightarrow>
     bridge_step X R b ((put_store st b)\<lparr>br_futs := br_futs b @ [future_of p]\<rparr>)"
| poll: "k < length (br_futs b) \<Longrightarrow> bridge_step X R b (poll_step X k b)"
| dropped: "k < length (br_futs b) \<Longrightarrow> bridge_step X R b (drop_step k b)"
| arrive: "bridge_step X R b
     (b\<lparr>br_posts := br_posts b @ [\<lparr>po_id = i, po_result = res, po_phase = PCheck\<rparr>]\<rparr>)"
| check: "j < length (br_posts b) \<Longrightarrow> po_phase (br_posts b ! j) = PCheck \<Longrightarrow>
     bridge_step X R b (check_step j b)"
| finish: "j < length (br_posts b) \<Longrightarrow> po_phase (br_posts b ! j) = PFinish \<Longrightarrow>
     bridge_step X R b (finish_step j b)"
| starts: "bridge_step X R b (b\<lparr>br_engine := snd (start_with (N :: nat net) extra (br_engine b))\<rparr>)"
| stops: "bridge_step X R b (b\<lparr>br_engine := shutdown (br_engine b)\<rparr>)"
| cancels: "bridge_step X R b (put_store (fst (store_cancel (br_store b) i)) b)"
| tick: "bridge_step X R b (b\<lparr>br_now := br_now b + d\<rparr>)"

inductive bridge_reachable ::
  "'e core_ext_scheme \<Rightarrow> ('r, 'y) request_ops_scheme \<Rightarrow> ('r, 'x) bridge \<Rightarrow> bool"
  for X R where
  init: "bridge_reachable X R (bridge_init (engine_new html bind browser))"
| step: "bridge_reachable X R b \<Longrightarrow> bridge_step X R b b' \<Longrightarrow> bridge_reachable X R b'"

subsection \<open>The invariant\<close>

definition fut_outcome :: "future \<Rightarrow> outcome option" where
  "fut_outcome f = (case fut_state f of FClosing e \<Rightarrow> Some (Inl e) | FDone out \<Rightarrow> Some out | _ \<Rightarrow> None)"

definition fut_done :: "future \<Rightarrow> bool" where
  "fut_done f \<longleftrightarrow> (case fut_state f of FDone out \<Rightarrow> True | _ \<Rightarrow> False)"

definition is_answer :: "uuid \<Rightarrow> post \<Rightarrow> bool" where
  "is_answer i p \<longleftrightarrow> po_id p = i \<and> po_phase p = PAnswered completed"

definition answered :: "post list \<Rightarrow> uuid \<Rightarrow> request_result \<Rightarrow> bool" where
  "answered ps i res \<longleftrightarrow> (\<exists>p \<in> set ps. is_answer i p \<and> po_result p = res)"

definition explained :: "'e core_ext_scheme \<Rightarrow> post list \<Rightarrow> uuid \<Rightarrow> outcome \<Rightarrow> bool" where
  "explained X ps i out \<longleftrightarrow>
     (\<exists>res. answered ps i res \<and> out = map_result res) \<or>
     out = Inl (cancelled_error X i) \<or> out = Inl timeout_error"

definition answer_count :: "post list \<Rightarrow> uuid \<Rightarrow> nat" where
  "answer_count ps i = length (filter (is_answer i) ps)"

definition future_count :: "future list \<Rightarrow> uuid \<Rightarrow> nat" where
  "future_count fs i = count_list (map fut_id fs) i"

definition futs_known :: "'r store \<Rightarrow> future list \<Rightarrow> bool" where
  "futs_known st fs \<longleftrightarrow> (\<forall>f \<in> set fs. store_known st (fut_rx f)) \<and> distinct (map fut_rx fs)"

definition futs_listening :: "'r store \<Rightarrow> future list \<Rightarrow> bool" where
  "futs_listening st fs \<longleftrightarrow> (\<forall>f \<in> set fs. fut_live f \<longrightarrow> store_listening st (fut_rx f))"

definition entries_owned :: "'r store \<Rightarrow> future list \<Rightarrow> bool" where
  "entries_owned st fs \<longleftrightarrow>
     (\<forall>i r c. store_abs st i = Some (r, c) \<longrightarrow>
        (\<exists>f \<in> set fs. fut_rx f = c \<and> fut_id f = i \<and> \<not> fut_done f))"

definition cells_answered :: "'r store \<Rightarrow> future list \<Rightarrow> post list \<Rightarrow> bool" where
  "cells_answered st fs ps \<longleftrightarrow>
     (\<forall>f \<in> set fs. \<forall>res. store_recv st (fut_rx f) = Sent res \<longrightarrow> answered ps (fut_id f) res)"

definition outcomes_explained :: "'e core_ext_scheme \<Rightarrow> future list \<Rightarrow> post list \<Rightarrow> bool" where
  "outcomes_explained X fs ps \<longleftrightarrow>
     (\<forall>f \<in> set fs. \<forall>out. fut_outcome f = Some out \<longrightarrow> explained X ps (fut_id f) out)"

definition answered_once :: "'r store \<Rightarrow> future list \<Rightarrow> post list \<Rightarrow> bool" where
  "answered_once st fs ps \<longleftrightarrow>
     (\<forall>i. answer_count ps i + (if store_abs st i = None then 0 else 1) \<le> future_count fs i)"

definition deadlines_near :: "nat \<Rightarrow> future list \<Rightarrow> bool" where
  "deadlines_near now fs \<longleftrightarrow> (\<forall>f \<in> set fs. \<forall>d. fut_state f = FWaiting d \<longrightarrow> d \<le> now + REQUEST_TIMEOUT)"

definition bridge_inv :: "'e core_ext_scheme \<Rightarrow> ('r, 'y) request_ops_scheme \<Rightarrow> ('r, 'x) bridge \<Rightarrow> bool" where
  "bridge_inv X R b \<longleftrightarrow>
     store_inv R (br_store b) \<and> futs_known (br_store b) (br_futs b) \<and>
     futs_listening (br_store b) (br_futs b) \<and> entries_owned (br_store b) (br_futs b) \<and>
     cells_answered (br_store b) (br_futs b) (br_posts b) \<and>
     outcomes_explained X (br_futs b) (br_posts b) \<and>
     answered_once (br_store b) (br_futs b) (br_posts b) \<and> deadlines_near (br_now b) (br_futs b)"

lemmas bridge_inv_parts = futs_known_def futs_listening_def entries_owned_def cells_answered_def
  outcomes_explained_def answered_once_def deadlines_near_def

subsection \<open>Fields after a step\<close>

lemma br_store_simps [simp]:
  "br_store (put_store st b) = st"
  "br_store (put_future k sf b) = fst sf"
  "br_store (put_phase j ph b) = br_store b"
  "br_store (b\<lparr>br_posts := ps\<rparr>) = br_store b"
  "br_store (b\<lparr>br_futs := fs\<rparr>) = br_store b"
  "br_store (b\<lparr>br_now := t\<rparr>) = br_store b"
  "br_store (b\<lparr>br_engine := eng\<rparr>) = eng_store eng"
  by (simp_all add: br_store_def put_store_def put_future_def put_phase_def)

lemma br_fields_simps [simp]:
  "br_futs (put_store st b) = br_futs b" "br_posts (put_store st b) = br_posts b"
  "br_now (put_store st b) = br_now b"
  "br_futs (put_future k sf b) = (br_futs b)[k := snd sf]" "br_posts (put_future k sf b) = br_posts b"
  "br_now (put_future k sf b) = br_now b"
  "br_futs (put_phase j ph b) = br_futs b" "br_now (put_phase j ph b) = br_now b"
  "br_posts (put_phase j ph b) = (br_posts b)[j := (br_posts b ! j)\<lparr>po_phase := ph\<rparr>]"
  by (simp_all add: put_store_def put_future_def put_phase_def)

lemma length_filter_update:
  "j < length xs \<Longrightarrow> length (filter P (xs[j := y])) + (if P (xs ! j) then 1 else 0) =
     length (filter P xs) + (if P y then 1 else 0)"
proof (induction xs arbitrary: j)
  case Nil
  then show ?case by simp
next
  case (Cons x xs)
  then show ?case by (cases j) auto
qed

lemma answered_mono: "answered ps i res \<Longrightarrow> answered (ps @ qs) i res"
  by (auto simp: answered_def)

lemma explained_mono:
  "explained X ps i out \<Longrightarrow> (\<And>res. answered ps i res \<Longrightarrow> answered qs i res) \<Longrightarrow> explained X qs i out"
  by (auto simp: explained_def)

lemma answered_update:
  assumes "answered ps i res" and "j < length ps" and "\<not> is_answer (po_id (ps ! j)) (ps ! j)"
  shows "answered (ps[j := q]) i res"
proof -
  obtain n where n: "n < length ps" "is_answer i (ps ! n)" "po_result (ps ! n) = res"
    using assms(1) by (auto simp: answered_def in_set_conv_nth)
  then have "n \<noteq> j" using assms(3) by (auto simp: is_answer_def)
  with n have "ps[j := q] ! n = ps ! n" "n < length (ps[j := q])" by simp_all
  with n show ?thesis by (metis answered_def nth_mem)
qed

end
