(* ===== verification/Bridge_Invariant.thy ===== *)
theory Bridge_Invariant
  imports Bridge
begin

section \<open>The invariant of the running bridge\<close>

text \<open>
  Every step keeps \<open>bridge_inv\<close>: one lemma per step, over the laws of the store's contract \<open>ps\<close>. The
  lemmas after it draw the consequences the properties of the bridge rest on.
\<close>

subsection \<open>Registering a request\<close>

lemma prepare_Inr:
  assumes "prepare X R N r eng = (Some (Inr p), eng')"
  shows "p_id p = r_id R r" and "p_rx p = snd (store_create R (eng_store eng) r)"
    and "eng_store eng' = fst (store_create R (eng_store eng) r)"
proof -
  obtain port started st where p: "start N eng = (Inr port, started)"
      "register X R port r (eng_store started) = (Some p, st)" "eng' = started\<lparr>eng_store := st\<rparr>"
    using assms unfolding prepare_Inr_iff by blast
  moreover have "eng_store started = eng_store eng"
    using p(1) start_with_store [of N None eng] by (simp add: start_def)
  ultimately show "p_id p = r_id R r" "p_rx p = snd (store_create R (eng_store eng) r)"
    "eng_store eng' = fst (store_create R (eng_store eng) r)"
    using register_Some [OF p(2)] by simp_all
qed

lemma prepare_Inl: "prepare X R N r eng = (Some (Inl e), eng') \<Longrightarrow> eng_store eng' = eng_store eng"
  using start_with_store [of N None eng]
  by (auto simp: prepare_def start_def Let_def split: prod.splits sum.splits)

lemma future_of_simps [simp]:
  "fut_id (future_of p) = p_id p" "fut_rx (future_of p) = p_rx p"
  "fut_state (future_of p) = FCreated"
  by (simp_all add: future_of_def)

lemma future_count_append [simp]:
  "future_count (fs @ [f]) i = future_count fs i + (if fut_id f = i then 1 else 0)"
  by (simp add: future_count_def)

lemma bridge_inv_register:
  assumes inv: "bridge_inv X R b" and p: "p_id p = r_id R r" "p_rx p = snd (store_create R (br_store b) r)"
    and eng': "eng_store eng' = fst (store_create R (br_store b) r)"
  shows "bridge_inv X R (b\<lparr>br_engine := eng', br_futs := br_futs b @ [future_of p]\<rparr>)"
proof -
  let ?st = "br_store b" and ?fs = "br_futs b" and ?st' = "fst (store_create R (br_store b) r)"
  let ?f = "future_of p"
  note eqs = p eng'
  have sinv: "store_inv R ?st" using inv by (simp add: bridge_inv_def)
  have known: "store_known ?st (fut_rx f)" if "f \<in> set ?fs" for f
    using inv that by (auto simp: bridge_inv_def futs_known_def)
  have fresh: "fut_rx f \<noteq> p_rx p" if "f \<in> set ?fs" for f
    using known [OF that] ps.create_unknown [of ?st R r] eqs(2) by auto
  have "futs_known ?st' (?fs @ [?f])"
    using inv eqs(2) by (auto simp: bridge_inv_def futs_known_def ps.known_create dest: fresh)
  moreover have "futs_listening ?st' (?fs @ [?f])"
    using inv eqs(2) by (auto simp: bridge_inv_def futs_listening_def ps.listening_create)
  moreover have "entries_owned ?st' (?fs @ [?f])"
    using inv eqs by (auto simp: bridge_inv_def entries_owned_def ps.contents_create fut_done_def)
  moreover have "cells_answered ?st' (?fs @ [?f]) (br_posts b)"
    using inv fresh eqs(2)
    by (auto simp: bridge_inv_def cells_answered_def ps.recv_create [OF sinv] split: if_splits)
  moreover have "outcomes_explained X (?fs @ [?f]) (br_posts b)"
    using inv by (auto simp: bridge_inv_def outcomes_explained_def fut_outcome_def)
  moreover have "answered_once ?st' (?fs @ [?f]) (br_posts b)"
    unfolding answered_once_def
  proof
    fix i
    have "answer_count (br_posts b) i + (if store_abs ?st i = None then 0 else 1) \<le> future_count ?fs i"
      using inv by (simp add: bridge_inv_def answered_once_def)
    then show "answer_count (br_posts b) i + (if store_abs ?st' i = None then 0 else 1)
        \<le> future_count (?fs @ [?f]) i"
      using eqs(1) by (cases "i = r_id R r") (simp_all add: ps.contents_create split: if_splits)
  qed
  moreover have "deadlines_near (br_now b) (?fs @ [?f])"
    using inv by (auto simp: bridge_inv_def deadlines_near_def)
  ultimately show ?thesis
    using ps.inv_create [OF sinv, of r] eqs(3) by (simp add: bridge_inv_def br_store_def)
qed

subsection \<open>Futures\<close>

text \<open>
  A future may change its state to one that listens no more than before, and its store by a \<open>cancel\<close>
  or by the drop of its own receiver, as long as a finished one leaves no entry of its channel.
\<close>

lemma futs_update:
  assumes "k < length fs" "fut_rx f = fut_rx (fs ! k)" "fut_id f = fut_id (fs ! k)"
  shows "map fut_rx (fs[k := f]) = map fut_rx fs" "map fut_id (fs[k := f]) = map fut_id fs"
  using assms by (metis list_update_id map_update)+

lemma future_unique:
  "futs_known st fs \<Longrightarrow> f \<in> set fs \<Longrightarrow> g \<in> set fs \<Longrightarrow> fut_rx f = fut_rx g \<Longrightarrow> f = g"
  by (auto simp: futs_known_def distinct_map inj_on_def)

lemma entry_owner:
  assumes "futs_known st fs" "entries_owned st fs" "store_abs st i = Some (r, fut_rx f)" "f \<in> set fs"
  shows "fut_id f = i \<and> \<not> fut_done f"
proof -
  obtain g where g: "g \<in> set fs" "fut_rx g = fut_rx f" "fut_id g = i" "\<not> fut_done g"
    using assms(2,3) unfolding entries_owned_def by blast
  then have "g = f" using future_unique [OF assms(1) _ assms(4)] by blast
  with g show ?thesis by simp
qed

lemma update_other:
  "k < length fs \<Longrightarrow> g \<in> set fs \<Longrightarrow> g \<noteq> fs ! k \<Longrightarrow> g \<in> set (fs[k := f])"
  by (metis in_set_conv_nth length_list_update nth_list_update_neq)

lemma bridge_inv_put_future:
  assumes inv: "bridge_inv X R b" and k: "k < length (br_futs b)"
    and f: "fut_rx f = fut_rx (br_futs b ! k)" "fut_id f = fut_id (br_futs b ! k)"
    and st: "store_inv R st" "\<And>c. store_known st c = store_known (br_store b) c"
      "\<And>i. store_abs st i = store_abs (br_store b) i \<or> store_abs st i = None"
      "\<And>c res. store_recv st c = Sent res \<Longrightarrow> store_recv (br_store b) c = Sent res"
      "\<And>c. store_listening (br_store b) c \<Longrightarrow> c \<noteq> fut_rx f \<Longrightarrow> store_listening st c"
    and live: "fut_live f \<Longrightarrow> fut_live (br_futs b ! k) \<and> store_listening st (fut_rx f)"
    and fin: "\<And>i r. fut_done f \<Longrightarrow> store_abs st i \<noteq> Some (r, fut_rx f)"
    and out: "\<And>out. fut_outcome f = Some out \<Longrightarrow> explained X (br_posts b) (fut_id f) out"
    and near: "\<And>d. fut_state f = FWaiting d \<Longrightarrow> d \<le> br_now b + REQUEST_TIMEOUT"
  shows "bridge_inv X R (put_future k (st, f) b)"
proof -
  let ?fs = "br_futs b" and ?fs' = "(br_futs b)[k := f]"
  have old: "?fs ! k \<in> set ?fs" using k by simp
  have mem: "g = f \<or> g \<in> set ?fs" if "g \<in> set ?fs'" for g
    using that set_update_subset_insert [of ?fs k f] by auto
  have new: "f \<in> set ?fs'" using k by (simp add: set_update_memI)
  have parts: "futs_known (br_store b) ?fs" "futs_listening (br_store b) ?fs"
      "entries_owned (br_store b) ?fs" "cells_answered (br_store b) ?fs (br_posts b)"
    using inv by (auto simp: bridge_inv_def)
  have dist: "distinct (map fut_rx ?fs')" "map fut_rx ?fs' = map fut_rx ?fs"
    using parts(1) futs_update(1) [OF k f] by (auto simp: futs_known_def)
  have known: "futs_known st ?fs'"
    using parts(1) dist(1) f(1) old by (auto simp: futs_known_def st(2) dest: mem)
  moreover have "futs_listening st ?fs'"
    unfolding futs_listening_def
  proof (intro ballI impI)
    fix g assume g: "g \<in> set ?fs'" "fut_live g"
    show "store_listening st (fut_rx g)"
    proof (cases "g = f")
      case True
      then show ?thesis using live g(2) by simp
    next
      case False
      then have "fut_rx g \<noteq> fut_rx f"
        using future_unique [OF known g(1) new] by blast
      then show ?thesis using st(5) parts(2) mem [OF g(1)] False g(2) by (auto simp: futs_listening_def)
    qed
  qed
  moreover have "entries_owned st ?fs'"
    unfolding entries_owned_def
  proof (intro allI impI)
    fix i r c assume e: "store_abs st i = Some (r, c)"
    then have "store_abs (br_store b) i = Some (r, c)" using st(3) [of i] by simp
    then obtain g where g: "g \<in> set ?fs" "fut_rx g = c" "fut_id g = i" "\<not> fut_done g"
      using parts(3) unfolding entries_owned_def by blast
    show "\<exists>g \<in> set ?fs'. fut_rx g = c \<and> fut_id g = i \<and> \<not> fut_done g"
    proof (cases "g = ?fs ! k")
      case True
      then have "fut_rx f = c \<and> fut_id f = i \<and> \<not> fut_done f" using g f fin e by auto
      then show ?thesis using new by blast
    next
      case False
      then show ?thesis using update_other [OF k g(1)] g by blast
    qed
  qed
  moreover have "cells_answered st ?fs' (br_posts b)"
    unfolding cells_answered_def
  proof (intro ballI allI impI)
    fix g res assume g: "g \<in> set ?fs'" "store_recv st (fut_rx g) = Sent res"
    then show "answered (br_posts b) (fut_id g) res"
      using mem [OF g(1)] parts(4) st(4) [OF g(2)] f old by (auto simp: cells_answered_def)
  qed
  moreover have "outcomes_explained X ?fs' (br_posts b)"
    using inv out mem by (fastforce simp: bridge_inv_def outcomes_explained_def)
  moreover have "answered_once st ?fs' (br_posts b)"
    unfolding answered_once_def
  proof
    fix i
    have "future_count ?fs' i = future_count ?fs i"
      by (simp only: future_count_def futs_update(2) [OF k f])
    moreover have "answer_count (br_posts b) i + (if store_abs (br_store b) i = None then 0 else 1)
        \<le> future_count ?fs i"
      using inv by (simp add: bridge_inv_def answered_once_def)
    ultimately show "answer_count (br_posts b) i + (if store_abs st i = None then 0 else 1)
        \<le> future_count ?fs' i"
      using st(3) [of i] by (auto split: if_splits)
  qed
  moreover have "deadlines_near (br_now b) ?fs'"
    using inv near mem by (fastforce simp: bridge_inv_def deadlines_near_def)
  ultimately show ?thesis using st(1) by (simp add: bridge_inv_def)
qed

lemma fut_state_simps [simp]:
  "fut_outcome (f\<lparr>fut_state := settle out\<rparr>) = Some out"
  "fut_live (f\<lparr>fut_state := settle out\<rparr>) = False"
  "fut_done (f\<lparr>fut_state := settle out\<rparr>) = is_ok out"
  "fut_outcome (f\<lparr>fut_state := FWaiting d\<rparr>) = None"
  "fut_live (f\<lparr>fut_state := FWaiting d\<rparr>) = True"
  "fut_done (f\<lparr>fut_state := FWaiting d\<rparr>) = False"
  by (cases out; simp add: fut_outcome_def settle_def fut_live_def fut_done_def)+

lemma fut_outcome_settle: "fut_state g = settle out \<Longrightarrow> fut_outcome g = Some out"
  by (cases out) (simp_all add: fut_outcome_def settle_def)

lemma settle_not_waiting [simp]: "settle out \<noteq> FWaiting d"
  by (cases out) (simp_all add: settle_def)

lemma poll_timeout_explained:
  assumes inv: "bridge_inv X R b" and f: "f \<in> set (br_futs b)"
    and out: "poll_timeout X now (fut_id f) (store_recv (br_store b) (fut_rx f)) d = Some out"
  shows "explained X (br_posts b) (fut_id f) out"
    and "is_ok out \<Longrightarrow> store_recv (br_store b) (fut_rx f) \<noteq> Empty"
proof -
  show "explained X (br_posts b) (fut_id f) out"
    using inv f out
    by (auto simp: poll_timeout_def explained_def bridge_inv_def cells_answered_def
        split: cell.splits if_splits)
  show "store_recv (br_store b) (fut_rx f) \<noteq> Empty" if "is_ok out"
    using out that by (auto simp: poll_timeout_def split: if_splits)
qed

lemma put_future_same: "put_future k (br_store b, br_futs b ! k) b = b"
  by (simp add: put_future_def put_store_def br_store_def)

lemma bridge_inv_poll_waiting:
  assumes inv: "bridge_inv X R b" and k: "k < length (br_futs b)"
    and live: "fut_live (br_futs b ! k)" and d: "d \<le> br_now b + REQUEST_TIMEOUT"
  shows "bridge_inv X R (put_future k (poll_waiting X (br_now b) d (br_store b) (br_futs b ! k)) b)"
proof -
  let ?f = "br_futs b ! k" and ?st = "br_store b"
  have f: "?f \<in> set (br_futs b)" using k by simp
  have sinv: "store_inv R ?st" using inv by (simp add: bridge_inv_def)
  show ?thesis
  proof (cases "poll_timeout X (br_now b) (fut_id ?f) (store_recv ?st (fut_rx ?f)) d")
    case None
    have "bridge_inv X R (put_future k (?st, ?f\<lparr>fut_state := FWaiting d\<rparr>) b)"
      by (rule bridge_inv_put_future [OF inv k])
        (use inv sinv live f d in \<open>auto simp: bridge_inv_def futs_listening_def\<close>)
    with None show ?thesis by (simp add: poll_waiting_def)
  next
    case (Some out)
    note ex = poll_timeout_explained [OF inv f Some]
    have "bridge_inv X R (put_future k (store_drop_rx ?st (fut_rx ?f), ?f\<lparr>fut_state := settle out\<rparr>) b)"
      by (rule bridge_inv_put_future [OF inv k])
        (use sinv ex store_inv_recv [OF sinv] in \<open>auto\<close>)
    with Some show ?thesis by (simp add: poll_waiting_def)
  qed
qed

lemma bridge_inv_poll:
  assumes inv: "bridge_inv X R b" and k: "k < length (br_futs b)"
  shows "bridge_inv X R (poll_step X k b)"
proof -
  let ?f = "br_futs b ! k" and ?st = "br_store b"
  have f: "?f \<in> set (br_futs b)" using k by simp
  have sinv: "store_inv R ?st" using inv by (simp add: bridge_inv_def)
  show ?thesis
  proof (cases "fut_state ?f")
    case FCreated
    then show ?thesis
      using bridge_inv_poll_waiting [OF inv k, of "br_now b + REQUEST_TIMEOUT"]
      by (simp add: poll_step_def fut_poll_def fut_live_def)
  next
    case (FWaiting d)
    then have "d \<le> br_now b + REQUEST_TIMEOUT"
      using inv f by (auto simp: bridge_inv_def deadlines_near_def)
    then show ?thesis
      using FWaiting bridge_inv_poll_waiting [OF inv k, of d]
      by (simp add: poll_step_def fut_poll_def fut_live_def)
  next
    case (FClosing e)
    have parts: "futs_known ?st (br_futs b)" "entries_owned ?st (br_futs b)"
      using inv by (auto simp: bridge_inv_def)
    have "explained X (br_posts b) (fut_id ?f) (Inl e)"
      using inv f FClosing by (auto simp: bridge_inv_def outcomes_explained_def fut_outcome_def)
    then have "bridge_inv X R
        (put_future k (fst (store_cancel ?st (fut_id ?f)), ?f\<lparr>fut_state := FDone (Inl e)\<rparr>) b)"
      by (intro bridge_inv_put_future [OF inv k])
        (use sinv entry_owner [OF parts _ f] in
          \<open>auto simp: ps.inv_cancel ps.contents_cancel ps.recv_cancel fut_live_def fut_outcome_def
            split: if_splits\<close>)
    with FClosing show ?thesis by (simp add: poll_step_def fut_poll_def)
  next
    case (FDone out)
    with inv show ?thesis by (simp add: poll_step_def fut_poll_def put_future_same)
  next
    case FDropped
    with inv show ?thesis by (simp add: poll_step_def fut_poll_def put_future_same)
  qed
qed

lemma bridge_inv_drop:
  assumes inv: "bridge_inv X R b" and k: "k < length (br_futs b)"
  shows "bridge_inv X R (drop_step k b)"
proof -
  let ?f = "br_futs b ! k" and ?st = "br_store b"
  have sinv: "store_inv R ?st" using inv by (simp add: bridge_inv_def)
  have "bridge_inv X R (put_future k (store_drop_rx ?st (fut_rx ?f), ?f\<lparr>fut_state := FDropped\<rparr>) b)"
    by (rule bridge_inv_put_future [OF inv k])
      (use sinv in \<open>auto simp: fut_live_def fut_done_def fut_outcome_def\<close>)
  with inv show ?thesis
    by (cases "fut_state ?f") (simp_all add: drop_step_def fut_drop_def put_future_same)
qed

subsection \<open>POST /api/complete\<close>

lemma answer_count_append [simp]:
  "answer_count (ps @ [p]) i = answer_count ps i + (if is_answer i p then 1 else 0)"
  by (simp add: answer_count_def)

lemma answer_count_update:
  assumes "j < length ps" and "\<not> is_answer (po_id (ps ! j)) (ps ! j)"
  shows "answer_count (ps[j := q]) i = answer_count ps i + (if is_answer i q then 1 else 0)"
proof -
  have "\<not> is_answer i (ps ! j)" using assms(2) by (auto simp: is_answer_def)
  then show ?thesis
    using length_filter_update [OF assms(1), of "is_answer i" q] by (simp add: answer_count_def)
qed

lemma outcomes_explained_mono:
  "outcomes_explained X fs ps \<Longrightarrow> (\<And>i res. answered ps i res \<Longrightarrow> answered qs i res) \<Longrightarrow>
     outcomes_explained X fs qs"
  unfolding outcomes_explained_def explained_def by blast

lemma bridge_inv_posts:
  assumes inv: "bridge_inv X R b"
    and "\<And>i res. answered (br_posts b) i res \<Longrightarrow> answered ps i res"
    and "\<And>i. answer_count ps i = answer_count (br_posts b) i"
  shows "bridge_inv X R (b\<lparr>br_posts := ps\<rparr>)"
  using inv assms(2,3) outcomes_explained_mono [of X "br_futs b" "br_posts b" ps]
  by (auto simp: bridge_inv_def cells_answered_def answered_once_def)

lemma bridge_inv_arrive:
  "bridge_inv X R b \<Longrightarrow>
     bridge_inv X R (b\<lparr>br_posts := br_posts b @ [\<lparr>po_id = i, po_result = res, po_phase = PCheck\<rparr>]\<rparr>)"
  by (rule bridge_inv_posts) (auto simp: answered_mono is_answer_def)

lemma bridge_inv_check:
  assumes inv: "bridge_inv X R b" and j: "j < length (br_posts b)" "po_phase (br_posts b ! j) = PCheck"
  shows "bridge_inv X R (check_step j b)"
proof -
  have unans: "\<not> is_answer (po_id (br_posts b ! j)) (br_posts b ! j)"
    using j(2) by (simp add: is_answer_def)
  have other: "(case post_check (br_store b) i of Some r \<Rightarrow> PAnswered r | None \<Rightarrow> PFinish)
      \<noteq> PAnswered completed" for i
    by (simp add: post_check_def)
  show ?thesis
    unfolding check_step_def put_phase_def
    by (rule bridge_inv_posts [OF inv])
      (use answered_update [OF _ j(1) unans] other in
        \<open>auto simp: answer_count_update [OF j(1) unans] is_answer_def\<close>)
qed

lemma bridge_inv_finish:
  assumes inv: "bridge_inv X R b" and j: "j < length (br_posts b)" "po_phase (br_posts b ! j) = PFinish"
  shows "bridge_inv X R (finish_step j b)"
proof -
  let ?p = "br_posts b ! j" and ?st = "br_store b" and ?fs = "br_futs b"
  let ?i = "po_id ?p" and ?res = "po_result ?p"
  let ?st' = "fst (store_complete ?st ?i ?res)"
  let ?q = "?p\<lparr>po_phase := PAnswered (snd (post_finish ?st ?i ?res))\<rparr>"
  let ?ps = "(br_posts b)[j := ?q]"
  have parts: "futs_known ?st ?fs" "futs_listening ?st ?fs" "entries_owned ?st ?fs"
      "cells_answered ?st ?fs (br_posts b)" "answered_once ?st ?fs (br_posts b)"
      "outcomes_explained X ?fs (br_posts b)"
    using inv by (auto simp: bridge_inv_def)
  have sinv: "store_inv R ?st" using inv by (simp add: bridge_inv_def)
  have unans: "\<not> is_answer ?i ?p" using j(2) by (simp add: is_answer_def)
  have mono: "answered ?ps i res" if "answered (br_posts b) i res" for i res
    using answered_update [OF that j(1) unans] .
  have q: "is_answer i ?q \<longleftrightarrow> i = ?i \<and> store_abs ?st i \<noteq> None" for i
    by (auto simp: is_answer_def post_finish_completed)
  have new: "answered ?ps ?i ?res" if "store_abs ?st ?i \<noteq> None"
  proof -
    have "?q \<in> set ?ps" using j(1) by (simp add: set_update_memI)
    with that show ?thesis using q [of ?i] by (auto simp: answered_def)
  qed
  have "entries_owned ?st' ?fs"
    using parts(3) unfolding entries_owned_def ps.contents_complete by (simp split: if_splits)
  moreover have "cells_answered ?st' ?fs ?ps"
    unfolding cells_answered_def ps.recv_complete [OF sinv]
  proof (intro ballI allI impI)
    fix f res
    assume f: "f \<in> set ?fs" and c: "(if \<exists>r. store_abs ?st ?i = Some (r, fut_rx f)
      then if store_listening ?st (fut_rx f) then Sent ?res else TxDropped
      else store_recv ?st (fut_rx f)) = Sent res"
    show "answered ?ps (fut_id f) res"
    proof (cases "\<exists>r. store_abs ?st ?i = Some (r, fut_rx f)")
      case True
      then have "fut_id f = ?i" "store_abs ?st ?i \<noteq> None"
        using entry_owner [OF parts(1,3) _ f] by auto
      then show ?thesis using new c True by (auto split: if_splits)
    next
      case False
      then show ?thesis using c parts(4) f mono by (auto simp: cells_answered_def)
    qed
  qed
  moreover have "outcomes_explained X ?fs ?ps"
    using outcomes_explained_mono [OF parts(6) mono] .
  moreover have "answered_once ?st' ?fs ?ps"
    unfolding answered_once_def
  proof
    fix i
    show "answer_count ?ps i + (if store_abs ?st' i = None then 0 else 1) \<le> future_count ?fs i"
      using parts(5) [unfolded answered_once_def, rule_format, of i]
      by (auto simp: answer_count_update [OF j(1) unans] q ps.contents_complete split: if_splits)
  qed
  ultimately show ?thesis
    using inv sinv
    by (simp add: bridge_inv_def finish_step_def Let_def post_finish_store ps.inv_complete
        futs_known_def futs_listening_def)
qed

subsection \<open>The other steps\<close>

lemma bridge_inv_engine:
  "bridge_inv X R b \<Longrightarrow> eng_store eng = br_store b \<Longrightarrow> bridge_inv X R (b\<lparr>br_engine := eng\<rparr>)"
  by (simp add: bridge_inv_def)

lemma bridge_inv_cancel:
  assumes inv: "bridge_inv X R b"
  shows "bridge_inv X R (put_store (fst (store_cancel (br_store b) i)) b)"
proof -
  let ?st = "br_store b" and ?st' = "fst (store_cancel (br_store b) i)"
  have sinv: "store_inv R ?st" using inv by (simp add: bridge_inv_def)
  have gone: "store_abs ?st' j = None \<or> store_abs ?st' j = store_abs ?st j" for j
    by (simp add: ps.contents_cancel)
  have "answered_once ?st' (br_futs b) (br_posts b)"
    unfolding answered_once_def
  proof
    fix j
    have "answer_count (br_posts b) j + (if store_abs ?st j = None then 0 else 1)
        \<le> future_count (br_futs b) j"
      using inv by (simp add: bridge_inv_def answered_once_def)
    then show "answer_count (br_posts b) j + (if store_abs ?st' j = None then 0 else 1)
        \<le> future_count (br_futs b) j"
      using gone [of j] by (auto split: if_splits)
  qed
  moreover have "cells_answered ?st' (br_futs b) (br_posts b)"
    using inv by (auto simp: bridge_inv_def cells_answered_def ps.recv_cancel [OF sinv] split: if_splits)
  moreover have "entries_owned ?st' (br_futs b)"
    using inv by (simp add: bridge_inv_def entries_owned_def ps.contents_cancel)
  ultimately show ?thesis
    using inv by (simp add: bridge_inv_def ps.inv_cancel futs_known_def futs_listening_def)
qed

lemma bridge_inv_tick: "bridge_inv X R b \<Longrightarrow> bridge_inv X R (b\<lparr>br_now := br_now b + d\<rparr>)"
  by (auto simp: bridge_inv_def deadlines_near_def intro: trans_le_add1)

lemma bridge_inv_step:
  assumes "bridge_step X R b b'" and inv: "bridge_inv X R b"
  shows "bridge_inv X R b'"
  using assms(1)
proof cases
  case (submit N r p eng')
  then show ?thesis
    using bridge_inv_register [OF inv] prepare_Inr [OF submit(2)] by (simp add: br_store_def)
next
  case (registers port r p st)
  then show ?thesis
    using bridge_inv_register [OF inv] register_Some [OF registers(2)] by (simp add: put_store_def)
next
  case (submit_failed N r e eng')
  then show ?thesis
    using bridge_inv_engine [OF inv] prepare_Inl by (fastforce simp: br_store_def)
next
  case (starts N extra)
  then show ?thesis
    using bridge_inv_engine [OF inv] by (simp add: br_store_def start_with_store)
next
  case stops
  then show ?thesis
    using bridge_inv_engine [OF inv] by (simp add: br_store_def shutdown_def)
qed (simp_all add: inv bridge_inv_poll bridge_inv_drop bridge_inv_arrive bridge_inv_check
    bridge_inv_finish bridge_inv_cancel bridge_inv_tick)

lemma bridge_inv_init: "bridge_inv X R (bridge_init (engine_new html bind browser))"
  by (simp add: bridge_inv_def bridge_inv_parts bridge_init_def engine_new_def br_store_def
      store_new_def store_inv_new [unfolded store_new_def] store_abs_def answer_count_def)

lemma bridge_reachable_inv: "bridge_reachable X R b \<Longrightarrow> bridge_inv X R b"
  by (induction rule: bridge_reachable.induct) (auto intro: bridge_inv_init bridge_inv_step)

subsection \<open>Consequences\<close>

lemma reachable_store_inv: "bridge_reachable X R b \<Longrightarrow> store_inv R (br_store b)"
  using bridge_reachable_inv by (auto simp: bridge_inv_def)

lemma reachable_outcome:
  "bridge_reachable X R b \<Longrightarrow> f \<in> set (br_futs b) \<Longrightarrow> fut_outcome f = Some out \<Longrightarrow>
     explained X (br_posts b) (fut_id f) out"
  using bridge_reachable_inv [of X R b] by (auto simp: bridge_inv_def outcomes_explained_def)

lemma explained_success: "explained X ps i (Inr v) \<longleftrightarrow> answered ps i (RSuccess v)"
  by (auto simp: explained_def eq_commute [of "Inr v"])

lemma explained_rejected:
  "explained X ps i (Inl (Rejected err code)) \<longleftrightarrow> answered ps i (RError err code)"
  by (auto simp: explained_def cancelled_error_def timeout_error_def map_result_Inl_iff
      eq_commute [of "Inl (Rejected err code)"])

lemma fut_poll_sent:
  assumes "fut_live f" and "store_recv st (fut_rx f) = Sent res"
  shows "fut_poll X now st f = (store_drop_rx st (fut_rx f), f\<lparr>fut_state := settle (map_result res)\<rparr>)"
  using assms
  by (auto simp: fut_live_def fut_poll_def poll_waiting_def poll_timeout_def split: fut_state.splits)

text \<open>An answer with 200 to a request whose future is awaited reaches that future at its next poll.\<close>

lemma finish_then_poll:
  assumes reach: "bridge_reachable X R b"
    and p: "br_posts b ! j = \<lparr>po_id = fut_id f, po_result = res, po_phase = PFinish\<rparr>"
    and f: "k < length (br_futs b)" "br_futs b ! k = f" "fut_live f"
    and e: "store_abs (br_store b) (fut_id f) = Some (r, fut_rx f)"
  shows "fut_state (br_futs (poll_step X k (finish_step j b)) ! k) = settle (map_result res)"
proof -
  have inv: "bridge_inv X R b" using reach by (rule bridge_reachable_inv)
  then have sinv: "store_inv R (br_store b)" by (simp add: bridge_inv_def)
  have "store_listening (br_store b) (fut_rx f)"
    using inv f nth_mem [OF f(1)] by (auto simp: bridge_inv_def futs_listening_def)
  then have "store_recv (fst (store_complete (br_store b) (fut_id f) res)) (fut_rx f) = Sent res"
    using ps.complete_delivers [OF sinv e] by simp
  then have "store_recv (br_store (finish_step j b)) (fut_rx f) = Sent res"
    using p by (simp add: finish_step_def Let_def post_finish_store)
  then show ?thesis
    using f fut_poll_sent [OF f(3), of "br_store (finish_step j b)" res X "br_now b"]
    by (simp add: poll_step_def finish_step_def Let_def)
qed

end
