(* ===== verification/Serve.thy ===== *)
theory Serve
  imports Bridge_Invariant
begin

section \<open>The control API\<close>

text \<open>
  \<open>serve.rs\<close> of the \<open>browser-web3-signer\<close> binary, for any chain: the state with the configured account,
  the two handlers, the mapping of errors to answers and the start-up. What awaiting \<open>Engine::submit\<close>
  gives is an argument, a function of the request that is submitted; \<open>handle_request\<close> returns its
  answer together with the request it submitted, if any. The client's lemmas stand in
  \<open>context account_impl\<close>, so each chain has them by its interpretation.
\<close>

record 'a control_state =
  cs_account :: "'a option"

definition control_configured ::
  "('r, 'a, 'y) account_ops_scheme \<Rightarrow> environment \<Rightarrow> string + 'a control_state" where
  "control_configured R env = map_ok (\<lambda>a. \<lparr>cs_account = a\<rparr>) (configured_account R env)"

definition control_request ::
  "('r, 'a, 'y) account_ops_scheme \<Rightarrow> 'a control_state \<Rightarrow> uuid \<Rightarrow> json \<Rightarrow> string + 'r" where
  "control_request R S fresh body =
     and_then (r_from_json R fresh body) (\<lambda>req.
       case cs_account S of
         Some account \<Rightarrow>
           map_err (\<lambda>reason. reason @ '' (set by '' @ a_account_env R @ '')'') (a_expecting R req account)
       | None \<Rightarrow> Inr req)"

definition error_status :: "signer_error \<Rightarrow> nat" where
  "error_status e = (case e of Rejected m c \<Rightarrow> 409 | Timeout s \<Rightarrow> 409 | Cancelled i \<Rightarrow> 409 | _ \<Rightarrow> 500)"

definition signer_error_response :: "signer_error \<Rightarrow> response" where
  "signer_error_response e =
     json_response (error_status e)
       (JObject ([(''success'', JBool False), (''error'', JString (signer_error_show e))] @
         opt_field ''code'' JString (error_code e)))"

definition success_response :: "string \<Rightarrow> response" where
  "success_response res = json_response 200 (JObject [(''success'', JBool True), (''result'', JString res)])"

text \<open>The result of the wallet, after the chain's own check of it.\<close>

definition checked_result ::
  "('r, 'y) request_ops_scheme \<Rightarrow> 'r \<Rightarrow> outcome \<Rightarrow> outcome" where
  "checked_result R sent out =
     and_then out (\<lambda>res. and_then (map_err Invalid (r_check_result R sent res)) (\<lambda>_. Inr res))"

definition answer_of :: "outcome \<Rightarrow> response" where
  "answer_of out = (case out of Inr res \<Rightarrow> success_response res | Inl e \<Rightarrow> signer_error_response e)"

definition handle_request ::
  "('r, 'a, 'y) account_ops_scheme \<Rightarrow> ('r \<Rightarrow> outcome) \<Rightarrow> 'a control_state \<Rightarrow> uuid \<Rightarrow> json \<Rightarrow>
     response \<times> 'r option" where
  "handle_request R submit S fresh body =
     (case control_request R S fresh body of
        Inl reason \<Rightarrow> (json_error 400 reason, None)
      | Inr req \<Rightarrow> (answer_of (checked_result R req (submit req)), Some req))"

definition handle_health :: "'r store \<Rightarrow> response" where
  "handle_health st =
     json_response 200 (JObject
       [(''status'', JString ''ok''), (''pendingRequests'', JNumber (PosInt (of_nat (store_len st))))])"

subsection \<open>Routes and start-up\<close>

datatype control_route = CRequest | CHealth

definition control_route_of :: "http_method \<Rightarrow> string \<Rightarrow> control_route option" where
  "control_route_of m path =
     (if path = ''/api/v1/request'' \<and> m = POST then Some CRequest
      else if path = ''/api/v1/health'' \<and> (m = GET \<or> m = HEAD) then Some CHealth
      else None)"

text \<open>
  \<open>run\<close> up to the point where it blocks: the configured account first, then the bridge with the
  control routes merged in; the port it prints, or the error it exits with.
\<close>

fun serve_started :: "(signer_error + port) \<times> 'g \<Rightarrow> string + port \<times> 'g" where
  "serve_started (Inr port, eng) = Inr (port, eng)"
| "serve_started (Inl e, eng) = Inl (''failed to start control bridge: '' @ signer_error_show e)"

definition serve_run ::
  "('r, 'a, 'y) account_ops_scheme \<Rightarrow> environment \<Rightarrow> nat net \<Rightarrow> string \<Rightarrow> bind_port \<Rightarrow> browser_choice \<Rightarrow>
     string + port \<times> ('r, 'a control_state) engine" where
  "serve_run R env N web_ui bind browser =
     and_then (control_configured R env) (\<lambda>state.
       serve_started (start_with N (Some state) (engine_new web_ui bind browser)))"

subsection \<open>Answers\<close>

lemma signer_error_response_status:
  "rs_status (signer_error_response e) = 409 \<or> rs_status (signer_error_response e) = 500"
  by (cases e) (simp_all add: signer_error_response_def json_response_def error_status_def)

lemma signer_error_response_not_200 [simp]: "rs_status (signer_error_response e) \<noteq> 200"
  using signer_error_response_status [of e] by auto

lemma success_response_status [simp]: "rs_status (success_response res) = 200"
  by (simp add: success_response_def json_response_def)

lemma answer_status: "rs_status (answer_of out) \<in> {200, 409, 500}"
  using signer_error_response_status by (cases out) (auto simp: answer_of_def)

lemma answer_of_status: "rs_status (answer_of out) = 200 \<longleftrightarrow> is_ok out"
  by (cases out) (simp_all add: answer_of_def)

lemma answer_of_body: "rs_body (answer_of (Inr res)) = BJson (result_serialize (RSuccess res))"
  by (simp add: answer_of_def success_response_def json_response_def)

text \<open>An error answer has the shape of a failed \<open>RequestResult\<close>, with the error's text and code.\<close>

lemma error_body:
  "rs_body (signer_error_response e) = BJson (result_serialize (RError (signer_error_show e) (error_code e)))"
  by (simp add: signer_error_response_def json_response_def)

lemma checked_result_Inr_iff:
  "checked_result R sent out = Inr res \<longleftrightarrow> out = Inr res \<and> r_check_result R sent res = Inr ()"
  by (auto simp: checked_result_def and_then_Inr_iff)

lemma handle_request_success:
  "handle_request R submit S fresh body = (rsp, sent) \<Longrightarrow> rs_status rsp = 200 \<longleftrightarrow>
     (\<exists>req res. sent = Some req \<and> control_request R S fresh body = Inr req \<and> submit req = Inr res \<and>
        r_check_result R req res = Inr () \<and> rsp = success_response res)"
  by (auto simp: handle_request_def answer_of_status is_ok_iff checked_result_Inr_iff answer_of_def
      json_error_def json_response_def split: sum.splits)

lemma handle_request_refused:
  "control_request R S fresh body = Inl reason \<Longrightarrow>
     handle_request R submit S fresh body = (json_error 400 reason, None)"
  by (simp add: handle_request_def)

lemma serve_started_Inr: "serve_started x = Inr (port, eng) \<Longrightarrow> x = (Inr port, eng)"
  by (cases x rule: serve_started.cases) simp_all

lemma serve_run_Inr:
  assumes "serve_run R env N web_ui bind browser = Inr (port, eng)"
    and "\<And>q. bind = Preferred q \<Longrightarrow> port_ok q"
  shows "port_ok port" and "\<exists>a. configured_account R env = Inr a"
proof -
  obtain state where state: "control_configured R env = Inr state"
      "serve_started (start_with N (Some state) (engine_new web_ui bind browser)) = Inr (port, eng)"
    using assms(1) unfolding serve_run_def and_then_Inr_iff by blast
  note s = serve_started_Inr [OF state(2)]
  from state(1) show "\<exists>a. configured_account R env = Inr a"
    unfolding control_configured_def map_ok_Inr_iff by blast
  show "port_ok port"
    by (rule start_with_port_ok [OF trans [OF arg_cong [OF s, of fst] fst_conv]])
      (simp add: engine_new_def, rule assms(2), simp add: engine_new_def)
qed

subsection \<open>The configured account\<close>

context account_impl
begin

text \<open>A request that is submitted under a configured account names that account, and no other.\<close>

lemma control_request_names:
  assumes "control_request R S fresh body = Inr req" and "cs_account S = Some a"
  shows "named_account req = Some (account_value a)"
  using assms expecting_names by (auto simp: control_request_def and_then_Inr_iff)

lemma control_request_fresh:
  "control_request R S fresh body = Inr req \<Longrightarrow> r_id R req = fresh"
  using fresh_id expecting_id
  by (auto simp: control_request_def and_then_Inr_iff split: option.splits)

lemma control_request_page:
  "control_request R S fresh body = Inr req \<Longrightarrow>
     r_url_kind R req = KConnect \<longleftrightarrow> jget body ''type'' = Some (JString ''connect'')"
  using page_of_body expecting_page
  by (fastforce simp: control_request_def and_then_Inr_iff split: option.splits)

lemma control_request_other:
  assumes "r_from_json R fresh body = Inr req" and "named_account req = Some c"
    and "cs_account S = Some a" and "c \<noteq> account_value a"
  shows "\<exists>reason. control_request R S fresh body = Inl (reason @ '' (set by '' @ a_account_env R @ '')'')"
proof -
  obtain reason where "a_expecting R req a = Inl reason"
    using expecting_refuses_other [OF assms(2,4)] by blast
  with assms(1,3) show ?thesis by (simp add: control_request_def)
qed

end

end
