(* ===== verification/Core_Bytes.thy ===== *)
theory Core_Bytes
  imports Core_Parse
begin

section \<open>Byte strings: hex data, transaction hashes, signatures\<close>

text \<open>
  \<open>bytes.rs\<close> of \<open>browser-web3-signer-core\<close>. The hex package is a parameter; the three parsers strip
  one \<open>0x\<close> and then differ in what they refuse: a hash that is not 32 bytes, a signature that is
  empty. \<open>tx_hash_ok\<close> is the invariant of \<open>TxHash([u8; 32])\<close>.
\<close>

datatype hex_data = HexData (hd_bytes: "u8 list")
datatype tx_hash = TxHash (th_bytes: "u8 list")
datatype signature = Signature (sig_bytes: "u8 list")

definition tx_hash_ok :: "tx_hash \<Rightarrow> bool" where
  "tx_hash_ok h \<longleftrightarrow> length (th_bytes h) = 32"

definition hex_raw :: "string \<Rightarrow> string" where
  "hex_raw s = unwrap_or (strip_prefix ''0x'' s) s"

definition hex_prefixed :: "'x core_ext_scheme \<Rightarrow> u8 list \<Rightarrow> string" where
  "hex_prefixed X bs = ''0x'' @ x_hex_encode X bs"

definition hex_data_is_empty :: "hex_data \<Rightarrow> bool" where
  "hex_data_is_empty d \<longleftrightarrow> hd_bytes d = []"

definition hex_data_show :: "'x core_ext_scheme \<Rightarrow> hex_data \<Rightarrow> string" where
  "hex_data_show X d = hex_prefixed X (hd_bytes d)"

definition hex_data_from_str :: "'x core_ext_scheme \<Rightarrow> string \<Rightarrow> string + hex_data" where
  "hex_data_from_str X s =
     map_err (\<lambda>e. ''invalid hex data '' @ x_debug X s @ '': '' @ e)
       (map_ok HexData (x_hex_decode X (hex_raw s)))"

definition tx_hash_to_hex :: "'x core_ext_scheme \<Rightarrow> tx_hash \<Rightarrow> string" where
  "tx_hash_to_hex X h = x_hex_encode X (th_bytes h)"

definition tx_hash_show :: "'x core_ext_scheme \<Rightarrow> tx_hash \<Rightarrow> string" where
  "tx_hash_show X h = hex_prefixed X (th_bytes h)"

text \<open>The text of \<open>TryFromSliceError\<close>.\<close>

definition slice_error :: string where
  "slice_error = ''could not convert slice to array''"

definition tx_hash_from_str :: "'x core_ext_scheme \<Rightarrow> string \<Rightarrow> string + tx_hash" where
  "tx_hash_from_str X s =
     and_then
       (map_err (\<lambda>e. ''invalid tx hash '' @ x_debug X s @ '': '' @ e) (x_hex_decode X (hex_raw s)))
       (\<lambda>bs. if length bs = 32 then Inr (TxHash bs)
             else Inl (''invalid tx hash '' @ x_debug X s @ '': expected 32 bytes ('' @ slice_error @ '')''))"

definition signature_show :: "'x core_ext_scheme \<Rightarrow> signature \<Rightarrow> string" where
  "signature_show X g = hex_prefixed X (sig_bytes g)"

definition signature_from_str :: "'x core_ext_scheme \<Rightarrow> string \<Rightarrow> string + signature" where
  "signature_from_str X s =
     and_then
       (map_err (\<lambda>e. ''invalid signature '' @ x_debug X s @ '': '' @ e) (x_hex_decode X (hex_raw s)))
       (\<lambda>bs. if bs = [] then Inl (''invalid signature '' @ x_debug X s @ '': empty'')
             else Inr (Signature bs))"

subsection \<open>Parsing\<close>

lemma hex_raw_prefixed [simp]: "hex_raw (hex_prefixed X bs) = x_hex_encode X bs"
  by (simp add: hex_raw_def hex_prefixed_def strip_prefix_def)

lemma hex_raw_bare: "hex_laws X \<Longrightarrow> hex_raw (x_hex_encode X bs) = x_hex_encode X bs"
  by (simp add: hex_raw_def hex_laws_no_prefix)

lemma hex_data_from_str_show [wire]:
  "hex_laws X \<Longrightarrow> hex_data_from_str X (hex_data_show X d) = Inr d"
  by (simp add: hex_data_from_str_def hex_data_show_def hex_laws_decode)

lemma tx_hash_from_str_ok: "tx_hash_from_str X s = Inr h \<Longrightarrow> tx_hash_ok h"
  by (auto simp: tx_hash_from_str_def result_iff tx_hash_ok_def split: if_splits)

lemma tx_hash_from_str_Inr_iff [result_iff]:
  "tx_hash_from_str X s = Inr h \<longleftrightarrow> x_hex_decode X (hex_raw s) = Inr (th_bytes h) \<and> tx_hash_ok h"
  by (cases h) (auto simp: tx_hash_from_str_def result_iff tx_hash_ok_def)

lemma signature_from_str_Inr_iff [result_iff]:
  "signature_from_str X s = Inr g \<longleftrightarrow> x_hex_decode X (hex_raw s) = Inr (sig_bytes g) \<and> sig_bytes g \<noteq> []"
  by (cases g) (auto simp: signature_from_str_def result_iff)

text \<open>A hash reads back from both of its printed forms, and from nothing shorter or longer.\<close>

lemma tx_hash_reads_back:
  "hex_laws X \<Longrightarrow> tx_hash_ok h \<Longrightarrow>
     tx_hash_from_str X (tx_hash_show X h) = Inr h \<and> tx_hash_from_str X (tx_hash_to_hex X h) = Inr h"
  by (simp add: tx_hash_from_str_Inr_iff tx_hash_show_def tx_hash_to_hex_def hex_raw_bare hex_laws_decode)

lemma tx_hash_to_hex_length: "hex_laws X \<Longrightarrow> tx_hash_ok h \<Longrightarrow> length (tx_hash_to_hex X h) = 64"
  by (simp add: tx_hash_to_hex_def hex_laws_length tx_hash_ok_def)

lemma signature_reads_back:
  "hex_laws X \<Longrightarrow> sig_bytes g \<noteq> [] \<Longrightarrow> signature_from_str X (signature_show X g) = Inr g"
  by (simp add: signature_from_str_Inr_iff signature_show_def hex_laws_decode)

end
