(* ===== verification/Evm_Domain.thy ===== *)
theory Evm_Domain
  imports Core_Bytes Core_Config Core_Types
begin

section \<open>EVM: domain types and configuration\<close>

text \<open>
  \<open>domain.rs\<close> and \<open>config.rs\<close> of \<open>browser-web3-signer-evm\<close>. The primitives of \<open>alloy\<close> are parameters,
  the fields of \<open>evm_ext\<close>: the parsers and printers of an address, a 256-bit integer and a byte
  string, and \<open>format_units\<close>. A parser's error is its text. \<open>evm_laws\<close> states that each printer's
  output reads back, which the interpretations of \<open>wire_codec\<close> at the end of each use need.
\<close>

subsection \<open>The alloy primitives\<close>

record evm_ext = core_ext +
  x_addr_parse :: "string \<Rightarrow> string + 160 word"
  x_addr_lower :: "160 word \<Rightarrow> string"
  x_u256_parse :: "string \<Rightarrow> string + u256"
  x_u256_show :: "u256 \<Rightarrow> string"
  x_bytes_parse :: "string \<Rightarrow> string + u8 list"
  x_bytes_show :: "u8 list \<Rightarrow> string"
  x_format_units :: "u256 \<Rightarrow> u8 \<Rightarrow> string option"
  x_format_ether :: "u256 \<Rightarrow> string"

definition evm_laws :: "'x evm_ext_scheme \<Rightarrow> bool" where
  "evm_laws X \<longleftrightarrow>
     (\<forall>a. x_addr_parse X (x_addr_lower X a) = Inr a) \<and>
     (\<forall>w. x_u256_parse X (x_u256_show X w) = Inr w) \<and>
     (\<forall>bs. x_bytes_parse X (x_bytes_show X bs) = Inr bs)"

subsection \<open>Domain types\<close>

datatype chain_id = ChainId (chain_id_get: u64)

definition chain_id_show :: "chain_id \<Rightarrow> string" where
  "chain_id_show c = show_word (chain_id_get c)"

definition chain_id_from_str :: "string \<Rightarrow> domain_parse_error + chain_id" where
  "chain_id_from_str s =
     map_err (\<lambda>e. dpe_new ''chain id'' s (int_error_show e)) (map_ok ChainId (parse_word s))"

definition chain_id_json :: "chain_id \<Rightarrow> json" where
  "chain_id_json c = JNumber (PosInt (chain_id_get c))"

datatype address = Address (addr_inner: "160 word")

definition address_from_str :: "'x evm_ext_scheme \<Rightarrow> string \<Rightarrow> domain_parse_error + address" where
  "address_from_str X s =
     map_err (\<lambda>e. dpe_new ''address'' s e) (map_ok Address (x_addr_parse X s))"

definition address_show :: "'x evm_ext_scheme \<Rightarrow> address \<Rightarrow> string" where
  "address_show X a = x_addr_lower X (addr_inner a)"

datatype wei = Wei (wei_get: u256)

definition wei_from_str :: "'x evm_ext_scheme \<Rightarrow> string \<Rightarrow> domain_parse_error + wei" where
  "wei_from_str X s = map_err (\<lambda>e. dpe_new ''wei'' s e) (map_ok Wei (x_u256_parse X s))"

definition wei_show :: "'x evm_ext_scheme \<Rightarrow> wei \<Rightarrow> string" where
  "wei_show X w = x_u256_show X (wei_get w)"

definition wei_to_ether_string :: "'x evm_ext_scheme \<Rightarrow> wei \<Rightarrow> string" where
  "wei_to_ether_string X w = x_format_ether X (wei_get w)"

definition wei_to_units_string :: "'x evm_ext_scheme \<Rightarrow> wei \<Rightarrow> u8 \<Rightarrow> string option" where
  "wei_to_units_string X w decimals = x_format_units X (wei_get w) decimals"

datatype call_data = CallData (cd_bytes: "u8 list")

definition call_data_from_str :: "'x evm_ext_scheme \<Rightarrow> string \<Rightarrow> domain_parse_error + call_data" where
  "call_data_from_str X s =
     map_err (\<lambda>e. dpe_new ''calldata'' s e) (map_ok CallData (x_bytes_parse X s))"

definition call_data_show :: "'x evm_ext_scheme \<Rightarrow> call_data \<Rightarrow> string" where
  "call_data_show X d = x_bytes_show X (cd_bytes d)"

datatype decimals = Decimals (decimals_get: u8)

definition decimals_show :: "decimals \<Rightarrow> string" where
  "decimals_show d = show_word (decimals_get d)"

datatype symbol = Symbol (symbol_str: string)

definition symbol_is_empty :: "symbol \<Rightarrow> bool" where
  "symbol_is_empty s \<longleftrightarrow> symbol_str s = []"

definition symbol_show :: "symbol \<Rightarrow> string" where
  "symbol_show s = symbol_str s"

record token_amount =
  ta_raw :: u256
  ta_decimals :: decimals

definition token_amount_new :: "u256 \<Rightarrow> decimals \<Rightarrow> token_amount" where
  "token_amount_new raw decimals = \<lparr>ta_raw = raw, ta_decimals = decimals\<rparr>"

definition to_decimal_string :: "'x evm_ext_scheme \<Rightarrow> token_amount \<Rightarrow> string" where
  "to_decimal_string X t =
     unwrap_or (x_format_units X (ta_raw t) (decimals_get (ta_decimals t))) (x_u256_show X (ta_raw t))"

definition token_show :: "'x evm_ext_scheme \<Rightarrow> token_amount \<Rightarrow> string" where
  "token_show X t = to_decimal_string X t"

lemma chain_id_roundtrip: "chain_id_from_str (chain_id_show c) = Inr c"
  by (simp add: chain_id_from_str_def chain_id_show_def)

lemma address_codec: "evm_laws X \<Longrightarrow> wire_codec (address_from_str X) (address_show X)"
  by unfold_locales (simp add: evm_laws_def address_from_str_def address_show_def)

lemma wei_codec: "evm_laws X \<Longrightarrow> wire_codec (wei_from_str X) (wei_show X)"
  by unfold_locales (simp add: evm_laws_def wei_from_str_def wei_show_def)

lemma call_data_codec: "evm_laws X \<Longrightarrow> wire_codec (call_data_from_str X) (call_data_show X)"
  by unfold_locales (simp add: evm_laws_def call_data_from_str_def call_data_show_def)

lemmas evm_opt_wire =
  wire_codec.opt_parsed_render [OF address_codec]
  wire_codec.opt_parsed_render [OF wei_codec]
  wire_codec.opt_parsed_render [OF call_data_codec]

subsection \<open>config.rs\<close>

definition EVM_PORT_ENV :: string where
  "EVM_PORT_ENV = ''BROWSER_WEB3_EVM_PORT''"

definition EVM_CHAIN_ENV :: string where
  "EVM_CHAIN_ENV = ''BROWSER_WEB3_EVM_CHAIN''"

definition EVM_ACCOUNT_ENV :: string where
  "EVM_ACCOUNT_ENV = ''BROWSER_WEB3_EVM_ACCOUNT''"

definition DEFAULT_CHAIN_ID :: chain_id where
  "DEFAULT_CHAIN_ID = ChainId 1"

definition evm_port :: "'x core_ext_scheme \<Rightarrow> environment \<Rightarrow> port" where
  "evm_port X env = port_from_env X env EVM_PORT_ENV DEFAULT_PORT"

definition default_chain_id :: "environment \<Rightarrow> chain_id" where
  "default_chain_id env =
     (case Option.bind (env_ok env EVM_CHAIN_ENV) (\<lambda>v. ok (parse_word v)) of
        Some v \<Rightarrow> if 0 < v then ChainId v else DEFAULT_CHAIN_ID
      | None \<Rightarrow> DEFAULT_CHAIN_ID)"

record chain_config =
  cc_id :: chain_id
  cc_name :: string
  cc_symbol :: string
  cc_decimals :: u8
  cc_block_explorer :: "string option"

definition CHAINS :: "chain_config list" where
  "CHAINS =
     [\<lparr>cc_id = ChainId 1, cc_name = ''Ethereum'', cc_symbol = ''ETH'', cc_decimals = 18,
       cc_block_explorer = Some ''https://etherscan.io''\<rparr>,
      \<lparr>cc_id = ChainId 11155111, cc_name = ''Sepolia'', cc_symbol = ''ETH'', cc_decimals = 18,
       cc_block_explorer = Some ''https://sepolia.etherscan.io''\<rparr>,
      \<lparr>cc_id = ChainId 137, cc_name = ''Polygon'', cc_symbol = ''MATIC'', cc_decimals = 18,
       cc_block_explorer = Some ''https://polygonscan.com''\<rparr>,
      \<lparr>cc_id = ChainId 42161, cc_name = ''Arbitrum One'', cc_symbol = ''ETH'', cc_decimals = 18,
       cc_block_explorer = Some ''https://arbiscan.io''\<rparr>,
      \<lparr>cc_id = ChainId 10, cc_name = ''Optimism'', cc_symbol = ''ETH'', cc_decimals = 18,
       cc_block_explorer = Some ''https://optimistic.etherscan.io''\<rparr>,
      \<lparr>cc_id = ChainId 8453, cc_name = ''Base'', cc_symbol = ''ETH'', cc_decimals = 18,
       cc_block_explorer = Some ''https://basescan.org''\<rparr>,
      \<lparr>cc_id = ChainId 43114, cc_name = ''Avalanche'', cc_symbol = ''AVAX'', cc_decimals = 18,
       cc_block_explorer = Some ''https://snowtrace.io''\<rparr>,
      \<lparr>cc_id = ChainId 56, cc_name = ''BNB Smart Chain'', cc_symbol = ''BNB'', cc_decimals = 18,
       cc_block_explorer = Some ''https://bscscan.com''\<rparr>]"

definition chain_config_of :: "chain_id \<Rightarrow> chain_config option" where
  "chain_config_of i = find (\<lambda>c. cc_id c = i) CHAINS"

lemma chain_ids_distinct: "distinct (map cc_id CHAINS)"
  by (simp add: CHAINS_def)

lemma find_distinct_key:
  "distinct (map f xs) \<Longrightarrow> find (\<lambda>x. f x = k) xs = Some x \<longleftrightarrow> x \<in> set xs \<and> f x = k"
  by (induction xs) (auto simp: image_iff)

text \<open>The lookup finds a built-in chain by its id, and only that chain.\<close>

lemma chain_config_of_iff: "chain_config_of i = Some c \<longleftrightarrow> c \<in> set CHAINS \<and> cc_id c = i"
  unfolding chain_config_of_def by (rule find_distinct_key [OF chain_ids_distinct])

lemma default_chain_id_positive: "0 < chain_id_get (default_chain_id env)"
  by (auto simp: default_chain_id_def DEFAULT_CHAIN_ID_def split: option.splits)

lemma default_chain_id_set:
  "env EVM_CHAIN_ENV = EnvSet (show_word v) \<Longrightarrow> 0 < v \<Longrightarrow> default_chain_id env = ChainId v"
  by (simp add: default_chain_id_def env_ok_def)

lemma evm_port_ok: "port_ok (evm_port X env)"
  unfolding evm_port_def by (rule port_from_env_ok) (simp add: port_ok_def DEFAULT_PORT_def)

end
