(* ===== verification/Evm_Types.thy ===== *)
theory Evm_Types
  imports Evm_Domain
begin

section \<open>EVM: requests\<close>

text \<open>
  \<open>types.rs\<close> of \<open>browser-web3-signer-evm\<close>: the request enum with its wire form, \<open>from_json\<close> and
  \<open>expecting\<close>. A request built by a constructor function draws a fresh id, its first argument here.
  The fields of \<open>from_json\<close> are read in the order of the source's struct literals, so the first bad
  one is the one reported. The section ends with the interpretations of \<open>request_impl\<close> and
  \<open>account_impl\<close> on these definitions.
\<close>

subsection \<open>Data\<close>

record typed_data =
  td_domain :: json
  td_types :: json
  td_primary_type :: string
  td_message :: json

datatype signable_message = MsgText string | MsgRaw "u8 list"

datatype evm_request =
    EvmConnect request_meta "chain_id option" "address option" "url option" "string option"
  | EvmSendTransaction request_meta "chain_id option" "address option" "address option" "wei option"
      "call_data option" "wei option" "wei option" "wei option"
  | EvmSignMessage request_meta "chain_id option" signable_message "address option"
  | EvmSignTypedData request_meta "chain_id option" typed_data "address option"

record connect_params =
  cp_chain_id :: "chain_id option"
  cp_address :: "address option"
  cp_rpc_url :: "url option"
  cp_chain_name :: "string option"

record send_transaction_params =
  sp_to :: "address option"
  sp_from :: "address option"
  sp_value :: "wei option"
  sp_data :: "call_data option"
  sp_chain_id :: "chain_id option"
  sp_gas_limit :: "wei option"
  sp_max_fee_per_gas :: "wei option"
  sp_max_priority_fee_per_gas :: "wei option"

subsection \<open>Constructors\<close>

definition evm_connect_with :: "uuid \<Rightarrow> connect_params \<Rightarrow> evm_request" where
  "evm_connect_with fresh p =
     EvmConnect (request_meta_new fresh) (cp_chain_id p) (cp_address p) (cp_rpc_url p) (cp_chain_name p)"

definition evm_connect :: "uuid \<Rightarrow> chain_id option \<Rightarrow> address option \<Rightarrow> evm_request" where
  "evm_connect fresh chain_id address =
     evm_connect_with fresh
       \<lparr>cp_chain_id = chain_id, cp_address = address, cp_rpc_url = None, cp_chain_name = None\<rparr>"

definition evm_send_transaction :: "uuid \<Rightarrow> send_transaction_params \<Rightarrow> evm_request" where
  "evm_send_transaction fresh p =
     EvmSendTransaction (request_meta_new fresh) (sp_chain_id p) (sp_to p) (sp_from p) (sp_value p)
       (sp_data p) (sp_gas_limit p) (sp_max_fee_per_gas p) (sp_max_priority_fee_per_gas p)"

definition evm_sign_message ::
  "uuid \<Rightarrow> signable_message \<Rightarrow> address option \<Rightarrow> chain_id option \<Rightarrow> evm_request" where
  "evm_sign_message fresh message address chain_id =
     EvmSignMessage (request_meta_new fresh) chain_id message address"

definition evm_sign_typed_data ::
  "uuid \<Rightarrow> typed_data \<Rightarrow> address option \<Rightarrow> chain_id option \<Rightarrow> evm_request" where
  "evm_sign_typed_data fresh typed_data address chain_id =
     EvmSignTypedData (request_meta_new fresh) chain_id typed_data address"

definition send_check :: "send_transaction_params \<Rightarrow> string + unit" where
  "send_check p =
     (case (sp_to p, sp_data p) of
        (None, None) \<Rightarrow>
          Inl (''a transaction without '' @ quoted ''to'' @ '' deploys a contract from '' @
               quoted ''data'' @ '', which it lacks'')
      | (None, Some data) \<Rightarrow>
          if cd_bytes data = [] then
            Inl (''a transaction without '' @ quoted ''to'' @ '' deploys a contract from '' @
                 quoted ''data'' @ '', which is empty'')
          else Inr ()
      | _ \<Rightarrow> Inr ())"

lemma send_check_Inr_iff:
  "send_check p = Inr u \<longleftrightarrow> sp_to p \<noteq> None \<or> (\<exists>data. sp_data p = Some data \<and> cd_bytes data \<noteq> [])"
  by (auto simp: send_check_def split: option.splits)

subsection \<open>Wire form\<close>

definition message_json :: "'x evm_ext_scheme \<Rightarrow> signable_message \<Rightarrow> json" where
  "message_json X m =
     (case m of
        MsgText t \<Rightarrow> JString t
      | MsgRaw raw \<Rightarrow> JObject [(''raw'', JString (x_bytes_show X raw))])"

definition address_field :: "'x evm_ext_scheme \<Rightarrow> string \<Rightarrow> address option \<Rightarrow> (string \<times> json) list" where
  "address_field X k a = opt_field k (\<lambda>a. JString (address_show X a)) a"

definition wei_field :: "'x evm_ext_scheme \<Rightarrow> string \<Rightarrow> wei option \<Rightarrow> (string \<times> json) list" where
  "wei_field X k w = opt_field k (\<lambda>w. JString (wei_show X w)) w"

fun evm_serialize :: "'x evm_ext_scheme \<Rightarrow> evm_request \<Rightarrow> json" where
  "evm_serialize X (EvmConnect m chain_id address rpc_url chain_name) =
     tagged X ''connect'' m
       (opt_field ''chainId'' chain_id_json chain_id @ address_field X ''address'' address @
        opt_field ''rpcUrl'' JString rpc_url @ opt_field ''chainName'' JString chain_name)"
| "evm_serialize X (EvmSendTransaction m chain_id to from value data gas fee prio) =
     tagged X ''send_transaction'' m
       (opt_field ''chainId'' chain_id_json chain_id @ address_field X ''to'' to @
        address_field X ''from'' from @ wei_field X ''value'' value @
        opt_field ''data'' (\<lambda>d. JString (call_data_show X d)) data @
        wei_field X ''gasLimit'' gas @ wei_field X ''maxFeePerGas'' fee @
        wei_field X ''maxPriorityFeePerGas'' prio)"
| "evm_serialize X (EvmSignMessage m chain_id message address) =
     tagged X ''sign_message'' m
       (opt_field ''chainId'' chain_id_json chain_id @ [(''message'', message_json X message)] @
        address_field X ''address'' address)"
| "evm_serialize X (EvmSignTypedData m chain_id td address) =
     tagged X ''sign_typed_data'' m
       (opt_field ''chainId'' chain_id_json chain_id @
        [(''domain'', td_domain td), (''types'', td_types td),
         (''primaryType'', JString (td_primary_type td)), (''message'', td_message td)] @
        address_field X ''address'' address)"

subsection \<open>from_json\<close>

definition evm_message_from_json :: "'x evm_ext_scheme \<Rightarrow> json \<Rightarrow> string + signable_message" where
  "evm_message_from_json X body =
     (case jget body ''message'' of
        Some (JString text) \<Rightarrow> Inr (MsgText text)
      | Some (JObject fs) \<Rightarrow> map_ok MsgRaw (req_parsed (\<lambda>e. e) (x_bytes_parse X) (JObject fs) ''raw'')
      | _ \<Rightarrow> Inl (''missing '' @ quoted ''message'' @ '': expected a string or { raw: '' @
                  [CHR 0x22] @ ''0x'' @ [CHR 0xE2, CHR 0x80, CHR 0xA6, CHR 0x22] @ '' }''))"

definition json_field :: "json \<Rightarrow> string \<Rightarrow> json" where
  "json_field body key = unwrap_or (jget body key) (JObject [])"

definition str_opt :: "json \<Rightarrow> string \<Rightarrow> string option" where
  "str_opt body key = Option.bind (jget body key) as_str"

definition opt_address :: "'x evm_ext_scheme \<Rightarrow> json \<Rightarrow> string \<Rightarrow> string + address option" where
  "opt_address X = opt_parsed dpe_show (address_from_str X)"

definition opt_wei :: "'x evm_ext_scheme \<Rightarrow> json \<Rightarrow> string \<Rightarrow> string + wei option" where
  "opt_wei X = opt_parsed dpe_show (wei_from_str X)"

definition evm_send_params ::
  "'x evm_ext_scheme \<Rightarrow> json \<Rightarrow> chain_id option \<Rightarrow> string + send_transaction_params" where
  "evm_send_params X body chain_id =
     and_then (opt_address X body ''to'') (\<lambda>to.
     and_then (opt_address X body ''from'') (\<lambda>from.
     and_then (opt_wei X body ''value'') (\<lambda>value.
     and_then (opt_parsed dpe_show (call_data_from_str X) body ''data'') (\<lambda>data.
     and_then (opt_wei X body ''gasLimit'') (\<lambda>gas.
     and_then (opt_wei X body ''maxFeePerGas'') (\<lambda>fee.
     and_then (opt_wei X body ''maxPriorityFeePerGas'') (\<lambda>prio.
       Inr \<lparr>sp_to = to, sp_from = from, sp_value = value, sp_data = data, sp_chain_id = chain_id,
            sp_gas_limit = gas, sp_max_fee_per_gas = fee, sp_max_priority_fee_per_gas = prio\<rparr>)))))))"

definition evm_from_json :: "'x evm_ext_scheme \<Rightarrow> uuid \<Rightarrow> json \<Rightarrow> string + evm_request" where
  "evm_from_json X fresh body =
     and_then (str_field body ''type'') (\<lambda>typ.
       let chain_id = map_option ChainId (Option.bind (jget body ''chainId'') as_u64)
       in if typ = ''connect'' then
            and_then (opt_address X body ''address'') (\<lambda>address.
            and_then (opt_parsed (\<lambda>e. e) (x_url_parse X) body ''rpcUrl'') (\<lambda>rpc_url.
              Inr (evm_connect_with fresh
                \<lparr>cp_chain_id = chain_id, cp_address = address, cp_rpc_url = rpc_url,
                 cp_chain_name = str_opt body ''chainName''\<rparr>)))
          else if typ = ''send_transaction'' then
            and_then (evm_send_params X body chain_id) (\<lambda>params.
            and_then (send_check params) (\<lambda>_.
              Inr (evm_send_transaction fresh params)))
          else if typ = ''sign_message'' then
            and_then (evm_message_from_json X body) (\<lambda>message.
            and_then (opt_address X body ''address'') (\<lambda>address.
              Inr (evm_sign_message fresh message address chain_id)))
          else if typ = ''sign_typed_data'' then
            and_then (str_field body ''primaryType'') (\<lambda>primary.
            and_then (opt_address X body ''address'') (\<lambda>address.
              Inr (evm_sign_typed_data fresh
                \<lparr>td_domain = json_field body ''domain'', td_types = json_field body ''types'',
                 td_primary_type = primary, td_message = json_field body ''message''\<rparr>
                address chain_id)))
          else Inl (''unknown request type: '' @ typ))"

subsection \<open>The Request and ExpectedAccount methods\<close>

fun evm_meta :: "evm_request \<Rightarrow> request_meta" where
  "evm_meta (EvmConnect m _ _ _ _) = m"
| "evm_meta (EvmSendTransaction m _ _ _ _ _ _ _ _) = m"
| "evm_meta (EvmSignMessage m _ _ _) = m"
| "evm_meta (EvmSignTypedData m _ _ _) = m"

fun evm_url_kind :: "evm_request \<Rightarrow> url_kind" where
  "evm_url_kind (EvmConnect _ _ _ _ _) = KConnect"
| "evm_url_kind _ = KSign"

fun evm_expecting :: "'x evm_ext_scheme \<Rightarrow> evm_request \<Rightarrow> address \<Rightarrow> string + evm_request" where
  "evm_expecting X (EvmConnect m c address u n) account =
     map_ok (\<lambda>a. EvmConnect m c a u n) (expect_account (address_show X) address account)"
| "evm_expecting X (EvmSendTransaction m c to from v d g f p) account =
     map_ok (\<lambda>a. EvmSendTransaction m c to a v d g f p) (expect_account (address_show X) from account)"
| "evm_expecting X (EvmSignMessage m c msg address) account =
     map_ok (\<lambda>a. EvmSignMessage m c msg a) (expect_account (address_show X) address account)"
| "evm_expecting X (EvmSignTypedData m c td address) account =
     map_ok (\<lambda>a. EvmSignTypedData m c td a) (expect_account (address_show X) address account)"

text \<open>The account a request names: \<open>from\<close> of a transaction, \<open>address\<close> of the others.\<close>

fun evm_account :: "evm_request \<Rightarrow> address option" where
  "evm_account (EvmConnect _ _ a _ _) = a"
| "evm_account (EvmSendTransaction _ _ _ from _ _ _ _ _) = from"
| "evm_account (EvmSignMessage _ _ _ a) = a"
| "evm_account (EvmSignTypedData _ _ _ a) = a"

fun evm_set_account :: "address option \<Rightarrow> evm_request \<Rightarrow> evm_request" where
  "evm_set_account a (EvmConnect m c _ u n) = EvmConnect m c a u n"
| "evm_set_account a (EvmSendTransaction m c to _ v d g f p) = EvmSendTransaction m c to a v d g f p"
| "evm_set_account a (EvmSignMessage m c msg _) = EvmSignMessage m c msg a"
| "evm_set_account a (EvmSignTypedData m c td _) = EvmSignTypedData m c td a"

lemma evm_expecting_eq:
  "evm_expecting X r a =
     map_ok (\<lambda>f. evm_set_account f r) (expect_account (address_show X) (evm_account r) a)"
  by (cases r) simp_all

definition evm_ops :: "'x evm_ext_scheme \<Rightarrow> (evm_request, address) account_ops" where
  "evm_ops X =
     \<lparr>r_id = (\<lambda>r. meta_id (evm_meta r)), r_url_kind = evm_url_kind, r_serialize = evm_serialize X,
      r_from_json = evm_from_json X, r_check_result = accept_any, a_account_env = EVM_ACCOUNT_ENV,
      a_parse = (\<lambda>s. map_err dpe_show (address_from_str X s)), a_expecting = evm_expecting X\<rparr>"

lemma evm_ops_simps [simp]:
  "r_id (evm_ops X) r = meta_id (evm_meta r)"
  "r_url_kind (evm_ops X) = evm_url_kind"
  "r_serialize (evm_ops X) = evm_serialize X"
  "r_from_json (evm_ops X) = evm_from_json X"
  "r_check_result (evm_ops X) = accept_any"
  "a_account_env (evm_ops X) = EVM_ACCOUNT_ENV"
  "a_expecting (evm_ops X) = evm_expecting X"
  by (simp_all add: evm_ops_def)

subsection \<open>The wire form reads back\<close>

definition evm_wf :: "'x evm_ext_scheme \<Rightarrow> evm_request \<Rightarrow> bool" where
  "evm_wf X r \<longleftrightarrow>
     (case r of
        EvmConnect m c a u n \<Rightarrow> (case u of Some url \<Rightarrow> x_url_parse X url = Inr url | None \<Rightarrow> True)
      | EvmSendTransaction m c to from v d g f p \<Rightarrow>
          to \<noteq> None \<or> (case d of Some data \<Rightarrow> cd_bytes data \<noteq> [] | None \<Rightarrow> False)
      | _ \<Rightarrow> True)"

fun evm_with_id :: "uuid \<Rightarrow> evm_request \<Rightarrow> evm_request" where
  "evm_with_id i (EvmConnect m c a u n) = EvmConnect (request_meta_new i) c a u n"
| "evm_with_id i (EvmSendTransaction m c to from v d g f p) =
     EvmSendTransaction (request_meta_new i) c to from v d g f p"
| "evm_with_id i (EvmSignMessage m c msg a) = EvmSignMessage (request_meta_new i) c msg a"
| "evm_with_id i (EvmSignTypedData m c td a) = EvmSignTypedData (request_meta_new i) c td a"

lemma chain_id_wire [wire]:
  "map_option ChainId (Option.bind (map_option chain_id_json c) as_u64) = c"
  by (cases c) (simp_all add: chain_id_json_def)

lemma address_field_wire [wire]:
  "map_of (address_field X k a) k' = (if k' = k then map_option (\<lambda>a. JString (address_show X a)) a else None)"
  by (simp add: address_field_def wire)

lemma wei_field_wire [wire]:
  "map_of (wei_field X k w) k' = (if k' = k then map_option (\<lambda>w. JString (wei_show X w)) w else None)"
  by (simp add: wei_field_def wire)

lemma opt_address_wire [wire]:
  "evm_laws X \<Longrightarrow> jget body k = map_option (\<lambda>a. JString (address_show X a)) a \<Longrightarrow>
     opt_address X body k = Inr a"
  unfolding opt_address_def by (rule wire_codec.opt_parsed_render [OF address_codec])

lemma opt_wei_wire [wire]:
  "evm_laws X \<Longrightarrow> jget body k = map_option (\<lambda>w. JString (wei_show X w)) w \<Longrightarrow>
     opt_wei X body k = Inr w"
  unfolding opt_wei_def by (rule wire_codec.opt_parsed_render [OF wei_codec])

lemma str_opt_wire [wire]: "jget body k = map_option JString s \<Longrightarrow> str_opt body k = s"
  by (cases s) (simp_all add: str_opt_def)

lemma url_wire [wire]:
  "jget body k = map_option JString u \<Longrightarrow>
   (case u of Some url \<Rightarrow> x_url_parse X url = Inr url | None \<Rightarrow> True) \<Longrightarrow>
     opt_parsed se (x_url_parse X) body k = Inr u"
  by (cases u) (simp_all add: opt_parsed_def)

lemma evm_message_wire:
  "evm_laws X \<Longrightarrow> jget body ''message'' = Some (message_json X m) \<Longrightarrow>
     evm_message_from_json X body = Inr m"
  by (cases m)
    (simp_all add: message_json_def evm_message_from_json_def req_parsed_def str_field_def evm_laws_def)

lemma evm_roundtrip_connect:
  assumes "evm_laws X" and "evm_wf X (EvmConnect m c a u n)"
  shows "evm_from_json X i (evm_serialize X (EvmConnect m c a u n)) =
    Inr (EvmConnect (request_meta_new i) c a u n)"
proof -
  let ?j = "evm_serialize X (EvmConnect m c a u n)"
  have j: "jget ?j ''type'' = Some (JString ''connect'')"
      "jget ?j ''chainId'' = map_option chain_id_json c"
      "jget ?j ''address'' = map_option (\<lambda>a. JString (address_show X a)) a"
      "jget ?j ''rpcUrl'' = map_option JString u"
      "jget ?j ''chainName'' = map_option JString n"
    by (simp_all add: wire)
  show ?thesis
    using assms
    by (simp add: evm_from_json_def str_field_wire [OF j(1)] j(2) opt_address_wire [OF assms(1) j(3)]
        url_wire [OF j(4)] str_opt_wire [OF j(5)] chain_id_wire evm_connect_with_def evm_wf_def
        del: evm_serialize.simps)
qed

lemma evm_roundtrip_send:
  assumes "evm_laws X" and "evm_wf X (EvmSendTransaction m c to from v d g f p)"
  shows "evm_from_json X i (evm_serialize X (EvmSendTransaction m c to from v d g f p)) =
    Inr (EvmSendTransaction (request_meta_new i) c to from v d g f p)"
proof -
  let ?j = "evm_serialize X (EvmSendTransaction m c to from v d g f p)"
  have j: "jget ?j ''type'' = Some (JString ''send_transaction'')"
      "jget ?j ''chainId'' = map_option chain_id_json c"
      "jget ?j ''to'' = map_option (\<lambda>a. JString (address_show X a)) to"
      "jget ?j ''from'' = map_option (\<lambda>a. JString (address_show X a)) from"
      "jget ?j ''value'' = map_option (\<lambda>w. JString (wei_show X w)) v"
      "jget ?j ''data'' = map_option (\<lambda>d. JString (call_data_show X d)) d"
      "jget ?j ''gasLimit'' = map_option (\<lambda>w. JString (wei_show X w)) g"
      "jget ?j ''maxFeePerGas'' = map_option (\<lambda>w. JString (wei_show X w)) f"
      "jget ?j ''maxPriorityFeePerGas'' = map_option (\<lambda>w. JString (wei_show X w)) p"
    by (simp_all add: wire)
  note data = wire_codec.opt_parsed_render [OF call_data_codec [OF assms(1)] j(6)]
  show ?thesis
    using assms(2)
    by (auto simp: evm_from_json_def evm_send_params_def str_field_wire [OF j(1)] j(2)
        opt_address_wire [OF assms(1) j(3)] opt_address_wire [OF assms(1) j(4)]
        opt_wei_wire [OF assms(1) j(5)] data opt_wei_wire [OF assms(1) j(7)]
        opt_wei_wire [OF assms(1) j(8)] opt_wei_wire [OF assms(1) j(9)] chain_id_wire
        evm_send_transaction_def evm_wf_def send_check_def
        simp del: evm_serialize.simps split: option.splits)
qed

lemma evm_roundtrip_message:
  assumes "evm_laws X"
  shows "evm_from_json X i (evm_serialize X (EvmSignMessage m c msg a)) =
    Inr (EvmSignMessage (request_meta_new i) c msg a)"
proof -
  let ?j = "evm_serialize X (EvmSignMessage m c msg a)"
  have j: "jget ?j ''type'' = Some (JString ''sign_message'')"
      "jget ?j ''chainId'' = map_option chain_id_json c"
      "jget ?j ''message'' = Some (message_json X msg)"
      "jget ?j ''address'' = map_option (\<lambda>a. JString (address_show X a)) a"
    by (simp_all add: wire)
  show ?thesis
    by (simp add: evm_from_json_def str_field_wire [OF j(1)] j(2) opt_address_wire [OF assms j(4)]
        evm_message_wire [OF assms j(3)] chain_id_wire evm_sign_message_def del: evm_serialize.simps)
qed

lemma evm_roundtrip_typed:
  assumes "evm_laws X"
  shows "evm_from_json X i (evm_serialize X (EvmSignTypedData m c td a)) =
    Inr (EvmSignTypedData (request_meta_new i) c td a)"
proof -
  let ?j = "evm_serialize X (EvmSignTypedData m c td a)"
  have j: "jget ?j ''type'' = Some (JString ''sign_typed_data'')"
      "jget ?j ''chainId'' = map_option chain_id_json c"
      "jget ?j ''primaryType'' = Some (JString (td_primary_type td))"
      "jget ?j ''address'' = map_option (\<lambda>a. JString (address_show X a)) a"
      "jget ?j ''domain'' = Some (td_domain td)" "jget ?j ''types'' = Some (td_types td)"
      "jget ?j ''message'' = Some (td_message td)"
    by (simp_all add: wire)
  show ?thesis
    by (simp add: evm_from_json_def str_field_wire [OF j(1)] j(2) opt_address_wire [OF assms j(4)]
        str_field_wire [OF j(3)] json_field_def j(5-7) chain_id_wire evm_sign_typed_data_def
        del: evm_serialize.simps)
qed

lemma evm_request_reads_back:
  "evm_laws X \<Longrightarrow> evm_wf X r \<Longrightarrow> evm_from_json X i (evm_serialize X r) = Inr (evm_with_id i r)"
  by (cases r)
    (simp_all add: evm_roundtrip_connect evm_roundtrip_send evm_roundtrip_message evm_roundtrip_typed
      del: evm_serialize.simps)

subsection \<open>What a parsed request satisfies\<close>

text \<open>\<open>from_json\<close> on each \<open>type\<close>, the shape that the rest rests on.\<close>

lemma evm_from_json_shape:
  assumes "evm_from_json X i body = Inr r"
  shows "evm_meta r = request_meta_new i"
    and "jget (evm_serialize X r) ''type'' = jget body ''type''"
    and "\<And>to from v d g f p m c. r = EvmSendTransaction m c to from v d g f p \<Longrightarrow>
      to \<noteq> None \<or> (\<exists>data. d = Some data \<and> cd_bytes data \<noteq> [])"
  using assms
  by (auto simp: evm_from_json_def result_iff Let_def evm_connect_with_def evm_send_transaction_def
      evm_sign_message_def evm_sign_typed_data_def send_check_Inr_iff wire split: if_splits)

lemma evm_serialize_id:
  "jget (evm_serialize X r) ''id'' = Some (JString (x_uuid_show X (meta_id (evm_meta r))))"
  by (cases r) (simp_all add: wire)

lemma evm_page_of_type:
  "evm_url_kind r = KConnect \<longleftrightarrow> jget (evm_serialize X r) ''type'' = Some (JString ''connect'')"
  by (cases r) (simp_all add: wire)

lemma evm_expecting_Inr_iff:
  "evm_expecting X r a = Inr r' \<longleftrightarrow>
     (evm_account r = None \<or> evm_account r = Some a) \<and> evm_account r' = Some a \<and>
     evm_meta r' = evm_meta r \<and> evm_url_kind r' = evm_url_kind r \<and>
     evm_expecting X r a = Inr r'"
  by (cases r) (auto simp: result_iff)

lemma evm_expecting_same: "evm_account r = Some a \<Longrightarrow> evm_expecting X r a = Inr r"
  by (cases r) (simp_all add: expect_account_def)

interpretation evm: account_impl X "evm_ops X" evm_account "\<lambda>a. a"
  for X :: "'x evm_ext_scheme"
proof unfold_locales
  fix r i body r' and a :: address
  show "jget (r_serialize (evm_ops X) r) ''id'' = Some (JString (x_uuid_show X (r_id (evm_ops X) r)))"
    by (simp add: evm_serialize_id)
  show "r_id (evm_ops X) r = i" if "r_from_json (evm_ops X) i body = Inr r"
    using evm_from_json_shape(1) [of X i body r] that by (simp add: request_meta_new_def)
  show "jget (r_serialize (evm_ops X) r) ''type'' = jget body ''type''"
    if "r_from_json (evm_ops X) i body = Inr r"
    using evm_from_json_shape(2) [of X i body r] that by simp
  show "r_url_kind (evm_ops X) r = KConnect \<longleftrightarrow>
      jget (r_serialize (evm_ops X) r) ''type'' = Some (JString ''connect'')"
    by (simp add: evm_page_of_type)
  assume e: "a_expecting (evm_ops X) r a = Inr r'"
  then have e': "evm_expecting X r a = Inr r'" by simp
  show "evm_account r' = Some a" "evm_account r = None \<or> evm_account r = Some a"
    "r_id (evm_ops X) r' = r_id (evm_ops X) r"
    "r_url_kind (evm_ops X) r' = r_url_kind (evm_ops X) r"
    using evm_expecting_Inr_iff [of X r a r'] e' by simp_all
  show "r' = r" if "evm_account r = Some a"
    using evm_expecting_same [OF that, of X] e' by simp
qed

end
