(* ===== verification/Evm_Signer.thy ===== *)
theory Evm_Signer
  imports Evm_Types Core_Engine
begin

section \<open>EVM: the typed signer\<close>

text \<open>
  \<open>signer.rs\<close> of \<open>browser-web3-signer-evm\<close>. A method builds a request, awaits \<open>Engine::submit\<close> and
  parses the wallet's string. What the await resolves to is an argument, a function of the submitted
  request: the bridge's theorems say which outcomes it can have. The fresh id is an argument too.
\<close>

type_synonym 'r submitted = "'r \<Rightarrow> signer_error + string"

record 'x evm_signer =
  es_engine :: "(evm_request, 'x) engine"
  es_default_chain_id :: chain_id

definition evm_signer_new ::
  "string \<Rightarrow> bind_port \<Rightarrow> chain_id \<Rightarrow> browser_choice \<Rightarrow> 'x evm_signer" where
  "evm_signer_new web_ui bind chain browser =
     \<lparr>es_engine = engine_new web_ui bind browser, es_default_chain_id = chain\<rparr>"

definition evm_signer_from_env ::
  "'e core_ext_scheme \<Rightarrow> string \<Rightarrow> environment \<Rightarrow> browser_choice \<Rightarrow> 'x evm_signer" where
  "evm_signer_from_env X web_ui env browser =
     evm_signer_new web_ui (Preferred (evm_port X env)) (default_chain_id env) browser"

definition chain_or_default :: "'x evm_signer \<Rightarrow> chain_id option \<Rightarrow> chain_id" where
  "chain_or_default S c = unwrap_or c (es_default_chain_id S)"

definition evm_parse_signed ::
  "'e core_ext_scheme \<Rightarrow> ('p \<Rightarrow> string) \<Rightarrow> (string \<Rightarrow> 'p + 'a) \<Rightarrow> string \<Rightarrow> string \<Rightarrow> signer_error + 'a" where
  "evm_parse_signed X show_err parse raw what =
     map_err (\<lambda>e. Invalid (''wallet returned invalid '' @ what @ '' '' @ x_debug X raw @ '': '' @ show_err e))
       (parse raw)"

definition evm_connect_wallet ::
  "'e evm_ext_scheme \<Rightarrow> evm_request submitted \<Rightarrow> uuid \<Rightarrow> 'x evm_signer \<Rightarrow> chain_id option \<Rightarrow>
     address option \<Rightarrow> signer_error + address" where
  "evm_connect_wallet X submit fresh S chain address =
     and_then (submit (evm_connect fresh (Some (chain_or_default S chain)) address)) (\<lambda>raw.
       evm_parse_signed X dpe_show (address_from_str X) raw ''address'')"

definition evm_send ::
  "'e evm_ext_scheme \<Rightarrow> evm_request submitted \<Rightarrow> uuid \<Rightarrow> 'x evm_signer \<Rightarrow>
     send_transaction_params \<Rightarrow> signer_error + tx_hash" where
  "evm_send X submit fresh S params =
     and_then (map_err Invalid (send_check params)) (\<lambda>_.
     and_then
       (submit (evm_send_transaction fresh
         (params\<lparr>sp_chain_id := Some (chain_or_default S (sp_chain_id params))\<rparr>))) (\<lambda>raw.
       evm_parse_signed X (\<lambda>e. e) (tx_hash_from_str X) raw ''tx hash''))"

definition evm_sign ::
  "'e evm_ext_scheme \<Rightarrow> evm_request submitted \<Rightarrow> uuid \<Rightarrow> 'x evm_signer \<Rightarrow> signable_message \<Rightarrow>
     address option \<Rightarrow> chain_id option \<Rightarrow> signer_error + signature" where
  "evm_sign X submit fresh S message address chain =
     and_then (submit (evm_sign_message fresh message address (Some (chain_or_default S chain)))) (\<lambda>raw.
       evm_parse_signed X (\<lambda>e. e) (signature_from_str X) raw ''signature'')"

definition evm_sign_typed ::
  "'e evm_ext_scheme \<Rightarrow> evm_request submitted \<Rightarrow> uuid \<Rightarrow> 'x evm_signer \<Rightarrow> typed_data \<Rightarrow>
     address option \<Rightarrow> chain_id option \<Rightarrow> signer_error + signature" where
  "evm_sign_typed X submit fresh S td address chain =
     and_then (submit (evm_sign_typed_data fresh td address (Some (chain_or_default S chain)))) (\<lambda>raw.
       evm_parse_signed X (\<lambda>e. e) (signature_from_str X) raw ''signature'')"

lemma evm_parse_signed_Inr_iff [result_iff]:
  "evm_parse_signed X se parse raw what = Inr x \<longleftrightarrow> parse raw = Inr x"
  by (simp add: evm_parse_signed_def)

text \<open>
  A transaction that is sent was one a wallet can send: it was submitted under a chain id, and the
  hash that comes back is 32 bytes of the wallet's answer.
\<close>

lemma evm_send_Inr:
  assumes "evm_send X submit fresh S params = Inr h"
  shows "\<exists>r raw. submit r = Inr raw \<and> evm_wf X r \<and> tx_hash_from_str X raw = Inr h \<and> tx_hash_ok h \<and>
    r = evm_send_transaction fresh
      (params\<lparr>sp_chain_id := Some (chain_or_default S (sp_chain_id params))\<rparr>)"
  using assms
  by (auto simp: evm_send_def result_iff send_check_Inr_iff evm_wf_def evm_send_transaction_def
      split: option.splits)

text \<open>An unsendable transaction is refused before anything is submitted.\<close>

lemma evm_send_refused:
  "send_check params = Inl e \<Longrightarrow> evm_send X submit fresh S params = Inl (Invalid e)"
  by (simp add: evm_send_def)

lemma evm_connect_wallet_Inr:
  "evm_connect_wallet X submit fresh S chain address = Inr a \<Longrightarrow>
     \<exists>raw. submit (evm_connect fresh (Some (chain_or_default S chain)) address) = Inr raw \<and>
       address_from_str X raw = Inr a"
  by (auto simp: evm_connect_wallet_def result_iff)

lemma evm_sign_Inr:
  "evm_sign X submit fresh S message address chain = Inr g \<Longrightarrow> sig_bytes g \<noteq> []"
  by (auto simp: evm_sign_def result_iff)

end
