(* ===== verification/Tron_Domain.thy ===== *)
theory Tron_Domain
  imports Core_Bytes Core_Config Core_Types
begin

section \<open>TRON: domain types and configuration\<close>

text \<open>
  \<open>domain.rs\<close> and \<open>config.rs\<close> of \<open>browser-web3-signer-tron\<close>. Base58Check and the unit conversions are
  parameters, the fields of \<open>tron_ext\<close>. A \<open>TronAddress\<close> is the private array of 21 bytes:
  \<open>tron_address_ok\<close> is the invariant its one public constructor establishes, and \<open>percentage_ok\<close> that
  of a \<open>Percentage\<close>. \<open>tron_laws\<close> states that an encoded payload decodes to itself.
\<close>

subsection \<open>The library functions\<close>

text \<open>alloy's \<open>ParseUnits\<close>, an amount without or with a sign; the conversions on it are parameters too.\<close>

datatype parse_units = PU256 u256 | PI256 u256

record tron_ext = core_ext +
  x_b58check_decode :: "string \<Rightarrow> string + u8 list"
  x_b58check_encode :: "u8 list \<Rightarrow> string"
  x_parse_units :: "string \<Rightarrow> u8 \<Rightarrow> string + parse_units"
  x_get_absolute :: "parse_units \<Rightarrow> u256"
  x_tron_format_units :: "u256 \<Rightarrow> u8 \<Rightarrow> string option"
  x_tron_u256_show :: "u256 \<Rightarrow> string"

definition tron_laws :: "'x tron_ext_scheme \<Rightarrow> bool" where
  "tron_laws X \<longleftrightarrow> (\<forall>bs. x_b58check_decode X (x_b58check_encode X bs) = Inr bs)"

subsection \<open>Networks\<close>

definition TRX_DECIMALS :: u8 where
  "TRX_DECIMALS = 6"

datatype tron_network = TronMainnet | Shasta | Nile

definition tron_network_id :: "tron_network \<Rightarrow> string" where
  "tron_network_id n = (case n of TronMainnet \<Rightarrow> ''mainnet'' | Shasta \<Rightarrow> ''shasta'' | Nile \<Rightarrow> ''nile'')"

definition tron_network_show :: "tron_network \<Rightarrow> string" where
  "tron_network_show n = tron_network_id n"

definition tron_network_json :: "tron_network \<Rightarrow> json" where
  [simp]: "tron_network_json n = JString (tron_network_id n)"

definition tron_network_from_str :: "string \<Rightarrow> domain_parse_error + tron_network" where
  "tron_network_from_str s =
     (let l = to_ascii_lowercase s
      in if l = ''mainnet'' then Inr TronMainnet
         else if l = ''shasta'' then Inr Shasta
         else if l = ''nile'' then Inr Nile
         else Inl (dpe_new ''tron network'' s ''expected mainnet|shasta|nile''))"

subsection \<open>Addresses\<close>

datatype tron_address = TronAddress (ta_bytes: "u8 list")

definition tron_address_ok :: "tron_address \<Rightarrow> bool" where
  "tron_address_ok a \<longleftrightarrow> length (ta_bytes a) = 21 \<and> hd (ta_bytes a) = 0x41"

definition tron_body :: "tron_address \<Rightarrow> u8 list" where
  "tron_body a = tl (ta_bytes a)"

definition to_hex20 :: "'x core_ext_scheme \<Rightarrow> tron_address \<Rightarrow> string" where
  "to_hex20 X a = x_hex_encode X (tron_body a)"

definition to_base58 :: "'x tron_ext_scheme \<Rightarrow> tron_address \<Rightarrow> string" where
  "to_base58 X a = x_b58check_encode X (ta_bytes a)"

definition tron_address_from_str :: "'x tron_ext_scheme \<Rightarrow> string \<Rightarrow> domain_parse_error + tron_address" where
  "tron_address_from_str X s =
     and_then (map_err (\<lambda>e. dpe_new ''tron address'' s e) (x_b58check_decode X s)) (\<lambda>decoded.
       if length decoded \<noteq> 21 then
         Inl (dpe_new ''tron address'' s (''expected 21-byte payload: '' @ slice_error))
       else if hd decoded \<noteq> 0x41 then Inl (dpe_new ''tron address'' s ''expected 0x41 prefix'')
       else Inr (TronAddress decoded))"

subsection \<open>Amounts, energy, percentages\<close>

datatype sun = Sun (sun_get: u64)

definition sun_show :: "sun \<Rightarrow> string" where
  "sun_show v = show_word (sun_get v)"

definition sun_from_str :: "string \<Rightarrow> domain_parse_error + sun" where
  "sun_from_str s =
     map_err (\<lambda>e. dpe_new ''sun amount'' s (int_error_show e)) (map_ok Sun (parse_word s))"

definition to_trx_string :: "'x tron_ext_scheme \<Rightarrow> sun \<Rightarrow> string" where
  "to_trx_string X v =
     unwrap_or (x_tron_format_units X (ucast (sun_get v)) TRX_DECIMALS) (sun_show v)"

datatype energy_limit = EnergyLimit (energy_get: u64)

definition energy_from_str :: "string \<Rightarrow> domain_parse_error + energy_limit" where
  "energy_from_str s =
     map_err (\<lambda>e. dpe_new ''energy limit'' s (int_error_show e)) (map_ok EnergyLimit (parse_word s))"

definition energy_show :: "energy_limit \<Rightarrow> string" where
  "energy_show e = show_word (energy_get e)"

definition energy_json :: "energy_limit \<Rightarrow> json" where
  "energy_json e = JNumber (PosInt (energy_get e))"

datatype percentage = Percentage (percentage_get: u8)

definition percentage_ok :: "percentage \<Rightarrow> bool" where
  "percentage_ok p \<longleftrightarrow> percentage_get p \<le> 100"

definition percentage_new :: "u8 \<Rightarrow> domain_parse_error + percentage" where
  "percentage_new value =
     (if value > 100 then Inl (dpe_new ''percentage'' (show_word value) ''must be 0-100'')
      else Inr (Percentage value))"

definition percentage_show :: "percentage \<Rightarrow> string" where
  "percentage_show p = show_word (percentage_get p)"

definition percentage_from_str :: "string \<Rightarrow> domain_parse_error + percentage" where
  "percentage_from_str s =
     and_then (map_err (\<lambda>e. dpe_new ''percentage'' s (int_error_show e)) (parse_word s)) percentage_new"

definition percentage_json :: "percentage \<Rightarrow> json" where
  "percentage_json p = JNumber (PosInt (ucast (percentage_get p)))"

datatype tron_decimals = TronDecimals (tron_decimals_get: u8)

definition tron_decimals_show :: "tron_decimals \<Rightarrow> string" where
  "tron_decimals_show d = show_word (tron_decimals_get d)"

datatype tron_symbol = TronSymbol (tron_symbol_str: string)

definition tron_symbol_is_empty :: "tron_symbol \<Rightarrow> bool" where
  "tron_symbol_is_empty s \<longleftrightarrow> tron_symbol_str s = []"

definition tron_symbol_show :: "tron_symbol \<Rightarrow> string" where
  "tron_symbol_show s = tron_symbol_str s"

record tron_token_amount =
  tta_raw :: u256
  tta_decimals :: tron_decimals

definition tron_token_amount_new :: "u256 \<Rightarrow> tron_decimals \<Rightarrow> tron_token_amount" where
  "tron_token_amount_new raw decimals = \<lparr>tta_raw = raw, tta_decimals = decimals\<rparr>"

definition tron_to_decimal_string :: "'x tron_ext_scheme \<Rightarrow> tron_token_amount \<Rightarrow> string" where
  "tron_to_decimal_string X t =
     unwrap_or (x_tron_format_units X (tta_raw t) (tron_decimals_get (tta_decimals t))) (x_tron_u256_show X (tta_raw t))"

definition tron_token_show :: "'x tron_ext_scheme \<Rightarrow> tron_token_amount \<Rightarrow> string" where
  "tron_token_show X t = tron_to_decimal_string X t"

text \<open>The conversion to \<open>u64\<close> panics when the value does not fit: that is \<open>None\<close>.\<close>

definition trx_to_sun :: "'x tron_ext_scheme \<Rightarrow> string \<Rightarrow> (string + sun) option" where
  "trx_to_sun X value =
     (case x_parse_units X value TRX_DECIMALS of
        Inl e \<Rightarrow> Some (Inl e)
      | Inr units \<Rightarrow>
          let raw = x_get_absolute X units
          in if unat raw < 2 ^ 64 then Some (Inr (Sun (ucast raw))) else None)"

subsection \<open>What the parsers guarantee\<close>

lemma tron_address_from_str_Inr_iff [result_iff]:
  "tron_address_from_str X s = Inr a \<longleftrightarrow> x_b58check_decode X s = Inr (ta_bytes a) \<and> tron_address_ok a"
  by (cases a) (auto simp: tron_address_from_str_def result_iff tron_address_ok_def)

lemma tron_address_reads_back:
  "tron_laws X \<Longrightarrow> tron_address_ok a \<Longrightarrow> tron_address_from_str X (to_base58 X a) = Inr a"
  by (simp add: tron_address_from_str_Inr_iff to_base58_def tron_laws_def)

lemma tron_body_length: "tron_address_ok a \<Longrightarrow> length (tron_body a) = 20"
  by (simp add: tron_address_ok_def tron_body_def)

lemma tron_address_eq_body:
  "tron_address_ok a \<Longrightarrow> tron_address_ok b \<Longrightarrow> tron_body a = tron_body b \<Longrightarrow> a = b"
  by (cases a; cases b; cases "ta_bytes a"; cases "ta_bytes b")
    (auto simp: tron_address_ok_def tron_body_def)

lemma to_hex20_length: "hex_laws X \<Longrightarrow> tron_address_ok a \<Longrightarrow> length (to_hex20 X a) = 40"
  by (simp add: to_hex20_def hex_laws_length tron_body_length)

lemma tron_network_codec_law: "tron_network_from_str (tron_network_id n) = Inr n"
  by (cases n)
    (simp_all add: tron_network_id_def tron_network_from_str_def to_ascii_lowercase_def ascii_lower_def)

interpretation tron_network_codec: wire_codec tron_network_from_str tron_network_id
  by unfold_locales (rule tron_network_codec_law)

interpretation sun_codec: wire_codec sun_from_str sun_show
  by unfold_locales (simp add: sun_from_str_def sun_show_def)

text \<open>An energy limit too reads back from its text; only its wire form, a number, does not.\<close>

interpretation energy_codec: wire_codec energy_from_str energy_show
  by unfold_locales (simp add: energy_from_str_def energy_show_def)

lemma percentage_from_str_Inr_iff [result_iff]:
  "percentage_from_str s = Inr p \<longleftrightarrow> parse_word s = Inr (percentage_get p) \<and> percentage_ok p"
  by (cases p)
    (auto simp: percentage_from_str_def result_iff percentage_new_def percentage_ok_def not_less)

lemma percentage_reads_back: "percentage_ok p \<Longrightarrow> percentage_from_str (percentage_show p) = Inr p"
  by (simp add: percentage_from_str_Inr_iff percentage_show_def)

definition units_absolute :: "parse_units \<Rightarrow> int" where
  "units_absolute u = (case u of PU256 w \<Rightarrow> uint w | PI256 w \<Rightarrow> \<bar>sint w\<bar>)"

text \<open>What \<open>ParseUnits::get_absolute\<close> is documented to give: the absolute value of the amount.\<close>

definition units_laws :: "'x tron_ext_scheme \<Rightarrow> bool" where
  "units_laws X \<longleftrightarrow> (\<forall>u. uint (x_get_absolute X u) = units_absolute u)"

lemma trx_to_sun_cases:
  assumes "units_laws X"
  shows "trx_to_sun X s =
    (case x_parse_units X s TRX_DECIMALS of
       Inl e \<Rightarrow> Some (Inl e)
     | Inr u \<Rightarrow> if units_absolute u < 2 ^ 64 then Some (Inr (Sun (word_of_int (units_absolute u)))) else None)"
proof (cases "x_parse_units X s TRX_DECIMALS")
  case (Inr u)
  have raw: "uint (x_get_absolute X u) = units_absolute u" using assms by (simp add: units_laws_def)
  have "unat (x_get_absolute X u) < 2 ^ 64 \<longleftrightarrow> uint (x_get_absolute X u) < 2 ^ 64"
    unfolding unat_eq_nat_uint nat_less_iff [OF uint_nonnegative] by simp
  then have "unat (x_get_absolute X u) < 2 ^ 64 \<longleftrightarrow> units_absolute u < 2 ^ 64" unfolding raw .
  moreover have "(ucast (x_get_absolute X u) :: u64) = word_of_int (units_absolute u)"
    unfolding ucast_eq raw ..
  ultimately show ?thesis using Inr by (simp add: trx_to_sun_def Let_def)
qed (simp add: trx_to_sun_def)

subsection \<open>config.rs\<close>

definition TRON_PORT_ENV :: string where
  "TRON_PORT_ENV = ''BROWSER_WEB3_TRON_PORT''"

definition TRON_NETWORK_ENV :: string where
  "TRON_NETWORK_ENV = ''BROWSER_WEB3_TRON_NETWORK''"

definition TRON_ACCOUNT_ENV :: string where
  "TRON_ACCOUNT_ENV = ''BROWSER_WEB3_TRON_ACCOUNT''"

definition DEFAULT_TRON_PORT :: port where
  "DEFAULT_TRON_PORT = Port 3848"

definition tron_port :: "'x core_ext_scheme \<Rightarrow> environment \<Rightarrow> port" where
  "tron_port X env = port_from_env X env TRON_PORT_ENV DEFAULT_TRON_PORT"

definition tron_default_network :: "environment \<Rightarrow> tron_network" where
  "tron_default_network env =
     unwrap_or (Option.bind (env_ok env TRON_NETWORK_ENV) (\<lambda>v. ok (tron_network_from_str v))) TronMainnet"

record tron_network_config =
  tnc_id :: tron_network
  tnc_name :: string
  tnc_block_explorer :: string
  tnc_symbol :: string
  tnc_decimals :: u8

definition TRON_NETWORKS :: "tron_network_config list" where
  "TRON_NETWORKS =
     [\<lparr>tnc_id = TronMainnet, tnc_name = ''Tron Mainnet'', tnc_block_explorer = ''https://tronscan.org'',
       tnc_symbol = ''TRX'', tnc_decimals = 6\<rparr>,
      \<lparr>tnc_id = Shasta, tnc_name = ''Shasta Testnet'',
       tnc_block_explorer = ''https://shasta.tronscan.org'', tnc_symbol = ''TRX'', tnc_decimals = 6\<rparr>,
      \<lparr>tnc_id = Nile, tnc_name = ''Nile Testnet'',
       tnc_block_explorer = ''https://nile.tronscan.org'', tnc_symbol = ''TRX'', tnc_decimals = 6\<rparr>]"

definition tron_network_config_of :: "tron_network \<Rightarrow> tron_network_config option" where
  "tron_network_config_of n = find (\<lambda>c. tnc_id c = n) TRON_NETWORKS"

lemma tron_network_config_total: "\<exists>c. tron_network_config_of n = Some c \<and> tnc_id c = n \<and> tnc_decimals c = TRX_DECIMALS"
  by (cases n) (simp_all add: tron_network_config_of_def TRON_NETWORKS_def TRX_DECIMALS_def)

lemma tron_port_ok: "port_ok (tron_port X env)"
  unfolding tron_port_def by (rule port_from_env_ok) (simp add: port_ok_def DEFAULT_TRON_PORT_def)

end
