(* ===== verification/Tron_Types.thy ===== *)
theory Tron_Types
  imports Tron_Domain
begin

section \<open>TRON: requests\<close>

text \<open>
  \<open>types.rs\<close> of \<open>browser-web3-signer-tron\<close>: the request enum, its wire form, \<open>from_json\<close> and
  \<open>expecting\<close>, with the interpretation of \<open>account_impl\<close>. A deployment's energy limit and fee
  percentage are written as JSON numbers and read as strings, so the wire form of a deployment reads
  back without them: \<open>tron_request_reads_back\<close> says exactly what survives.
\<close>

subsection \<open>Data\<close>

record tron_typed_data =
  ttd_domain :: json
  ttd_types :: json
  ttd_primary_type :: string
  ttd_message :: json

record tron_send_params =
  ts_to :: tron_address
  ts_from :: "tron_address option"
  ts_amount :: sun
  ts_data :: "hex_data option"
  ts_network :: "tron_network option"

record tron_trigger_params =
  tt_contract_address :: tron_address
  tt_from :: "tron_address option"
  tt_function_selector :: string
  tt_parameters :: "json option"
  tt_fee_limit :: "sun option"
  tt_call_value :: "sun option"
  tt_network :: "tron_network option"

record tron_deploy_params =
  tdp_abi :: json
  tdp_bytecode :: hex_data
  tdp_contract_name :: "string option"
  tdp_parameters :: "json option"
  tdp_from :: "tron_address option"
  tdp_fee_limit :: "sun option"
  tdp_call_value :: "sun option"
  tdp_origin_energy_limit :: "energy_limit option"
  tdp_user_fee_percentage :: "percentage option"
  tdp_network :: "tron_network option"

datatype tron_request =
    TronConnect request_meta "tron_network option" "tron_address option"
  | TronSendTransaction request_meta "tron_network option" tron_address "tron_address option" sun
      "hex_data option"
  | TronTriggerContract request_meta "tron_network option" tron_address "tron_address option" string
      "json option" "sun option" "sun option"
  | TronDeployContract request_meta "tron_network option" "tron_address option" "string option" json
      hex_data "json option" "sun option" "sun option" "energy_limit option" "percentage option"
  | TronSignMessage request_meta "tron_network option" string "tron_address option"
  | TronSignTypedData request_meta "tron_network option" tron_typed_data "tron_address option"

subsection \<open>Constructors\<close>

definition tron_connect :: "uuid \<Rightarrow> tron_network option \<Rightarrow> tron_address option \<Rightarrow> tron_request" where
  "tron_connect fresh network address = TronConnect (request_meta_new fresh) network address"

definition tron_send_transaction :: "uuid \<Rightarrow> tron_send_params \<Rightarrow> tron_request" where
  "tron_send_transaction fresh p =
     TronSendTransaction (request_meta_new fresh) (ts_network p) (ts_to p) (ts_from p) (ts_amount p)
       (ts_data p)"

definition tron_trigger_contract :: "uuid \<Rightarrow> tron_trigger_params \<Rightarrow> tron_request" where
  "tron_trigger_contract fresh p =
     TronTriggerContract (request_meta_new fresh) (tt_network p) (tt_contract_address p) (tt_from p)
       (tt_function_selector p) (tt_parameters p) (tt_fee_limit p) (tt_call_value p)"

definition tron_deploy_contract :: "uuid \<Rightarrow> tron_deploy_params \<Rightarrow> tron_request" where
  "tron_deploy_contract fresh p =
     TronDeployContract (request_meta_new fresh) (tdp_network p) (tdp_from p) (tdp_contract_name p)
       (tdp_abi p) (tdp_bytecode p) (tdp_parameters p) (tdp_fee_limit p) (tdp_call_value p)
       (tdp_origin_energy_limit p) (tdp_user_fee_percentage p)"

definition tron_sign_message ::
  "uuid \<Rightarrow> string \<Rightarrow> tron_address option \<Rightarrow> tron_network option \<Rightarrow> tron_request" where
  "tron_sign_message fresh message address network =
     TronSignMessage (request_meta_new fresh) network message address"

definition tron_sign_typed_data ::
  "uuid \<Rightarrow> tron_typed_data \<Rightarrow> tron_address option \<Rightarrow> tron_network option \<Rightarrow> tron_request" where
  "tron_sign_typed_data fresh td address network =
     TronSignTypedData (request_meta_new fresh) network td address"

subsection \<open>Wire form\<close>

definition tron_json :: "'x tron_ext_scheme \<Rightarrow> tron_address \<Rightarrow> json" where
  "tron_json X a = JString (to_base58 X a)"

definition network_field :: "tron_network option \<Rightarrow> (string \<times> json) list" where
  "network_field n = opt_field ''network'' tron_network_json n"

definition sun_field :: "string \<Rightarrow> sun option \<Rightarrow> (string \<times> json) list" where
  "sun_field k v = opt_field k (\<lambda>v. JString (sun_show v)) v"

fun tron_serialize :: "'x tron_ext_scheme \<Rightarrow> tron_request \<Rightarrow> json" where
  "tron_serialize X (TronConnect m n a) =
     tagged X ''connect'' m (network_field n @ opt_field ''address'' (tron_json X) a)"
| "tron_serialize X (TronSendTransaction m n to from amount data) =
     tagged X ''send_transaction'' m
       (network_field n @ [(''to'', tron_json X to)] @ opt_field ''from'' (tron_json X) from @
        [(''amount'', JString (sun_show amount))] @
        opt_field ''data'' (\<lambda>d. JString (hex_data_show X d)) data)"
| "tron_serialize X (TronTriggerContract m n c from sel ps fee val) =
     tagged X ''trigger_contract'' m
       (network_field n @ [(''contractAddress'', tron_json X c)] @
        opt_field ''from'' (tron_json X) from @ [(''functionSelector'', JString sel)] @
        opt_field ''parameters'' (\<lambda>v. v) ps @ sun_field ''feeLimit'' fee @ sun_field ''callValue'' val)"
| "tron_serialize X (TronDeployContract m n from name abi code ps fee val energy pct) =
     tagged X ''deploy_contract'' m
       (network_field n @ opt_field ''from'' (tron_json X) from @
        opt_field ''contractName'' JString name @ [(''abi'', abi)] @
        [(''bytecode'', JString (hex_data_show X code))] @ opt_field ''parameters'' (\<lambda>v. v) ps @
        sun_field ''feeLimit'' fee @ sun_field ''callValue'' val @
        opt_field ''originEnergyLimit'' energy_json energy @
        opt_field ''userFeePercentage'' percentage_json pct)"
| "tron_serialize X (TronSignMessage m n msg a) =
     tagged X ''sign_message'' m
       (network_field n @ [(''message'', JString msg)] @ opt_field ''address'' (tron_json X) a)"
| "tron_serialize X (TronSignTypedData m n td a) =
     tagged X ''sign_typed_data'' m
       (network_field n @
        [(''domain'', ttd_domain td), (''types'', ttd_types td),
         (''primaryType'', JString (ttd_primary_type td)), (''message'', ttd_message td)] @
        opt_field ''address'' (tron_json X) a)"

subsection \<open>from_json\<close>

definition req_tron :: "'x tron_ext_scheme \<Rightarrow> json \<Rightarrow> string \<Rightarrow> string + tron_address" where
  "req_tron X = req_parsed dpe_show (tron_address_from_str X)"

definition opt_tron :: "'x tron_ext_scheme \<Rightarrow> json \<Rightarrow> string \<Rightarrow> string + tron_address option" where
  "opt_tron X = opt_parsed dpe_show (tron_address_from_str X)"

definition opt_sun :: "json \<Rightarrow> string \<Rightarrow> string + sun option" where
  "opt_sun = opt_parsed dpe_show sun_from_str"

definition tron_json_field :: "json \<Rightarrow> string \<Rightarrow> json" where
  "tron_json_field body key = unwrap_or (jget body key) (JObject [])"

definition tron_read_send ::
  "'x tron_ext_scheme \<Rightarrow> json \<Rightarrow> tron_network option \<Rightarrow> string + tron_send_params" where
  "tron_read_send X body network =
     and_then (req_tron X body ''to'') (\<lambda>to.
     and_then (opt_tron X body ''from'') (\<lambda>from.
     and_then (req_parsed dpe_show sun_from_str body ''amount'') (\<lambda>amount.
     and_then (opt_parsed (\<lambda>e. e) (hex_data_from_str X) body ''data'') (\<lambda>data.
       Inr \<lparr>ts_to = to, ts_from = from, ts_amount = amount, ts_data = data, ts_network = network\<rparr>))))"

definition tron_read_trigger ::
  "'x tron_ext_scheme \<Rightarrow> json \<Rightarrow> tron_network option \<Rightarrow> string + tron_trigger_params" where
  "tron_read_trigger X body network =
     and_then (req_tron X body ''contractAddress'') (\<lambda>c.
     and_then (opt_tron X body ''from'') (\<lambda>from.
     and_then (str_field body ''functionSelector'') (\<lambda>sel.
     and_then (opt_sun body ''feeLimit'') (\<lambda>fee.
     and_then (opt_sun body ''callValue'') (\<lambda>val.
       Inr \<lparr>tt_contract_address = c, tt_from = from, tt_function_selector = sel,
            tt_parameters = jget body ''parameters'', tt_fee_limit = fee, tt_call_value = val,
            tt_network = network\<rparr>)))))"

definition tron_read_deploy ::
  "'x tron_ext_scheme \<Rightarrow> json \<Rightarrow> tron_network option \<Rightarrow> string + tron_deploy_params" where
  "tron_read_deploy X body network =
     and_then (ok_or (jget body ''abi'') (''missing field '' @ quoted ''abi'')) (\<lambda>abi.
     and_then (req_parsed (\<lambda>e. e) (hex_data_from_str X) body ''bytecode'') (\<lambda>code.
     and_then (opt_tron X body ''from'') (\<lambda>from.
     and_then (opt_sun body ''feeLimit'') (\<lambda>fee.
     and_then (opt_sun body ''callValue'') (\<lambda>val.
     and_then (opt_parsed dpe_show energy_from_str body ''originEnergyLimit'') (\<lambda>energy.
     and_then (opt_parsed dpe_show percentage_from_str body ''userFeePercentage'') (\<lambda>pct.
       Inr \<lparr>tdp_abi = abi, tdp_bytecode = code,
            tdp_contract_name = Option.bind (jget body ''contractName'') as_str,
            tdp_parameters = jget body ''parameters'', tdp_from = from, tdp_fee_limit = fee,
            tdp_call_value = val, tdp_origin_energy_limit = energy, tdp_user_fee_percentage = pct,
            tdp_network = network\<rparr>)))))))"

definition tron_from_json :: "'x tron_ext_scheme \<Rightarrow> uuid \<Rightarrow> json \<Rightarrow> string + tron_request" where
  "tron_from_json X fresh body =
     and_then (str_field body ''type'') (\<lambda>typ.
     and_then (opt_parsed dpe_show tron_network_from_str body ''network'') (\<lambda>network.
       if typ = ''connect'' then
         and_then (opt_tron X body ''address'') (\<lambda>address. Inr (tron_connect fresh network address))
       else if typ = ''send_transaction'' then
         and_then (tron_read_send X body network) (\<lambda>p. Inr (tron_send_transaction fresh p))
       else if typ = ''trigger_contract'' then
         and_then (tron_read_trigger X body network) (\<lambda>p. Inr (tron_trigger_contract fresh p))
       else if typ = ''deploy_contract'' then
         and_then (tron_read_deploy X body network) (\<lambda>p. Inr (tron_deploy_contract fresh p))
       else if typ = ''sign_message'' then
         and_then (str_field body ''message'') (\<lambda>message.
         and_then (opt_tron X body ''address'') (\<lambda>address.
           Inr (tron_sign_message fresh message address network)))
       else if typ = ''sign_typed_data'' then
         and_then (str_field body ''primaryType'') (\<lambda>primary.
         and_then (opt_tron X body ''address'') (\<lambda>address.
           Inr (tron_sign_typed_data fresh
             \<lparr>ttd_domain = tron_json_field body ''domain'', ttd_types = tron_json_field body ''types'',
              ttd_primary_type = primary, ttd_message = tron_json_field body ''message''\<rparr>
             address network)))
       else Inl (''unknown request type: '' @ typ)))"

subsection \<open>The Request and ExpectedAccount methods\<close>

fun tron_meta :: "tron_request \<Rightarrow> request_meta" where
  "tron_meta (TronConnect m _ _) = m"
| "tron_meta (TronSendTransaction m _ _ _ _ _) = m"
| "tron_meta (TronTriggerContract m _ _ _ _ _ _ _) = m"
| "tron_meta (TronDeployContract m _ _ _ _ _ _ _ _ _ _) = m"
| "tron_meta (TronSignMessage m _ _ _) = m"
| "tron_meta (TronSignTypedData m _ _ _) = m"

fun tron_url_kind :: "tron_request \<Rightarrow> url_kind" where
  "tron_url_kind (TronConnect _ _ _) = KConnect"
| "tron_url_kind _ = KSign"

fun tron_account :: "tron_request \<Rightarrow> tron_address option" where
  "tron_account (TronConnect _ _ a) = a"
| "tron_account (TronSendTransaction _ _ _ from _ _) = from"
| "tron_account (TronTriggerContract _ _ _ from _ _ _ _) = from"
| "tron_account (TronDeployContract _ _ from _ _ _ _ _ _ _ _) = from"
| "tron_account (TronSignMessage _ _ _ a) = a"
| "tron_account (TronSignTypedData _ _ _ a) = a"

fun tron_expecting :: "'x tron_ext_scheme \<Rightarrow> tron_request \<Rightarrow> tron_address \<Rightarrow> string + tron_request" where
  "tron_expecting X (TronConnect m n a) account =
     map_ok (\<lambda>a. TronConnect m n a) (expect_account (to_base58 X) a account)"
| "tron_expecting X (TronSendTransaction m n to from v d) account =
     map_ok (\<lambda>a. TronSendTransaction m n to a v d) (expect_account (to_base58 X) from account)"
| "tron_expecting X (TronTriggerContract m n c from s ps f v) account =
     map_ok (\<lambda>a. TronTriggerContract m n c a s ps f v) (expect_account (to_base58 X) from account)"
| "tron_expecting X (TronDeployContract m n from nm abi code ps f v e p) account =
     map_ok (\<lambda>a. TronDeployContract m n a nm abi code ps f v e p)
       (expect_account (to_base58 X) from account)"
| "tron_expecting X (TronSignMessage m n msg a) account =
     map_ok (\<lambda>a. TronSignMessage m n msg a) (expect_account (to_base58 X) a account)"
| "tron_expecting X (TronSignTypedData m n td a) account =
     map_ok (\<lambda>a. TronSignTypedData m n td a) (expect_account (to_base58 X) a account)"

fun tron_set_account :: "tron_address option \<Rightarrow> tron_request \<Rightarrow> tron_request" where
  "tron_set_account a (TronConnect m n _) = TronConnect m n a"
| "tron_set_account a (TronSendTransaction m n to _ v d) = TronSendTransaction m n to a v d"
| "tron_set_account a (TronTriggerContract m n c _ s ps f v) = TronTriggerContract m n c a s ps f v"
| "tron_set_account a (TronDeployContract m n _ nm abi code ps f v e p) =
     TronDeployContract m n a nm abi code ps f v e p"
| "tron_set_account a (TronSignMessage m n msg _) = TronSignMessage m n msg a"
| "tron_set_account a (TronSignTypedData m n td _) = TronSignTypedData m n td a"

lemma tron_expecting_eq:
  "tron_expecting X r a =
     map_ok (\<lambda>f. tron_set_account f r) (expect_account (to_base58 X) (tron_account r) a)"
  by (cases r) simp_all

definition tron_ops :: "'x tron_ext_scheme \<Rightarrow> (tron_request, tron_address) account_ops" where
  "tron_ops X =
     \<lparr>r_id = (\<lambda>r. meta_id (tron_meta r)), r_url_kind = tron_url_kind, r_serialize = tron_serialize X,
      r_from_json = tron_from_json X, r_check_result = accept_any, a_account_env = TRON_ACCOUNT_ENV,
      a_parse = (\<lambda>s. map_err dpe_show (tron_address_from_str X s)), a_expecting = tron_expecting X\<rparr>"

lemma tron_ops_simps [simp]:
  "r_id (tron_ops X) r = meta_id (tron_meta r)"
  "r_url_kind (tron_ops X) = tron_url_kind"
  "r_serialize (tron_ops X) = tron_serialize X"
  "r_from_json (tron_ops X) = tron_from_json X"
  "r_check_result (tron_ops X) = accept_any"
  "a_account_env (tron_ops X) = TRON_ACCOUNT_ENV"
  "a_expecting (tron_ops X) = tron_expecting X"
  by (simp_all add: tron_ops_def)

subsection \<open>What a parsed request satisfies\<close>

fun tron_addresses :: "tron_request \<Rightarrow> tron_address list" where
  "tron_addresses (TronConnect _ _ a) = list_of_opt a"
| "tron_addresses (TronSendTransaction _ _ to from _ _) = to # list_of_opt from"
| "tron_addresses (TronTriggerContract _ _ c from _ _ _ _) = c # list_of_opt from"
| "tron_addresses (TronDeployContract _ _ from _ _ _ _ _ _ _ _) = list_of_opt from"
| "tron_addresses (TronSignMessage _ _ _ a) = list_of_opt a"
| "tron_addresses (TronSignTypedData _ _ _ a) = list_of_opt a"

definition tron_wf :: "tron_request \<Rightarrow> bool" where
  "tron_wf r \<longleftrightarrow>
     list_all tron_address_ok (tron_addresses r) \<and>
     (case r of TronDeployContract _ _ _ _ _ _ _ _ _ _ (Some p) \<Rightarrow> percentage_ok p | _ \<Rightarrow> True)"

lemma opt_tron_ok: "opt_tron X body k = Inr a \<Longrightarrow> list_all tron_address_ok (list_of_opt a)"
  by (cases a) (auto simp: opt_tron_def opt_parsed_Some_iff result_iff)

lemma req_tron_ok: "req_tron X body k = Inr a \<Longrightarrow> tron_address_ok a"
  by (auto simp: req_tron_def result_iff)

lemma opt_percentage_ok:
  "opt_parsed se percentage_from_str body k = Inr (Some p) \<Longrightarrow> percentage_ok p"
  by (auto simp: opt_parsed_Some_iff result_iff)

lemmas tron_builders = tron_connect_def tron_send_transaction_def tron_trigger_contract_def
  tron_deploy_contract_def tron_sign_message_def tron_sign_typed_data_def

lemma tron_from_json_cases:
  assumes "tron_from_json X i body = Inr r"
  obtains (connect) n a where "jget body ''type'' = Some (JString ''connect'')"
      "opt_tron X body ''address'' = Inr a" "r = tron_connect i n a"
  | (send) n p where "jget body ''type'' = Some (JString ''send_transaction'')"
      "tron_read_send X body n = Inr p" "r = tron_send_transaction i p"
  | (trigger) n p where "jget body ''type'' = Some (JString ''trigger_contract'')"
      "tron_read_trigger X body n = Inr p" "r = tron_trigger_contract i p"
  | (deploy) n p where "jget body ''type'' = Some (JString ''deploy_contract'')"
      "tron_read_deploy X body n = Inr p" "r = tron_deploy_contract i p"
  | (message) m a n where "jget body ''type'' = Some (JString ''sign_message'')"
      "opt_tron X body ''address'' = Inr a" "r = tron_sign_message i m a n"
  | (typed) td a n where "jget body ''type'' = Some (JString ''sign_typed_data'')"
      "opt_tron X body ''address'' = Inr a" "r = tron_sign_typed_data i td a n"
  using assms by (auto simp: tron_from_json_def and_then_Inr_iff str_field_Inr_iff split: if_splits)

lemma tron_from_json_shape:
  assumes "tron_from_json X i body = Inr r"
  shows "tron_meta r = request_meta_new i"
    and "jget (tron_serialize X r) ''type'' = jget body ''type''"
  using assms by (cases rule: tron_from_json_cases; simp add: tron_builders wire)+

lemma tron_from_json_wf:
  assumes "tron_from_json X i body = Inr r"
  shows "tron_wf r"
  using assms
proof (cases rule: tron_from_json_cases)
  case (send n p)
  then show ?thesis
    by (auto simp: tron_wf_def tron_builders tron_read_send_def and_then_Inr_iff opt_tron_ok req_tron_ok)
next
  case (trigger n p)
  then show ?thesis
    by (auto simp: tron_wf_def tron_builders tron_read_trigger_def and_then_Inr_iff opt_tron_ok
        req_tron_ok)
next
  case (deploy n p)
  then show ?thesis
    by (auto simp: tron_wf_def tron_builders tron_read_deploy_def and_then_Inr_iff opt_tron_ok
        opt_percentage_ok split: option.splits)
qed (simp_all add: tron_wf_def tron_builders opt_tron_ok)

lemma tron_serialize_id:
  "jget (tron_serialize X r) ''id'' = Some (JString (x_uuid_show X (meta_id (tron_meta r))))"
  by (cases r) (simp_all add: wire)

lemma tron_page_of_type:
  "tron_url_kind r = KConnect \<longleftrightarrow> jget (tron_serialize X r) ''type'' = Some (JString ''connect'')"
  by (cases r) (simp_all add: wire)

lemma tron_expecting_Inr_iff:
  "tron_expecting X r a = Inr r' \<longleftrightarrow>
     (tron_account r = None \<or> tron_account r = Some a) \<and> tron_account r' = Some a \<and>
     tron_meta r' = tron_meta r \<and> tron_url_kind r' = tron_url_kind r \<and>
     tron_expecting X r a = Inr r'"
  by (cases r) (auto simp: result_iff)

lemma tron_expecting_same: "tron_account r = Some a \<Longrightarrow> tron_expecting X r a = Inr r"
  by (cases r) (simp_all add: expect_account_def)

interpretation tron: account_impl X "tron_ops X" tron_account "\<lambda>a. a"
  for X :: "'x tron_ext_scheme"
proof unfold_locales
  fix r i body r' and a :: tron_address
  show "jget (r_serialize (tron_ops X) r) ''id'' = Some (JString (x_uuid_show X (r_id (tron_ops X) r)))"
    by (simp add: tron_serialize_id)
  show "r_id (tron_ops X) r = i" if "r_from_json (tron_ops X) i body = Inr r"
    using tron_from_json_shape(1) [of X i body r] that by (simp add: request_meta_new_def)
  show "jget (r_serialize (tron_ops X) r) ''type'' = jget body ''type''"
    if "r_from_json (tron_ops X) i body = Inr r"
    using tron_from_json_shape(2) [of X i body r] that by simp
  show "r_url_kind (tron_ops X) r = KConnect \<longleftrightarrow>
      jget (r_serialize (tron_ops X) r) ''type'' = Some (JString ''connect'')"
    by (simp add: tron_page_of_type)
  assume e: "a_expecting (tron_ops X) r a = Inr r'"
  then have e': "tron_expecting X r a = Inr r'" by simp
  show "tron_account r' = Some a" "tron_account r = None \<or> tron_account r = Some a"
    "r_id (tron_ops X) r' = r_id (tron_ops X) r"
    "r_url_kind (tron_ops X) r' = r_url_kind (tron_ops X) r"
    using tron_expecting_Inr_iff [of X r a r'] e' by simp_all
  show "r' = r" if "tron_account r = Some a"
    using tron_expecting_same [OF that, of X] e' by simp
qed

subsection \<open>The wire form reads back\<close>

text \<open>The request under a new id, a deployment without its two numeric limits.\<close>

fun tron_reread :: "uuid \<Rightarrow> tron_request \<Rightarrow> tron_request" where
  "tron_reread i (TronConnect m n a) = TronConnect (request_meta_new i) n a"
| "tron_reread i (TronSendTransaction m n to from v d) =
     TronSendTransaction (request_meta_new i) n to from v d"
| "tron_reread i (TronTriggerContract m n c from s ps f v) =
     TronTriggerContract (request_meta_new i) n c from s ps f v"
| "tron_reread i (TronDeployContract m n from nm abi code ps f v e p) =
     TronDeployContract (request_meta_new i) n from nm abi code ps f v None None"
| "tron_reread i (TronSignMessage m n msg a) = TronSignMessage (request_meta_new i) n msg a"
| "tron_reread i (TronSignTypedData m n td a) = TronSignTypedData (request_meta_new i) n td a"

lemma network_field_wire [wire]:
  "map_of (network_field n) k =
     (if k = ''network'' then map_option (\<lambda>n. JString (tron_network_id n)) n else None)"
  by (cases n) (simp_all add: network_field_def wire)

lemma sun_field_wire [wire]:
  "map_of (sun_field k v) k' = (if k' = k then map_option (\<lambda>v. JString (sun_show v)) v else None)"
  by (simp add: sun_field_def wire)

lemma opt_tron_wire:
  "tron_laws X \<Longrightarrow> list_all tron_address_ok (list_of_opt a) \<Longrightarrow>
   jget body k = map_option (tron_json X) a \<Longrightarrow> opt_tron X body k = Inr a"
  by (cases a) (simp_all add: opt_tron_def opt_parsed_def tron_json_def tron_address_reads_back)

lemma req_tron_wire:
  "tron_laws X \<Longrightarrow> tron_address_ok a \<Longrightarrow> jget body k = Some (tron_json X a) \<Longrightarrow> req_tron X body k = Inr a"
  by (simp add: req_tron_def req_parsed_def str_field_def tron_json_def tron_address_reads_back)

lemma opt_sun_wire:
  "jget body k = map_option (\<lambda>v. JString (sun_show v)) v \<Longrightarrow> opt_sun body k = Inr v"
  unfolding opt_sun_def by (rule sun_codec.opt_parsed_render)

lemma hex_codec: "hex_laws X \<Longrightarrow> wire_codec (hex_data_from_str X) (hex_data_show X)"
  by unfold_locales (rule hex_data_from_str_show)

lemma opt_parsed_not_string:
  "jget body k = map_option f v \<Longrightarrow> (\<And>x. as_str (f x) = None) \<Longrightarrow> opt_parsed se parse body k = Inr None"
  by (cases v) (simp_all add: opt_parsed_def)

lemma tron_roundtrip_send:
  assumes "hex_laws X" "tron_laws X" "tron_wf (TronSendTransaction m n to from v d)"
  shows "tron_from_json X i (tron_serialize X (TronSendTransaction m n to from v d)) =
    Inr (TronSendTransaction (request_meta_new i) n to from v d)"
proof -
  let ?j = "tron_serialize X (TronSendTransaction m n to from v d)"
  have j: "jget ?j ''type'' = Some (JString ''send_transaction'')"
      "jget ?j ''network'' = map_option (\<lambda>n. JString (tron_network_id n)) n"
      "jget ?j ''to'' = Some (tron_json X to)" "jget ?j ''from'' = map_option (tron_json X) from"
      "jget ?j ''amount'' = Some (JString (sun_show v))"
      "jget ?j ''data'' = map_option (\<lambda>d. JString (hex_data_show X d)) d"
    by (simp_all add: wire)
  have ok: "tron_address_ok to" "list_all tron_address_ok (list_of_opt from)"
    using assms(3) by (simp_all add: tron_wf_def)
  show ?thesis
    by (simp add: tron_from_json_def tron_read_send_def str_field_wire [OF j(1)]
        tron_network_codec.opt_parsed_render [OF j(2)] req_tron_wire [OF assms(2) ok(1) j(3)]
        opt_tron_wire [OF assms(2) ok(2) j(4)] sun_codec.req_parsed_render [OF j(5)]
        wire_codec.opt_parsed_render [OF hex_codec [OF assms(1)] j(6)] tron_builders
        del: tron_serialize.simps)
qed

lemma tron_roundtrip_trigger:
  assumes "tron_laws X" "tron_wf (TronTriggerContract m n c from s ps f v)"
  shows "tron_from_json X i (tron_serialize X (TronTriggerContract m n c from s ps f v)) =
    Inr (TronTriggerContract (request_meta_new i) n c from s ps f v)"
proof -
  let ?j = "tron_serialize X (TronTriggerContract m n c from s ps f v)"
  have j: "jget ?j ''type'' = Some (JString ''trigger_contract'')"
      "jget ?j ''network'' = map_option (\<lambda>n. JString (tron_network_id n)) n"
      "jget ?j ''contractAddress'' = Some (tron_json X c)"
      "jget ?j ''from'' = map_option (tron_json X) from"
      "jget ?j ''functionSelector'' = Some (JString s)" "jget ?j ''parameters'' = ps"
      "jget ?j ''feeLimit'' = map_option (\<lambda>v. JString (sun_show v)) f"
      "jget ?j ''callValue'' = map_option (\<lambda>v. JString (sun_show v)) v"
    by (simp_all add: wire option.map_ident)
  have ok: "tron_address_ok c" "list_all tron_address_ok (list_of_opt from)"
    using assms(2) by (simp_all add: tron_wf_def)
  show ?thesis
    by (simp add: tron_from_json_def tron_read_trigger_def str_field_wire [OF j(1)]
        tron_network_codec.opt_parsed_render [OF j(2)] req_tron_wire [OF assms(1) ok(1) j(3)]
        opt_tron_wire [OF assms(1) ok(2) j(4)] str_field_wire [OF j(5)] j(6)
        opt_sun_wire [OF j(7)] opt_sun_wire [OF j(8)] tron_builders del: tron_serialize.simps)
qed

lemma tron_roundtrip_deploy:
  assumes "hex_laws X" "tron_laws X" "tron_wf (TronDeployContract m n from nm abi code ps f v e p)"
  shows "tron_from_json X i (tron_serialize X (TronDeployContract m n from nm abi code ps f v e p)) =
    Inr (TronDeployContract (request_meta_new i) n from nm abi code ps f v None None)"
proof -
  let ?j = "tron_serialize X (TronDeployContract m n from nm abi code ps f v e p)"
  have j: "jget ?j ''type'' = Some (JString ''deploy_contract'')"
      "jget ?j ''network'' = map_option (\<lambda>n. JString (tron_network_id n)) n"
      "jget ?j ''abi'' = Some abi" "jget ?j ''bytecode'' = Some (JString (hex_data_show X code))"
      "jget ?j ''contractName'' = map_option JString nm" "jget ?j ''parameters'' = ps"
      "jget ?j ''from'' = map_option (tron_json X) from"
      "jget ?j ''feeLimit'' = map_option (\<lambda>v. JString (sun_show v)) f"
      "jget ?j ''callValue'' = map_option (\<lambda>v. JString (sun_show v)) v"
      "jget ?j ''originEnergyLimit'' = map_option energy_json e"
      "jget ?j ''userFeePercentage'' = map_option percentage_json p"
    by (simp_all add: wire option.map_ident)
  have ok: "list_all tron_address_ok (list_of_opt from)"
    using assms(3) by (simp add: tron_wf_def)
  have nm: "Option.bind (map_option JString nm) as_str = nm" by (cases nm) simp_all
  show ?thesis
    by (simp add: tron_from_json_def tron_read_deploy_def str_field_wire [OF j(1)]
        tron_network_codec.opt_parsed_render [OF j(2)] j(3,5,6) nm
        wire_codec.req_parsed_render [OF hex_codec [OF assms(1)] j(4)]
        opt_tron_wire [OF assms(2) ok j(7)] opt_sun_wire [OF j(8)] opt_sun_wire [OF j(9)]
        opt_parsed_not_string [OF j(10)] opt_parsed_not_string [OF j(11)] energy_json_def
        percentage_json_def tron_builders del: tron_serialize.simps)
qed

lemma tron_roundtrip_account:
  assumes "tron_laws X" "list_all tron_address_ok (list_of_opt a)"
  shows "tron_from_json X i (tron_serialize X (TronConnect m n a)) =
      Inr (TronConnect (request_meta_new i) n a)"
    and "tron_from_json X i (tron_serialize X (TronSignMessage m n msg a)) =
      Inr (TronSignMessage (request_meta_new i) n msg a)"
    and "tron_from_json X i (tron_serialize X (TronSignTypedData m n td a)) =
      Inr (TronSignTypedData (request_meta_new i) n td a)"
proof -
  note rules = tron_from_json_def str_field_wire tron_network_codec.opt_parsed_render
    opt_tron_wire [OF assms] tron_builders tron_json_field_def wire
  show "tron_from_json X i (tron_serialize X (TronConnect m n a)) =
      Inr (TronConnect (request_meta_new i) n a)"
    by (simp add: rules)
  show "tron_from_json X i (tron_serialize X (TronSignMessage m n msg a)) =
      Inr (TronSignMessage (request_meta_new i) n msg a)"
    by (simp add: rules)
  show "tron_from_json X i (tron_serialize X (TronSignTypedData m n td a)) =
      Inr (TronSignTypedData (request_meta_new i) n td a)"
    by (simp add: rules)
qed

lemma tron_request_reads_back:
  "hex_laws X \<Longrightarrow> tron_laws X \<Longrightarrow> tron_wf r \<Longrightarrow>
     tron_from_json X i (tron_serialize X r) = Inr (tron_reread i r)"
  by (cases r)
    (simp_all add: tron_roundtrip_send tron_roundtrip_trigger tron_roundtrip_deploy
      tron_roundtrip_account tron_wf_def del: tron_serialize.simps)

end
