(* ===== verification/Tron_Signer.thy ===== *)
theory Tron_Signer
  imports Tron_Types Core_Engine
begin

section \<open>TRON: the typed signer\<close>

text \<open>
  \<open>signer.rs\<close> of \<open>browser-web3-signer-tron\<close>, in the form of the other signers: a method is the
  request it submits and what it makes of the wallet's string. \<open>parse_deploy_result\<close> reads the JSON a
  deployment returns.
\<close>

record 'x tron_signer =
  tsg_engine :: "(tron_request, 'x) engine"
  tsg_default_network :: tron_network

record deploy_result =
  dr_tx_hash :: tx_hash
  dr_contract_address :: tron_address

definition tron_signer_new ::
  "string \<Rightarrow> bind_port \<Rightarrow> tron_network \<Rightarrow> browser_choice \<Rightarrow> 'x tron_signer" where
  "tron_signer_new web_ui bind network browser =
     \<lparr>tsg_engine = engine_new web_ui bind browser, tsg_default_network = network\<rparr>"

definition tron_signer_from_env ::
  "'e core_ext_scheme \<Rightarrow> string \<Rightarrow> environment \<Rightarrow> browser_choice \<Rightarrow> 'x tron_signer" where
  "tron_signer_from_env X web_ui env browser =
     tron_signer_new web_ui (Preferred (tron_port X env)) (tron_default_network env) browser"

definition network_or_default :: "'x tron_signer \<Rightarrow> tron_network option \<Rightarrow> tron_network" where
  "network_or_default S n = unwrap_or n (tsg_default_network S)"

definition tron_parse_signed ::
  "'e core_ext_scheme \<Rightarrow> ('p \<Rightarrow> string) \<Rightarrow> (string \<Rightarrow> 'p + 'a) \<Rightarrow> string \<Rightarrow> string \<Rightarrow> signer_error + 'a" where
  "tron_parse_signed X show_err parse raw what =
     map_err (\<lambda>e. Invalid (''wallet returned invalid '' @ what @ '' '' @ x_debug X raw @ '': '' @ show_err e))
       (parse raw)"

definition parse_deploy_result :: "'e tron_ext_scheme \<Rightarrow> string \<Rightarrow> signer_error + deploy_result" where
  "parse_deploy_result X raw =
     and_then
       (map_err (\<lambda>e. Invalid (''malformed deploy result '' @ x_debug X raw @ '': '' @ e))
         (x_json_parse X raw)) (\<lambda>parsed.
     and_then
       (ok_or (Option.bind (jget parsed ''txHash'') as_str)
         (Invalid (''deploy result missing txHash: '' @ raw))) (\<lambda>hash.
     and_then (map_err Invalid (tx_hash_from_str X hash)) (\<lambda>tx_hash.
     and_then
       (ok_or (Option.bind (jget parsed ''contractAddress'') as_str)
         (Invalid (''deploy result missing contractAddress: '' @ raw))) (\<lambda>addr.
     and_then (map_err (\<lambda>e. Invalid (dpe_show e)) (tron_address_from_str X addr)) (\<lambda>contract_address.
       Inr \<lparr>dr_tx_hash = tx_hash, dr_contract_address = contract_address\<rparr>)))))"

definition tron_connect_wallet ::
  "'e tron_ext_scheme \<Rightarrow> (tron_request \<Rightarrow> signer_error + string) \<Rightarrow> uuid \<Rightarrow> 'x tron_signer \<Rightarrow>
     tron_network option \<Rightarrow> tron_address option \<Rightarrow> signer_error + tron_address" where
  "tron_connect_wallet X submit fresh S network address =
     and_then (submit (tron_connect fresh (Some (network_or_default S network)) address)) (\<lambda>raw.
       tron_parse_signed X dpe_show (tron_address_from_str X) raw ''tron address'')"

definition tron_send ::
  "'e tron_ext_scheme \<Rightarrow> (tron_request \<Rightarrow> signer_error + string) \<Rightarrow> uuid \<Rightarrow> 'x tron_signer \<Rightarrow>
     tron_send_params \<Rightarrow> signer_error + tx_hash" where
  "tron_send X submit fresh S p =
     and_then
       (submit (tron_send_transaction fresh
         (p\<lparr>ts_network := Some (network_or_default S (ts_network p))\<rparr>))) (\<lambda>raw.
       tron_parse_signed X (\<lambda>e. e) (tx_hash_from_str X) raw ''tx hash'')"

definition tron_trigger ::
  "'e tron_ext_scheme \<Rightarrow> (tron_request \<Rightarrow> signer_error + string) \<Rightarrow> uuid \<Rightarrow> 'x tron_signer \<Rightarrow>
     tron_trigger_params \<Rightarrow> signer_error + tx_hash" where
  "tron_trigger X submit fresh S p =
     and_then
       (submit (tron_trigger_contract fresh
         (p\<lparr>tt_network := Some (network_or_default S (tt_network p))\<rparr>))) (\<lambda>raw.
       tron_parse_signed X (\<lambda>e. e) (tx_hash_from_str X) raw ''tx hash'')"

definition tron_deploy ::
  "'e tron_ext_scheme \<Rightarrow> (tron_request \<Rightarrow> signer_error + string) \<Rightarrow> uuid \<Rightarrow> 'x tron_signer \<Rightarrow>
     tron_deploy_params \<Rightarrow> signer_error + deploy_result" where
  "tron_deploy X submit fresh S p =
     and_then
       (submit (tron_deploy_contract fresh
         (p\<lparr>tdp_network := Some (network_or_default S (tdp_network p))\<rparr>))) (\<lambda>raw.
       parse_deploy_result X raw)"

definition tron_sign ::
  "'e tron_ext_scheme \<Rightarrow> (tron_request \<Rightarrow> signer_error + string) \<Rightarrow> uuid \<Rightarrow> 'x tron_signer \<Rightarrow>
     string \<Rightarrow> tron_address option \<Rightarrow> tron_network option \<Rightarrow> signer_error + signature" where
  "tron_sign X submit fresh S message address network =
     and_then
       (submit (tron_sign_message fresh message address (Some (network_or_default S network)))) (\<lambda>raw.
       tron_parse_signed X (\<lambda>e. e) (signature_from_str X) raw ''signature'')"

definition tron_sign_typed ::
  "'e tron_ext_scheme \<Rightarrow> (tron_request \<Rightarrow> signer_error + string) \<Rightarrow> uuid \<Rightarrow> 'x tron_signer \<Rightarrow>
     tron_typed_data \<Rightarrow> tron_address option \<Rightarrow> tron_network option \<Rightarrow> signer_error + signature" where
  "tron_sign_typed X submit fresh S td address network =
     and_then
       (submit (tron_sign_typed_data fresh td address (Some (network_or_default S network)))) (\<lambda>raw.
       tron_parse_signed X (\<lambda>e. e) (signature_from_str X) raw ''signature'')"

lemma tron_parse_signed_Inr_iff [result_iff]:
  "tron_parse_signed X se parse raw what = Inr x \<longleftrightarrow> parse raw = Inr x"
  by (simp add: tron_parse_signed_def)

lemma parse_deploy_result_Inr_iff:
  "parse_deploy_result X raw = Inr d \<longleftrightarrow>
     (\<exists>v hash addr. x_json_parse X raw = Inr v \<and> jget v ''txHash'' = Some (JString hash) \<and>
        jget v ''contractAddress'' = Some (JString addr) \<and> tx_hash_from_str X hash = Inr (dr_tx_hash d) \<and>
        tron_address_from_str X addr = Inr (dr_contract_address d))"
proof
  assume "parse_deploy_result X raw = Inr d"
  then show "\<exists>v hash addr. x_json_parse X raw = Inr v \<and> jget v ''txHash'' = Some (JString hash) \<and>
        jget v ''contractAddress'' = Some (JString addr) \<and> tx_hash_from_str X hash = Inr (dr_tx_hash d) \<and>
        tron_address_from_str X addr = Inr (dr_contract_address d)"
    unfolding parse_deploy_result_def and_then_Inr_iff map_err_Inr_iff ok_or_Inr_iff bind_eq_Some_conv
      as_str_Some_iff
    by auto
qed (auto simp: parse_deploy_result_def)

lemma tron_deploy_Inr:
  "tron_deploy X submit fresh S p = Inr d \<Longrightarrow>
     tx_hash_ok (dr_tx_hash d) \<and> tron_address_ok (dr_contract_address d)"
  by (auto simp: tron_deploy_def and_then_Inr_iff parse_deploy_result_Inr_iff tx_hash_from_str_ok
      tron_address_from_str_Inr_iff)

text \<open>Every request the typed signer submits names a network.\<close>

fun tron_network_of :: "tron_request \<Rightarrow> tron_network option" where
  "tron_network_of (TronConnect _ n _) = n"
| "tron_network_of (TronSendTransaction _ n _ _ _ _) = n"
| "tron_network_of (TronTriggerContract _ n _ _ _ _ _ _) = n"
| "tron_network_of (TronDeployContract _ n _ _ _ _ _ _ _ _ _) = n"
| "tron_network_of (TronSignMessage _ n _ _) = n"
| "tron_network_of (TronSignTypedData _ n _ _) = n"

lemma tron_send_Inr:
  assumes "tron_send X submit fresh S p = Inr h"
  shows "\<exists>r raw. submit r = Inr raw \<and> tron_network_of r = Some (network_or_default S (ts_network p)) \<and>
    tx_hash_from_str X raw = Inr h \<and> tx_hash_ok h"
proof -
  let ?r = "tron_send_transaction fresh (p\<lparr>ts_network := Some (network_or_default S (ts_network p))\<rparr>)"
  obtain raw where "submit ?r = Inr raw" "tx_hash_from_str X raw = Inr h"
    using assms by (auto simp: tron_send_def and_then_Inr_iff tron_parse_signed_Inr_iff)
  moreover have "tron_network_of ?r = Some (network_or_default S (ts_network p))"
    by (simp add: tron_send_transaction_def)
  ultimately show ?thesis using tx_hash_from_str_ok by blast
qed

end
