(* ===== verification/Btc_Domain.thy ===== *)
theory Btc_Domain
  imports Core_Bytes Core_Config Core_Types
begin

section \<open>Bitcoin: domain types and configuration\<close>

text \<open>
  \<open>domain.rs\<close> and \<open>config.rs\<close> of \<open>browser-web3-signer-btc\<close>. The types of \<open>rust-bitcoin\<close> are type
  variables (\<open>'a\<close> an address, \<open>'k\<close> a public key, \<open>'p\<close> a PSBT) and its functions the fields of
  \<open>btc_ext\<close>; a transaction id is its 256 bits, and of a PSBT's inputs the code looks at how many leaf
  scripts each lists. \<open>on_network\<close> is the invariant of a \<open>BtcAddress\<close>, which only \<open>require_network\<close>
  makes.
\<close>

subsection \<open>The library functions\<close>

datatype bitcoin_network = Bitcoin | BTestnet | BTestnet4 | BSignet | BRegtest

type_synonym txid = u256

record ('a, 'k, 'p) btc_ext = core_ext +
  x_btc_addr_parse :: "string \<Rightarrow> string + 'a"
  x_btc_addr_valid :: "'a \<Rightarrow> bitcoin_network \<Rightarrow> bool"
  x_btc_addr_show :: "'a \<Rightarrow> string"
  x_key_parse :: "string \<Rightarrow> string + 'k"
  x_key_show :: "'k \<Rightarrow> string"
  x_psbt_deserialize :: "u8 list \<Rightarrow> string + 'p"
  x_psbt_hex :: "'p \<Rightarrow> string"
  x_psbt_txid :: "'p \<Rightarrow> txid"
  x_psbt_leaves :: "'p \<Rightarrow> nat list"
  x_from_hex :: "string \<Rightarrow> string + u8 list"
  x_b64_decode :: "string \<Rightarrow> string + u8 list"
  x_b64_encode :: "u8 list \<Rightarrow> string"
  x_txid_parse :: "string \<Rightarrow> string + txid"
  x_txid_show :: "txid \<Rightarrow> string"

subsection \<open>Networks\<close>

datatype btc_network = BtcMainnet | BtcTestnet | BtcTestnet4 | BtcSignet | BtcRegtest

definition btc_network_id :: "btc_network \<Rightarrow> string" where
  "btc_network_id n =
     (case n of
        BtcMainnet \<Rightarrow> ''mainnet''
      | BtcTestnet \<Rightarrow> ''testnet''
      | BtcTestnet4 \<Rightarrow> ''testnet4''
      | BtcSignet \<Rightarrow> ''signet''
      | BtcRegtest \<Rightarrow> ''regtest'')"

definition btc_network_show :: "btc_network \<Rightarrow> string" where
  [simp]: "btc_network_show n = btc_network_id n"

definition btc_network_json :: "btc_network \<Rightarrow> json" where
  [simp]: "btc_network_json n = JString (btc_network_id n)"

definition to_bitcoin :: "btc_network \<Rightarrow> bitcoin_network" where
  "to_bitcoin n =
     (case n of
        BtcMainnet \<Rightarrow> Bitcoin
      | BtcTestnet \<Rightarrow> BTestnet
      | BtcTestnet4 \<Rightarrow> BTestnet4
      | BtcSignet \<Rightarrow> BSignet
      | BtcRegtest \<Rightarrow> BRegtest)"

definition btc_network_from_str :: "string \<Rightarrow> domain_parse_error + btc_network" where
  "btc_network_from_str s =
     (let l = to_ascii_lowercase s
      in if l = ''mainnet'' then Inr BtcMainnet
         else if l = ''testnet'' \<or> l = ''testnet3'' then Inr BtcTestnet
         else if l = ''testnet4'' then Inr BtcTestnet4
         else if l = ''signet'' then Inr BtcSignet
         else if l = ''regtest'' then Inr BtcRegtest
         else Inl (dpe_new ''bitcoin network'' s ''expected mainnet|testnet|testnet4|signet|regtest''))"

lemma btc_network_codec_law: "btc_network_from_str (btc_network_id n) = Inr n"
  by (cases n)
    (simp_all add: btc_network_id_def btc_network_from_str_def to_ascii_lowercase_def ascii_lower_def)

interpretation btc_network_codec: wire_codec btc_network_from_str btc_network_id
  by unfold_locales (rule btc_network_codec_law)

lemma to_bitcoin_inject: "to_bitcoin m = to_bitcoin n \<longleftrightarrow> m = n"
  by (cases m; cases n) (simp_all add: to_bitcoin_def)

subsection \<open>Addresses and keys\<close>

datatype 'a unchecked_address = Unchecked (unchecked_inner: 'a)
datatype 'a btc_address = BtcAddress (btc_inner: 'a)
datatype 'k btc_public_key = BtcPublicKey (key_inner: 'k)

definition unchecked_from_str ::
  "('a, 'k, 'p, 'x) btc_ext_scheme \<Rightarrow> string \<Rightarrow> domain_parse_error + 'a unchecked_address" where
  "unchecked_from_str X s =
     map_err (\<lambda>e. dpe_new ''bitcoin address'' s e) (map_ok Unchecked (x_btc_addr_parse X s))"

definition require_network ::
  "('a, 'k, 'p, 'x) btc_ext_scheme \<Rightarrow> 'a unchecked_address \<Rightarrow> btc_network \<Rightarrow>
     domain_parse_error + 'a btc_address" where
  "require_network X u network =
     (if x_btc_addr_valid X (unchecked_inner u) (to_bitcoin network)
      then Inr (BtcAddress (unchecked_inner u))
      else Inl (dpe_new ''bitcoin address'' (x_btc_addr_show X (unchecked_inner u))
        (''not a '' @ btc_network_show network @ '' address'')))"

definition btc_address_show :: "('a, 'k, 'p, 'x) btc_ext_scheme \<Rightarrow> 'a btc_address \<Rightarrow> string" where
  "btc_address_show X a = x_btc_addr_show X (btc_inner a)"

definition on_network ::
  "('a, 'k, 'p, 'x) btc_ext_scheme \<Rightarrow> btc_network \<Rightarrow> 'a btc_address \<Rightarrow> bool" where
  "on_network X network a \<longleftrightarrow> x_btc_addr_valid X (btc_inner a) (to_bitcoin network)"

definition key_from_str ::
  "('a, 'k, 'p, 'x) btc_ext_scheme \<Rightarrow> string \<Rightarrow> domain_parse_error + 'k btc_public_key" where
  "key_from_str X s =
     map_err (\<lambda>e. dpe_new ''public key'' s e) (map_ok BtcPublicKey (x_key_parse X s))"

definition key_show :: "('a, 'k, 'p, 'x) btc_ext_scheme \<Rightarrow> 'k btc_public_key \<Rightarrow> string" where
  "key_show X k = x_key_show X (key_inner k)"

lemma require_network_Inr_iff [result_iff]:
  "require_network X u network = Inr a \<longleftrightarrow> a = BtcAddress (unchecked_inner u) \<and> on_network X network a"
  by (auto simp: require_network_def on_network_def)

subsection \<open>Amounts and fee rates\<close>

datatype sats = Sats (sats_get: u64)

definition sats_show :: "sats \<Rightarrow> string" where
  "sats_show v = show_word (sats_get v)"

definition sats_from_str :: "string \<Rightarrow> domain_parse_error + sats" where
  "sats_from_str s =
     map_err (\<lambda>e. dpe_new ''sat amount'' s (int_error_show e)) (map_ok Sats (parse_word s))"

definition to_btc_string :: "sats \<Rightarrow> string" where
  "to_btc_string v =
     (let s = show_word (sats_get v div 100000000) @ ''.'' @
              pad_zeros 8 (show_word (sats_get v mod 100000000))
      in trim_end_matches (CHR ''.'') (trim_end_matches (CHR ''0'') s))"

datatype sat_per_vb = SatPerVb (rate_get: u64)

definition rate_ok :: "sat_per_vb \<Rightarrow> bool" where
  "rate_ok r \<longleftrightarrow> rate_get r \<noteq> 0"

definition rate_show :: "sat_per_vb \<Rightarrow> string" where
  "rate_show r = show_word (rate_get r)"

definition rate_from_str :: "string \<Rightarrow> domain_parse_error + sat_per_vb" where
  "rate_from_str s =
     map_err (\<lambda>e. dpe_new ''fee rate (sat/vB)'' s (int_error_show e)) (map_ok SatPerVb (parse_nonzero s))"

interpretation sats_codec: wire_codec sats_from_str sats_show
  by unfold_locales (simp add: sats_from_str_def sats_show_def)

lemma rate_from_str_Inr_iff [result_iff]:
  "rate_from_str s = Inr r \<longleftrightarrow> parse_word s = Inr (rate_get r) \<and> rate_ok r"
  by (cases r) (auto simp: rate_from_str_def result_iff rate_ok_def)

lemma rate_reads_back: "rate_ok r \<Longrightarrow> rate_from_str (rate_show r) = Inr r"
  by (simp add: rate_from_str_Inr_iff rate_show_def)

subsection \<open>The decimal form of an amount\<close>

lemma dec_val_zeros: "dec_val acc (replicate k (CHR ''0'')) = acc * 10 ^ k"
  by (induction k arbitrary: acc) (simp_all add: digit_of_def)

lemma all_digits_zeros [simp]: "all_digits (replicate k (CHR ''0''))"
  by (induction k) (simp_all add: digit_of_def)

lemma dec_val_pad [simp]: "dec_val 0 (pad_zeros w (dec n)) = n"
  by (simp add: pad_zeros_def dec_val_zeros)

lemma all_digits_pad [simp]: "all_digits (pad_zeros w (dec n))"
  by (simp add: pad_zeros_def)

lemma length_dec: "n < 10 ^ Suc k \<Longrightarrow> length (dec n) \<le> Suc k"
proof (induction k arbitrary: n)
  case 0
  then show ?case by (subst dec.simps) simp
next
  case (Suc k)
  show ?case
  proof (cases "n < 10")
    case True
    then show ?thesis by (subst dec.simps) simp
  next
    case False
    have "n div 10 < 10 ^ Suc k" using Suc.prems by simp
    from Suc.IH [OF this] False show ?thesis by (subst dec.simps) simp
  qed
qed

lemma length_pad: "length (dec n) \<le> w \<Longrightarrow> length (pad_zeros w (dec n)) = w"
  by (simp add: pad_zeros_def)

lemma dec_not_Nil [simp]: "dec n \<noteq> []"
  by (subst dec.simps) simp

lemma digit_not_dot: "all_digits s \<Longrightarrow> CHR ''.'' \<notin> set s"
  by (auto simp: all_digits_def digit_of_def)

text \<open>
  Trimming a decimal: what stays is the whole part, then nothing or a point and a fraction that does
  not end in zero, and the zeros cut from the fraction do not count.
\<close>

lemma trim_decimal:
  assumes "ip \<noteq> []" and "CHR ''.'' \<notin> set ip" and "all_digits fp"
  obtains f k where "fp = f @ replicate k (CHR ''0'')" and "f = [] \<or> last f \<noteq> CHR ''0''"
    and "trim_end_matches (CHR ''.'') (trim_end_matches (CHR ''0'') (ip @ ''.'' @ fp)) =
      (if f = [] then ip else ip @ ''.'' @ f)"
proof -
  let ?f = "trim_end_matches (CHR ''0'') fp"
  let ?k = "length (takeWhile (\<lambda>x. x = CHR ''0'') (rev fp))"
  have split: "fp = ?f @ replicate ?k (CHR ''0'')" by (rule trim_end_matches_split)
  have last: "?f = [] \<or> last ?f \<noteq> CHR ''0''"
    using hd_dropWhile [of "\<lambda>x. x = CHR ''0''" "rev fp"]
    by (cases "dropWhile (\<lambda>x. x = CHR ''0'') (rev fp)") (simp_all add: trim_end_matches_def)
  have trimmed: "trim_end_matches (CHR ''0'') (ip @ ''.'' @ fp) = ip @ ''.'' @ ?f"
  proof -
    have "ip @ ''.'' @ fp = (ip @ ''.'' @ ?f) @ replicate ?k (CHR ''0'')"
      using split by simp
    moreover have "last (ip @ ''.'' @ ?f) \<noteq> CHR ''0''" using last by auto
    ultimately show ?thesis by (metis trim_end_matches_append)
  qed
  have dots: "trim_end_matches (CHR ''.'') (ip @ ''.'' @ ?f) = (if ?f = [] then ip else ip @ ''.'' @ ?f)"
  proof (cases "?f = []")
    case True
    have "last ip \<noteq> CHR ''.''" using assms(1,2) by (metis last_in_set)
    then have "trim_end_matches (CHR ''.'') (ip @ replicate 1 (CHR ''.'')) = ip"
      by (intro trim_end_matches_append) simp
    with True show ?thesis by simp
  next
    case False
    have "all_digits ?f" using assms(3) split by (metis all_digits_simps(3))
    then have "last ?f \<noteq> CHR ''.''" using False digit_not_dot last_in_set by metis
    then have "trim_end_matches (CHR ''.'') ((ip @ ''.'' @ ?f) @ replicate 0 (CHR ''.'')) = ip @ ''.'' @ ?f"
      using False by (intro trim_end_matches_append) simp
    with False show ?thesis by simp
  qed
  show thesis
    by (rule that [OF split last]) (simp only: trimmed dots)
qed

definition decimal_value :: "string \<Rightarrow> string \<Rightarrow> nat" where
  "decimal_value ip fp = dec_val 0 ip * 10 ^ 8 + dec_val 0 (fp @ replicate (8 - length fp) (CHR ''0''))"

lemma to_btc_string_value:
  obtains ip fp where "to_btc_string v = (if fp = [] then ip else ip @ ''.'' @ fp)"
    and "ip \<noteq> []" "all_digits ip" "all_digits fp" "length fp \<le> 8"
    and "fp = [] \<or> last fp \<noteq> CHR ''0''" and "decimal_value ip fp = unat (sats_get v)"
proof -
  let ?n = "unat (sats_get v)"
  let ?ip = "dec (?n div 100000000)" and ?fp = "pad_zeros 8 (dec (?n mod 100000000))"
  have len: "length ?fp = 8"
    by (rule length_pad) (use length_dec [of "?n mod 100000000" 7] in simp)
  have dot: "CHR ''.'' \<notin> set ?ip" by (rule digit_not_dot) simp
  obtain f k where fk: "?fp = f @ replicate k (CHR ''0'')" "f = [] \<or> last f \<noteq> CHR ''0''"
      "trim_end_matches (CHR ''.'') (trim_end_matches (CHR ''0'') (?ip @ ''.'' @ ?fp)) =
        (if f = [] then ?ip else ?ip @ ''.'' @ f)"
    by (rule trim_decimal [of ?ip ?fp]) (use dot in auto)
  have s: "to_btc_string v = (if f = [] then ?ip else ?ip @ ''.'' @ f)"
    using fk(3) by (simp add: to_btc_string_def Let_def show_word_def unat_div_distrib unat_mod_distrib)
  have k: "k = 8 - length f" "length f \<le> 8" using len fk(1) by (metis add_diff_cancel_left' length_append length_replicate, metis le_add1 length_append)
  have "dec_val 0 (f @ replicate (8 - length f) (CHR ''0'')) = ?n mod 100000000"
    using fk(1) k(1) by (metis dec_val_pad)
  then have "decimal_value ?ip f = ?n div 100000000 * 10 ^ 8 + ?n mod 100000000"
    unfolding decimal_value_def by (simp only: dec_val_dec)
  also have "\<dots> = ?n" using div_mult_mod_eq [of ?n 100000000] by simp
  finally have v: "decimal_value ?ip f = ?n" .
  have "all_digits (pad_zeros 8 (dec (?n mod 100000000)))" by simp
  then have f: "all_digits f" unfolding fk(1) by simp
  show thesis
    by (rule that [OF s _ _ f k(2) fk(2) v]) simp_all
qed

subsection \<open>PSBTs\<close>

datatype 'p psbt_data = PsbtData (psbt_inner: 'p)

definition unsigned_txid :: "('a, 'k, 'p, 'x) btc_ext_scheme \<Rightarrow> 'p psbt_data \<Rightarrow> txid" where
  "unsigned_txid X d = x_psbt_txid X (psbt_inner d)"

definition psbt_input_count :: "('a, 'k, 'p, 'x) btc_ext_scheme \<Rightarrow> 'p psbt_data \<Rightarrow> nat" where
  "psbt_input_count X d = length (x_psbt_leaves X (psbt_inner d))"

definition spends_script_path :: "('a, 'k, 'p, 'x) btc_ext_scheme \<Rightarrow> 'p psbt_data \<Rightarrow> u32 \<Rightarrow> bool" where
  "spends_script_path X d index =
     (let inputs = x_psbt_leaves X (psbt_inner d)
      in unat index < length inputs \<and> inputs ! unat index \<noteq> 0)"

definition psbt_from_str ::
  "('a, 'k, 'p, 'x) btc_ext_scheme \<Rightarrow> string \<Rightarrow> domain_parse_error + 'p psbt_data" where
  "psbt_from_str X s0 =
     (let s = trim s0
      in and_then
           (map_err (\<lambda>e. dpe_new ''psbt'' s e)
             (if list_all is_ascii_hexdigit s then x_from_hex X s else x_b64_decode X s)) (\<lambda>bytes.
         map_err (\<lambda>e. dpe_new ''psbt'' s e) (map_ok PsbtData (x_psbt_deserialize X bytes))))"

definition psbt_show :: "('a, 'k, 'p, 'x) btc_ext_scheme \<Rightarrow> 'p psbt_data \<Rightarrow> string" where
  "psbt_show X d = x_psbt_hex X (psbt_inner d)"

subsection \<open>Message signing\<close>

datatype message_protocol = Bip322 | Ecdsa

definition protocol_default :: message_protocol where
  "protocol_default = Bip322"

definition protocol_id :: "message_protocol \<Rightarrow> string" where
  "protocol_id p = (case p of Bip322 \<Rightarrow> ''bip322'' | Ecdsa \<Rightarrow> ''ecdsa'')"

definition protocol_show :: "message_protocol \<Rightarrow> string" where
  "protocol_show p = protocol_id p"

definition protocol_json :: "message_protocol \<Rightarrow> json" where
  [simp]: "protocol_json p = JString (protocol_id p)"

definition protocol_from_str :: "string \<Rightarrow> domain_parse_error + message_protocol" where
  "protocol_from_str s =
     (let l = to_ascii_lowercase s
      in if l = ''bip322'' then Inr Bip322
         else if l = ''ecdsa'' then Inr Ecdsa
         else Inl (dpe_new ''message protocol'' s ''expected bip322|ecdsa''))"

lemma protocol_codec_law: "protocol_from_str (protocol_id p) = Inr p"
  by (cases p)
    (simp_all add: protocol_id_def protocol_from_str_def to_ascii_lowercase_def ascii_lower_def)

interpretation protocol_codec: wire_codec protocol_from_str protocol_id
  by unfold_locales (rule protocol_codec_law)

datatype message_signature = MessageSignature (ms_bytes: "u8 list")

definition message_signature_from_str ::
  "('a, 'k, 'p, 'x) btc_ext_scheme \<Rightarrow> string \<Rightarrow> domain_parse_error + message_signature" where
  "message_signature_from_str X s =
     and_then (map_err (\<lambda>e. dpe_new ''message signature'' s e) (x_b64_decode X s)) (\<lambda>bytes.
       if bytes = [] then Inl (dpe_new ''message signature'' s ''empty'')
       else Inr (MessageSignature bytes))"

definition message_signature_show ::
  "('a, 'k, 'p, 'x) btc_ext_scheme \<Rightarrow> message_signature \<Rightarrow> string" where
  "message_signature_show X m = x_b64_encode X (ms_bytes m)"

lemma message_signature_from_str_Inr_iff [result_iff]:
  "message_signature_from_str X s = Inr m \<longleftrightarrow> x_b64_decode X s = Inr (ms_bytes m) \<and> ms_bytes m \<noteq> []"
  by (cases m) (auto simp: message_signature_from_str_def result_iff)

subsection \<open>The laws of the library\<close>

text \<open>
  Each printer's output reads back; a PSBT's hex is hex digits, so it is taken for hex and has no
  white space to trim.
\<close>

definition btc_laws :: "('a, 'k, 'p, 'x) btc_ext_scheme \<Rightarrow> bool" where
  "btc_laws X \<longleftrightarrow>
     (\<forall>a. x_btc_addr_parse X (x_btc_addr_show X a) = Inr a) \<and>
     (\<forall>p. list_all is_ascii_hexdigit (x_psbt_hex X p)) \<and>
     (\<forall>p. \<exists>bytes. x_from_hex X (x_psbt_hex X p) = Inr bytes \<and> x_psbt_deserialize X bytes = Inr p)"

lemma hexdigit_no_whitespace:
  assumes "list_all is_ascii_hexdigit s"
  shows "some_prefix whitespace s = None" "some_prefix (map rev whitespace) s = None"
proof -
  have first: "\<forall>w \<in> set whitespace. w \<noteq> [] \<and> \<not> is_ascii_hexdigit (hd w) \<and> \<not> is_ascii_hexdigit (last w)"
    by (simp add: whitespace_def is_ascii_hexdigit_def Let_def)
  have no: "\<not> (w \<noteq> [] \<and> take (length w) s = w)" if "\<not> is_ascii_hexdigit (hd w)" for w
  proof
    assume w: "w \<noteq> [] \<and> take (length w) s = w"
    then have "hd w \<in> set s" by (metis hd_in_set in_set_takeD)
    with assms that show False by (auto simp: list_all_iff)
  qed
  have "find (\<lambda>w. w \<noteq> [] \<and> take (length w) s = w) whitespace = None"
    using first no by (auto simp: find_None_iff)
  moreover have "find (\<lambda>w. w \<noteq> [] \<and> take (length w) s = w) (map rev whitespace) = None"
    unfolding find_None_iff
  proof
    assume "\<exists>x. x \<in> set (map rev whitespace) \<and> x \<noteq> [] \<and> take (length x) s = x"
    then obtain w where "w \<in> set whitespace" "rev w \<noteq> [] \<and> take (length (rev w)) s = rev w" by auto
    then show False using first no [of "rev w"] by (auto simp: hd_rev)
  qed
  ultimately show "some_prefix whitespace s = None" "some_prefix (map rev whitespace) s = None"
    by (simp_all add: some_prefix_def)
qed

lemma trim_hexdigits: "list_all is_ascii_hexdigit s \<Longrightarrow> trim s = s"
proof -
  assume s: "list_all is_ascii_hexdigit s"
  then have "list_all is_ascii_hexdigit (rev s)" by (simp add: list_all_iff)
  with s show ?thesis
    unfolding trim_def by (simp add: trim_with_id hexdigit_no_whitespace)
qed

lemma psbt_codec: "btc_laws X \<Longrightarrow> wire_codec (psbt_from_str X) (psbt_show X)"
proof unfold_locales
  fix d assume laws: "btc_laws X"
  then obtain bytes where b: "x_from_hex X (psbt_show X d) = Inr bytes"
      "x_psbt_deserialize X bytes = Inr (psbt_inner d)"
    unfolding btc_laws_def psbt_show_def by blast
  have "list_all is_ascii_hexdigit (psbt_show X d)"
    using laws by (simp add: btc_laws_def psbt_show_def)
  with b show "psbt_from_str X (psbt_show X d) = Inr d"
    by (simp add: psbt_from_str_def trim_hexdigits Let_def)
qed

lemma unchecked_reads_back:
  "btc_laws X \<Longrightarrow> unchecked_from_str X (btc_address_show X a) = Inr (Unchecked (btc_inner a))"
  by (simp add: btc_laws_def unchecked_from_str_def btc_address_show_def)

subsection \<open>config.rs\<close>

definition BTC_PORT_ENV :: string where
  "BTC_PORT_ENV = ''BROWSER_WEB3_BTC_PORT''"

definition BTC_NETWORK_ENV :: string where
  "BTC_NETWORK_ENV = ''BROWSER_WEB3_BTC_NETWORK''"

definition BTC_ACCOUNT_ENV :: string where
  "BTC_ACCOUNT_ENV = ''BROWSER_WEB3_BTC_ACCOUNT''"

definition DEFAULT_BTC_PORT :: port where
  "DEFAULT_BTC_PORT = Port 3849"

definition btc_port :: "'x core_ext_scheme \<Rightarrow> environment \<Rightarrow> port" where
  "btc_port X env = port_from_env X env BTC_PORT_ENV DEFAULT_BTC_PORT"

definition btc_default_network :: "environment \<Rightarrow> btc_network" where
  "btc_default_network env =
     unwrap_or (Option.bind (env_ok env BTC_NETWORK_ENV) (\<lambda>v. ok (btc_network_from_str v))) BtcMainnet"

definition btc_block_explorer :: "btc_network \<Rightarrow> string option" where
  "btc_block_explorer n =
     (case n of
        BtcMainnet \<Rightarrow> Some ''https://mempool.space/tx/''
      | BtcTestnet \<Rightarrow> Some ''https://mempool.space/testnet/tx/''
      | BtcTestnet4 \<Rightarrow> Some ''https://mempool.space/testnet4/tx/''
      | BtcSignet \<Rightarrow> Some ''https://mempool.space/signet/tx/''
      | BtcRegtest \<Rightarrow> None)"

lemma btc_port_ok: "port_ok (btc_port X env)"
  unfolding btc_port_def by (rule port_from_env_ok) (simp add: port_ok_def DEFAULT_BTC_PORT_def)

lemma btc_default_network_set:
  "env BTC_NETWORK_ENV = EnvSet (btc_network_id n) \<Longrightarrow> btc_default_network env = n"
  by (simp add: btc_default_network_def env_ok_def btc_network_codec_law)

end
