(* ===== verification/Btc_Results.thy ===== *)
theory Btc_Results
  imports Btc_Domain
begin

section \<open>Bitcoin: the checks on a wallet's result\<close>

text \<open>
  The free functions of \<open>signer.rs\<close> of \<open>browser-web3-signer-btc\<close>, which both the typed signer and
  \<open>check_result\<close> apply to what the wallet returns: \<open>parse_account\<close>, \<open>parse_signed_psbt\<close> and
  \<open>parse_signed\<close>. An \<open>Inl\<close> is the \<open>SignerError\<close>.
\<close>

record ('a, 'k) btc_account =
  ba_address :: "'a btc_address"
  ba_public_key :: "'k btc_public_key"

record 'p signed_psbt =
  sn_psbt :: "'p psbt_data"
  sn_txid :: "txid option"

definition btc_invalid :: "domain_parse_error \<Rightarrow> signer_error" where
  "btc_invalid e = Invalid (dpe_show e)"

definition btc_parse_signed ::
  "'e core_ext_scheme \<Rightarrow> ('q \<Rightarrow> string) \<Rightarrow> (string \<Rightarrow> 'q + 't) \<Rightarrow> string \<Rightarrow> string \<Rightarrow> signer_error + 't" where
  "btc_parse_signed X show_err parse raw what =
     map_err (\<lambda>e. Invalid (''wallet returned invalid '' @ what @ '' '' @ x_debug X raw @ '': '' @ show_err e))
       (parse raw)"

definition result_field :: "string \<Rightarrow> json \<Rightarrow> string \<Rightarrow> signer_error + string" where
  "result_field raw parsed key =
     ok_or (Option.bind (jget parsed key) as_str)
       (Invalid (''connect result missing '' @ key @ '': '' @ raw))"

definition parse_btc_account ::
  "('a, 'k, 'p, 'x) btc_ext_scheme \<Rightarrow> string \<Rightarrow> btc_network \<Rightarrow> signer_error + ('a, 'k) btc_account" where
  "parse_btc_account X raw network =
     and_then
       (map_err (\<lambda>e. Invalid (''malformed connect result '' @ x_debug X raw @ '': '' @ e))
         (x_json_parse X raw)) (\<lambda>parsed.
     and_then (result_field raw parsed ''address'') (\<lambda>addr.
     and_then (btc_parse_signed X dpe_show (unchecked_from_str X) addr ''address'') (\<lambda>u.
     and_then (map_err btc_invalid (require_network X u network)) (\<lambda>address.
     and_then (result_field raw parsed ''publicKey'') (\<lambda>key.
     and_then (btc_parse_signed X dpe_show (key_from_str X) key ''public key'') (\<lambda>public_key.
       Inr \<lparr>ba_address = address, ba_public_key = public_key\<rparr>))))))"

definition parse_btc_txid ::
  "('a, 'k, 'p, 'x) btc_ext_scheme \<Rightarrow> string \<Rightarrow> signer_error + txid" where
  "parse_btc_txid X raw = btc_parse_signed X (\<lambda>e. e) (x_txid_parse X) raw ''txid''"

text \<open>The \<open>if let Some(txid) = txid && txid != expected\<close> of \<open>parse_signed_psbt\<close>.\<close>

definition check_broadcast ::
  "('a, 'k, 'p, 'x) btc_ext_scheme \<Rightarrow> txid \<Rightarrow> txid option \<Rightarrow> signer_error + unit" where
  "check_broadcast X expected txid =
     (case txid of
        Some t \<Rightarrow>
          if t \<noteq> expected then
            Inl (Invalid (''wallet broadcast txid '' @ x_txid_show X t @
              '', but the PSBT'' @ [quote_char] @ ''s txid is '' @ x_txid_show X expected))
          else Inr ()
      | None \<Rightarrow> Inr ())"

definition parse_signed_psbt ::
  "('a, 'k, 'p, 'x) btc_ext_scheme \<Rightarrow> 'p psbt_data \<Rightarrow> string \<Rightarrow> signer_error + 'p signed_psbt" where
  "parse_signed_psbt X sent raw =
     and_then
       (map_err (\<lambda>e. Invalid (''malformed sign_psbt result '' @ x_debug X raw @ '': '' @ e))
         (x_json_parse X raw)) (\<lambda>parsed.
     and_then
       (ok_or (Option.bind (jget parsed ''psbt'') as_str)
         (Invalid (''sign_psbt result missing psbt: '' @ raw))) (\<lambda>field.
     and_then (btc_parse_signed X dpe_show (psbt_from_str X) field ''psbt'') (\<lambda>psbt.
       let expected = unsigned_txid X sent; got = unsigned_txid X psbt
       in if expected \<noteq> got then
            Inl (Invalid (''wallet returned a PSBT for a different transaction: expected txid '' @
              x_txid_show X expected @ '', got '' @ x_txid_show X got))
          else
            and_then
              (transpose_opt (map_option (parse_btc_txid X)
                (Option.bind (jget parsed ''txid'') as_str))) (\<lambda>txid.
            and_then (check_broadcast X expected txid) (\<lambda>_.
              Inr \<lparr>sn_psbt = psbt, sn_txid = txid\<rparr>)))))"

lemma btc_parse_signed_Inr_iff [result_iff]:
  "btc_parse_signed X se parse raw what = Inr x \<longleftrightarrow> parse raw = Inr x"
  by (simp add: btc_parse_signed_def)

lemma result_field_Inr_iff [result_iff]:
  "result_field raw parsed key = Inr s \<longleftrightarrow> jget parsed key = Some (JString s)"
  by (auto simp: result_field_def bind_eq_Some_conv)

lemma parse_btc_account_Inr_iff:
  "parse_btc_account X raw network = Inr acct \<longleftrightarrow>
     (\<exists>v addr u key. x_json_parse X raw = Inr v \<and> jget v ''address'' = Some (JString addr) \<and>
        unchecked_from_str X addr = Inr u \<and> require_network X u network = Inr (ba_address acct) \<and>
        jget v ''publicKey'' = Some (JString key) \<and> key_from_str X key = Inr (ba_public_key acct))"
proof
  assume "parse_btc_account X raw network = Inr acct"
  then show "\<exists>v addr u key. x_json_parse X raw = Inr v \<and> jget v ''address'' = Some (JString addr) \<and>
        unchecked_from_str X addr = Inr u \<and> require_network X u network = Inr (ba_address acct) \<and>
        jget v ''publicKey'' = Some (JString key) \<and> key_from_str X key = Inr (ba_public_key acct)"
    unfolding parse_btc_account_def and_then_Inr_iff map_err_Inr_iff result_field_Inr_iff
      btc_parse_signed_Inr_iff
    by auto
qed (auto simp: parse_btc_account_def result_field_def btc_parse_signed_def)

text \<open>An account that is accepted is on the network that was asked for.\<close>

lemma parse_btc_account_network:
  "parse_btc_account X raw network = Inr acct \<Longrightarrow> on_network X network (ba_address acct)"
  by (auto simp: parse_btc_account_Inr_iff require_network_Inr_iff)

text \<open>A signed PSBT that is accepted is for the transaction that was asked for, and so is its txid.\<close>

lemma parse_signed_psbt_same:
  assumes "parse_signed_psbt X sent raw = Inr s"
  shows "unsigned_txid X (sn_psbt s) = unsigned_txid X sent"
    and "sn_txid s = None \<or> sn_txid s = Some (unsigned_txid X sent)"
proof -
  obtain d t where "unsigned_txid X sent = unsigned_txid X d"
      "check_broadcast X (unsigned_txid X sent) t = Inr ()" "s = \<lparr>sn_psbt = d, sn_txid = t\<rparr>"
    using assms unfolding parse_signed_psbt_def and_then_Inr_iff Let_def
    by (auto simp: and_then_Inr_iff split: if_split_asm)
  then show "unsigned_txid X (sn_psbt s) = unsigned_txid X sent"
    and "sn_txid s = None \<or> sn_txid s = Some (unsigned_txid X sent)"
    by (cases t; simp add: check_broadcast_def split: if_split_asm)+
qed

text \<open>
  And a result for that transaction is accepted: the PSBT parses to one with the same transaction,
  and a txid, if the wallet gives one, is that transaction's.
\<close>

lemma parse_signed_psbt_accepts:
  assumes "x_json_parse X raw = Inr v" and "jget v ''psbt'' = Some (JString field)"
    and "psbt_from_str X field = Inr d" and "unsigned_txid X d = unsigned_txid X sent"
    and "jget v ''txid'' = map_option JString t"
    and "\<And>s. t = Some s \<Longrightarrow> x_txid_parse X s = Inr (unsigned_txid X sent)"
  shows "parse_signed_psbt X sent raw =
    Inr \<lparr>sn_psbt = d, sn_txid = map_option (\<lambda>_. unsigned_txid X sent) t\<rparr>"
  using assms
  by (cases t) (simp_all add: parse_signed_psbt_def btc_parse_signed_def parse_btc_txid_def Let_def
      check_broadcast_def)

text \<open>A PSBT of another transaction is refused, whatever else the result says.\<close>

lemma parse_signed_psbt_refuses:
  assumes "x_json_parse X raw = Inr v" and "jget v ''psbt'' = Some (JString field)"
    and "psbt_from_str X field = Inr d" and "unsigned_txid X d \<noteq> unsigned_txid X sent"
  shows "\<exists>e. parse_signed_psbt X sent raw = Inl (Invalid e)"
  using assms by (simp add: parse_signed_psbt_def btc_parse_signed_def Let_def)

end
