(* ===== verification/Btc_Types.thy ===== *)
theory Btc_Types
  imports Btc_Results
begin

section \<open>Bitcoin: requests\<close>

text \<open>
  \<open>types.rs\<close> of \<open>browser-web3-signer-btc\<close>. The constructors check every address against the request's
  network; \<open>btc_wf\<close> is what they establish, of whatever request they build. \<open>from_json\<close> reads the
  process environment for the default network, an argument of \<open>btc_ops\<close>. The theory ends with the
  interpretation of \<open>account_impl\<close>, where an expected account is an address whose network is not known
  yet.
\<close>

subsection \<open>Data\<close>

datatype ('a, 'p) btc_request =
    BtcConnect request_meta btc_network "'a btc_address option"
  | BtcSendTransfer request_meta btc_network "'a btc_address" "'a btc_address option" sats
      "sat_per_vb option"
  | BtcSignPsbt request_meta btc_network "'p psbt_data" "'a btc_address option" "u32 list option"
      "u32 list" bool bool
  | BtcSignMessage request_meta btc_network string "'a btc_address option" message_protocol

record 'a send_transfer_params =
  st_network :: btc_network
  st_to :: "'a unchecked_address"
  st_from :: "'a unchecked_address option"
  st_amount :: sats
  st_fee_rate :: "sat_per_vb option"

record ('a, 'p) sign_psbt_params =
  pp_network :: btc_network
  pp_psbt :: "'p psbt_data"
  pp_from :: "'a unchecked_address option"
  pp_sign_inputs :: "u32 list option"
  pp_finalize :: bool
  pp_broadcast :: bool

record 'a sign_message_params =
  mp_network :: btc_network
  mp_message :: string
  mp_address :: "'a unchecked_address option"
  mp_protocol :: message_protocol

subsection \<open>Constructors\<close>

definition btc_checked ::
  "('a, 'k, 'p, 'x) btc_ext_scheme \<Rightarrow> 'a unchecked_address option \<Rightarrow> btc_network \<Rightarrow>
     domain_parse_error + 'a btc_address option" where
  "btc_checked X address network =
     transpose_opt (map_option (\<lambda>a. require_network X a network) address)"

definition btc_connect ::
  "('a, 'k, 'p, 'x) btc_ext_scheme \<Rightarrow> uuid \<Rightarrow> btc_network \<Rightarrow> 'a unchecked_address option \<Rightarrow>
     domain_parse_error + ('a, 'p) btc_request" where
  "btc_connect X fresh network address =
     and_then (btc_checked X address network) (\<lambda>a.
       Inr (BtcConnect (request_meta_new fresh) network a))"

definition btc_send_transfer ::
  "('a, 'k, 'p, 'x) btc_ext_scheme \<Rightarrow> uuid \<Rightarrow> 'a send_transfer_params \<Rightarrow>
     domain_parse_error + ('a, 'p) btc_request" where
  "btc_send_transfer X fresh p =
     and_then (require_network X (st_to p) (st_network p)) (\<lambda>to.
     and_then (btc_checked X (st_from p) (st_network p)) (\<lambda>from.
       Inr (BtcSendTransfer (request_meta_new fresh) (st_network p) to from (st_amount p)
         (st_fee_rate p))))"

definition script_path_inputs ::
  "('a, 'k, 'p, 'x) btc_ext_scheme \<Rightarrow> 'p psbt_data \<Rightarrow> u32 list option \<Rightarrow> u32 list" where
  "script_path_inputs X psbt sign_inputs =
     filter (spends_script_path X psbt) (concat (list_of_opt sign_inputs))"

definition btc_sign_psbt ::
  "('a, 'k, 'p, 'x) btc_ext_scheme \<Rightarrow> uuid \<Rightarrow> ('a, 'p) sign_psbt_params \<Rightarrow>
     domain_parse_error + ('a, 'p) btc_request" where
  "btc_sign_psbt X fresh p =
     (let inputs = psbt_input_count X (pp_psbt p)
      in case find (\<lambda>i. unat i \<ge> inputs) (concat (list_of_opt (pp_sign_inputs p))) of
           Some bad \<Rightarrow>
             Inl (dpe_new ''sign input index'' (show_word bad)
               (''the PSBT has '' @ dec inputs @ '' inputs''))
         | None \<Rightarrow>
             and_then (btc_checked X (pp_from p) (pp_network p)) (\<lambda>from.
               Inr (BtcSignPsbt (request_meta_new fresh) (pp_network p) (pp_psbt p) from
                 (pp_sign_inputs p) (script_path_inputs X (pp_psbt p) (pp_sign_inputs p))
                 (pp_finalize p \<or> pp_broadcast p) (pp_broadcast p))))"

definition btc_sign_message ::
  "('a, 'k, 'p, 'x) btc_ext_scheme \<Rightarrow> uuid \<Rightarrow> 'a sign_message_params \<Rightarrow>
     domain_parse_error + ('a, 'p) btc_request" where
  "btc_sign_message X fresh p =
     and_then (btc_checked X (mp_address p) (mp_network p)) (\<lambda>address.
       Inr (BtcSignMessage (request_meta_new fresh) (mp_network p) (mp_message p) address (mp_protocol p)))"

subsection \<open>Wire form\<close>

definition btc_addr_json :: "('a, 'k, 'p, 'x) btc_ext_scheme \<Rightarrow> 'a btc_address \<Rightarrow> json" where
  "btc_addr_json X a = JString (btc_address_show X a)"

definition index_list_json :: "u32 list \<Rightarrow> json" where
  "index_list_json is = JArray (map (\<lambda>i. JNumber (PosInt (ucast i))) is)"

definition btc_network_field :: "btc_network \<Rightarrow> string \<times> json" where
  "btc_network_field n = (''network'', btc_network_json n)"

fun btc_serialize :: "('a, 'k, 'p, 'x) btc_ext_scheme \<Rightarrow> ('a, 'p) btc_request \<Rightarrow> json" where
  "btc_serialize X (BtcConnect m n a) =
     tagged X ''connect'' m ([btc_network_field n] @ opt_field ''address'' (btc_addr_json X) a)"
| "btc_serialize X (BtcSendTransfer m n to from amount rate) =
     tagged X ''send_transfer'' m
       ([btc_network_field n, (''to'', btc_addr_json X to)] @ opt_field ''from'' (btc_addr_json X) from @
        [(''amount'', JString (sats_show amount))] @
        opt_field ''feeRate'' (\<lambda>r. JString (rate_show r)) rate)"
| "btc_serialize X (BtcSignPsbt m n psbt from inputs paths fin bc) =
     tagged X ''sign_psbt'' m
       ([btc_network_field n, (''psbt'', JString (psbt_show X psbt))] @
        opt_field ''from'' (btc_addr_json X) from @ opt_field ''signInputs'' index_list_json inputs @
        (if paths = [] then [] else [(''scriptPathInputs'', index_list_json paths)]) @
        [(''finalize'', JBool fin), (''broadcast'', JBool bc)])"
| "btc_serialize X (BtcSignMessage m n msg a p) =
     tagged X ''sign_message'' m
       ([btc_network_field n, (''message'', JString msg)] @ opt_field ''address'' (btc_addr_json X) a @
        [(''protocol'', protocol_json p)])"

subsection \<open>from_json\<close>

definition bool_field :: "json \<Rightarrow> string \<Rightarrow> string + bool" where
  "bool_field body key =
     (case jget body key of
        None \<Rightarrow> Inr False
      | Some v \<Rightarrow> ok_or (as_bool v) (''non-boolean field '' @ quoted key))"

definition sign_index :: "'x core_ext_scheme \<Rightarrow> json \<Rightarrow> string + u32" where
  "sign_index X i =
     ok_or (Option.bind (as_u64 i) (\<lambda>n. if unat n < 2 ^ 32 then Some (ucast n) else None))
       (''invalid '' @ quoted ''signInputs'' @ '' index '' @ x_json_show X i)"

definition sign_inputs_field :: "'x core_ext_scheme \<Rightarrow> json \<Rightarrow> string + u32 list option" where
  "sign_inputs_field X body =
     transpose_opt (map_option
       (\<lambda>v. and_then (ok_or (as_array v) (quoted ''signInputs'' @ '' must be an array''))
         (collect_results (sign_index X)))
       (jget body ''signInputs''))"

definition req_btc ::
  "('a, 'k, 'p, 'x) btc_ext_scheme \<Rightarrow> json \<Rightarrow> string \<Rightarrow> string + 'a unchecked_address" where
  "req_btc X = req_parsed dpe_show (unchecked_from_str X)"

definition opt_btc ::
  "('a, 'k, 'p, 'x) btc_ext_scheme \<Rightarrow> json \<Rightarrow> string \<Rightarrow> string + 'a unchecked_address option" where
  "opt_btc X = opt_parsed dpe_show (unchecked_from_str X)"

definition btc_read_transfer ::
  "('a, 'k, 'p, 'x) btc_ext_scheme \<Rightarrow> json \<Rightarrow> btc_network \<Rightarrow> string + 'a send_transfer_params" where
  "btc_read_transfer X body network =
     and_then (req_btc X body ''to'') (\<lambda>to.
     and_then (opt_btc X body ''from'') (\<lambda>from.
     and_then (req_parsed dpe_show sats_from_str body ''amount'') (\<lambda>amount.
     and_then (opt_parsed dpe_show rate_from_str body ''feeRate'') (\<lambda>rate.
       Inr \<lparr>st_network = network, st_to = to, st_from = from, st_amount = amount,
            st_fee_rate = rate\<rparr>))))"

definition btc_read_psbt ::
  "('a, 'k, 'p, 'x) btc_ext_scheme \<Rightarrow> json \<Rightarrow> btc_network \<Rightarrow> string + ('a, 'p) sign_psbt_params" where
  "btc_read_psbt X body network =
     and_then (req_parsed dpe_show (psbt_from_str X) body ''psbt'') (\<lambda>psbt.
     and_then (opt_btc X body ''from'') (\<lambda>from.
     and_then (sign_inputs_field X body) (\<lambda>inputs.
     and_then (bool_field body ''finalize'') (\<lambda>fin.
     and_then (bool_field body ''broadcast'') (\<lambda>bc.
       Inr \<lparr>pp_network = network, pp_psbt = psbt, pp_from = from, pp_sign_inputs = inputs,
            pp_finalize = fin, pp_broadcast = bc\<rparr>)))))"

definition btc_read_message ::
  "('a, 'k, 'p, 'x) btc_ext_scheme \<Rightarrow> json \<Rightarrow> btc_network \<Rightarrow> string + 'a sign_message_params" where
  "btc_read_message X body network =
     and_then (str_field body ''message'') (\<lambda>message.
     and_then (opt_btc X body ''address'') (\<lambda>address.
     and_then (opt_parsed dpe_show protocol_from_str body ''protocol'') (\<lambda>protocol.
       Inr \<lparr>mp_network = network, mp_message = message, mp_address = address,
            mp_protocol = unwrap_or protocol protocol_default\<rparr>)))"

definition btc_from_json ::
  "('a, 'k, 'p, 'x) btc_ext_scheme \<Rightarrow> environment \<Rightarrow> uuid \<Rightarrow> json \<Rightarrow> string + ('a, 'p) btc_request" where
  "btc_from_json X env fresh body =
     and_then (str_field body ''type'') (\<lambda>typ.
     and_then (opt_parsed dpe_show btc_network_from_str body ''network'') (\<lambda>named.
       let network = unwrap_or named (btc_default_network env)
       in if typ = ''connect'' then
            and_then (opt_btc X body ''address'') (\<lambda>address.
              map_err dpe_show (btc_connect X fresh network address))
          else if typ = ''send_transfer'' then
            and_then (btc_read_transfer X body network) (\<lambda>p.
              map_err dpe_show (btc_send_transfer X fresh p))
          else if typ = ''sign_psbt'' then
            and_then (btc_read_psbt X body network) (\<lambda>p.
              map_err dpe_show (btc_sign_psbt X fresh p))
          else if typ = ''sign_message'' then
            and_then (btc_read_message X body network) (\<lambda>p.
              map_err dpe_show (btc_sign_message X fresh p))
          else Inl (''unknown request type: '' @ typ)))"

subsection \<open>The Request and ExpectedAccount methods\<close>

fun btc_meta :: "('a, 'p) btc_request \<Rightarrow> request_meta" where
  "btc_meta (BtcConnect m _ _) = m"
| "btc_meta (BtcSendTransfer m _ _ _ _ _) = m"
| "btc_meta (BtcSignPsbt m _ _ _ _ _ _ _) = m"
| "btc_meta (BtcSignMessage m _ _ _ _) = m"

fun btc_url_kind :: "('a, 'p) btc_request \<Rightarrow> url_kind" where
  "btc_url_kind (BtcConnect _ _ _) = KConnect"
| "btc_url_kind _ = KSign"

fun btc_network_of :: "('a, 'p) btc_request \<Rightarrow> btc_network" where
  "btc_network_of (BtcConnect _ n _) = n"
| "btc_network_of (BtcSendTransfer _ n _ _ _ _) = n"
| "btc_network_of (BtcSignPsbt _ n _ _ _ _ _ _) = n"
| "btc_network_of (BtcSignMessage _ n _ _ _) = n"

fun btc_account_of :: "('a, 'p) btc_request \<Rightarrow> 'a btc_address option" where
  "btc_account_of (BtcConnect _ _ a) = a"
| "btc_account_of (BtcSendTransfer _ _ _ from _ _) = from"
| "btc_account_of (BtcSignPsbt _ _ _ from _ _ _ _) = from"
| "btc_account_of (BtcSignMessage _ _ _ a _) = a"

fun btc_set_account :: "'a btc_address option \<Rightarrow> ('a, 'p) btc_request \<Rightarrow> ('a, 'p) btc_request" where
  "btc_set_account a (BtcConnect m n _) = BtcConnect m n a"
| "btc_set_account a (BtcSendTransfer m n to _ v r) = BtcSendTransfer m n to a v r"
| "btc_set_account a (BtcSignPsbt m n p _ i s f b) = BtcSignPsbt m n p a i s f b"
| "btc_set_account a (BtcSignMessage m n msg _ p) = BtcSignMessage m n msg a p"

definition btc_expecting ::
  "('a, 'k, 'p, 'x) btc_ext_scheme \<Rightarrow> ('a, 'p) btc_request \<Rightarrow> 'a unchecked_address \<Rightarrow>
     string + ('a, 'p) btc_request" where
  "btc_expecting X r account =
     and_then
       (map_err (\<lambda>e. ''expected account: '' @ dpe_show e)
         (require_network X account (btc_network_of r))) (\<lambda>checked.
     and_then (expect_account (btc_address_show X) (btc_account_of r) checked) (\<lambda>field.
       Inr (btc_set_account field r)))"

fun btc_check_result ::
  "('a, 'k, 'p, 'x) btc_ext_scheme \<Rightarrow> ('a, 'p) btc_request \<Rightarrow> string \<Rightarrow> string + unit" where
  "btc_check_result X (BtcConnect m n a) res =
     map_err signer_error_show (map_ok (\<lambda>_. ()) (parse_btc_account X res n))"
| "btc_check_result X (BtcSendTransfer m n to from v r) res =
     map_err signer_error_show (map_ok (\<lambda>_. ()) (parse_btc_txid X res))"
| "btc_check_result X (BtcSignPsbt m n psbt from i s f b) res =
     map_err signer_error_show (map_ok (\<lambda>_. ()) (parse_signed_psbt X psbt res))"
| "btc_check_result X (BtcSignMessage m n msg a p) res =
     map_err signer_error_show (map_ok (\<lambda>_. ())
       (btc_parse_signed X dpe_show (message_signature_from_str X) res ''signature''))"

definition btc_ops ::
  "('a, 'k, 'p, 'x) btc_ext_scheme \<Rightarrow> environment \<Rightarrow>
     (('a, 'p) btc_request, 'a unchecked_address) account_ops" where
  "btc_ops X env =
     \<lparr>r_id = (\<lambda>r. meta_id (btc_meta r)), r_url_kind = btc_url_kind, r_serialize = btc_serialize X,
      r_from_json = btc_from_json X env, r_check_result = btc_check_result X,
      a_account_env = BTC_ACCOUNT_ENV,
      a_parse = (\<lambda>s. map_err dpe_show (unchecked_from_str X s)), a_expecting = btc_expecting X\<rparr>"

lemma btc_ops_simps [simp]:
  "r_id (btc_ops X env) r = meta_id (btc_meta r)"
  "r_url_kind (btc_ops X env) = btc_url_kind"
  "r_serialize (btc_ops X env) = btc_serialize X"
  "r_from_json (btc_ops X env) = btc_from_json X env"
  "r_check_result (btc_ops X env) = btc_check_result X"
  "a_account_env (btc_ops X env) = BTC_ACCOUNT_ENV"
  "a_expecting (btc_ops X env) = btc_expecting X"
  by (simp_all add: btc_ops_def)

subsection \<open>What a built request satisfies\<close>

fun btc_addresses :: "('a, 'p) btc_request \<Rightarrow> 'a btc_address list" where
  "btc_addresses (BtcConnect _ _ a) = list_of_opt a"
| "btc_addresses (BtcSendTransfer _ _ to from _ _) = to # list_of_opt from"
| "btc_addresses (BtcSignPsbt _ _ _ from _ _ _ _) = list_of_opt from"
| "btc_addresses (BtcSignMessage _ _ _ a _) = list_of_opt a"

text \<open>The fields of a \<open>SignPsbt\<close> and of a \<open>SendTransfer\<close> that their constructor relates.\<close>

fun btc_fields_ok :: "('a, 'k, 'p, 'x) btc_ext_scheme \<Rightarrow> ('a, 'p) btc_request \<Rightarrow> bool" where
  "btc_fields_ok X (BtcSignPsbt m n psbt from inputs paths fin bc) \<longleftrightarrow>
     list_all (\<lambda>i. unat i < psbt_input_count X psbt) (concat (list_of_opt inputs)) \<and>
     paths = script_path_inputs X psbt inputs \<and> (bc \<longrightarrow> fin)"
| "btc_fields_ok X (BtcSendTransfer m n to from v rate) \<longleftrightarrow> list_all rate_ok (list_of_opt rate)"
| "btc_fields_ok X (BtcConnect m n a) \<longleftrightarrow> True"
| "btc_fields_ok X (BtcSignMessage m n msg a p) \<longleftrightarrow> True"

definition btc_wf :: "('a, 'k, 'p, 'x) btc_ext_scheme \<Rightarrow> ('a, 'p) btc_request \<Rightarrow> bool" where
  "btc_wf X r \<longleftrightarrow> list_all (on_network X (btc_network_of r)) (btc_addresses r) \<and> btc_fields_ok X r"

lemma btc_checked_Inr_iff:
  "btc_checked X u network = Inr a \<longleftrightarrow>
     a = map_option (\<lambda>u. BtcAddress (unchecked_inner u)) u \<and>
     list_all (on_network X network) (list_of_opt a)"
  by (cases u) (auto simp: btc_checked_def transpose_opt_Inr_iff require_network_Inr_iff)

lemma btc_connect_Inr_iff:
  "btc_connect X i n u = Inr r \<longleftrightarrow>
     (\<exists>a. btc_checked X u n = Inr a \<and> r = BtcConnect (request_meta_new i) n a)"
  by (auto simp: btc_connect_def and_then_Inr_iff)

lemma btc_send_transfer_Inr_iff:
  "btc_send_transfer X i p = Inr r \<longleftrightarrow>
     (\<exists>to from. require_network X (st_to p) (st_network p) = Inr to \<and>
        btc_checked X (st_from p) (st_network p) = Inr from \<and>
        r = BtcSendTransfer (request_meta_new i) (st_network p) to from (st_amount p) (st_fee_rate p))"
  by (auto simp: btc_send_transfer_def and_then_Inr_iff)

lemma btc_sign_psbt_Inr_iff:
  "btc_sign_psbt X i p = Inr r \<longleftrightarrow>
     list_all (\<lambda>i. unat i < psbt_input_count X (pp_psbt p)) (concat (list_of_opt (pp_sign_inputs p))) \<and>
     (\<exists>from. btc_checked X (pp_from p) (pp_network p) = Inr from \<and>
        r = BtcSignPsbt (request_meta_new i) (pp_network p) (pp_psbt p) from (pp_sign_inputs p)
          (script_path_inputs X (pp_psbt p) (pp_sign_inputs p)) (pp_finalize p \<or> pp_broadcast p)
          (pp_broadcast p))"
proof (cases "find (\<lambda>i. psbt_input_count X (pp_psbt p) \<le> unat i) (concat (list_of_opt (pp_sign_inputs p)))")
  case None
  then have "list_all (\<lambda>i. unat i < psbt_input_count X (pp_psbt p)) (concat (list_of_opt (pp_sign_inputs p)))"
    by (auto simp: find_None_iff list_all_iff not_le)
  with None show ?thesis by (auto simp: btc_sign_psbt_def and_then_Inr_iff)
next
  case (Some bad)
  then have "bad \<in> set (concat (list_of_opt (pp_sign_inputs p))) \<and> psbt_input_count X (pp_psbt p) \<le> unat bad"
    unfolding find_Some_iff by (metis nth_mem)
  then have "\<not> list_all (\<lambda>i. unat i < psbt_input_count X (pp_psbt p)) (concat (list_of_opt (pp_sign_inputs p)))"
    unfolding list_all_iff by (metis not_le)
  with Some show ?thesis by (simp add: btc_sign_psbt_def)
qed

lemma btc_sign_message_Inr_iff:
  "btc_sign_message X i p = Inr r \<longleftrightarrow>
     (\<exists>a. btc_checked X (mp_address p) (mp_network p) = Inr a \<and>
        r = BtcSignMessage (request_meta_new i) (mp_network p) (mp_message p) a (mp_protocol p))"
  by (auto simp: btc_sign_message_def and_then_Inr_iff)

lemmas btc_built_iff = btc_connect_Inr_iff btc_send_transfer_Inr_iff btc_sign_psbt_Inr_iff
  btc_sign_message_Inr_iff

lemma btc_built_wf:
  "btc_connect X i n u = Inr r \<Longrightarrow> btc_wf X r"
  "btc_send_transfer X i sp = Inr r \<Longrightarrow> list_all rate_ok (list_of_opt (st_fee_rate sp)) \<Longrightarrow> btc_wf X r"
  "btc_sign_psbt X i pp = Inr r \<Longrightarrow> btc_wf X r"
  "btc_sign_message X i mp = Inr r \<Longrightarrow> btc_wf X r"
  by (auto simp: btc_built_iff btc_wf_def btc_checked_Inr_iff require_network_Inr_iff)

lemma opt_rate_ok: "opt_parsed se rate_from_str body k = Inr r \<Longrightarrow> list_all rate_ok (list_of_opt r)"
  by (cases r) (auto simp: opt_parsed_Some_iff rate_from_str_Inr_iff)

lemma btc_read_transfer_rate:
  "btc_read_transfer X body n = Inr p \<Longrightarrow> list_all rate_ok (list_of_opt (st_fee_rate p))"
  by (auto simp: btc_read_transfer_def and_then_Inr_iff opt_rate_ok)

lemma btc_from_json_cases:
  assumes "btc_from_json X env i body = Inr r"
  obtains (connect) n u where "jget body ''type'' = Some (JString ''connect'')"
      "btc_connect X i n u = Inr r"
  | (transfer) n p where "jget body ''type'' = Some (JString ''send_transfer'')"
      "btc_read_transfer X body n = Inr p" "btc_send_transfer X i p = Inr r"
  | (psbt) n p where "jget body ''type'' = Some (JString ''sign_psbt'')"
      "btc_read_psbt X body n = Inr p" "btc_sign_psbt X i p = Inr r"
  | (message) n p where "jget body ''type'' = Some (JString ''sign_message'')"
      "btc_read_message X body n = Inr p" "btc_sign_message X i p = Inr r"
  using assms
  by (auto simp: btc_from_json_def and_then_Inr_iff str_field_Inr_iff Let_def split: if_splits)

lemma btc_from_json_wf: "btc_from_json X env i body = Inr r \<Longrightarrow> btc_wf X r"
  by (erule btc_from_json_cases) (auto intro: btc_built_wf btc_read_transfer_rate)

lemma btc_from_json_shape:
  assumes "btc_from_json X env i body = Inr r"
  shows "btc_meta r = request_meta_new i"
    and "jget (btc_serialize X r) ''type'' = jget body ''type''"
  using assms by (cases rule: btc_from_json_cases; auto simp: btc_built_iff wire)+

lemma btc_serialize_id:
  "jget (btc_serialize X r) ''id'' = Some (JString (x_uuid_show X (meta_id (btc_meta r))))"
  by (cases r) (simp_all add: wire)

lemma btc_page_of_type:
  "btc_url_kind r = KConnect \<longleftrightarrow> jget (btc_serialize X r) ''type'' = Some (JString ''connect'')"
  by (cases r) (simp_all add: wire)

lemma btc_set_account_simps [simp]:
  "btc_account_of (btc_set_account a r) = a" "btc_meta (btc_set_account a r) = btc_meta r"
  "btc_url_kind (btc_set_account a r) = btc_url_kind r"
  "btc_network_of (btc_set_account a r) = btc_network_of r"
  "btc_set_account (btc_account_of r) r = r"
  by (cases r; simp)+

lemma btc_expecting_Inr_iff:
  "btc_expecting X r u = Inr r' \<longleftrightarrow>
     on_network X (btc_network_of r) (BtcAddress (unchecked_inner u)) \<and>
     (btc_account_of r = None \<or> btc_account_of r = Some (BtcAddress (unchecked_inner u))) \<and>
     r' = btc_set_account (Some (BtcAddress (unchecked_inner u))) r"
  by (auto simp: btc_expecting_def and_then_Inr_iff require_network_Inr_iff expect_account_Inr_iff)

text \<open>Pinning a request keeps it well formed, the account now among its checked addresses.\<close>

lemma btc_expecting_wf: "btc_wf X r \<Longrightarrow> btc_expecting X r u = Inr r' \<Longrightarrow> btc_wf X r'"
  by (cases r) (auto simp: btc_expecting_Inr_iff btc_wf_def)

interpretation btc: account_impl X "btc_ops X env" btc_account_of "\<lambda>u. BtcAddress (unchecked_inner u)"
  for X :: "('a, 'k, 'p, 'x) btc_ext_scheme" and env :: environment
proof unfold_locales
  fix r r' :: "('a, 'p) btc_request" and i body and u :: "'a unchecked_address"
  show "jget (r_serialize (btc_ops X env) r) ''id'' =
      Some (JString (x_uuid_show X (r_id (btc_ops X env) r)))"
    by (simp add: btc_serialize_id)
  show "r_id (btc_ops X env) r = i" if "r_from_json (btc_ops X env) i body = Inr r"
    using btc_from_json_shape(1) [of X env i body r] that by (simp add: request_meta_new_def)
  show "jget (r_serialize (btc_ops X env) r) ''type'' = jget body ''type''"
    if "r_from_json (btc_ops X env) i body = Inr r"
    using btc_from_json_shape(2) [of X env i body r] that by simp
  show "r_url_kind (btc_ops X env) r = KConnect \<longleftrightarrow>
      jget (r_serialize (btc_ops X env) r) ''type'' = Some (JString ''connect'')"
    by (simp add: btc_page_of_type)
  assume "a_expecting (btc_ops X env) r u = Inr r'"
  then have e: "btc_expecting X r u = Inr r'" by simp
  show "btc_account_of r' = Some (BtcAddress (unchecked_inner u))"
    "btc_account_of r = None \<or> btc_account_of r = Some (BtcAddress (unchecked_inner u))"
    "r_id (btc_ops X env) r' = r_id (btc_ops X env) r"
    "r_url_kind (btc_ops X env) r' = r_url_kind (btc_ops X env) r"
    using e by (auto simp: btc_expecting_Inr_iff)
  show "r' = r" if "btc_account_of r = Some (BtcAddress (unchecked_inner u))"
    using e that btc_set_account_simps(5) [of r] by (auto simp: btc_expecting_Inr_iff)
qed

subsection \<open>The wire form reads back\<close>

fun btc_with_id :: "uuid \<Rightarrow> ('a, 'p) btc_request \<Rightarrow> ('a, 'p) btc_request" where
  "btc_with_id i (BtcConnect m n a) = BtcConnect (request_meta_new i) n a"
| "btc_with_id i (BtcSendTransfer m n to from v r) = BtcSendTransfer (request_meta_new i) n to from v r"
| "btc_with_id i (BtcSignPsbt m n p from is ps f b) = BtcSignPsbt (request_meta_new i) n p from is ps f b"
| "btc_with_id i (BtcSignMessage m n msg a p) = BtcSignMessage (request_meta_new i) n msg a p"

definition uncheck :: "'a btc_address \<Rightarrow> 'a unchecked_address" where
  "uncheck a = Unchecked (btc_inner a)"

lemma opt_btc_wire:
  "btc_laws X \<Longrightarrow> jget body k = map_option (btc_addr_json X) a \<Longrightarrow>
     opt_btc X body k = Inr (map_option uncheck a)"
  by (cases a) (simp_all add: opt_btc_def opt_parsed_def btc_addr_json_def unchecked_reads_back uncheck_def)

lemma req_btc_wire:
  "btc_laws X \<Longrightarrow> jget body k = Some (btc_addr_json X a) \<Longrightarrow> req_btc X body k = Inr (uncheck a)"
  by (simp add: req_btc_def req_parsed_def str_field_def btc_addr_json_def unchecked_reads_back uncheck_def)

lemma btc_checked_uncheck:
  "list_all (on_network X n) (list_of_opt a) \<Longrightarrow> btc_checked X (map_option uncheck a) n = Inr a"
  by (cases a) (auto simp: btc_checked_def uncheck_def transpose_opt_Inr_iff require_network_Inr_iff)

lemma require_uncheck: "on_network X n a \<Longrightarrow> require_network X (uncheck a) n = Inr a"
  by (simp add: require_network_Inr_iff uncheck_def)

lemma bool_field_wire: "jget body k = Some (JBool b) \<Longrightarrow> bool_field body k = Inr b"
  by (simp add: bool_field_def)

lemma sign_index_wire: "sign_index X (JNumber (PosInt (ucast (i :: u32)))) = Inr i"
proof -
  have lt: "unat i < 2 ^ 32" using unsigned_less [of i, where ?'a = nat] by simp
  then have u: "unat (ucast i :: u64) = unat i" by (simp add: unsigned_ucast_eq take_bit_nat_eq_self)
  have "ucast (ucast i :: u64) = i"
    unfolding word_unat_eq_iff by (simp add: unsigned_ucast_eq take_bit_word_eq_self)
  with lt u show ?thesis by (simp add: sign_index_def)
qed

lemma sign_inputs_wire:
  assumes "jget body ''signInputs'' = map_option index_list_json is"
  shows "sign_inputs_field X body = Inr is"
proof (cases "is")
  case None
  with assms show ?thesis by (simp add: sign_inputs_field_def)
next
  case (Some xs)
  have "collect_results (sign_index X) (map (\<lambda>i. JNumber (PosInt (ucast i))) xs) = Inr xs"
    by (rule collect_results_map_Inr) (rule sign_index_wire)
  with assms Some show ?thesis by (simp add: sign_inputs_field_def index_list_json_def)
qed

lemma opt_rate_wire:
  "list_all rate_ok (list_of_opt r) \<Longrightarrow> jget body k = map_option (\<lambda>r. JString (rate_show r)) r \<Longrightarrow>
     opt_parsed se rate_from_str body k = Inr r"
  by (cases r) (simp_all add: opt_parsed_def rate_reads_back)

lemma btc_network_wire:
  "jget body ''network'' = Some (JString (btc_network_id n)) \<Longrightarrow>
     opt_parsed se btc_network_from_str body ''network'' = Inr (Some n)"
  by (rule btc_network_codec.opt_parsed_render) simp

lemma btc_roundtrip_transfer:
  assumes "btc_laws X" "btc_wf X (BtcSendTransfer m n to from v r)"
  shows "btc_from_json X env i (btc_serialize X (BtcSendTransfer m n to from v r)) =
    Inr (BtcSendTransfer (request_meta_new i) n to from v r)"
proof -
  let ?j = "btc_serialize X (BtcSendTransfer m n to from v r)"
  have j: "jget ?j ''type'' = Some (JString ''send_transfer'')"
      "jget ?j ''network'' = Some (JString (btc_network_id n))"
      "jget ?j ''to'' = Some (btc_addr_json X to)" "jget ?j ''from'' = map_option (btc_addr_json X) from"
      "jget ?j ''amount'' = Some (JString (sats_show v))"
      "jget ?j ''feeRate'' = map_option (\<lambda>r. JString (rate_show r)) r"
    by (simp_all add: wire btc_network_field_def)
  have ok: "on_network X n to" "list_all (on_network X n) (list_of_opt from)"
      "list_all rate_ok (list_of_opt r)"
    using assms(2) by (simp_all add: btc_wf_def)
  show ?thesis
    by (simp add: btc_from_json_def btc_read_transfer_def str_field_wire [OF j(1)]
        btc_network_wire [OF j(2)] req_btc_wire [OF assms(1) j(3)] opt_btc_wire [OF assms(1) j(4)]
        sats_codec.req_parsed_render [OF j(5)] opt_rate_wire [OF ok(3) j(6)] btc_send_transfer_def
        require_uncheck [OF ok(1)] btc_checked_uncheck [OF ok(2)] del: btc_serialize.simps)
qed

lemma btc_roundtrip_psbt:
  assumes "btc_laws X" "btc_wf X (BtcSignPsbt m n p from is ps f b)"
  shows "btc_from_json X env i (btc_serialize X (BtcSignPsbt m n p from is ps f b)) =
    Inr (BtcSignPsbt (request_meta_new i) n p from is ps f b)"
proof -
  let ?j = "btc_serialize X (BtcSignPsbt m n p from is ps f b)"
  have j: "jget ?j ''type'' = Some (JString ''sign_psbt'')"
      "jget ?j ''network'' = Some (JString (btc_network_id n))"
      "jget ?j ''psbt'' = Some (JString (psbt_show X p))"
      "jget ?j ''from'' = map_option (btc_addr_json X) from"
      "jget ?j ''signInputs'' = map_option index_list_json is"
      "jget ?j ''finalize'' = Some (JBool f)" "jget ?j ''broadcast'' = Some (JBool b)"
    by (simp_all add: wire btc_network_field_def)
  have ok: "list_all (on_network X n) (list_of_opt from)"
      "list_all (\<lambda>i. unat i < psbt_input_count X p) (concat (list_of_opt is))"
      "ps = script_path_inputs X p is" "(f \<or> b) = f"
    using assms(2) by (auto simp: btc_wf_def)
  let ?params = "\<lparr>pp_network = n, pp_psbt = p, pp_from = map_option uncheck from, pp_sign_inputs = is,
    pp_finalize = f, pp_broadcast = b\<rparr>"
  have "btc_read_psbt X ?j n = Inr ?params"
    by (simp add: btc_read_psbt_def wire_codec.req_parsed_render [OF psbt_codec [OF assms(1)] j(3)]
        opt_btc_wire [OF assms(1) j(4)] sign_inputs_wire [OF j(5)] bool_field_wire [OF j(6)]
        bool_field_wire [OF j(7)] del: btc_serialize.simps)
  moreover have "btc_sign_psbt X i ?params = Inr (BtcSignPsbt (request_meta_new i) n p from is ps f b)"
    using ok by (auto simp: btc_sign_psbt_Inr_iff btc_checked_uncheck)
  ultimately show ?thesis
    by (simp add: btc_from_json_def str_field_wire [OF j(1)] btc_network_wire [OF j(2)]
        del: btc_serialize.simps)
qed

lemma btc_roundtrip_connect:
  assumes "btc_laws X" "btc_wf X (BtcConnect m n a)"
  shows "btc_from_json X env i (btc_serialize X (BtcConnect m n a)) =
    Inr (BtcConnect (request_meta_new i) n a)"
proof -
  let ?j = "btc_serialize X (BtcConnect m n a)"
  have j: "jget ?j ''type'' = Some (JString ''connect'')"
      "jget ?j ''network'' = Some (JString (btc_network_id n))"
      "jget ?j ''address'' = map_option (btc_addr_json X) a"
    by (simp_all add: wire btc_network_field_def)
  have ok: "list_all (on_network X n) (list_of_opt a)" using assms(2) by (simp add: btc_wf_def)
  show ?thesis
    by (simp add: btc_from_json_def str_field_wire [OF j(1)] btc_network_wire [OF j(2)]
        opt_btc_wire [OF assms(1) j(3)] btc_connect_def btc_checked_uncheck [OF ok]
        del: btc_serialize.simps)
qed

lemma btc_roundtrip_message:
  assumes "btc_laws X" "btc_wf X (BtcSignMessage m n msg a p)"
  shows "btc_from_json X env i (btc_serialize X (BtcSignMessage m n msg a p)) =
    Inr (BtcSignMessage (request_meta_new i) n msg a p)"
proof -
  let ?j = "btc_serialize X (BtcSignMessage m n msg a p)"
  have j: "jget ?j ''type'' = Some (JString ''sign_message'')"
      "jget ?j ''network'' = Some (JString (btc_network_id n))"
      "jget ?j ''message'' = Some (JString msg)" "jget ?j ''address'' = map_option (btc_addr_json X) a"
      "jget ?j ''protocol'' = Some (JString (protocol_id p))"
    by (simp_all add: wire btc_network_field_def)
  have ok: "list_all (on_network X n) (list_of_opt a)" using assms(2) by (simp add: btc_wf_def)
  have pr: "opt_parsed dpe_show protocol_from_str ?j ''protocol'' = Inr (Some p)"
    by (rule protocol_codec.opt_parsed_render) (use j(5) in \<open>simp del: btc_serialize.simps\<close>)
  show ?thesis
    by (simp add: btc_from_json_def btc_read_message_def str_field_wire [OF j(1)]
        btc_network_wire [OF j(2)] str_field_wire [OF j(3)] opt_btc_wire [OF assms(1) j(4)] pr
        btc_sign_message_def btc_checked_uncheck [OF ok] del: btc_serialize.simps)
qed

lemma btc_request_reads_back:
  "btc_laws X \<Longrightarrow> btc_wf X r \<Longrightarrow> btc_from_json X env i (btc_serialize X r) = Inr (btc_with_id i r)"
  by (cases r)
    (simp_all add: btc_roundtrip_connect btc_roundtrip_transfer btc_roundtrip_psbt btc_roundtrip_message
      del: btc_serialize.simps)

end
