(* ===== verification/Btc_Signer.thy ===== *)
theory Btc_Signer
  imports Btc_Types Core_Engine
begin

section \<open>Bitcoin: the typed signer\<close>

text \<open>
  The methods of \<open>BtcSigner\<close> (\<open>signer.rs\<close> of \<open>browser-web3-signer-btc\<close>), in the form of the other
  signers: the request, the wallet's string for it, and what is made of that string.
\<close>

record ('a, 'p, 'x) btc_signer =
  bs_engine :: "(('a, 'p) btc_request, 'x) engine"
  bs_default_network :: btc_network

definition btc_signer_new ::
  "string \<Rightarrow> bind_port \<Rightarrow> btc_network \<Rightarrow> browser_choice \<Rightarrow> ('a, 'p, 'x) btc_signer" where
  "btc_signer_new web_ui bind network browser =
     \<lparr>bs_engine = engine_new web_ui bind browser, bs_default_network = network\<rparr>"

definition btc_signer_from_env ::
  "'e core_ext_scheme \<Rightarrow> string \<Rightarrow> environment \<Rightarrow> browser_choice \<Rightarrow> ('a, 'p, 'x) btc_signer" where
  "btc_signer_from_env X web_ui env browser =
     btc_signer_new web_ui (Preferred (btc_port X env)) (btc_default_network env) browser"

definition btc_connect_wallet ::
  "('a, 'k, 'p, 'e) btc_ext_scheme \<Rightarrow> (('a, 'p) btc_request \<Rightarrow> signer_error + string) \<Rightarrow> uuid \<Rightarrow>
     ('a, 'p, 'x) btc_signer \<Rightarrow> btc_network option \<Rightarrow> 'a unchecked_address option \<Rightarrow>
     signer_error + ('a, 'k) btc_account" where
  "btc_connect_wallet X submit fresh S network0 address =
     (let network = unwrap_or network0 (bs_default_network S)
      in and_then (map_err btc_invalid (btc_connect X fresh network address)) (\<lambda>req.
         and_then (submit req) (\<lambda>raw. parse_btc_account X raw network)))"

definition btc_transfer ::
  "('a, 'k, 'p, 'e) btc_ext_scheme \<Rightarrow> (('a, 'p) btc_request \<Rightarrow> signer_error + string) \<Rightarrow> uuid \<Rightarrow>
     'a send_transfer_params \<Rightarrow> signer_error + txid" where
  "btc_transfer X submit fresh p =
     and_then (map_err btc_invalid (btc_send_transfer X fresh p)) (\<lambda>req.
     and_then (submit req) (parse_btc_txid X))"

definition btc_sign_psbt_wallet ::
  "('a, 'k, 'p, 'e) btc_ext_scheme \<Rightarrow> (('a, 'p) btc_request \<Rightarrow> signer_error + string) \<Rightarrow> uuid \<Rightarrow>
     ('a, 'p) sign_psbt_params \<Rightarrow> signer_error + 'p signed_psbt" where
  "btc_sign_psbt_wallet X submit fresh p =
     and_then (map_err btc_invalid (btc_sign_psbt X fresh p)) (\<lambda>req.
     and_then (submit req) (parse_signed_psbt X (pp_psbt p)))"

definition btc_sign_message_wallet ::
  "('a, 'k, 'p, 'e) btc_ext_scheme \<Rightarrow> (('a, 'p) btc_request \<Rightarrow> signer_error + string) \<Rightarrow> uuid \<Rightarrow>
     'a sign_message_params \<Rightarrow> signer_error + message_signature" where
  "btc_sign_message_wallet X submit fresh p =
     and_then (map_err btc_invalid (btc_sign_message X fresh p)) (\<lambda>req.
     and_then (submit req) (\<lambda>raw.
       btc_parse_signed X dpe_show (message_signature_from_str X) raw ''signature''))"

text \<open>
  What a caller of the typed signer can rely on: the request it submitted was well formed, and the
  signed PSBT it gets is of the transaction it passed.
\<close>

lemma btc_sign_psbt_wallet_Inr:
  assumes "btc_sign_psbt_wallet X submit fresh p = Inr s"
  shows "unsigned_txid X (sn_psbt s) = unsigned_txid X (pp_psbt p)"
    and "sn_txid s = None \<or> sn_txid s = Some (unsigned_txid X (pp_psbt p))"
    and "\<exists>req raw. btc_wf X req \<and> submit req = Inr raw \<and> btc_check_result X req raw = Inr ()"
proof -
  obtain req raw where r: "btc_sign_psbt X fresh p = Inr req" "submit req = Inr raw"
      "parse_signed_psbt X (pp_psbt p) raw = Inr s"
    using assms by (auto simp: btc_sign_psbt_wallet_def and_then_Inr_iff)
  then show "unsigned_txid X (sn_psbt s) = unsigned_txid X (pp_psbt p)"
    "sn_txid s = None \<or> sn_txid s = Some (unsigned_txid X (pp_psbt p))"
    using parse_signed_psbt_same by blast+
  have "btc_check_result X req raw = Inr ()"
    using r(1,3) by (auto simp: btc_sign_psbt_Inr_iff)
  then show "\<exists>req raw. btc_wf X req \<and> submit req = Inr raw \<and> btc_check_result X req raw = Inr ()"
    using r(2) btc_built_wf(3) [OF r(1)] by blast
qed

lemma btc_connect_wallet_Inr:
  assumes "btc_connect_wallet X submit fresh S network0 address = Inr acct"
  shows "on_network X (unwrap_or network0 (bs_default_network S)) (ba_address acct)"
  using assms parse_btc_account_network
  by (fastforce simp: btc_connect_wallet_def Let_def and_then_Inr_iff)

end
