(* ===== verification/Reference.thy ===== *)
theory Reference
  imports Serve Evm_Signer Tron_Signer Btc_Signer
begin

section \<open>Concrete library functions and a concrete run\<close>

text \<open>
  Executable stand-ins for the functions of other packages, which satisfy the laws the theorems name:
  a lower-case hex codec, decimal identifiers, and for Bitcoin a byte list as the PSBT. A run of the
  bridge on them, one request that is registered, answered and delivered, is where the theorems on
  reachable states are applied.
\<close>

subsection \<open>A hex codec\<close>

definition hex_char :: "nat \<Rightarrow> char" where
  "hex_char n = (if n < 10 then char_of (48 + n) else char_of (87 + n))"

definition hex_digit_of :: "char \<Rightarrow> nat option" where
  "hex_digit_of c =
     (let n = of_char c
      in if 48 \<le> n \<and> n \<le> 57 then Some (n - 48)
         else if 97 \<le> n \<and> n \<le> 102 then Some (n - 87)
         else if 65 \<le> n \<and> n \<le> 70 then Some (n - 55)
         else None)"

fun ref_hex_encode :: "u8 list \<Rightarrow> string" where
  "ref_hex_encode [] = []"
| "ref_hex_encode (b # bs) = hex_char (unat b div 16) # hex_char (unat b mod 16) # ref_hex_encode bs"

fun ref_hex_decode :: "string \<Rightarrow> string + u8 list" where
  "ref_hex_decode [] = Inr []"
| "ref_hex_decode [c] = Inl ''Odd number of digits''"
| "ref_hex_decode (c # d # cs) =
     (case (hex_digit_of c, hex_digit_of d) of
        (Some m, Some n) \<Rightarrow> map_ok (\<lambda>bs. of_nat (16 * m + n) # bs) (ref_hex_decode cs)
      | _ \<Rightarrow> Inl ''Invalid character'')"

lemma hex_digit_of_char [simp]: "n < 16 \<Longrightarrow> hex_digit_of (hex_char n) = Some n"
  by (auto simp: hex_digit_of_def hex_char_def Let_def)

lemma hex_char_hexdigit [simp]: "n < 16 \<Longrightarrow> is_ascii_hexdigit (hex_char n)"
  by (auto simp: is_ascii_hexdigit_def hex_char_def Let_def)

lemma unat_u8_div: "unat (b :: u8) div 16 < 16"
  using unsigned_less [of b, where ?'a = nat] by simp

lemma ref_hex_decode_encode [simp]: "ref_hex_decode (ref_hex_encode bs) = Inr bs"
proof (induction bs)
  case Nil
  then show ?case by simp
next
  case (Cons b bs)
  have "16 * (unat b div 16) + unat b mod 16 = unat b" by simp
  with Cons show ?case by (simp add: unat_u8_div del: of_nat_add of_nat_mult)
qed

lemma ref_hex_encode_length: "length (ref_hex_encode bs) = 2 * length bs"
  by (induction bs) auto

lemma ref_hex_encode_digits: "list_all is_ascii_hexdigit (ref_hex_encode bs)"
  by (induction bs) (auto simp: unat_u8_div)

subsection \<open>URLs\<close>

text \<open>A URL parses to its own text, without the default port of \<open>http\<close>.\<close>

definition ref_url_parse :: "string \<Rightarrow> string + url" where
  "ref_url_parse s =
     Inr (if take 20 s = ''http://127.0.0.1:80/'' then ''http://127.0.0.1'' @ drop 19 s else s)"

lemma port_show_80: "port_show (Port 80) = ''80''"
  unfolding port_show_def by code_simp

lemma digits_before_slash:
  assumes "all_digits ds" and "ds \<noteq> []"
  shows "take 3 (ds @ CHR ''/'' # r) = ''80/'' \<longleftrightarrow> ds = ''80''"
proof -
  have "digit_of (CHR ''/'') = None" by (simp add: digit_of_def)
  then show ?thesis
    using assms by (cases ds; cases "tl ds"; cases "tl (tl ds)") auto
qed

lemma ref_url_parse_bridge:
  assumes "x_url_parse X = ref_url_parse"
  shows "bridge_url_laws X"
  unfolding bridge_url_laws_def
proof (intro allI impI)
  fix port i kind
  let ?rest = "url_segment kind @ CHR ''/'' # x_uuid_show X i"
  have url: "url_text X port i kind = ''http://127.0.0.1:'' @ port_show port @ CHR ''/'' # ?rest"
    by (simp add: url_text_def)
  have is_80: "port_show port = ''80'' \<longleftrightarrow> port = Port 80"
    using port_show_80 by (cases port) (simp add: port_show_def flip: show_word_inject)
  have "take 20 (url_text X port i kind) = ''http://127.0.0.1:80/'' \<longleftrightarrow> port = Port 80"
    using digits_before_slash [of "port_show port" ?rest] is_80
    by (simp add: url port_show_def show_word_def)
  then show "x_url_parse X (url_text X port i kind) = Inr (bridge_url X port i kind)"
    by (simp add: assms ref_url_parse_def bridge_url_def url port_part_def port_show_80)
qed

subsection \<open>The externals\<close>

definition ref_word :: "string \<Rightarrow> string + 'w::len word" where
  "ref_word s = map_err int_error_show (parse_word s)"

text \<open>Two texts that parse: a deployment's result and a signed PSBT.\<close>

definition ref_json_parse :: "string \<Rightarrow> string + json" where
  "ref_json_parse s =
     (if s = ''deployed'' then
        Inr (JObject [(''txHash'', JString (ref_hex_encode (replicate 32 7))),
          (''contractAddress'', JString (ref_hex_encode (0x41 # replicate 20 1)))])
      else if s = ''signed'' then
        Inr (JObject [(''psbt'', JString (ref_hex_encode [1, 0])), (''txid'', JString ''2'')])
      else if s = ''connected'' then
        Inr (JObject [(''address'', JString ''5''), (''publicKey'', JString ''9'')])
      else Inl ''expected value'')"

definition ref_core :: core_ext where
  "ref_core =
     \<lparr>x_debug = (\<lambda>s. s), x_hex_encode = ref_hex_encode, x_hex_decode = ref_hex_decode,
      x_json_parse = ref_json_parse, x_json_show = (\<lambda>v. []), x_uuid_show = show_word,
      x_uuid_parse = (\<lambda>s. ok (parse_word s)), x_url_parse = ref_url_parse\<rparr>"

definition ref_evm :: evm_ext where
  "ref_evm =
     \<lparr>x_debug = (\<lambda>s. s), x_hex_encode = ref_hex_encode, x_hex_decode = ref_hex_decode,
      x_json_parse = ref_json_parse, x_json_show = (\<lambda>v. []), x_uuid_show = show_word,
      x_uuid_parse = (\<lambda>s. ok (parse_word s)), x_url_parse = ref_url_parse,
      x_addr_parse = ref_word, x_addr_lower = show_word, x_u256_parse = ref_word,
      x_u256_show = show_word, x_bytes_parse = (\<lambda>s. ref_hex_decode (hex_raw s)),
      x_bytes_show = (\<lambda>bs. ''0x'' @ ref_hex_encode bs), x_format_units = (\<lambda>w d. None),
      x_format_ether = show_word\<rparr>"

definition ref_tron :: tron_ext where
  "ref_tron =
     \<lparr>x_debug = (\<lambda>s. s), x_hex_encode = ref_hex_encode, x_hex_decode = ref_hex_decode,
      x_json_parse = ref_json_parse, x_json_show = (\<lambda>v. []), x_uuid_show = show_word,
      x_uuid_parse = (\<lambda>s. ok (parse_word s)), x_url_parse = ref_url_parse,
      x_b58check_decode = ref_hex_decode, x_b58check_encode = ref_hex_encode,
      x_parse_units = (\<lambda>s d. if s = ''-1'' then Inr (PI256 (- 1000000)) else map_ok PU256 (ref_word s)),
      x_get_absolute = (\<lambda>u. word_of_int (units_absolute u)),
      x_tron_format_units = (\<lambda>w d. None), x_tron_u256_show = show_word\<rparr>"

text \<open>A Bitcoin address is a number, below a thousand on mainnet and from there on elsewhere.\<close>

definition ref_btc :: "(u64, u64, u8 list) btc_ext" where
  "ref_btc =
     \<lparr>x_debug = (\<lambda>s. s), x_hex_encode = ref_hex_encode, x_hex_decode = ref_hex_decode,
      x_json_parse = ref_json_parse, x_json_show = (\<lambda>v. []), x_uuid_show = show_word,
      x_uuid_parse = (\<lambda>s. ok (parse_word s)), x_url_parse = ref_url_parse,
      x_btc_addr_parse = ref_word, x_btc_addr_valid = (\<lambda>a n. (a < 1000) = (n = Bitcoin)),
      x_btc_addr_show = show_word, x_key_parse = ref_word, x_key_show = show_word,
      x_psbt_deserialize = Inr, x_psbt_hex = ref_hex_encode, x_psbt_txid = (\<lambda>p. of_nat (length p)),
      x_psbt_leaves = map unat, x_from_hex = ref_hex_decode, x_b64_decode = ref_hex_decode,
      x_b64_encode = ref_hex_encode, x_txid_parse = ref_word, x_txid_show = show_word\<rparr>"

lemmas ref_simps = ref_core_def ref_evm_def ref_tron_def ref_btc_def

lemma ref_word_show [simp]: "ref_word (show_word w) = Inr w"
  by (simp add: ref_word_def)

lemma ref_hex_laws [simp]: "hex_laws ref_core" "hex_laws ref_tron"
  by (simp_all add: hex_laws_def ref_simps ref_hex_encode_length ref_hex_encode_digits)

lemma ref_evm_laws [simp]: "evm_laws ref_evm"
  by (simp add: evm_laws_def ref_simps hex_raw_def strip_prefix_def)

lemma ref_tron_laws [simp]: "tron_laws ref_tron"
  by (simp add: tron_laws_def ref_simps)

lemma units_absolute_range: "0 \<le> units_absolute u \<and> units_absolute u < 2 ^ 256"
proof (cases u)
  case (PU256 w)
  then show ?thesis using uint_lt2p [of w] by (simp add: units_absolute_def)
next
  case (PI256 w)
  have "- (2 ^ 255) \<le> sint w" "sint w < 2 ^ 255"
    using sint_range_size [of w] by (simp_all add: word_size)
  then show ?thesis using PI256 by (simp add: units_absolute_def)
qed

lemma ref_units_laws: "units_laws ref_tron"
  unfolding units_laws_def using units_absolute_range
  by (simp add: ref_tron_def unsigned_of_int take_bit_int_eq_self)

lemma ref_btc_laws [simp]: "btc_laws ref_btc"
  by (simp add: btc_laws_def ref_simps ref_hex_encode_digits)

lemma ref_url_laws [simp]:
  "bridge_url_laws ref_core" "bridge_url_laws ref_evm" "bridge_url_laws ref_tron" "bridge_url_laws ref_btc"
  by (rule ref_url_parse_bridge, simp add: ref_simps)+

subsection \<open>A run of the bridge\<close>

definition ref_net :: "nat net" where
  "ref_net = \<lparr>tcp_bind = (\<lambda>port. Inr (unat port)), local_port = (\<lambda>l. Inr 40000)\<rparr>"

definition demo_request :: evm_request where
  "demo_request = evm_connect 7 None None"

definition demo_prepared :: prepared where
  "demo_prepared =
     \<lparr>p_id = 7, p_url = bridge_url ref_core (Port 40000) 7 KConnect, p_rx = 0\<rparr>"

definition demo_engine :: "(evm_request, unit) engine" where
  "demo_engine =
     \<lparr>eng_store = \<lparr>st_pending = [(7, \<lparr>e_request = demo_request, e_tx = 0\<rparr>)], st_chans = [os_new]\<rparr>,
      eng_index_html = ''page'', eng_bind = Ephemeral, eng_browser = BPrint,
      eng_server = Some \<lparr>srv_port = Port 40000, srv_extra = None\<rparr>\<rparr>"

definition demo_start :: "(evm_request, unit) bridge" where
  "demo_start = bridge_init (engine_new ''page'' Ephemeral BPrint)"

definition demo_waiting :: "(evm_request, unit) bridge" where
  "demo_waiting =
     demo_start\<lparr>br_engine := demo_engine, br_futs := br_futs demo_start @ [future_of demo_prepared]\<rparr>"

definition demo_post :: "request_result \<Rightarrow> (evm_request, unit) bridge \<Rightarrow> (evm_request, unit) bridge" where
  "demo_post res b =
     finish_step 0 (check_step 0
       (b\<lparr>br_posts := br_posts b @ [\<lparr>po_id = 7, po_result = res, po_phase = PCheck\<rparr>]\<rparr>))"

definition demo_done :: "request_result \<Rightarrow> (evm_request, unit) bridge" where
  "demo_done res = poll_step ref_evm 0 (demo_post res demo_waiting)"

lemma demo_url: "build_url ref_evm (Port 40000) 7 KConnect = Some (bridge_url ref_core (Port 40000) 7 KConnect)"
  using build_url_eq [OF ref_url_laws(2), of "Port 40000" 7 KConnect]
  by (simp add: port_ok_def bridge_url_def ref_simps)

lemma demo_prepare:
  "prepare ref_evm (evm_ops ref_evm) ref_net demo_request (br_engine demo_start) =
     (Some (Inr demo_prepared), demo_engine)"
  by (simp add: prepare_def register_def start_def start_with_def demo_start_def bridge_init_def engine_new_def
      bind_listener_def bind_ephemeral_def ref_net_def port_try_new_def demo_request_def
      evm_connect_def evm_connect_with_def request_meta_new_def store_create_def Let_def store_new_def
      demo_url demo_prepared_def demo_engine_def drop_entry_def)

lemma demo_waiting_reachable: "bridge_reachable ref_evm (evm_ops ref_evm) demo_waiting"
  unfolding demo_waiting_def
  by (rule bridge_reachable.step [OF _ bridge_step.submit [OF demo_prepare]])
    (simp add: demo_start_def bridge_reachable.init)

lemma demo_states:
  "br_futs demo_waiting = [\<lparr>fut_id = 7, fut_rx = 0, fut_state = FCreated\<rparr>]"
  "br_posts demo_waiting = []" "br_now demo_waiting = 0"
  "br_store demo_waiting =
     \<lparr>st_pending = [(7, \<lparr>e_request = demo_request, e_tx = 0\<rparr>)], st_chans = [os_new]\<rparr>"
  by (simp_all add: demo_waiting_def demo_start_def bridge_init_def future_of_def demo_prepared_def
      demo_engine_def br_store_def)

lemma demo_post_states:
  "br_futs (demo_post res demo_waiting) = [\<lparr>fut_id = 7, fut_rx = 0, fut_state = FCreated\<rparr>]"
  "br_posts (demo_post res demo_waiting) =
     [\<lparr>po_id = 7, po_result = res, po_phase = PAnswered completed\<rparr>]"
  "br_store (demo_post res demo_waiting) =
     \<lparr>st_pending = [], st_chans = [\<lparr>os_cell = Sent res, os_rx_alive = True\<rparr>]\<rparr>"
  by (simp_all add: demo_post_def finish_step_def check_step_def Let_def demo_states post_check_def
      store_has_def post_finish_def store_complete_def os_send_def os_put_def os_new_def)

lemma demo_post_reachable: "bridge_reachable ref_evm (evm_ops ref_evm) (demo_post res demo_waiting)"
proof -
  let ?b = "demo_waiting\<lparr>br_posts := br_posts demo_waiting @
    [\<lparr>po_id = 7, po_result = res, po_phase = PCheck\<rparr>]\<rparr>"
  have b: "bridge_reachable ref_evm (evm_ops ref_evm) ?b"
    by (rule bridge_reachable.step [OF demo_waiting_reachable bridge_step.arrive])
  have c: "bridge_reachable ref_evm (evm_ops ref_evm) (check_step 0 ?b)"
    by (rule bridge_reachable.step [OF b bridge_step.check]) (simp_all add: demo_states)
  show ?thesis
    unfolding demo_post_def
    by (rule bridge_reachable.step [OF c bridge_step.finish])
      (simp_all add: demo_states check_step_def post_check_def store_has_def)
qed

lemma demo_done_reachable: "bridge_reachable ref_evm (evm_ops ref_evm) (demo_done res)"
  unfolding demo_done_def
  by (rule bridge_reachable.step [OF demo_post_reachable bridge_step.poll]) (simp add: demo_post_states)

lemma demo_done_states:
  "br_futs (demo_done res) = [\<lparr>fut_id = 7, fut_rx = 0, fut_state = settle (map_result res)\<rparr>]"
  "br_posts (demo_done res) = [\<lparr>po_id = 7, po_result = res, po_phase = PAnswered completed\<rparr>]"
  "br_store (demo_done res) =
     \<lparr>st_pending = [], st_chans = [\<lparr>os_cell = Sent res, os_rx_alive = False\<rparr>]\<rparr>"
  by (simp_all add: demo_done_def poll_step_def demo_post_states fut_poll_def poll_waiting_def
      store_recv_def os_recv_def poll_timeout_def store_drop_rx_def os_drop_rx_def)

end
