(* ===== verification/Broker.thy ===== *)
theory Broker
  imports Bridge_Invariant
begin

section \<open>What the bridge promises: a broker of requests\<close>

text \<open>
  The bridge without its channels, futures, deadlines, locked sections and sockets: a broker has the
  requests it serves, the answers it has accepted, and an outcome, once there is one, for every request it
  was handed. Its four steps are atomic. \<open>broker_of\<close> reads a broker off a bridge, and every step of the
  bridge is a step of the broker or no step at all, so whatever holds of all brokers holds of the bridge.
\<close>

record 'r broker =
  bk_served :: "uuid \<Rightarrow> 'r option"
  bk_answers :: "(uuid \<times> request_result) set"
  bk_outcomes :: "(uuid \<times> outcome option) list"

definition broker_init :: "'r broker" where
  "broker_init = \<lparr>bk_served = (\<lambda>i. None), bk_answers = {}, bk_outcomes = []\<rparr>"

definition allowed_outcome ::
  "'e core_ext_scheme \<Rightarrow> (uuid \<times> request_result) set \<Rightarrow> uuid \<Rightarrow> outcome \<Rightarrow> bool" where
  "allowed_outcome X answers i out \<longleftrightarrow>
     (\<exists>(j, res) \<in> answers. j = i \<and> out = map_result res) \<or>
     out = Inl (cancelled_error X i) \<or> out = Inl timeout_error"

inductive broker_step ::
  "'e core_ext_scheme \<Rightarrow> ('r, 'y) request_ops_scheme \<Rightarrow> 'r broker \<Rightarrow> 'r broker \<Rightarrow> bool" for X R where
  register: "broker_step X R s
     (s\<lparr>bk_served := (bk_served s)(r_id R r \<mapsto> r), bk_outcomes := bk_outcomes s @ [(r_id R r, None)]\<rparr>)"
| answer: "bk_served s i \<noteq> None \<Longrightarrow> broker_step X R s
     (s\<lparr>bk_served := (bk_served s)(i := None), bk_answers := insert (i, res) (bk_answers s)\<rparr>)"
| withdraw: "broker_step X R s (s\<lparr>bk_served := (bk_served s)(i := None)\<rparr>)"
| resolve: "k < length (bk_outcomes s) \<Longrightarrow> bk_outcomes s ! k = (i, None) \<Longrightarrow>
     allowed_outcome X (bk_answers s) i out \<Longrightarrow>
     broker_step X R s (s\<lparr>bk_outcomes := (bk_outcomes s)[k := (i, Some out)]\<rparr>)"

inductive_cases broker_stepE: "broker_step X R s s'"

subsection \<open>What holds of a broker\<close>

text \<open>An outcome, once there, stays; an accepted answer stays too.\<close>

lemma broker_outcome_stays:
  assumes "broker_step X R s s'" and "k < length (bk_outcomes s)"
    and "bk_outcomes s ! k = (i, Some out)"
  shows "k < length (bk_outcomes s') \<and> bk_outcomes s' ! k = (i, Some out)"
  using assms by cases (auto simp: nth_append nth_list_update)

lemma broker_answers_stay: "broker_step X R s s' \<Longrightarrow> bk_answers s \<subseteq> bk_answers s'"
  by (erule broker_stepE) auto

definition broker_ok :: "'e core_ext_scheme \<Rightarrow> 'r broker \<Rightarrow> bool" where
  "broker_ok X s \<longleftrightarrow>
     (\<forall>i v. (i, Some v) \<in> set (bk_outcomes s) \<longrightarrow> allowed_outcome X (bk_answers s) i v) \<and>
     (\<forall>i. bk_served s i \<noteq> None \<or> (\<exists>res. (i, res) \<in> bk_answers s) \<longrightarrow> i \<in> fst ` set (bk_outcomes s))"

lemma allowed_mono: "allowed_outcome X A i out \<Longrightarrow> A \<subseteq> B \<Longrightarrow> allowed_outcome X B i out"
  by (auto simp: allowed_outcome_def)

lemma broker_ok_init: "broker_ok X broker_init"
  by (simp add: broker_ok_def broker_init_def)

lemma broker_ok_step: "broker_step X R s s' \<Longrightarrow> broker_ok X s \<Longrightarrow> broker_ok X s'"
proof (induction rule: broker_step.induct)
  case (register s r)
  then show ?case by (auto simp: broker_ok_def split: if_splits)
next
  case (answer s i res)
  have "allowed_outcome X (insert (i, res) (bk_answers s)) j v" if "(j, Some v) \<in> set (bk_outcomes s)" for j v
    by (rule allowed_mono [of _ "bk_answers s"]) (use answer.prems that in \<open>auto simp: broker_ok_def\<close>)
  with answer show ?case by (fastforce simp: broker_ok_def split: if_splits)
next
  case (withdraw s i)
  then show ?case by (auto simp: broker_ok_def split: if_splits)
next
  case (resolve k s i out)
  have "fst ` set ((bk_outcomes s)[k := (i, Some out)]) = fst ` set (bk_outcomes s)"
    using resolve.hyps(1,2) by (metis fst_conv list_update_id map_update set_map)
  moreover have "allowed_outcome X (bk_answers s) j v"
    if "(j, Some v) \<in> set ((bk_outcomes s)[k := (i, Some out)])" for j v
  proof -
    have "(j, Some v) = (i, Some out) \<or> (j, Some v) \<in> set (bk_outcomes s)"
      using that set_update_subset_insert [of "bk_outcomes s" k "(i, Some out)"] by blast
    then show ?thesis
      using resolve.hyps(3) resolve.prems by (auto simp: broker_ok_def)
  qed
  ultimately show ?case
    using resolve.prems by (simp add: broker_ok_def)
qed

subsection \<open>The bridge refines the broker\<close>

definition answers_of :: "post list \<Rightarrow> (uuid \<times> request_result) set" where
  "answers_of ps = {(i, res). answered ps i res}"

definition outcome_of :: "future \<Rightarrow> uuid \<times> outcome option" where
  "outcome_of f = (fut_id f, fut_outcome f)"

definition broker_of :: "('r, 'x) bridge \<Rightarrow> 'r broker" where
  "broker_of b =
     \<lparr>bk_served = store_get (br_store b), bk_answers = answers_of (br_posts b),
      bk_outcomes = map outcome_of (br_futs b)\<rparr>"

lemma explained_allowed: "explained X ps i out = allowed_outcome X (answers_of ps) i out"
  by (auto simp: explained_def allowed_outcome_def answers_of_def)

lemma store_get_ops:
  "store_get (fst (store_create R st r)) = (store_get st)(r_id R r \<mapsto> r)"
  "store_get (fst (store_complete st i res)) = (store_get st)(i := None)"
  "store_get (fst (store_cancel st i)) = (store_get st)(i := None)"
  "store_get (store_drop_rx st c) = store_get st"
  by (simp_all add: fun_eq_iff store_get_abs store_abs_create store_abs_complete store_abs_cancel)

lemma answers_of_arrive: "po_phase p = PCheck \<Longrightarrow> answers_of (ps @ [p]) = answers_of ps"
  by (auto simp: answers_of_def answered_def is_answer_def)

lemma answers_of_update:
  assumes "j < length ps" and "\<not> is_answer (po_id (ps ! j)) (ps ! j)"
  shows "answers_of (ps[j := q]) =
    (if is_answer (po_id q) q then insert (po_id q, po_result q) (answers_of ps) else answers_of ps)"
proof -
  have new: "q \<in> set (ps[j := q])" using assms(1) by (simp add: set_update_memI)
  have old: "p = q \<or> p \<in> set ps" if "p \<in> set (ps[j := q])" for p
    using that set_update_subset_insert [of ps j q] by auto
  have "answered (ps[j := q]) i res \<longleftrightarrow> answered ps i res \<or> is_answer i q \<and> po_result q = res" for i res
  proof
    assume "answered (ps[j := q]) i res"
    then obtain p where "p \<in> set (ps[j := q])" "is_answer i p" "po_result p = res"
      by (auto simp: answered_def)
    with old [of p] show "answered ps i res \<or> is_answer i q \<and> po_result q = res"
      unfolding answered_def by blast
  next
    assume "answered ps i res \<or> is_answer i q \<and> po_result q = res"
    with answered_update [OF _ assms] new show "answered (ps[j := q]) i res"
      unfolding answered_def by blast
  qed
  then show ?thesis by (auto simp: answers_of_def is_answer_def)
qed

lemma broker_of_put_future:
  assumes "k < length (br_futs b)" and "outcome_of (snd sf) = outcome_of (br_futs b ! k)"
  shows "broker_of (put_future k sf b) = (broker_of b)\<lparr>bk_served := store_get (fst sf)\<rparr>"
proof -
  have "map outcome_of ((br_futs b)[k := snd sf]) = map outcome_of (br_futs b)"
    using assms by (metis list_update_id map_update)
  then show ?thesis by (simp add: broker_of_def)
qed

lemma outcome_of_live: "fut_live f \<Longrightarrow> outcome_of f = (fut_id f, None)"
  by (auto simp: outcome_of_def fut_outcome_def fut_live_def split: fut_state.splits)

lemma poll_waiting_refines:
  assumes inv: "bridge_inv X R b" and k: "k < length (br_futs b)" and f: "br_futs b ! k = f" "fut_live f"
  shows "broker_of (put_future k (poll_waiting X (br_now b) d (br_store b) f) b) = broker_of b \<or>
    broker_step X R (broker_of b) (broker_of (put_future k (poll_waiting X (br_now b) d (br_store b) f) b))"
proof (cases "poll_timeout X (br_now b) (fut_id f) (store_recv (br_store b) (fut_rx f)) d")
  case None
  then have "poll_waiting X (br_now b) d (br_store b) f = (br_store b, f\<lparr>fut_state := FWaiting d\<rparr>)"
    by (simp add: poll_waiting_def)
  moreover have "outcome_of (f\<lparr>fut_state := FWaiting d\<rparr>) = outcome_of f"
    using f(2) outcome_of_live [of f] by (simp add: outcome_of_def fut_outcome_def)
  ultimately have "broker_of (put_future k (poll_waiting X (br_now b) d (br_store b) f) b) = broker_of b"
    using broker_of_put_future [OF k, of "(br_store b, f\<lparr>fut_state := FWaiting d\<rparr>)"] f(1)
    by (simp add: broker_of_def)
  then show ?thesis ..
next
  case (Some out)
  let ?g = "f\<lparr>fut_state := settle out\<rparr>"
  have poll: "poll_waiting X (br_now b) d (br_store b) f = (store_drop_rx (br_store b) (fut_rx f), ?g)"
    using Some by (simp add: poll_waiting_def)
  have "explained X (br_posts b) (fut_id f) out"
  proof (cases "store_recv (br_store b) (fut_rx f)")
    case (Sent res)
    moreover have "f \<in> set (br_futs b)" using k f(1) nth_mem by blast
    ultimately show ?thesis
      using inv Some by (auto simp: bridge_inv_def cells_answered_def explained_def poll_timeout_def)
  qed (use Some in \<open>auto simp: poll_timeout_def explained_def split: if_splits\<close>)
  then have "allowed_outcome X (bk_answers (broker_of b)) (fut_id f) out"
    by (simp add: explained_allowed broker_of_def)
  moreover have "bk_outcomes (broker_of b) ! k = (fut_id f, None)" "k < length (bk_outcomes (broker_of b))"
    using k f by (simp_all add: broker_of_def outcome_of_live)
  ultimately have "broker_step X R (broker_of b)
      ((broker_of b)\<lparr>bk_outcomes := (bk_outcomes (broker_of b))[k := (fut_id f, Some out)]\<rparr>)"
    by (intro broker_step.resolve)
  moreover have "broker_of (put_future k (store_drop_rx (br_store b) (fut_rx f), ?g) b) =
      (broker_of b)\<lparr>bk_outcomes := (bk_outcomes (broker_of b))[k := (fut_id f, Some out)]\<rparr>"
    using fut_outcome_settle [of ?g out]
    by (simp add: broker_of_def map_update store_get_ops outcome_of_def)
  ultimately show ?thesis using poll by simp
qed

lemma poll_refines:
  assumes inv: "bridge_inv X R b" and k: "k < length (br_futs b)"
  shows "broker_of (poll_step X k b) = broker_of b \<or> broker_step X R (broker_of b) (broker_of (poll_step X k b))"
proof -
  let ?f = "br_futs b ! k"
  show ?thesis
  proof (cases "fut_live ?f")
    case True
    then obtain d where "fut_poll X (br_now b) (br_store b) ?f = poll_waiting X (br_now b) d (br_store b) ?f"
      by (auto simp: fut_live_def fut_poll_def split: fut_state.splits)
    with poll_waiting_refines [OF inv k refl True, of d] show ?thesis by (simp add: poll_step_def)
  next
    case False
    have "outcome_of (snd (fut_poll X (br_now b) (br_store b) ?f)) = outcome_of ?f"
      using False by (auto simp: fut_poll_def outcome_of_def fut_outcome_def fut_live_def split: fut_state.splits)
    then have "broker_of (poll_step X k b) =
        (broker_of b)\<lparr>bk_served := store_get (fst (fut_poll X (br_now b) (br_store b) ?f))\<rparr>"
      using broker_of_put_future [OF k, of "fut_poll X (br_now b) (br_store b) ?f"]
      by (simp add: poll_step_def)
    moreover have "fst (fut_poll X (br_now b) (br_store b) ?f) = br_store b \<or>
        fst (fut_poll X (br_now b) (br_store b) ?f) = fst (store_cancel (br_store b) (fut_id ?f))"
      using False by (auto simp: fut_poll_def fut_live_def split: fut_state.splits)
    ultimately show ?thesis
      using broker_step.withdraw [of X R "broker_of b" "fut_id ?f"]
      by (auto simp: store_get_ops broker_of_def)
  qed
qed

lemma drop_refines: "k < length (br_futs b) \<Longrightarrow> broker_of (drop_step k b) = broker_of b"
  using broker_of_put_future [of k b "fut_drop (br_store b) (br_futs b ! k)"]
  by (auto simp: drop_step_def fut_drop_def outcome_of_def fut_outcome_def broker_of_def store_get_ops
      split: fut_state.splits)

lemma check_refines:
  assumes "j < length (br_posts b)" and "po_phase (br_posts b ! j) = PCheck"
  shows "broker_of (check_step j b) = broker_of b"
  using assms answers_of_update [OF assms(1)]
  by (auto simp: check_step_def broker_of_def post_check_def is_answer_def split: option.split)

lemma finish_refines:
  assumes "j < length (br_posts b)" and "po_phase (br_posts b ! j) = PFinish"
  shows "broker_of (finish_step j b) = broker_of b \<or> broker_step X R (broker_of b) (broker_of (finish_step j b))"
proof -
  let ?p = "br_posts b ! j"
  have upd: "answers_of ((br_posts b)[j := ?p\<lparr>po_phase := PAnswered r\<rparr>]) =
      (if r = completed then insert (po_id ?p, po_result ?p) (answers_of (br_posts b)) else answers_of (br_posts b))"
    for r
    using answers_of_update [OF assms(1)] assms(2) by (simp add: is_answer_def)
  have eq: "broker_of (finish_step j b) =
      (broker_of b)\<lparr>bk_served := (store_get (br_store b))(po_id ?p := None),
        bk_answers := (if store_abs (br_store b) (po_id ?p) \<noteq> None
          then insert (po_id ?p, po_result ?p) (answers_of (br_posts b)) else answers_of (br_posts b))\<rparr>"
    by (simp add: finish_step_def Let_def broker_of_def post_finish_store store_get_ops upd post_finish_cases)
  show ?thesis
  proof (cases "store_abs (br_store b) (po_id ?p) = None")
    case True
    then have "(store_get (br_store b))(po_id ?p := None) = store_get (br_store b)"
      by (simp add: fun_eq_iff store_get_abs)
    with eq True show ?thesis by (simp add: broker_of_def)
  next
    case False
    then show ?thesis
      using eq broker_step.answer [of "broker_of b" "po_id ?p" X R "po_result ?p"]
      by (simp add: broker_of_def store_get_abs)
  qed
qed

lemma bridge_step_refines:
  assumes "bridge_step X R b b'" and inv: "bridge_inv X R b"
  shows "broker_of b' = broker_of b \<or> broker_step X R (broker_of b) (broker_of b')"
  using assms(1)
proof cases
  case (submit N r p eng')
  have "outcome_of (future_of p) = (r_id R r, None)"
    using prepare_Inr [OF submit(2)] by (simp add: outcome_of_def fut_outcome_def)
  moreover have "store_get (eng_store eng') = (store_get (br_store b))(r_id R r \<mapsto> r)"
    using prepare_Inr [OF submit(2)] by (simp add: store_get_ops br_store_def)
  ultimately show ?thesis
    using submit(1) broker_step.register [of X R "broker_of b" r] by (simp add: broker_of_def)
next
  case (registers port r p st)
  have "outcome_of (future_of p) = (r_id R r, None)" "store_get st = (store_get (br_store b))(r_id R r \<mapsto> r)"
    using register_Some [OF registers(2)] by (simp_all add: outcome_of_def fut_outcome_def store_get_ops)
  then show ?thesis
    using registers(1) broker_step.register [of X R "broker_of b" r] by (simp add: broker_of_def)
next
  case (submit_failed N r e eng')
  then show ?thesis using prepare_Inl [of X R N r "br_engine b" e eng'] by (simp add: broker_of_def br_store_def)
next
  case (poll k)
  then show ?thesis using poll_refines [OF inv] by simp
next
  case (dropped k)
  then show ?thesis by (simp add: drop_refines)
next
  case (arrive i res)
  then show ?thesis by (simp add: broker_of_def answers_of_arrive)
next
  case (check j)
  then show ?thesis by (simp add: check_refines)
next
  case (finish j)
  then show ?thesis using finish_refines by simp
next
  case (starts N extra)
  then show ?thesis by (simp add: broker_of_def br_store_def start_with_store)
next
  case stops
  then show ?thesis by (simp add: broker_of_def br_store_def shutdown_def)
next
  case (cancels i)
  then show ?thesis
    using broker_step.withdraw [of X R "broker_of b" i] by (simp add: broker_of_def store_get_ops)
next
  case (tick d)
  then show ?thesis by (simp add: broker_of_def)
qed

lemma broker_of_init: "broker_of (bridge_init (engine_new html bind browser)) = broker_init"
  by (simp add: broker_of_def bridge_init_def broker_init_def engine_new_def br_store_def store_new_def
      answers_of_def answered_def store_get_def fun_eq_iff)

text \<open>Runs of the bridge are runs of the broker.\<close>

lemma bridge_run_refines:
  assumes "(bridge_step X R)\<^sup>*\<^sup>* b b'" and "bridge_reachable X R b"
  shows "(broker_step X R)\<^sup>*\<^sup>* (broker_of b) (broker_of b') \<and> bridge_reachable X R b'"
  using assms
proof (induction rule: rtranclp_induct)
  case base
  then show ?case by simp
next
  case (step c c')
  then have "broker_of c' = broker_of c \<or> broker_step X R (broker_of c) (broker_of c')"
    using bridge_step_refines bridge_reachable_inv by blast
  with step show ?case
    by (metis bridge_reachable.step rtranclp.rtrancl_into_rtrancl)
qed

lemma broker_run_outcome_stays:
  assumes "(broker_step X R)\<^sup>*\<^sup>* s s'" and "k < length (bk_outcomes s)" "bk_outcomes s ! k = (i, Some out)"
  shows "k < length (bk_outcomes s') \<and> bk_outcomes s' ! k = (i, Some out)"
  using assms by (induction rule: rtranclp_induct) (auto dest: broker_outcome_stays)

subsection \<open>Steps that register nothing\<close>

text \<open>
  What the bridge does while its holder registers no request and drops no future: wallets answer, timers
  run, futures are polled. Such a step serves no request that was not served before.
\<close>

definition quiet_step ::
  "'e core_ext_scheme \<Rightarrow> ('r, 'y) request_ops_scheme \<Rightarrow> ('r, 'x) bridge \<Rightarrow> ('r, 'x) bridge \<Rightarrow> bool" where
  "quiet_step X R b b' \<longleftrightarrow>
     bridge_step X R b b' \<and> length (br_futs b') = length (br_futs b) \<and>
     (\<forall>k < length (br_futs b). fut_state (br_futs b' ! k) = FDropped \<longrightarrow> fut_state (br_futs b ! k) = FDropped)"

lemma quiet_stepD: "quiet_step X R b b' \<Longrightarrow> bridge_step X R b b'"
  by (simp add: quiet_step_def)

lemma broker_step_served:
  "broker_step X R s s' \<Longrightarrow> length (bk_outcomes s') = length (bk_outcomes s) \<Longrightarrow>
     bk_served s' \<subseteq>\<^sub>m bk_served s"
  by (erule broker_stepE) (auto simp: map_le_def)

lemma quiet_step_served:
  assumes "quiet_step X R b b'" and "bridge_reachable X R b"
  shows "store_get (br_store b') \<subseteq>\<^sub>m store_get (br_store b)"
proof -
  have "broker_of b' = broker_of b \<or> broker_step X R (broker_of b) (broker_of b')"
    using bridge_step_refines [OF quiet_stepD [OF assms(1)] bridge_reachable_inv [OF assms(2)]] .
  moreover have "length (bk_outcomes (broker_of b')) = length (bk_outcomes (broker_of b))"
    using assms(1) by (simp add: quiet_step_def broker_of_def)
  ultimately have "bk_served (broker_of b') \<subseteq>\<^sub>m bk_served (broker_of b)"
    using broker_step_served by auto
  then show ?thesis by (simp add: broker_of_def)
qed

lemma fut_poll_keeps_live:
  "fut_state f \<noteq> FDropped \<Longrightarrow> fut_state (snd (fut_poll X now st f)) \<noteq> FDropped"
  by (auto simp: fut_poll_def poll_waiting_def settle_def split: fut_state.splits option.splits sum.splits)

lemma quiet_step_intros:
  "k < length (br_futs b) \<Longrightarrow> quiet_step X R b (poll_step X k b)"
  "quiet_step X R b (b\<lparr>br_posts := br_posts b @ [\<lparr>po_id = i, po_result = res, po_phase = PCheck\<rparr>]\<rparr>)"
  "j < length (br_posts b) \<Longrightarrow> po_phase (br_posts b ! j) = PCheck \<Longrightarrow> quiet_step X R b (check_step j b)"
  "j < length (br_posts b) \<Longrightarrow> po_phase (br_posts b ! j) = PFinish \<Longrightarrow> quiet_step X R b (finish_step j b)"
  "quiet_step X R b (b\<lparr>br_now := br_now b + d\<rparr>)"
  using bridge_step.poll [of k b X R] bridge_step.arrive [of X R b i res] bridge_step.check [of j b X R]
    bridge_step.finish [of j b X R] bridge_step.tick [of X R b d] fut_poll_keeps_live [of "br_futs b ! k" X]
  by (auto simp: quiet_step_def poll_step_def check_step_def finish_step_def Let_def nth_list_update
      split: if_splits)

end
