(* ===== verification/Bridge_Properties.thy ===== *)
theory Bridge_Properties
  imports Reference Broker
begin

section \<open>Properties of the bridge\<close>

text \<open>
  The properties of the engine, the store, the HTTP handlers and the core types, each with a witness on
  the run and the library functions of \<open>Reference\<close> where it has a hypothesis.
\<close>

subsection \<open>Results\<close>

text \<open>
  C1: A result future that succeeds returns what the wallet sent. In every reachable state, whatever the
  interleaving, a future that finished with a value has a \<open>POST /api/complete\<close> for its own id that
  carried that value as a success and was answered with 200.
\<close>

theorem result_integrity:
  assumes "bridge_reachable X R b" and "f \<in> set (br_futs b)" and "fut_state f = FDone (Inr v)"
  shows "\<exists>p \<in> set (br_posts b). po_id p = fut_id f \<and> po_result p = RSuccess v \<and>
    po_phase p = PAnswered completed"
proof -
  have "explained X (br_posts b) (fut_id f) (Inr v)"
    using reachable_outcome [OF assms(1,2)] assms(3) by (simp add: fut_outcome_def)
  then show ?thesis by (auto simp: explained_success answered_def is_answer_def)
qed

theorem result_integrity_witness:
  "fut_state (br_futs (demo_done (RSuccess ''ok'')) ! 0) = FDone (Inr ''ok'') \<and>
   (\<exists>p \<in> set (br_posts (demo_done (RSuccess ''ok''))). po_id p = 7 \<and> po_result p = RSuccess ''ok'' \<and>
      po_phase p = PAnswered completed)"
  using result_integrity [OF demo_done_reachable [of "RSuccess ''ok''"],
      of "br_futs (demo_done (RSuccess ''ok'')) ! 0" "''ok''"]
  by (simp add: demo_done_states settle_def map_result_def)

text \<open>
  C14: Every outcome of a future has one of three causes: a POST for its id answered with 200, whose
  success or error it is; a cancellation, which names its own id; or the timeout of 300 seconds. A wallet's
  rejection in particular is never made up by the bridge.
\<close>

theorem outcome_causes:
  assumes "bridge_reachable X R b" and "f \<in> set (br_futs b)" and "fut_outcome f = Some out"
  shows "(\<exists>p \<in> set (br_posts b). po_id p = fut_id f \<and> po_phase p = PAnswered completed \<and>
      out = map_result (po_result p)) \<or>
    out = Inl (Cancelled (x_uuid_show X (fut_id f))) \<or> out = Inl (Timeout 300)"
proof -
  have "timeout_error = Timeout 300" by (simp add: timeout_error_def REQUEST_TIMEOUT_def)
  with reachable_outcome [OF assms] show ?thesis
    by (auto simp: explained_def cancelled_error_def answered_def is_answer_def)
qed

theorem outcome_causes_witness:
  "fut_outcome (br_futs (demo_done (RError ''no'' (Some ''X''))) ! 0) = Some (Inl (Rejected ''no'' (Some ''X''))) \<and>
   (\<exists>p \<in> set (br_posts (demo_done (RError ''no'' (Some ''X'')))).
      po_id p = 7 \<and> Inl (Rejected ''no'' (Some ''X'')) = map_result (po_result p))"
  using outcome_causes [OF demo_done_reachable [of "RError ''no'' (Some ''X'')"],
      of "br_futs (demo_done (RError ''no'' (Some ''X''))) ! 0" "Inl (Rejected ''no'' (Some ''X''))"]
  by (simp add: demo_done_states settle_def map_result_def fut_outcome_def)

text \<open>
  C13: A request is answered at most once. For every id, the POSTs answered with 200 and the entry still
  pending, if there is one, together are no more than the requests registered under that id.
\<close>

theorem answered_at_most_once:
  assumes "bridge_reachable X R b"
  shows "length (filter (\<lambda>p. po_id p = i \<and> po_phase p = PAnswered completed) (br_posts b)) +
      (if store_has (br_store b) i then 1 else 0)
    \<le> length (filter (\<lambda>f. fut_id f = i) (br_futs b))"
proof -
  have "answer_count (br_posts b) i + (if store_abs (br_store b) i = None then 0 else 1)
      \<le> future_count (br_futs b) i"
    using bridge_reachable_inv [OF assms] by (simp add: bridge_inv_def answered_once_def)
  moreover have "filter (is_answer i) (br_posts b) =
      filter (\<lambda>p. po_id p = i \<and> po_phase p = PAnswered completed) (br_posts b)"
    by (rule filter_cong) (simp_all add: is_answer_def)
  moreover have "future_count fs i = length (filter (\<lambda>f. fut_id f = i) fs)" for fs
    by (induction fs) (simp_all add: future_count_def)
  ultimately show ?thesis
    by (auto simp: answer_count_def store_has_abs split: if_splits)
qed

theorem answered_at_most_once_witness:
  "length (filter (\<lambda>p. po_id p = 7 \<and> po_phase p = PAnswered completed)
     (br_posts (demo_done (RSuccess ''ok'')))) + 0 \<le> (1 :: nat) \<and>
   length (br_futs (demo_done (RSuccess ''ok''))) = 1"
  using answered_at_most_once [OF demo_done_reachable [of "RSuccess ''ok''"], of 7]
  by (simp add: demo_done_states store_has_def)

text \<open>
  C22: A finished request is not served any more. When the registered ids are distinct, \<open>GET
  /api/pending/{id}\<close> of a request whose future has finished, with a value or an error, is 404.
\<close>

theorem finished_not_served:
  assumes "bridge_reachable X R b" and "distinct (map fut_id (br_futs b))"
    and "f \<in> set (br_futs b)" and "fut_state f = FDone out"
  shows "get_pending R (br_store b) (fut_id f) = not_found"
proof (cases "store_abs (br_store b) (fut_id f)")
  case None
  then show ?thesis by (simp add: get_pending_abs)
next
  case (Some rc)
  then obtain g where g: "g \<in> set (br_futs b)" "fut_id g = fut_id f" "\<not> fut_done g"
    using bridge_reachable_inv [OF assms(1)] unfolding bridge_inv_def entries_owned_def
    by (metis surj_pair)
  then have "g = f" using assms(2,3) by (auto simp: distinct_map inj_on_def)
  with g(3) assms(4) show ?thesis by (simp add: fut_done_def)
qed

theorem finished_not_served_witness:
  "get_pending (evm_ops ref_evm) (br_store demo_waiting) 7 \<noteq> not_found \<and>
   get_pending (evm_ops ref_evm) (br_store (demo_done (RSuccess ''ok''))) 7 = not_found"
proof
  show "get_pending (evm_ops ref_evm) (br_store demo_waiting) 7 \<noteq> not_found"
    by (simp add: demo_states get_pending_def store_get_def not_found_def json_error_def
        json_response_def)
  show "get_pending (evm_ops ref_evm) (br_store (demo_done (RSuccess ''ok''))) 7 = not_found"
    using finished_not_served [OF demo_done_reachable [of "RSuccess ''ok''"],
        of "br_futs (demo_done (RSuccess ''ok'')) ! 0"]
    by (simp add: demo_done_states settle_def map_result_def)
qed

text \<open>
  C16: An answer is delivered. When a POST for an awaited request passes its check and completes it, the
  next poll of that request's future settles with exactly the posted result.
\<close>

theorem answer_delivered:
  assumes "bridge_reachable X R b"
    and "br_posts b ! j = \<lparr>po_id = fut_id f, po_result = res, po_phase = PFinish\<rparr>"
    and "k < length (br_futs b)" and "br_futs b ! k = f" and "fut_live f"
    and "store_abs (br_store b) (fut_id f) = Some (r, fut_rx f)"
  shows "fut_outcome (br_futs (poll_step X k (finish_step j b)) ! k) = Some (map_result res)"
  by (rule fut_outcome_settle) (rule finish_then_poll [OF assms])

definition demo_checked :: "(evm_request, unit) bridge" where
  "demo_checked =
     check_step 0 (demo_waiting\<lparr>br_posts :=
       br_posts demo_waiting @ [\<lparr>po_id = 7, po_result = RSuccess ''ok'', po_phase = PCheck\<rparr>]\<rparr>)"

lemma demo_checked_states:
  "br_futs demo_checked = [\<lparr>fut_id = 7, fut_rx = 0, fut_state = FCreated\<rparr>]"
  "br_posts demo_checked = [\<lparr>po_id = 7, po_result = RSuccess ''ok'', po_phase = PFinish\<rparr>]"
  "br_store demo_checked =
     \<lparr>st_pending = [(7, \<lparr>e_request = demo_request, e_tx = 0\<rparr>)], st_chans = [os_new]\<rparr>"
  by (simp_all add: demo_checked_def check_step_def demo_states post_check_def store_has_def)

lemma demo_checked_reachable: "bridge_reachable ref_evm (evm_ops ref_evm) demo_checked"
  unfolding demo_checked_def
  by (rule bridge_reachable.step
      [OF bridge_reachable.step [OF demo_waiting_reachable bridge_step.arrive] bridge_step.check])
    (simp_all add: demo_states)

theorem answer_delivered_witness:
  "fut_outcome (br_futs (poll_step ref_evm 0 (finish_step 0 demo_checked)) ! 0) = Some (Inr ''ok'')"
  using answer_delivered [OF demo_checked_reachable, of 0 "br_futs demo_checked ! 0"
      "RSuccess ''ok''" 0 demo_request]
  by (simp add: demo_checked_states fut_live_def store_abs_def map_result_def)

text \<open>
  A request does not wait for ever. A waiting future's deadline is at most 300 seconds ahead, so once
  that time has passed two polls finish it: the first takes the outcome, the second cleans up.
\<close>

theorem waiting_finishes:
  assumes "bridge_reachable X R b" and "k < length (br_futs b)"
    and "fut_state (br_futs b ! k) = FWaiting d" and "br_now b + 300 \<le> t"
  shows "\<exists>out. fut_state (br_futs (poll_step X k (poll_step X k (b\<lparr>br_now := t\<rparr>))) ! k) = FDone out"
proof -
  have "d \<le> br_now b + REQUEST_TIMEOUT"
    using bridge_reachable_inv [OF assms(1)] assms(2,3) nth_mem [OF assms(2)]
    by (auto simp: bridge_inv_def deadlines_near_def)
  then have "d \<le> t" using assms(4) by (simp add: REQUEST_TIMEOUT_def)
  then show ?thesis
    using fut_poll_finishes [OF assms(3), of t X] assms(2) by (simp add: poll_step_def)
qed

definition demo_polled :: "(evm_request, unit) bridge" where
  "demo_polled = poll_step ref_evm 0 demo_waiting"

lemma demo_polled_states:
  "br_futs demo_polled = [\<lparr>fut_id = 7, fut_rx = 0, fut_state = FWaiting 300\<rparr>]"
  "br_now demo_polled = 0"
  by (simp_all add: demo_polled_def poll_step_def demo_states fut_poll_def poll_waiting_def
      store_recv_def os_recv_def os_new_def poll_timeout_def REQUEST_TIMEOUT_def)

lemma demo_polled_reachable: "bridge_reachable ref_evm (evm_ops ref_evm) demo_polled"
  unfolding demo_polled_def
  by (rule bridge_reachable.step [OF demo_waiting_reachable bridge_step.poll]) (simp add: demo_states)

theorem waiting_finishes_witness:
  "\<exists>out. fut_state (br_futs (poll_step ref_evm 0 (poll_step ref_evm 0 (demo_polled\<lparr>br_now := 300\<rparr>))) ! 0) =
     FDone out"
  using waiting_finishes [OF demo_polled_reachable, of 0 300 300] by (simp add: demo_polled_states)

text \<open>
  C12: The store implements a map. In every reachable state its entries have distinct ids, each is filed
  under its request's own id, and \<open>len\<close> is the number of ids that \<open>GET /api/pending\<close> finds.
\<close>

theorem store_is_a_map:
  assumes "bridge_reachable X R b"
  shows "store_len (br_store b) = card {i. get_pending R (br_store b) i \<noteq> not_found} \<and>
    (\<forall>i r. store_get (br_store b) i = Some r \<longrightarrow> r_id R r = i)"
proof -
  have inv: "store_inv R (br_store b)" using assms by (rule reachable_store_inv)
  have "{i. get_pending R (br_store b) i \<noteq> not_found} = dom (store_abs (br_store b))"
    by (auto simp: get_pending_abs not_found_def json_error_def json_response_def split: option.splits)
  then have "store_len (br_store b) = card {i. get_pending R (br_store b) i \<noteq> not_found}"
    by (simp add: store_len_abs [OF inv])
  moreover have "r_id R r = i" if "store_get (br_store b) i = Some r" for i r
    using that store_inv_key [OF inv] by (auto simp: store_get_abs)
  ultimately show ?thesis by blast
qed

theorem store_is_a_map_witness:
  "store_len (br_store demo_waiting) =
     card {i. get_pending (evm_ops ref_evm) (br_store demo_waiting) i \<noteq> not_found} \<and>
   store_len (br_store demo_waiting) = 1"
  using store_is_a_map [OF demo_waiting_reachable] by (simp add: demo_states store_len_def)

subsection \<open>The bridge as a broker\<close>

text \<open>
  C11: The bridge refines the broker. Whatever channel, future, deadline, locked section or socket a step of
  the running bridge touches, to the broker read off it the step is either nothing or one of the four atomic
  steps: a request is registered, a served request is answered and served no more, a request is withdrawn,
  or a pending outcome is resolved to an accepted answer, a cancellation or a timeout.
\<close>

theorem bridge_refines_broker:
  assumes "bridge_reachable X R b" and "bridge_step X R b b'"
  shows "broker_of b' = broker_of b \<or> broker_step X R (broker_of b) (broker_of b')"
  using assms(2) bridge_reachable_inv [OF assms(1)] by (rule bridge_step_refines)

lemma demo_submit: "bridge_step ref_evm (evm_ops ref_evm) demo_start demo_waiting"
  unfolding demo_waiting_def by (rule bridge_step.submit [OF demo_prepare])

lemma demo_start_reachable: "bridge_reachable ref_evm (evm_ops ref_evm) demo_start"
  unfolding demo_start_def by (rule bridge_reachable.init)

theorem bridge_refines_broker_witness:
  "broker_step ref_evm (evm_ops ref_evm) (broker_of demo_start) (broker_of demo_waiting) \<and>
   bk_served (broker_of demo_waiting) 7 = Some demo_request"
proof -
  have "bk_served (broker_of demo_waiting) 7 = Some demo_request"
    by (simp add: broker_of_def demo_states store_get_def)
  moreover have "bk_served (broker_of demo_start) 7 = None"
    by (simp add: broker_of_def demo_start_def bridge_init_def engine_new_def br_store_def store_new_def
        store_get_def)
  ultimately show ?thesis
    using bridge_refines_broker [OF demo_start_reachable demo_submit] by auto
qed

end
