(* ===== verification/Core_Properties.thy ===== *)
theory Core_Properties
  imports Reference
begin

section \<open>Properties of the core crate\<close>

text \<open>
  The HTTP handlers on any store, the engine's start-up and \<open>prepare\<close>, and the parsers and printers of
  the shared types.
\<close>

subsection \<open>The HTTP handlers\<close>

text \<open>
  A completion is final. When nothing runs in between, the second POST for an id is refused with
  404, whatever it carries, and so is a POST for an id that was cancelled.
\<close>

theorem completion_is_final:
  "snd (post_complete (fst (post_complete st i body)) i body') = not_found \<and>
   snd (post_complete (fst (store_cancel st i)) i body') = not_found"
  by (simp add: post_complete_eq ps.contents_cancel ps.contents_complete)

text \<open>
  C18: What \<open>post_complete\<close> answers and does: 200 exactly when the id is pending, and then the entry is
  gone, every other request is served as before, and the channel of a request that is awaited holds
  exactly the result that the body stands for; otherwise 404 and an unchanged store.
\<close>

theorem post_complete_effect:
  assumes "store_inv R st"
  shows "(case store_abs st i of
      None \<Rightarrow> post_complete st i body = (st, not_found)
    | Some (r, c) \<Rightarrow>
        snd (post_complete st i body) = completed \<and>
        get_pending R (fst (post_complete st i body)) i = not_found \<and>
        (store_listening st c \<longrightarrow>
           store_recv (fst (post_complete st i body)) c = Sent (result_from_complete body))) \<and>
    (\<forall>j. j \<noteq> i \<longrightarrow> get_pending R (fst (post_complete st i body)) j = get_pending R st j)"
proof (cases "store_abs st i")
  case None
  then show ?thesis by (simp add: post_complete_eq)
next
  case (Some rc)
  obtain r c where rc: "rc = (r, c)" by fastforce
  have "store_listening st c \<Longrightarrow>
      store_recv (fst (store_complete st i (result_from_complete body))) c = Sent (result_from_complete body)"
    using ps.complete_delivers [OF assms] Some rc by blast
  with Some rc show ?thesis
    by (auto simp: post_complete_eq get_pending_abs ps.contents_complete)
qed

theorem post_complete_effect_witness:
  "snd (post_complete (br_store demo_waiting) 7
     \<lparr>car_success = True, car_result = Some ''ok'', car_error = None, car_code = None\<rparr>) = completed \<and>
   store_recv (fst (post_complete (br_store demo_waiting) 7
     \<lparr>car_success = True, car_result = Some ''ok'', car_error = None, car_code = None\<rparr>)) 0 =
     Sent (RSuccess ''ok'')"
  using post_complete_effect [OF reachable_store_inv [OF demo_waiting_reachable], of 7
      "\<lparr>car_success = True, car_result = Some ''ok'', car_error = None, car_code = None\<rparr>"]
  by (simp add: demo_states store_abs_def store_listening_def os_listening_def os_new_def
      result_from_complete_def)

text \<open>
  C34: No other route touches the store. A request to the bridge that changes the store is a POST to
  \<open>/api/complete/{id}\<close> with an id and a body that parse, for a request that was pending; its answer is
  200 and its effect is that one completion.
\<close>

theorem only_complete_mutates:
  assumes "fst (bridge_answer H R S m path b st) \<noteq> st"
  shows "\<exists>s i v req. m = POST \<and> path_id ''/api/complete/'' path = Some s \<and> ax_path_id H s = Inr i \<and>
    ax_json H b = Inr v \<and> complete_deserialize v = Some req \<and> store_has st i \<and>
    bridge_answer H R S m path b st = (fst (store_complete st i (result_from_complete req)), completed)"
  using bridge_answer_store [OF assms] unfolding store_has_abs .

definition ref_axum :: "json axum" where
  "ref_axum =
     \<lparr>ax_path_id = (\<lambda>s. map_err (\<lambda>e. json_error 400 e) (ref_word s)), ax_json = Inr,
      ax_shape = (\<lambda>v. json_error 422 ''shape''), ax_preflight = (\<lambda>cors. json_response 200 JNull),
      ax_method_not_allowed = json_response 405 JNull\<rparr>"

definition ref_app :: app_state where
  "ref_app = \<lparr>app_index_html = ''page'', app_assets = \<lparr>as_core_js = [], as_core_css = [], as_version = ''v1''\<rparr>\<rparr>"

lemma ref_word_seven: "ref_word ''7'' = Inr (7 :: uuid)"
proof -
  have "show_word (7 :: uuid) = ''7''" by code_simp
  then show ?thesis using ref_word_show [of "7 :: uuid"] by simp
qed

theorem only_complete_mutates_witness:
  "\<exists>s i v req. path_id ''/api/complete/'' ''/api/complete/7'' = Some s \<and> ax_path_id ref_axum s = Inr i \<and>
     ax_json ref_axum (result_serialize (RSuccess ''ok'')) = Inr v \<and> complete_deserialize v = Some req \<and>
     store_has (br_store demo_waiting) i"
proof -
  let ?a = "bridge_answer ref_axum (evm_ops ref_evm) ref_app POST ''/api/complete/7''
    (result_serialize (RSuccess ''ok'')) (br_store demo_waiting)"
  have route: "bridge_route POST ''/api/complete/7'' = RComplete ''7''"
    using bridge_route_complete [of "''7''"] by simp
  obtain req where req: "complete_deserialize (result_serialize (RSuccess ''ok'')) = Some req"
    using complete_of_result by blast
  then have "?a = post_complete (br_store demo_waiting) 7 req"
    by (simp add: bridge_answer_def route ref_axum_def ref_word_seven del: result_serialize.simps)
  then have "store_abs (fst ?a) 7 = None" "store_abs (br_store demo_waiting) 7 \<noteq> None"
    by (auto simp: post_complete_eq ps.contents_complete demo_states store_abs_def split: if_splits)
  then have "fst ?a \<noteq> br_store demo_waiting" by auto
  from only_complete_mutates [OF this] show ?thesis by blast
qed

subsection \<open>The engine\<close>

text \<open>
  C29: \<open>prepare\<close> registers what it announces. When it succeeds, the URL is on the running server's port
  (which a URL's text leaves out when it is 80, the scheme's default), its page is the request's own and its id the request's id; the bridge serves that request under that id
  from then on, and the new channel is open and empty. It never panics, since the bridge's URLs parse.
\<close>

theorem prepare_registers:
  assumes "bridge_url_laws X" and "store_inv R (eng_store eng)"
    and "\<And>q. eng_bind eng = Preferred q \<Longrightarrow> port_ok q"
    and "\<And>state. eng_server eng = Some state \<Longrightarrow> port_ok (srv_port state)"
    and "prepare X R N r eng = (res, eng')"
  shows "case res of
      None \<Rightarrow> False
    | Some (Inl e) \<Rightarrow> eng' = eng \<and> (\<exists>s. e = Http s)
    | Some (Inr p) \<Rightarrow> p_id p = r_id R r \<and>
        (\<exists>state. eng_server eng' = Some state \<and> port_ok (srv_port state) \<and>
           p_url p = bridge_url X (srv_port state) (r_id R r) (r_url_kind R r)) \<and>
        get_pending R (eng_store eng') (r_id R r) =
          json_response 200 (pending_response (r_serialize R r)) \<and>
        store_recv (eng_store eng') (p_rx p) = Empty \<and> store_listening (eng_store eng') (p_rx p)"
proof (cases "start N eng")
  case (Pair out eng1)
  show ?thesis
  proof (cases out)
    case (Inl e)
    then have f: "eng1 = eng" "eng_server eng = None"
      using Pair start_with_failed [of N None eng e eng1] by (auto simp: start_def)
    then have "\<exists>s. e = Http s"
      using Pair Inl bind_listener_Http [of N "eng_bind eng" e]
      by (auto simp: start_def start_with_def split: sum.split_asm)
    then show ?thesis using Pair Inl f assms(5) by (auto simp: prepare_def)
  next
    case (Inr port)
    have ok: "port_ok port"
      by (rule start_with_port_ok [of N None eng]) (use Pair Inr assms(3,4) in \<open>auto simp: start_def\<close>)
    obtain state where srv: "eng_server eng1 = Some state" "srv_port state = port"
      using start_with_running_after [of N None eng port eng1] Pair Inr by (auto simp: start_def)
    have st: "eng_store eng1 = eng_store eng"
      using start_with_store [of N None eng] Pair by (simp add: start_def)
    let ?new = "store_create R (eng_store eng) r"
    have "res = Some (Inr \<lparr>p_id = r_id R r, p_url = bridge_url X port (r_id R r) (r_url_kind R r),
        p_rx = snd ?new\<rparr>)" "eng' = eng1\<lparr>eng_store := fst ?new\<rparr>"
      using assms(5) Pair Inr st build_url_eq [OF assms(1) ok]
      by (auto simp: prepare_def register_def Let_def)
    then show ?thesis
      using srv ok by (simp add: get_pending_abs ps.contents_create ps.recv_create [OF assms(2)]
          ps.listening_create)
  qed
qed

theorem prepare_registers_witness:
  "p_url demo_prepared = bridge_url ref_evm (Port 40000) 7 KConnect \<and>
   get_pending (evm_ops ref_evm) (eng_store demo_engine) 7 =
     json_response 200 (pending_response (evm_serialize ref_evm demo_request))"
  using prepare_registers [OF ref_url_laws(2) _ _ _ demo_prepare]
  by (simp add: demo_start_def bridge_init_def engine_new_def demo_prepared_def demo_engine_def
      demo_request_def evm_connect_def evm_connect_with_def request_meta_new_def)

text \<open>
  Starting is idempotent. Once the bridge runs, every later start returns the same port and changes
  nothing, whatever the operating system would answer and whatever extra routes it is given.
\<close>

theorem start_idempotent:
  assumes "start_with N extra eng = (Inr p, eng')"
  shows "start_with N' extra' eng' = (Inr p, eng') \<and> start N' eng' = (Inr p, eng')"
  using start_with_running_after [OF assms] by (auto simp: start_with_running start_def)

theorem start_idempotent_witness:
  "start_with ref_net (Some ()) demo_engine = (Inr (Port 40000), demo_engine)"
  using start_idempotent [of ref_net None "engine_new ''page'' Ephemeral BPrint" "Port 40000"
      "demo_engine\<lparr>eng_store := store_new\<rparr>" ref_net "Some ()"]
  by (simp add: start_with_def engine_new_def bind_listener_def bind_ephemeral_def ref_net_def
      port_try_new_def demo_engine_def)

text \<open>
  C39: Binding a port. A preferred port that is free is the port that is bound; one in use gives what an
  ephemeral bind gives; any other error is reported. A port that is returned is never 0, and the listener
  is one the system bound to it.
\<close>

theorem bind_listener_contract:
  assumes "port_ok q"
  shows "(case tcp_bind N (port_get q) of
      Inr l \<Rightarrow> bind_listener N (Preferred q) = Inr (l, q)
    | Inl e \<Rightarrow>
        if io_addr_in_use e then bind_listener N (Preferred q) = bind_listener N Ephemeral
        else \<exists>s. bind_listener N (Preferred q) = Inl (Http s)) \<and>
    (\<forall>l p. bind_listener N (Preferred q) = Inr (l, p) \<longrightarrow> port_ok p \<and>
       (tcp_bind N (port_get p) = Inr l \<or> tcp_bind N 0 = Inr l \<and> local_port N l = Inr (port_get p)))"
proof
  show "\<forall>l p. bind_listener N (Preferred q) = Inr (l, p) \<longrightarrow> port_ok p \<and>
       (tcp_bind N (port_get p) = Inr l \<or> tcp_bind N 0 = Inr l \<and> local_port N l = Inr (port_get p))"
    using bind_listener_ok [of N "Preferred q"] assms by blast
qed (simp add: bind_listener_def split: sum.split)

theorem bind_listener_contract_witness:
  "bind_listener ref_net (Preferred DEFAULT_PORT) = Inr (3847, DEFAULT_PORT)"
  using bind_listener_contract [of DEFAULT_PORT ref_net]
  by (simp add: port_ok_def DEFAULT_PORT_def ref_net_def)

subsection \<open>The shared types\<close>

text \<open>
  A result survives the wire. The JSON of a \<open>RequestResult\<close> reads back as that result, and posted to
  \<open>/api/complete\<close> it means that same result.
\<close>

theorem result_wire_roundtrip:
  "request_result_deserialize (result_serialize r) = Some r \<and>
   map_option result_from_complete (complete_deserialize (result_serialize r)) = Some r"
  using request_result_reads_back complete_of_result [of r] by auto

text \<open>
  The texts a port is parsed from: an optional plus sign and at least one digit, with a value that is
  not zero and fits 16 bits. A printed port is one of them and reads back.
\<close>

theorem port_parse_iff:
  "(port_from_str X s = Inr p \<longleftrightarrow>
      (\<exists>ds. (s = ds \<or> s = CHR ''+'' # ds) \<and> ds \<noteq> [] \<and> all_digits ds \<and>
        dec_val 0 ds = unat (port_get p) \<and> port_ok p)) \<and>
   (port_from_str X (port_show p) = Inr p \<longleftrightarrow> port_ok p)"
proof -
  have parse: "parse_word s = Inr w \<longleftrightarrow>
      (\<exists>ds. (s = ds \<or> s = CHR ''+'' # ds) \<and> ds \<noteq> [] \<and> all_digits ds \<and> dec_val 0 ds = unat w)"
    for s and w :: u16
  proof
    assume "parse_word s = Inr w"
    then have "parse_uint (2 ^ LENGTH(16) - 1) s = Inr (unat w)" by (rule parse_word_unat)
    then show "\<exists>ds. (s = ds \<or> s = CHR ''+'' # ds) \<and> ds \<noteq> [] \<and> all_digits ds \<and> dec_val 0 ds = unat w"
      unfolding parse_uint_Inr_iff by metis
  next
    assume "\<exists>ds. (s = ds \<or> s = CHR ''+'' # ds) \<and> ds \<noteq> [] \<and> all_digits ds \<and> dec_val 0 ds = unat w"
    moreover have "unat w \<le> 2 ^ LENGTH(16) - 1"
      using unsigned_less [of w, where ?'a = nat] by simp
    ultimately have "parse_uint (2 ^ LENGTH(16) - 1) s = Inr (unat w)"
      unfolding parse_uint_Inr_iff by metis
    then show "parse_word s = Inr w" by (simp add: parse_word_def)
  qed
  have show_p: "port_from_str X (port_show p) = Inr p \<longleftrightarrow> port_ok p"
    by (auto simp: port_from_str_Inr_iff port_show_def)
  show ?thesis
    unfolding show_p by (auto simp: port_from_str_Inr_iff parse)
qed

text \<open>
  A transaction hash is 32 bytes. Parsing succeeds exactly on the hex, with or without \<open>0x\<close>, of 32
  bytes, and both printed forms of a hash read back as it.
\<close>

theorem tx_hash_contract:
  assumes "hex_laws X"
  shows "(tx_hash_from_str X s = Inr h \<longrightarrow> tx_hash_ok h \<and> length (tx_hash_to_hex X h) = 64) \<and>
    (tx_hash_ok h \<longrightarrow> tx_hash_from_str X (tx_hash_show X h) = Inr h \<and>
       tx_hash_from_str X (tx_hash_to_hex X h) = Inr h) \<and>
    (length bs \<noteq> 32 \<longrightarrow> (\<exists>e. tx_hash_from_str X (hex_prefixed X bs) = Inl e))"
proof (intro conjI impI)
  assume "tx_hash_from_str X s = Inr h"
  then show "tx_hash_ok h" "length (tx_hash_to_hex X h) = 64"
    using tx_hash_from_str_ok tx_hash_to_hex_length [OF assms] by blast+
next
  assume "tx_hash_ok h"
  then show "tx_hash_from_str X (tx_hash_show X h) = Inr h" "tx_hash_from_str X (tx_hash_to_hex X h) = Inr h"
    using tx_hash_reads_back [OF assms] by blast+
next
  assume "length bs \<noteq> 32"
  then show "\<exists>e. tx_hash_from_str X (hex_prefixed X bs) = Inl e"
    using assms by (simp add: tx_hash_from_str_def hex_laws_decode)
qed

theorem tx_hash_contract_witness:
  "tx_hash_from_str ref_core (tx_hash_show ref_core (TxHash (replicate 32 7))) = Inr (TxHash (replicate 32 7)) \<and>
   (\<exists>e. tx_hash_from_str ref_core (hex_prefixed ref_core [1, 2]) = Inl e)"
  using tx_hash_contract [OF ref_hex_laws(1), of "[]" "TxHash (replicate 32 7)" "[1, 2]"]
  by (simp add: tx_hash_ok_def)

end
