(* ===== verification/Chain_Properties.thy ===== *)
theory Chain_Properties
  imports Reference
begin

section \<open>Properties of the EVM and TRON crates\<close>

text \<open>
  The wire form of requests, what a parsed request satisfies, what the typed signers submit and accept,
  and the account that a \<open>serve\<close> process pins its requests to.
\<close>

subsection \<open>EVM\<close>

text \<open>
  C26: \<open>from_json\<close> is the inverse of the EVM wire form. Every request that a wallet can act on (a
  transaction with a recipient or init code, an RPC URL that parses) reads back from its JSON with all of
  its fields, under a fresh id.
\<close>

theorem evm_wire_roundtrip:
  assumes "evm_laws X" and "evm_wf X r"
  shows "evm_from_json X i (evm_serialize X r) = Inr (evm_with_id i r)"
  by (rule evm_request_reads_back [OF assms])

definition evm_sample :: evm_request where
  "evm_sample =
     evm_send_transaction 1
       \<lparr>sp_to = None, sp_from = Some (Address 255), sp_value = Some (Wei 1000),
        sp_data = Some (CallData [0x60, 0x80]), sp_chain_id = Some (ChainId 42161),
        sp_gas_limit = None, sp_max_fee_per_gas = Some (Wei 5), sp_max_priority_fee_per_gas = None\<rparr>"

theorem evm_wire_roundtrip_witness:
  "evm_from_json ref_evm 2 (evm_serialize ref_evm evm_sample) = Inr (evm_with_id 2 evm_sample)"
  by (rule evm_wire_roundtrip)
    (simp_all add: evm_sample_def evm_send_transaction_def evm_wf_def)

text \<open>
  C24: A body that \<open>from_json\<close> accepts gives a request under the fresh id, of the body's \<open>type\<close>, on the
  page that goes with that type; and a transaction it gives can be sent: it has a recipient or init code.
\<close>

theorem evm_from_json_ok:
  assumes "evm_from_json X i body = Inr r"
  shows "meta_id (evm_meta r) = i \<and> jget (evm_serialize X r) ''type'' = jget body ''type'' \<and>
    (evm_url_kind r = KConnect \<longleftrightarrow> jget body ''type'' = Some (JString ''connect'')) \<and>
    (\<forall>m c to from v d g f p. r = EvmSendTransaction m c to from v d g f p \<longrightarrow>
       to \<noteq> None \<or> (\<exists>data. d = Some data \<and> cd_bytes data \<noteq> []))"
proof -
  have "r_from_json (evm_ops X) i body = Inr r" using assms by simp
  from evm.page_of_body [OF this] have "evm_url_kind r = KConnect \<longleftrightarrow> jget body ''type'' = Some (JString ''connect'')"
    by simp
  then show ?thesis
    using evm_from_json_shape [OF assms] by (auto simp: request_meta_new_def)
qed

theorem evm_from_json_ok_witness:
  "meta_id (evm_meta (evm_with_id 2 evm_sample)) = 2 \<and>
   jget (evm_serialize ref_evm (evm_with_id 2 evm_sample)) ''type'' =
     jget (evm_serialize ref_evm evm_sample) ''type''"
proof -
  have "evm_from_json ref_evm 2 (evm_serialize ref_evm evm_sample) = Inr (evm_with_id 2 evm_sample)"
    by (rule evm_request_reads_back)
      (simp_all add: evm_sample_def evm_send_transaction_def evm_wf_def)
  from evm_from_json_ok [OF this] show ?thesis by blast
qed

text \<open>
  A \<open>serve\<close> process with an EVM account pins every request to it. A request that passes is the one
  the body describes with that account filled in, under the fresh id; it named no account before, or that
  one. A body that names another account is refused.
\<close>

theorem evm_serve_pins_account:
  assumes "cs_account S = Some a"
  shows "control_request (evm_ops X) S i body = Inr req \<longleftrightarrow>
    (\<exists>r. evm_from_json X i body = Inr r \<and> (evm_account r = None \<or> evm_account r = Some a) \<and>
       req = evm_set_account (Some a) r)"
  using assms
  by (auto simp: control_request_def and_then_Inr_iff evm_expecting_eq map_ok_Inr_iff
      expect_account_Inr_iff)

definition evm_connect_body :: json where
  "evm_connect_body = JObject [(''type'', JString ''connect'')]"

lemma evm_connect_body_parses:
  "evm_from_json ref_evm 2 evm_connect_body = Inr (evm_connect 2 None None)"
  by (simp add: evm_from_json_def evm_connect_body_def str_field_def opt_address_def opt_parsed_def
      evm_connect_def str_opt_def)

theorem evm_serve_pins_account_witness:
  "control_request (evm_ops ref_evm) \<lparr>cs_account = Some (Address 255)\<rparr> 2 evm_connect_body =
     Inr (evm_connect 2 None (Some (Address 255)))"
  using evm_serve_pins_account [of "\<lparr>cs_account = Some (Address 255)\<rparr>" "Address 255" ref_evm 2
      evm_connect_body "evm_connect 2 None (Some (Address 255))"]
  by (simp add: evm_connect_body_parses evm_connect_def evm_connect_with_def)

text \<open>
  \<open>EvmSigner::send_transaction\<close> submits only a transaction a wallet can send, always under a chain id
  (the caller's or the default), and the hash it returns is the 32 bytes the wallet answered; an
  unsendable one is refused before anything is submitted.
\<close>

theorem evm_send_contract:
  assumes "evm_send X submit i S params = Inr h"
  shows "\<exists>raw. submit (evm_send_transaction i
      (params\<lparr>sp_chain_id := Some (chain_or_default S (sp_chain_id params))\<rparr>)) = Inr raw \<and>
    (sp_to params \<noteq> None \<or> (\<exists>data. sp_data params = Some data \<and> cd_bytes data \<noteq> [])) \<and>
    tx_hash_from_str X raw = Inr h \<and> length (th_bytes h) = 32"
proof -
  have "send_check params = Inr ()"
    using assms by (auto simp: evm_send_def and_then_Inr_iff)
  then show ?thesis
    using evm_send_Inr [OF assms] by (auto simp: send_check_Inr_iff tx_hash_ok_def)
qed

definition evm_sample_params :: send_transaction_params where
  "evm_sample_params =
     \<lparr>sp_to = Some (Address 1), sp_from = None, sp_value = None, sp_data = None, sp_chain_id = None,
      sp_gas_limit = None, sp_max_fee_per_gas = None, sp_max_priority_fee_per_gas = None\<rparr>"

lemma evm_sample_hash:
  "x_hex_decode ref_evm (hex_raw (ref_hex_encode (replicate 32 7))) = Inr (replicate 32 7)"
proof -
  have "hex_laws ref_evm"
    by (simp add: hex_laws_def ref_simps ref_hex_encode_length ref_hex_encode_digits)
  then show ?thesis using hex_raw_bare [of ref_evm "replicate 32 7"] by (simp add: ref_simps)
qed

theorem evm_send_contract_witness:
  "\<exists>raw. tx_hash_from_str ref_evm raw = Inr (TxHash (replicate 32 7)) \<and> length (replicate 32 (7 :: u8)) = 32"
proof -
  have "evm_send ref_evm (\<lambda>r. Inr (ref_hex_encode (replicate 32 7))) 3
      (evm_signer_new ''page'' Ephemeral (ChainId 1) BPrint) evm_sample_params =
    Inr (TxHash (replicate 32 7))"
    by (simp add: evm_send_def evm_sample_params_def send_check_def evm_parse_signed_def
        tx_hash_from_str_def evm_sample_hash)
  from evm_send_contract [OF this] show ?thesis by auto
qed

text \<open>
  Chain configuration. A lookup finds a built-in chain exactly under its own id, the ids are
  distinct, and the default chain id, whatever the environment holds, is never 0.
\<close>

theorem evm_chain_config:
  "(chain_config_of i = Some c \<longleftrightarrow> c \<in> set CHAINS \<and> cc_id c = i) \<and> distinct (map cc_id CHAINS) \<and>
   0 < chain_id_get (default_chain_id env) \<and> chain_config_of DEFAULT_CHAIN_ID \<noteq> None"
  using chain_config_of_iff [of i c] chain_ids_distinct default_chain_id_positive [of env]
  by (simp add: chain_config_of_def CHAINS_def DEFAULT_CHAIN_ID_def)

subsection \<open>TRON\<close>

text \<open>
  C28: What of a TRON request survives its wire form. Every request reads back from its JSON under a fresh
  id with its network, addresses, amounts and texts; a deployment loses its energy limit and its fee
  percentage, which are written as numbers and read as strings, and every other kind loses nothing.
\<close>

theorem tron_wire_roundtrip:
  assumes "hex_laws X" and "tron_laws X" and "tron_wf r"
  shows "tron_from_json X i (tron_serialize X r) = Inr (tron_reread i r) \<and>
    (tron_reread (meta_id (tron_meta r)) r = r \<longleftrightarrow>
      (\<forall>m n from nm abi code ps f v e p.
        r = TronDeployContract m n from nm abi code ps f v e p \<longrightarrow> e = None \<and> p = None))"
  using tron_request_reads_back [OF assms] by (cases r) (auto simp del: tron_serialize.simps)

definition tron_sample_address :: tron_address where
  "tron_sample_address = TronAddress (0x41 # replicate 20 1)"

definition tron_sample :: tron_request where
  "tron_sample =
     TronDeployContract (request_meta_new 1) (Some Nile) (Some tron_sample_address) None (JArray [])
       (HexData [0x60]) None (Some (Sun 5)) None (Some (EnergyLimit 7)) (Some (Percentage 30))"

theorem tron_wire_roundtrip_witness:
  "tron_from_json ref_tron 2 (tron_serialize ref_tron tron_sample) =
     Inr (TronDeployContract (request_meta_new 2) (Some Nile) (Some tron_sample_address) None (JArray [])
       (HexData [0x60]) None (Some (Sun 5)) None None None)"
  using tron_wire_roundtrip [OF ref_hex_laws(2) ref_tron_laws, of tron_sample 2]
  by (simp add: tron_sample_def tron_wf_def percentage_ok_def tron_address_ok_def
      tron_sample_address_def del: tron_serialize.simps)

text \<open>
  C38: A TRON request that \<open>from_json\<close> accepts is under the fresh id and of the body's \<open>type\<close>, every
  address in it is 21 bytes that start with 0x41, and a fee percentage in it is at most 100.
\<close>

theorem tron_from_json_ok:
  assumes "tron_from_json X i body = Inr r"
  shows "meta_id (tron_meta r) = i \<and> jget (tron_serialize X r) ''type'' = jget body ''type'' \<and>
    list_all (\<lambda>a. length (ta_bytes a) = 21 \<and> hd (ta_bytes a) = 0x41) (tron_addresses r) \<and>
    (\<forall>m n from nm abi code ps f v e p.
       r = TronDeployContract m n from nm abi code ps f v e (Some p) \<longrightarrow> percentage_get p \<le> 100)"
  using tron_from_json_shape [OF assms] tron_from_json_wf [OF assms]
  by (auto simp: tron_wf_def tron_address_ok_def percentage_ok_def request_meta_new_def list_all_iff)

theorem tron_from_json_ok_witness:
  "list_all (\<lambda>a. length (ta_bytes a) = 21 \<and> hd (ta_bytes a) = 0x41)
     (tron_addresses (tron_reread 2 tron_sample)) \<and> tron_addresses (tron_reread 2 tron_sample) \<noteq> []"
proof -
  have "tron_from_json ref_tron 2 (tron_serialize ref_tron tron_sample) = Inr (tron_reread 2 tron_sample)"
    by (rule tron_request_reads_back)
      (simp_all add: tron_sample_def tron_wf_def percentage_ok_def tron_address_ok_def
        tron_sample_address_def)
  from tron_from_json_ok [OF this] show ?thesis by (simp add: tron_sample_def)
qed

text \<open>
  A \<open>serve\<close> process with a TRON account pins every request to it. A request that passes is
  the one the body describes with that account filled in; the body named no sender, or that account.
\<close>

theorem tron_serve_pins_account:
  assumes "cs_account S = Some a"
  shows "control_request (tron_ops X) S i body = Inr req \<longleftrightarrow>
    (\<exists>r. tron_from_json X i body = Inr r \<and> (tron_account r = None \<or> tron_account r = Some a) \<and>
       req = tron_set_account (Some a) r)"
  using assms
  by (auto simp: control_request_def and_then_Inr_iff tron_expecting_eq map_ok_Inr_iff
      expect_account_Inr_iff)

theorem tron_serve_pins_account_witness:
  "control_request (tron_ops ref_tron) \<lparr>cs_account = Some tron_sample_address\<rparr> 2
     (tron_serialize ref_tron (tron_connect 1 None None)) =
     Inr (tron_connect 2 None (Some tron_sample_address))"
proof -
  have "tron_from_json ref_tron 2 (tron_serialize ref_tron (tron_connect 1 None None)) =
      Inr (tron_connect 2 None None)"
    by (simp add: tron_connect_def tron_roundtrip_account(1) del: tron_serialize.simps)
  then show ?thesis
    using tron_serve_pins_account [of "\<lparr>cs_account = Some tron_sample_address\<rparr>" tron_sample_address
        ref_tron 2 "tron_serialize ref_tron (tron_connect 1 None None)"
        "tron_connect 2 None (Some tron_sample_address)"]
    by (simp add: tron_connect_def del: tron_serialize.simps)
qed

text \<open>
  A deployment's result is accepted exactly when the text is JSON whose \<open>txHash\<close> is the hex of 32
  bytes and whose \<open>contractAddress\<close> is the Base58Check form of a TRON address, and the result holds these
  two values.
\<close>

theorem deploy_result_iff:
  "parse_deploy_result X raw = Inr d \<longleftrightarrow>
     (\<exists>v hash addr. x_json_parse X raw = Inr v \<and> jget v ''txHash'' = Some (JString hash) \<and>
        jget v ''contractAddress'' = Some (JString addr) \<and>
        x_hex_decode X (hex_raw hash) = Inr (th_bytes (dr_tx_hash d)) \<and>
        length (th_bytes (dr_tx_hash d)) = 32 \<and>
        x_b58check_decode X addr = Inr (ta_bytes (dr_contract_address d)) \<and>
        tron_address_ok (dr_contract_address d))"
  unfolding parse_deploy_result_Inr_iff tx_hash_from_str_Inr_iff tron_address_from_str_Inr_iff
    tx_hash_ok_def by blast

text \<open>
  C40: A TRX amount in SUN. With \<open>get_absolute\<close> as alloy documents it, an amount that does not parse is an
  error; one whose absolute value fits 64 bits gives exactly that many SUN, so that a negative amount loses
  its sign; a larger one panics, which is \<open>None\<close>.
\<close>

theorem trx_to_sun_absolute:
  assumes "units_laws X"
  shows "case x_parse_units X s TRX_DECIMALS of
      Inl e \<Rightarrow> trx_to_sun X s = Some (Inl e)
    | Inr u \<Rightarrow>
        let n = (case u of PU256 w \<Rightarrow> uint w | PI256 w \<Rightarrow> \<bar>sint w\<bar>)
        in if n < 2 ^ 64 then \<exists>v. trx_to_sun X s = Some (Inr v) \<and> uint (sun_get v) = n
           else trx_to_sun X s = None"
proof (cases "x_parse_units X s TRX_DECIMALS")
  case (Inr u)
  have n: "(case u of PU256 w \<Rightarrow> uint w | PI256 w \<Rightarrow> \<bar>sint w\<bar>) = units_absolute u"
    by (simp add: units_absolute_def)
  have "0 \<le> units_absolute u" by (cases u) (simp_all add: units_absolute_def)
  then show ?thesis
    unfolding Inr sum.case Let_def n
    by (simp add: trx_to_sun_cases [OF assms] Inr unsigned_of_int take_bit_int_eq_self)
qed (simp add: trx_to_sun_cases [OF assms])

theorem trx_to_sun_absolute_witness:
  "\<exists>v. trx_to_sun ref_tron ''-1'' = Some (Inr v) \<and> uint (sun_get v) = 1000000"
  using trx_to_sun_absolute [OF ref_units_laws, of "''-1''"]
  by (simp add: ref_tron_def Let_def)

end
