(* ===== verification/Btc_Properties.thy ===== *)
theory Btc_Properties
  imports Reference
begin

section \<open>Properties of the Bitcoin crate\<close>

text \<open>
  That every request is for one network, what a signed PSBT has to satisfy, the wire form, the account
  pinning of \<open>serve\<close> and the decimal form of an amount.
\<close>

text \<open>
  C15: A Bitcoin request never mixes networks. In a request that \<open>from_json\<close> accepts, every address is
  valid on the request's network; the inputs to sign exist in the PSBT, those marked as script-path are
  exactly the listed ones with a leaf script, a broadcast implies finalizing, and a fee rate is not 0.
\<close>

theorem btc_from_json_ok:
  assumes "btc_from_json X env i body = Inr r"
  shows "meta_id (btc_meta r) = i \<and> jget (btc_serialize X r) ''type'' = jget body ''type'' \<and>
    list_all (\<lambda>a. x_btc_addr_valid X (btc_inner a) (to_bitcoin (btc_network_of r))) (btc_addresses r) \<and>
    (case r of
       BtcSignPsbt m n psbt from inputs paths fin bc \<Rightarrow>
         (\<forall>k \<in> set (concat (list_of_opt inputs)). unat k < psbt_input_count X psbt) \<and>
         paths = filter (spends_script_path X psbt) (concat (list_of_opt inputs)) \<and> (bc \<longrightarrow> fin)
     | BtcSendTransfer m n to from v rate \<Rightarrow> (\<forall>r \<in> set (list_of_opt rate). rate_get r \<noteq> 0)
     | _ \<Rightarrow> True)"
proof -
  have wf: "btc_wf X r" using assms by (rule btc_from_json_wf)
  then have fields: "case r of
       BtcSignPsbt m n psbt from inputs paths fin bc \<Rightarrow>
         (\<forall>k \<in> set (concat (list_of_opt inputs)). unat k < psbt_input_count X psbt) \<and>
         paths = filter (spends_script_path X psbt) (concat (list_of_opt inputs)) \<and> (bc \<longrightarrow> fin)
     | BtcSendTransfer m n to from v rate \<Rightarrow> (\<forall>r \<in> set (list_of_opt rate). rate_get r \<noteq> 0)
     | _ \<Rightarrow> True"
    by (cases r) (simp_all add: btc_wf_def list_all_iff script_path_inputs_def rate_ok_def)
  moreover have "list_all (\<lambda>a. x_btc_addr_valid X (btc_inner a) (to_bitcoin (btc_network_of r))) (btc_addresses r)"
    using wf by (simp add: btc_wf_def on_network_def [abs_def])
  ultimately show ?thesis
    using btc_from_json_shape [OF assms] by (simp add: request_meta_new_def)
qed

definition btc_sample :: "(u64, u8 list) btc_request" where
  "btc_sample =
     BtcSignPsbt (request_meta_new 1) BtcSignet (PsbtData [1, 0]) (Some (BtcAddress 5000)) (Some [0, 1])
       [0] True True"

lemma btc_sample_wf: "btc_wf ref_btc btc_sample"
  by (simp add: btc_sample_def btc_wf_def on_network_def ref_btc_def to_bitcoin_def psbt_input_count_def
      script_path_inputs_def spends_script_path_def)

theorem btc_from_json_ok_witness:
  "list_all (\<lambda>a. x_btc_addr_valid ref_btc (btc_inner a) BSignet) (btc_addresses (btc_with_id 2 btc_sample)) \<and>
   btc_addresses (btc_with_id 2 btc_sample) = [BtcAddress 5000]"
  using btc_from_json_ok [OF btc_request_reads_back [OF ref_btc_laws btc_sample_wf, of "\<lambda>v. EnvNotPresent" 2]]
  by (simp add: btc_sample_def to_bitcoin_def del: btc_serialize.simps)

text \<open>
  A PSBT is accepted back only for the transaction that was sent: the result's PSBT has the sent
  one's txid, and a broadcast txid that comes with it is that txid.
\<close>

theorem signed_psbt_same_transaction:
  assumes "parse_signed_psbt X sent raw = Inr s"
  shows "unsigned_txid X (sn_psbt s) = unsigned_txid X sent \<and>
    (sn_txid s = None \<or> sn_txid s = Some (unsigned_txid X sent))"
  using parse_signed_psbt_same [OF assms] by blast

lemma ref_psbt_parses: "psbt_from_str ref_btc (ref_hex_encode [1, 0]) = Inr (PsbtData [1, 0])"
proof -
  have "psbt_show ref_btc (PsbtData [1, 0]) = ref_hex_encode [1, 0]"
    by (simp add: psbt_show_def ref_btc_def)
  then show ?thesis
    using wire_codec.parse_render [OF psbt_codec [OF ref_btc_laws], of "PsbtData [1, 0]"] by simp
qed

lemma ref_txid_parses: "x_txid_parse ref_btc ''2'' = Inr 2"
proof -
  have "show_word (2 :: u256) = ''2''" by code_simp
  then show ?thesis using ref_word_show [of "2 :: u256"] by (simp add: ref_btc_def)
qed

theorem signed_psbt_same_transaction_witness:
  "parse_signed_psbt ref_btc (PsbtData [7, 7]) ''signed'' =
     Inr \<lparr>sn_psbt = PsbtData [1, 0], sn_txid = Some 2\<rparr> \<and>
   unsigned_txid ref_btc (PsbtData [1, 0]) = unsigned_txid ref_btc (PsbtData [7, 7])"
proof -
  have p: "parse_signed_psbt ref_btc (PsbtData [7, 7]) ''signed'' =
      Inr \<lparr>sn_psbt = PsbtData [1, 0], sn_txid = Some 2\<rparr>"
    using parse_signed_psbt_accepts [of ref_btc "''signed''"
        "JObject [(''psbt'', JString (ref_hex_encode [1, 0])), (''txid'', JString ''2'')]"
        "ref_hex_encode [1, 0]" "PsbtData [1, 0]" "PsbtData [7, 7]" "Some ''2''"]
      ref_psbt_parses ref_txid_parses
    by (simp add: ref_btc_def ref_json_parse_def unsigned_txid_def)
  from signed_psbt_same_transaction [OF p] p show ?thesis by simp
qed

text \<open>
  A PSBT of another transaction is refused, whatever else the wallet's result says, by the typed
  signer's parser and by the check the control API applies.
\<close>

theorem other_transaction_refused:
  assumes "x_json_parse X raw = Inr v" and "jget v ''psbt'' = Some (JString field)"
    and "psbt_from_str X field = Inr d" and "unsigned_txid X d \<noteq> unsigned_txid X sent"
  shows "(\<exists>e. parse_signed_psbt X sent raw = Inl (Invalid e)) \<and>
    (\<exists>e. btc_check_result X (BtcSignPsbt m n sent from is ps f b) raw = Inl e)"
  using parse_signed_psbt_refuses [OF assms] by auto

theorem other_transaction_refused_witness:
  "\<exists>e. btc_check_result ref_btc (BtcSignPsbt (request_meta_new 1) BtcSignet (PsbtData [7]) None None [] True
     True) ''signed'' = Inl e"
proof -
  have "x_json_parse ref_btc ''signed'' =
      Inr (JObject [(''psbt'', JString (ref_hex_encode [1, 0])), (''txid'', JString ''2'')])"
    by (simp add: ref_btc_def ref_json_parse_def)
  moreover have "unsigned_txid ref_btc (PsbtData [1, 0]) \<noteq> unsigned_txid ref_btc (PsbtData [7])"
    by (simp add: unsigned_txid_def ref_btc_def)
  ultimately show ?thesis
    using other_transaction_refused [of ref_btc "''signed''" _ "ref_hex_encode [1, 0]" "PsbtData [1, 0]"
        "PsbtData [7]"] ref_psbt_parses
    by simp
qed

text \<open>
  \<open>sign_psbt\<close> builds a request exactly when every listed input exists and the expected signer, if
  any, is on the network; the request then carries the PSBT and the inputs as given, marks the
  script-path inputs, and finalizes when asked to or when it broadcasts.
\<close>

theorem sign_psbt_builds:
  "btc_sign_psbt X i p = Inr r \<longleftrightarrow>
     (\<forall>k \<in> set (concat (list_of_opt (pp_sign_inputs p))). unat k < psbt_input_count X (pp_psbt p)) \<and>
     (\<forall>u \<in> set (list_of_opt (pp_from p)). x_btc_addr_valid X (unchecked_inner u) (to_bitcoin (pp_network p))) \<and>
     r = BtcSignPsbt (request_meta_new i) (pp_network p) (pp_psbt p)
       (map_option (\<lambda>u. BtcAddress (unchecked_inner u)) (pp_from p)) (pp_sign_inputs p)
       (filter (spends_script_path X (pp_psbt p)) (concat (list_of_opt (pp_sign_inputs p))))
       (pp_finalize p \<or> pp_broadcast p) (pp_broadcast p)"
  unfolding btc_sign_psbt_Inr_iff btc_checked_Inr_iff script_path_inputs_def
  by (cases "pp_from p") (auto simp: list_all_iff on_network_def)

definition psbt_sample_params :: "(u64, u8 list) sign_psbt_params" where
  "psbt_sample_params =
     \<lparr>pp_network = BtcSignet, pp_psbt = PsbtData [1, 0], pp_from = Some (Unchecked 5000),
      pp_sign_inputs = Some [0, 1], pp_finalize = False, pp_broadcast = True\<rparr>"

theorem sign_psbt_builds_witness:
  "btc_sign_psbt ref_btc 1 psbt_sample_params = Inr btc_sample"
  by (simp add: sign_psbt_builds psbt_sample_params_def btc_sample_def ref_btc_def psbt_input_count_def
      to_bitcoin_def spends_script_path_def)

text \<open>
  C27: \<open>from_json\<close> is the inverse of the Bitcoin wire form: every well-formed request reads back from its
  JSON with all of its fields, under a fresh id, whatever the default network is.
\<close>

theorem btc_wire_roundtrip:
  assumes "btc_laws X" and "btc_wf X r"
  shows "btc_from_json X env i (btc_serialize X r) = Inr (btc_with_id i r)"
  by (rule btc_request_reads_back [OF assms])

theorem btc_wire_roundtrip_witness:
  "btc_from_json ref_btc (\<lambda>v. EnvNotPresent) 2 (btc_serialize ref_btc btc_sample) = Inr (btc_with_id 2 btc_sample)"
  by (rule btc_wire_roundtrip [OF ref_btc_laws btc_sample_wf])

text \<open>
  C23: A \<open>serve\<close> process with a Bitcoin account pins every request to it. A request that passes is the one
  the body describes with that account filled in; the account is on the request's network, and the body
  named none or the same one.
\<close>

theorem btc_serve_pins_account:
  assumes "cs_account S = Some u"
  shows "control_request (btc_ops X env) S i body = Inr req \<longleftrightarrow>
    (\<exists>r. btc_from_json X env i body = Inr r \<and>
       x_btc_addr_valid X (unchecked_inner u) (to_bitcoin (btc_network_of r)) \<and>
       (btc_account_of r = None \<or> btc_account_of r = Some (BtcAddress (unchecked_inner u))) \<and>
       req = btc_set_account (Some (BtcAddress (unchecked_inner u))) r)"
  using assms
  by (auto simp: control_request_def and_then_Inr_iff btc_expecting_Inr_iff on_network_def)

theorem btc_serve_pins_account_witness:
  "control_request (btc_ops ref_btc (\<lambda>v. EnvNotPresent)) \<lparr>cs_account = Some (Unchecked 5000)\<rparr> 2
     (btc_serialize ref_btc btc_sample) = Inr (btc_with_id 2 btc_sample)"
  using btc_serve_pins_account [of "\<lparr>cs_account = Some (Unchecked 5000)\<rparr>" "Unchecked 5000" ref_btc
      "\<lambda>v. EnvNotPresent" 2 "btc_serialize ref_btc btc_sample" "btc_with_id 2 btc_sample"]
    btc_request_reads_back [OF ref_btc_laws btc_sample_wf, of "\<lambda>v. EnvNotPresent" 2]
  by (simp add: btc_sample_def ref_btc_def to_bitcoin_def del: btc_serialize.simps)

text \<open>
  A connected account is accepted only on the network that was asked for, by \<open>parse_account\<close> and by
  the control API's check alike, and the check accepts exactly the results that \<open>parse_account\<close> parses.
\<close>

theorem connected_account_network:
  "(parse_btc_account X raw n = Inr acct \<longrightarrow>
      x_btc_addr_valid X (btc_inner (ba_address acct)) (to_bitcoin n)) \<and>
   (btc_check_result X (BtcConnect m n a) raw = Inr () \<longleftrightarrow> (\<exists>acct. parse_btc_account X raw n = Inr acct))"
  using parse_btc_account_network [of X raw n acct] by (auto simp: on_network_def map_ok_Inr_iff)

lemma ref_account_parses:
  "parse_btc_account ref_btc ''connected'' BtcMainnet =
     Inr \<lparr>ba_address = BtcAddress 5, ba_public_key = BtcPublicKey 9\<rparr>"
proof -
  have "show_word (5 :: u64) = ''5''" "show_word (9 :: u64) = ''9''" by code_simp+
  then have "ref_word ''5'' = Inr (5 :: u64)" "ref_word ''9'' = Inr (9 :: u64)"
    using ref_word_show [of "5 :: u64"] ref_word_show [of "9 :: u64"] by simp_all
  then show ?thesis
    by (simp add: parse_btc_account_def ref_btc_def ref_json_parse_def result_field_def
        btc_parse_signed_def unchecked_from_str_def key_from_str_def require_network_def to_bitcoin_def)
qed

theorem connected_account_network_witness:
  "x_btc_addr_valid ref_btc 5 Bitcoin \<and>
   btc_check_result ref_btc (BtcConnect (request_meta_new 1) BtcMainnet None) ''connected'' = Inr ()"
  using connected_account_network [of ref_btc "''connected''" BtcMainnet
      "\<lparr>ba_address = BtcAddress 5, ba_public_key = BtcPublicKey 9\<rparr>" "request_meta_new 1" None]
  by (simp add: ref_account_parses to_bitcoin_def)

text \<open>
  C33: The decimal form of an amount is exact. \<open>to_btc_string\<close> gives a whole part, and after a point, if
  there is one, up to eight digits that do not end in zero; read as a decimal number it is the amount in
  units of a hundred million sats.
\<close>

theorem btc_string_exact:
  "\<exists>ip fp. to_btc_string v = (if fp = [] then ip else ip @ ''.'' @ fp) \<and> ip \<noteq> [] \<and> all_digits ip \<and>
     all_digits fp \<and> length fp \<le> 8 \<and> (fp = [] \<or> last fp \<noteq> CHR ''0'') \<and>
     dec_val 0 ip * 10 ^ 8 + dec_val 0 (fp @ replicate (8 - length fp) (CHR ''0'')) = unat (sats_get v)"
proof -
  obtain ip fp where "to_btc_string v = (if fp = [] then ip else ip @ ''.'' @ fp)" "ip \<noteq> []"
      "all_digits ip" "all_digits fp" "length fp \<le> 8" "fp = [] \<or> last fp \<noteq> CHR ''0''"
      "decimal_value ip fp = unat (sats_get v)"
    by (rule to_btc_string_value)
  then show ?thesis unfolding decimal_value_def by blast
qed

theorem btc_string_exact_witness:
  "\<exists>ip fp. to_btc_string (Sats 150000000) = (if fp = [] then ip else ip @ ''.'' @ fp) \<and>
     dec_val 0 ip * 10 ^ 8 + dec_val 0 (fp @ replicate (8 - length fp) (CHR ''0'')) = 150000000"
proof -
  have "unat (sats_get (Sats 150000000)) = 150000000" by simp
  with btc_string_exact [of "Sats 150000000"] show ?thesis by metis
qed

text \<open>
  The typed signer's \<open>sign_psbt\<close>. A result it returns is for the caller's transaction, and it came
  from a request that was well formed and whose result passes the check of the control API.
\<close>

theorem btc_signer_sign_psbt:
  assumes "btc_sign_psbt_wallet X submit i p = Inr s"
  shows "unsigned_txid X (sn_psbt s) = unsigned_txid X (pp_psbt p) \<and>
    (\<exists>req raw. btc_sign_psbt X i p = Inr req \<and> btc_wf X req \<and> submit req = Inr raw \<and>
       btc_check_result X req raw = Inr ())"
proof -
  obtain req raw where r: "btc_sign_psbt X i p = Inr req" "submit req = Inr raw"
      "parse_signed_psbt X (pp_psbt p) raw = Inr s"
    using assms by (auto simp: btc_sign_psbt_wallet_def and_then_Inr_iff)
  then have "btc_check_result X req raw = Inr ()" by (auto simp: btc_sign_psbt_Inr_iff)
  with r btc_built_wf(3) [OF r(1)] btc_sign_psbt_wallet_Inr(1) [OF assms] show ?thesis by blast
qed

theorem btc_signer_sign_psbt_witness:
  "\<exists>s. btc_sign_psbt_wallet ref_btc (\<lambda>r. Inr ''signed'') 1 psbt_sample_params = Inr s \<and>
     unsigned_txid ref_btc (sn_psbt s) = 2"
proof -
  have r: "btc_sign_psbt ref_btc 1 psbt_sample_params = Inr btc_sample"
    by (simp add: btc_sign_psbt_def psbt_sample_params_def btc_sample_def ref_btc_def
        psbt_input_count_def to_bitcoin_def spends_script_path_def script_path_inputs_def
        btc_checked_def require_network_def)
  have "parse_signed_psbt ref_btc (PsbtData [1, 0]) ''signed'' =
      Inr \<lparr>sn_psbt = PsbtData [1, 0], sn_txid = Some 2\<rparr>"
    using parse_signed_psbt_accepts [of ref_btc "''signed''"
        "JObject [(''psbt'', JString (ref_hex_encode [1, 0])), (''txid'', JString ''2'')]"
        "ref_hex_encode [1, 0]" "PsbtData [1, 0]" "PsbtData [1, 0]" "Some ''2''"]
      ref_psbt_parses ref_txid_parses
    by (simp add: ref_btc_def ref_json_parse_def unsigned_txid_def)
  then have s: "btc_sign_psbt_wallet ref_btc (\<lambda>r. Inr ''signed'') 1 psbt_sample_params =
      Inr \<lparr>sn_psbt = PsbtData [1, 0], sn_txid = Some 2\<rparr>"
    by (simp add: btc_sign_psbt_wallet_def r) (simp add: psbt_sample_params_def)
  from btc_signer_sign_psbt [OF s] s show ?thesis
    by (simp add: psbt_sample_params_def unsigned_txid_def ref_btc_def)
qed

end
