(* ===== verification/Cli_Flow.thy ===== *)
theory Cli_Flow
  imports Serve
begin

section \<open>The command line: contexts, output and the approval flow\<close>

text \<open>
  \<open>main.rs\<close> and \<open>flow.rs\<close> of the \<open>browser-web3-signer\<close> binary. A one-shot command is modelled by what it
  does that can be seen, in order (a line on stderr, a URL opened in the browser, a line or a JSON value on
  stdout), together with its result: \<open>'a cli\<close>. An error is the \<open>anyhow::Error\<close> that \<open>main\<close> returns; of an
  error with context only the context is kept. The world a command runs in is \<open>cli_world\<close>: the process
  environment, the sockets, the id its request draws, the files it reads, and what the result future
  resolves to for the engine in which the request has just been registered.
\<close>

subsection \<open>Options\<close>

datatype output_format = OutText | OutJson

datatype open_mode = OpenDefault | OpenPrintOnly

record global_opts =
  go_print :: bool
  go_json :: bool

record cli_context =
  ctx_output :: output_format
  ctx_open :: open_mode

definition opts_output :: "global_opts \<Rightarrow> output_format" where
  "opts_output g = (if go_json g then OutJson else OutText)"

definition opts_open_mode :: "global_opts \<Rightarrow> open_mode" where
  "opts_open_mode g = (if go_print g then OpenPrintOnly else OpenDefault)"

definition open_browser_choice :: "open_mode \<Rightarrow> browser_choice" where
  "open_browser_choice m = (case m of OpenDefault \<Rightarrow> BDefault | OpenPrintOnly \<Rightarrow> BPrint)"

definition cli_context_of :: "global_opts \<Rightarrow> cli_context" where
  "cli_context_of g = \<lparr>ctx_output = opts_output g, ctx_open = opts_open_mode g\<rparr>"

datatype json_string = JsonString (json_into_value: json)

definition json_string_from_str :: "'x core_ext_scheme \<Rightarrow> string \<Rightarrow> string + json_string" where
  "json_string_from_str X s = map_ok JsonString (x_json_parse X s)"

subsection \<open>What a command does\<close>

datatype cli_event = Progress string | Opened url | Printed string | PrintedJson json

datatype cli_error =
    CliSigner signer_error
  | CliDomain domain_parse_error
  | CliAnyhow string
  | CliContext string
  | CliPanic

type_synonym 'a cli = "cli_event list \<times> (cli_error + 'a)"

definition cli_ok :: "'a \<Rightarrow> 'a cli" where
  "cli_ok x = ([], Inr x)"

definition cli_fail :: "cli_error \<Rightarrow> 'a cli" where
  "cli_fail e = ([], Inl e)"

definition cli_emit :: "cli_event list \<Rightarrow> unit cli" where
  "cli_emit es = (es, Inr ())"

definition cli_try :: "('e \<Rightarrow> cli_error) \<Rightarrow> 'e + 'a \<Rightarrow> 'a cli" where
  "cli_try f r = ([], map_err f r)"

definition cli_then :: "'a cli \<Rightarrow> ('a \<Rightarrow> 'b cli) \<Rightarrow> 'b cli" where
  "cli_then m k =
     (case snd m of
        Inl e \<Rightarrow> (fst m, Inl e)
      | Inr x \<Rightarrow> (fst m @ fst (k x), snd (k x)))"

text \<open>The \<open>match self.ctx.output\<close> at the end of every command: lines, or one JSON value.\<close>

definition cli_output :: "cli_context \<Rightarrow> string list \<Rightarrow> json \<Rightarrow> unit cli" where
  "cli_output ctx lines v =
     cli_emit (case ctx_output ctx of OutText \<Rightarrow> map Printed lines | OutJson \<Rightarrow> [PrintedJson v])"

text \<open>An \<open>Option<Url>\<close> inside \<open>json!\<close>, and the line of a transaction's explorer.\<close>

definition opt_url_json :: "url option \<Rightarrow> json" where
  "opt_url_json u = (case u of None \<Rightarrow> JNull | Some s \<Rightarrow> JString s)"

definition explorer_lines :: "url option \<Rightarrow> string list" where
  "explorer_lines u = map (\<lambda>s. ''Explorer: '' @ s) (list_of_opt u)"

subsection \<open>The approval flow\<close>

record ('r, 'l) cli_world =
  cw_env :: environment
  cw_web_ui :: string
  cw_net :: "'l net"
  cw_fresh :: uuid
  cw_await :: "('r, unit) engine \<Rightarrow> prepared \<Rightarrow> outcome"
  cw_read_file :: "string \<Rightarrow> string + string"

definition await_raw :: "open_mode \<Rightarrow> (url \<Rightarrow> url list) \<Rightarrow> url \<Rightarrow> outcome \<Rightarrow> string cli" where
  "await_raw mode opener url out =
     (Progress (''Approval URL: '' @ url) #
        (case mode of
           OpenPrintOnly \<Rightarrow> [Progress ''(--print) open the URL above to approve'']
         | OpenDefault \<Rightarrow>
             map Opened (opener url) @
             [Progress (''Waiting for approval in your browser'' @ [CHR 0xE2, CHR 0x80, CHR 0xA6])]),
      map_err CliSigner out)"

definition await_signed ::
  "open_mode \<Rightarrow> (url \<Rightarrow> url list) \<Rightarrow> ('p \<Rightarrow> string) \<Rightarrow> (string \<Rightarrow> 'p + 'a) \<Rightarrow> string \<Rightarrow> url \<Rightarrow> outcome \<Rightarrow>
     'a cli" where
  "await_signed mode opener show_err parse what url out =
     cli_then (await_raw mode opener url out) (\<lambda>raw.
       cli_try (\<lambda>e. CliAnyhow (''wallet returned an invalid '' @ what @ '': '' @ show_err e)) (parse raw))"

text \<open>\<open>prepare(request).await?\<close>, with the engine the request is registered in.\<close>

definition cli_prepare ::
  "'e core_ext_scheme \<Rightarrow> ('r, 'y) request_ops_scheme \<Rightarrow> ('r, 'l) cli_world \<Rightarrow> ('r, unit) engine \<Rightarrow> 'r \<Rightarrow>
     (prepared \<times> ('r, unit) engine) cli" where
  "cli_prepare X R W eng request =
     (case prepare X R (cw_net W) request eng of
        (None, eng') \<Rightarrow> cli_fail CliPanic
      | (Some (Inl e), eng') \<Rightarrow> cli_fail (CliSigner e)
      | (Some (Inr p), eng') \<Rightarrow> cli_ok (p, eng'))"

text \<open>The two forms of a chain's \<open>approve\<close>.\<close>

definition approve_raw ::
  "'e core_ext_scheme \<Rightarrow> ('r, 'y) request_ops_scheme \<Rightarrow> ('r, 'l) cli_world \<Rightarrow> open_mode \<Rightarrow>
     ('r, unit) engine \<Rightarrow> 'r \<Rightarrow> string cli" where
  "approve_raw X R W mode eng request =
     cli_then (cli_prepare X R W eng request) (\<lambda>(p, eng').
       await_raw mode (engine_open eng') (p_url p) (cw_await W eng' p))"

definition approve_signed ::
  "'e core_ext_scheme \<Rightarrow> ('r, 'y) request_ops_scheme \<Rightarrow> ('r, 'l) cli_world \<Rightarrow> open_mode \<Rightarrow>
     ('r, unit) engine \<Rightarrow> ('p \<Rightarrow> string) \<Rightarrow> (string \<Rightarrow> 'p + 'a) \<Rightarrow> string \<Rightarrow> 'r \<Rightarrow> 'a cli" where
  "approve_signed X R W mode eng show_err parse what request =
     cli_then (cli_prepare X R W eng request) (\<lambda>(p, eng').
       await_signed mode (engine_open eng') show_err parse what (p_url p) (cw_await W eng' p))"

subsection \<open>Files\<close>

text \<open>
  The typed-data file of the EVM and TRON commands, a struct with four required fields. \<open>x_json_parse\<close>
  followed by this reader stands for \<open>serde_json::from_str\<close> of the struct.
\<close>

record typed_data_file =
  tdf_domain :: json
  tdf_types :: json
  tdf_primary_type :: string
  tdf_message :: json

definition typed_data_fields :: "string list" where
  "typed_data_fields = [''domain'', ''types'', ''primaryType'', ''message'']"

definition typed_data_file_deserialize :: "json \<Rightarrow> typed_data_file option" where
  "typed_data_file_deserialize v =
     (if de_arity typed_data_fields v then
        Option.bind (de_field typed_data_fields v ''domain'') (\<lambda>domain.
        Option.bind (de_field typed_data_fields v ''types'') (\<lambda>types.
        Option.bind (Option.bind (de_field typed_data_fields v ''primaryType'') as_str) (\<lambda>primary.
        Option.bind (de_field typed_data_fields v ''message'') (\<lambda>message.
          Some \<lparr>tdf_domain = domain, tdf_types = types, tdf_primary_type = primary,
                tdf_message = message\<rparr>))))
      else None)"

definition read_text :: "('r, 'l) cli_world \<Rightarrow> string \<Rightarrow> string \<Rightarrow> string cli" where
  "read_text W what path =
     cli_try (\<lambda>e. CliContext (''reading '' @ what @ '' file '' @ path)) (cw_read_file W path)"

definition read_typed_data ::
  "'e core_ext_scheme \<Rightarrow> ('r, 'l) cli_world \<Rightarrow> string \<Rightarrow> typed_data_file cli" where
  "read_typed_data X W path =
     cli_then (read_text W ''typed-data'' path) (\<lambda>contents.
       cli_try (\<lambda>e. CliContext ''parsing typed-data JSON'')
         (and_then (x_json_parse X contents) (\<lambda>v.
           ok_or (typed_data_file_deserialize v) ''invalid typed data'')))"

subsection \<open>serve\<close>

definition cli_map :: "('a \<Rightarrow> 'b) \<Rightarrow> 'a cli \<Rightarrow> 'b cli" where
  "cli_map f m = (fst m, map_ok f (snd m))"

text \<open>
  \<open>serve::run\<close> with what it writes, up to the point where it blocks for the life of the process: the
  engine it has started is the one that its control requests use from then on (\<open>Serve_System\<close>).
\<close>

definition serve_announce :: "string \<Rightarrow> 'a control_state \<Rightarrow> unit cli" where
  "serve_announce env_name state =
     (case cs_account state of
        Some account \<Rightarrow> cli_emit [Progress (''every request expects the account in '' @ env_name)]
      | None \<Rightarrow> cli_ok ())"

definition serve_cli ::
  "('r, 'a, 'y) account_ops_scheme \<Rightarrow> environment \<Rightarrow> nat net \<Rightarrow> string \<Rightarrow> bind_port \<Rightarrow> browser_choice \<Rightarrow>
     ('r, 'a control_state) engine cli" where
  "serve_cli R env N web_ui bind browser =
     cli_then (cli_try CliAnyhow (control_configured R env)) (\<lambda>state.
     cli_then (serve_announce (a_account_env R) state) (\<lambda>_.
     cli_then (cli_try CliAnyhow (serve_started (start_with N (Some state) (engine_new web_ui bind browser))))
       (\<lambda>(port, eng).
     cli_then (cli_emit
         [Printed (port_show port),
          Progress (''control API listening on http://127.0.0.1:'' @ port_show port)]) (\<lambda>_.
       cli_ok eng))))"

end
