(* ===== verification/Cli_Contract.thy ===== *)
theory Cli_Contract
  imports Cli_Flow
begin

section \<open>The command line: what every command promises\<close>

text \<open>
  The contract of a one-shot command, stated on its events: what it leaves on stdout, and which URL it
  opens. Each building block of \<open>Cli_Flow\<close> keeps it, so a command does by its structure; the locale
  \<open>one_shot\<close> collects what follows for a whole chain's command line, and is interpreted on each. The
  second part says what the await of a command gives when the wallet answers the registered request.
\<close>

subsection \<open>Standard output\<close>

definition on_stdout :: "cli_event \<Rightarrow> bool" where
  "on_stdout e = (case e of Printed s \<Rightarrow> True | PrintedJson v \<Rightarrow> True | _ \<Rightarrow> False)"

definition cli_stdout :: "'a cli \<Rightarrow> cli_event list" where
  "cli_stdout m = filter on_stdout (fst m)"

definition cli_quiet :: "'a cli \<Rightarrow> bool" where
  "cli_quiet m \<longleftrightarrow> cli_stdout m = []"

definition cli_reports :: "cli_context \<Rightarrow> unit cli \<Rightarrow> bool" where
  "cli_reports ctx m \<longleftrightarrow>
     (case snd m of
        Inl e \<Rightarrow> cli_stdout m = []
      | Inr u \<Rightarrow>
          (case ctx_output ctx of
             OutJson \<Rightarrow> \<exists>v. cli_stdout m = [PrintedJson v]
           | OutText \<Rightarrow> \<exists>ls. ls \<noteq> [] \<and> cli_stdout m = map Printed ls))"

named_theorems cli_rules

lemma on_stdout_simps [simp]:
  "\<not> on_stdout (Progress s)" "\<not> on_stdout (Opened u)" "on_stdout (Printed s)" "on_stdout (PrintedJson v)"
  by (simp_all add: on_stdout_def)

lemma filter_opened [simp]: "filter on_stdout (map Opened us) = []"
  by (induction us) auto

lemma filter_printed [simp]: "filter on_stdout (map Printed ls) = map Printed ls"
  by (induction ls) auto

lemma cli_then_Inr_iff:
  "snd (cli_then m k) = Inr y \<longleftrightarrow> (\<exists>x. snd m = Inr x \<and> snd (k x) = Inr y)"
  by (cases "snd m") (auto simp: cli_then_def)

lemma cli_then_step: "snd m = Inr x \<Longrightarrow> cli_then m k = (fst m @ fst (k x), snd (k x))"
  by (simp add: cli_then_def)

lemma cli_output_snd [simp]: "snd (cli_output ctx ls v) = Inr ()"
  by (simp add: cli_output_def cli_emit_def)

lemma cli_try_Inr_iff: "snd (cli_try f r) = Inr x \<longleftrightarrow> r = Inr x"
  by (cases r) (simp_all add: cli_try_def)

lemma cli_quiet_basic [cli_rules]:
  "cli_quiet (cli_fail e)" "cli_quiet (cli_ok x)" "cli_quiet (cli_try f r)"
  by (simp_all add: cli_quiet_def cli_stdout_def cli_fail_def cli_ok_def cli_try_def)

lemma cli_quiet_progress [cli_rules]: "cli_quiet (cli_emit [Progress s])"
  by (simp add: cli_quiet_def cli_stdout_def cli_emit_def)

lemma cli_quiet_then [cli_rules]: "cli_quiet m \<Longrightarrow> (\<And>x. cli_quiet (k x)) \<Longrightarrow> cli_quiet (cli_then m k)"
  by (cases "snd m") (auto simp: cli_then_def cli_quiet_def cli_stdout_def)

lemma cli_quiet_await [cli_rules]: "cli_quiet (await_raw mode opener url out)"
  by (simp add: cli_quiet_def cli_stdout_def await_raw_def split: open_mode.split)

lemma cli_quiet_prepare [cli_rules]: "cli_quiet (cli_prepare X R W eng r)"
  unfolding cli_prepare_def by (auto intro: cli_rules split: prod.split option.split sum.split)

lemma cli_quiet_approve [cli_rules]:
  "cli_quiet (approve_raw X R W mode eng r)" "cli_quiet (approve_signed X R W mode eng se parse what r)"
  unfolding approve_raw_def approve_signed_def await_signed_def
  by (auto intro!: cli_rules split: prod.split)

lemma cli_quiet_files [cli_rules]:
  "cli_quiet (read_text W what path)" "cli_quiet (read_typed_data X W path)"
  unfolding read_typed_data_def read_text_def by (auto intro!: cli_rules)

lemma cli_reports_then [cli_rules]:
  assumes "cli_quiet m" and "\<And>x. cli_reports ctx (k x)"
  shows "cli_reports ctx (cli_then m k)"
proof (cases "snd m")
  case (Inl e)
  with assms(1) show ?thesis by (simp add: cli_then_def cli_reports_def cli_quiet_def cli_stdout_def)
next
  case (Inr x)
  have "cli_stdout (cli_then m k) = cli_stdout (k x)" "snd (cli_then m k) = snd (k x)"
    using assms(1) Inr by (simp_all add: cli_then_def cli_quiet_def cli_stdout_def)
  with assms(2) [of x] show ?thesis
    by (auto simp: cli_reports_def split: sum.splits output_format.splits)
qed

lemma cli_reports_output [cli_rules]: "lines \<noteq> [] \<Longrightarrow> cli_reports ctx (cli_output ctx lines v)"
  by (auto simp: cli_reports_def cli_output_def cli_emit_def cli_stdout_def intro: exI [of _ lines]
      split: output_format.split)

lemma cli_reports_fail [cli_rules]: "cli_reports ctx (cli_fail e)"
  by (simp add: cli_reports_def cli_fail_def cli_stdout_def)

subsection \<open>The browser\<close>

text \<open>
  With \<open>--print\<close> a command opens nothing. Otherwise it opens one URL, the one it has shown on stderr, unless
  it fails before it has one to open.
\<close>

definition cli_opened :: "'a cli \<Rightarrow> url list" where
  "cli_opened m = concat (map (\<lambda>e. case e of Opened u \<Rightarrow> [u] | _ \<Rightarrow> []) (fst m))"

definition cli_shown :: "'a cli \<Rightarrow> url \<Rightarrow> bool" where
  "cli_shown m u \<longleftrightarrow> Progress (''Approval URL: '' @ u) \<in> set (fst m)"

definition opens_nothing :: "'a cli \<Rightarrow> bool" where
  "opens_nothing m \<longleftrightarrow> cli_opened m = []"

definition opens_shown :: "open_mode \<Rightarrow> 'a cli \<Rightarrow> bool" where
  "opens_shown mode m \<longleftrightarrow>
     (case mode of
        OpenPrintOnly \<Rightarrow> cli_opened m = []
      | OpenDefault \<Rightarrow>
          (\<exists>u. cli_opened m = [u] \<and> cli_shown m u) \<or> cli_opened m = [] \<and> \<not> is_ok (snd m))"

named_theorems open_rules

lemma cli_opened_emit [simp]:
  "cli_opened (es @ fs, r) = cli_opened (es, r) @ cli_opened (fs, r)"
  by (simp add: cli_opened_def)

lemma opened_printed [simp]:
  "concat (map (\<lambda>e. case e of Opened u \<Rightarrow> [u] | _ \<Rightarrow> []) (map Printed ls)) = []"
  by (induction ls) auto

lemma opened_opened [simp]:
  "concat (map (\<lambda>e. case e of Opened u \<Rightarrow> [u] | _ \<Rightarrow> []) (map Opened us)) = us"
  by (induction us) auto

lemma opened_opened_map [simp]:
  "concat (map (case_cli_event (\<lambda>s. []) (\<lambda>u. [u]) (\<lambda>s. []) (\<lambda>v. []) \<circ> Opened) us) = us"
  by (induction us) auto

lemma opens_nothing_basic [open_rules]:
  "opens_nothing (cli_fail e)" "opens_nothing (cli_ok x)" "opens_nothing (cli_try f r)"
  "opens_nothing (cli_emit [Progress s])"
  by (simp_all add: opens_nothing_def cli_opened_def cli_fail_def cli_ok_def cli_try_def cli_emit_def)

lemma opens_nothing_output [open_rules]: "opens_nothing (cli_output ctx lines v)"
  by (simp add: opens_nothing_def cli_opened_def cli_output_def cli_emit_def split: output_format.split)

lemma opens_nothing_then [open_rules]:
  "opens_nothing m \<Longrightarrow> (\<And>x. opens_nothing (k x)) \<Longrightarrow> opens_nothing (cli_then m k)"
  by (cases "snd m") (auto simp: cli_then_def opens_nothing_def cli_opened_def)

lemma opens_nothing_prepare [open_rules]: "opens_nothing (cli_prepare X R W eng r)"
  unfolding cli_prepare_def by (auto intro: open_rules split: prod.split option.split sum.split)

lemma opens_nothing_files [open_rules]:
  "opens_nothing (read_text W what path)" "opens_nothing (read_typed_data X W path)"
  unfolding read_typed_data_def read_text_def by (auto intro!: open_rules)

lemma opens_shown_fail [open_rules]: "opens_shown mode (cli_fail e)"
  by (simp add: opens_shown_def cli_opened_def cli_fail_def split: open_mode.split)

text \<open>A command opens in one place: before it only quiet steps, after it too.\<close>

lemma opens_shown_after:
  assumes "opens_nothing m" and "\<And>x. snd m = Inr x \<Longrightarrow> opens_shown mode (k x)"
  shows "opens_shown mode (cli_then m k)"
proof (cases "snd m")
  case (Inl e)
  then show ?thesis
    using assms(1) by (simp add: cli_then_def opens_nothing_def opens_shown_def cli_opened_def split: open_mode.split)
next
  case (Inr x)
  have "cli_opened (cli_then m k) = cli_opened (k x)" "snd (cli_then m k) = snd (k x)"
    "cli_shown (k x) u \<Longrightarrow> cli_shown (cli_then m k) u" for u
    using assms(1) Inr by (auto simp: cli_then_def opens_nothing_def cli_opened_def cli_shown_def)
  with assms(2) [OF Inr] show ?thesis
    by (auto simp: opens_shown_def split: open_mode.splits)
qed

lemma opens_shown_before:
  assumes "opens_shown mode m" and "\<And>x. opens_nothing (k x)"
  shows "opens_shown mode (cli_then m k)"
proof -
  have "cli_opened (cli_then m k) = cli_opened m" "cli_shown m u \<Longrightarrow> cli_shown (cli_then m k) u"
    "is_ok (snd (cli_then m k)) \<Longrightarrow> is_ok (snd m)" for u
    using assms(2)
    by (cases "snd m"; auto simp: cli_then_def opens_nothing_def cli_opened_def cli_shown_def is_ok_iff)+
  with assms(1) show ?thesis
    by (auto simp: opens_shown_def split: open_mode.splits)
qed

lemma opens_shown_await:
  "opens_shown mode (await_raw mode (\<lambda>u. browser_open u (open_browser_choice mode)) url out)"
  by (auto simp: opens_shown_def cli_opened_def cli_shown_def await_raw_def browser_open_def
      open_browser_choice_def split: open_mode.split)

lemma cli_prepare_browser:
  assumes "snd (cli_prepare X R W eng r) = Inr (p, eng')"
  shows "eng_browser eng' = eng_browser eng"
proof -
  have "prepare X R (cw_net W) r eng = (Some (Inr p), eng')"
    using assms by (auto simp: cli_prepare_def cli_fail_def cli_ok_def split: prod.splits option.splits sum.splits)
  then show ?thesis
    by (auto simp: prepare_Inr_iff start_def start_with_def split: option.splits sum.splits)
qed

lemma opens_shown_approve:
  fixes r :: 'r
  assumes "eng_browser eng = open_browser_choice mode"
  shows "opens_shown mode (approve_raw X R W mode eng r)"
    and "opens_shown mode (approve_signed X R W mode eng se parse what r)"
proof -
  have raw: "opens_shown mode (await_raw mode (engine_open eng') url out)"
    if "eng_browser eng' = open_browser_choice mode" for eng' :: "('r, unit) engine" and url out
    unfolding engine_open_def that by (rule opens_shown_await)
  have signed: "opens_shown mode (await_signed mode (engine_open eng') se parse what url out)"
    if "eng_browser eng' = open_browser_choice mode" for eng' :: "('r, unit) engine" and url out
    unfolding await_signed_def by (rule opens_shown_before [OF raw [OF that]]) (rule opens_nothing_basic)
  show "opens_shown mode (approve_raw X R W mode eng r)"
    unfolding approve_raw_def using raw cli_prepare_browser assms
    by (intro opens_shown_after [OF opens_nothing_prepare]) (force split: prod.split)
  show "opens_shown mode (approve_signed X R W mode eng se parse what r)"
    unfolding approve_signed_def using signed cli_prepare_browser assms
    by (intro opens_shown_after [OF opens_nothing_prepare]) (force split: prod.split)
qed

lemmas opens_shown_approve_then = opens_shown_before [OF opens_shown_approve(1)]
  opens_shown_before [OF opens_shown_approve(2)]

subsection \<open>The wallet's answer\<close>

text \<open>
  A world whose wallet answers the request that is registered under the id it is asked about: \<open>submit\<close>
  is then the \<open>submit\<close> of the typed signers.
\<close>

definition answers :: "('r, 'l) cli_world \<Rightarrow> ('r \<Rightarrow> outcome) \<Rightarrow> bool" where
  "answers W submit \<longleftrightarrow>
     (\<forall>eng p r. store_get (eng_store eng) (p_id p) = Some r \<longrightarrow> cw_await W eng p = submit r)"

lemma cli_prepare_Inr:
  assumes "snd (cli_prepare X R W eng r) = Inr (p, eng')"
  shows "store_get (eng_store eng') (p_id p) = Some r"
proof -
  have "prepare X R (cw_net W) r eng = (Some (Inr p), eng')"
    using assms by (auto simp: cli_prepare_def cli_fail_def cli_ok_def split: prod.splits option.splits sum.splits)
  from prepare_Inr [OF this] show ?thesis by (simp add: store_get_abs store_abs_create)
qed

lemma await_raw_result: "snd (await_raw mode opener url out) = map_err CliSigner out"
  by (simp add: await_raw_def)

lemma approve_raw_Inr:
  assumes "answers W submit" and "snd (approve_raw X R W mode eng r) = Inr raw"
  shows "submit r = Inr raw"
  using assms cli_prepare_Inr
  by (fastforce simp: approve_raw_def cli_then_Inr_iff await_raw_result answers_def map_err_Inr_iff)

lemma approve_signed_Inr:
  assumes "answers W submit" and "snd (approve_signed X R W mode eng se parse what r) = Inr v"
  shows "\<exists>raw. submit r = Inr raw \<and> parse raw = Inr v"
  using assms cli_prepare_Inr
  by (fastforce simp: approve_signed_def await_signed_def cli_then_Inr_iff await_raw_result answers_def
      map_err_Inr_iff cli_try_def)

text \<open>On an engine that has not started, \<open>prepare\<close> succeeds when a port can be bound.\<close>

lemma cli_prepare_ok:
  assumes "bridge_url_laws X" and "bind_listener (cw_net W) (eng_bind eng) = Inr (l, port)"
    and "port_ok port" and "eng_server eng = None"
  shows "\<exists>p eng'. cli_prepare X R W eng r = cli_ok (p, eng') \<and>
    p_url p = bridge_url X port (r_id R r) (r_url_kind R r) \<and> eng_browser eng' = eng_browser eng"
  using assms
  by (simp add: cli_prepare_def prepare_def register_def start_def start_with_def Let_def build_url_eq cli_ok_def)

lemma cli_opened_then:
  assumes "\<And>x. opens_nothing (k x)"
  shows "cli_opened (cli_then m k) = cli_opened m"
  using assms by (cases "snd m") (auto simp: cli_then_def cli_opened_def opens_nothing_def)

lemma approve_signed_opens_url:
  assumes "bridge_url_laws X" and "bind_listener (cw_net W) (eng_bind eng) = Inr (l, port)"
    and "port_ok port" and "eng_server eng = None" and "eng_browser eng = BDefault"
  shows "cli_opened (approve_signed X R W OpenDefault eng se parse what r) =
    [bridge_url X port (r_id R r) (r_url_kind R r)]"
proof -
  obtain p eng' where p: "cli_prepare X R W eng r = cli_ok (p, eng')"
      "p_url p = bridge_url X port (r_id R r) (r_url_kind R r)" "eng_browser eng' = BDefault"
    using cli_prepare_ok [OF assms(1-4), of R r] assms(5) by auto
  have "approve_signed X R W OpenDefault eng se parse what r =
      await_signed OpenDefault (engine_open eng') se parse what (p_url p) (cw_await W eng' p)"
    unfolding approve_signed_def p(1) by (simp add: cli_then_def cli_ok_def)
  then have "cli_opened (approve_signed X R W OpenDefault eng se parse what r) =
      cli_opened (await_raw OpenDefault (engine_open eng') (p_url p) (cw_await W eng' p))"
    unfolding await_signed_def by (simp only: cli_opened_then [OF opens_nothing_basic(3)])
  with p(2,3) show ?thesis
    by (simp add: await_raw_def cli_opened_def engine_open_def browser_open_def)
qed

lemma approve_signed_result:
  assumes "answers W submit" and "bridge_url_laws X"
    and "bind_listener (cw_net W) (eng_bind eng) = Inr (l, port)" and "port_ok port"
    and "eng_server eng = None"
  shows "snd (approve_signed X R W mode eng se parse what r) =
    and_then (map_err CliSigner (submit r)) (\<lambda>raw.
      map_err (\<lambda>e. CliAnyhow (''wallet returned an invalid '' @ what @ '': '' @ se e)) (parse raw))"
proof -
  obtain p eng' where p: "cli_prepare X R W eng r = cli_ok (p, eng')"
    using cli_prepare_ok [OF assms(2-5)] by blast
  then have "store_get (eng_store eng') (p_id p) = Some r"
    by (intro cli_prepare_Inr [of X R W eng]) (simp add: cli_ok_def)
  with assms(1) have "cw_await W eng' p = submit r" by (simp add: answers_def)
  with p show ?thesis
    by (cases "submit r")
      (simp_all add: approve_signed_def await_signed_def cli_then_def cli_ok_def await_raw_def cli_try_def)
qed

lemma approve_raw_ok:
  assumes "answers W submit" and "bridge_url_laws X"
    and "bind_listener (cw_net W) (eng_bind eng) = Inr (l, port)" and "port_ok port"
    and "eng_server eng = None"
  shows "snd (approve_raw X R W mode eng r) = map_err CliSigner (submit r)"
proof -
  obtain p eng' where p: "cli_prepare X R W eng r = cli_ok (p, eng')"
    using cli_prepare_ok [OF assms(2-5)] by blast
  then have "store_get (eng_store eng') (p_id p) = Some r"
    by (intro cli_prepare_Inr [of X R W eng]) (simp add: cli_ok_def)
  with assms(1) have "cw_await W eng' p = submit r" by (simp add: answers_def)
  with p show ?thesis
    by (simp add: approve_raw_def cli_then_def cli_ok_def await_raw_def)
qed

text \<open>A bridge URL always parses, so no command panics in \<open>prepare\<close>.\<close>

lemma approve_no_panic:
  assumes "bridge_url_laws X" and "\<And>q. eng_bind eng = Preferred q \<Longrightarrow> port_ok q"
    and "eng_server eng = None"
  shows "snd (approve_raw X R W mode eng r) \<noteq> Inl CliPanic"
    and "snd (approve_signed X R W mode eng se parse what r) \<noteq> Inl CliPanic"
proof -
  have "snd (cli_prepare X R W eng r) \<noteq> Inl CliPanic"
  proof (cases "bind_listener (cw_net W) (eng_bind eng)")
    case (Inl e)
    then show ?thesis
      using assms(3) by (simp add: cli_prepare_def prepare_def start_def start_with_def cli_fail_def)
  next
    case (Inr lp)
    obtain l port where lp: "lp = (l, port)" by (cases lp)
    have "port_ok port" using bind_listener_ok(1) [of "cw_net W" "eng_bind eng" l port] Inr lp assms(2) by simp
    then obtain p eng' where "cli_prepare X R W eng r = cli_ok (p, eng')"
      using cli_prepare_ok [OF assms(1) _ _ assms(3), of W l port R r] Inr lp by blast
    then show ?thesis by (simp add: cli_ok_def)
  qed
  then show "snd (approve_raw X R W mode eng r) \<noteq> Inl CliPanic"
    and "snd (approve_signed X R W mode eng se parse what r) \<noteq> Inl CliPanic"
    by (auto simp: approve_raw_def approve_signed_def await_signed_def cli_then_def await_raw_def
        cli_try_def map_err_Inl_iff split: sum.splits prod.splits)
qed

text \<open>
  \<open>approve\<close> is \<open>Engine::submit\<close> with the progress lines around it: the same URLs opened, the same result.
\<close>

lemma approve_raw_submit:
  "cli_opened (approve_raw X R W mode eng r) =
     (case mode of
        OpenDefault \<Rightarrow> fst (engine_submit X R (cw_net W) (cw_await W) r eng)
      | OpenPrintOnly \<Rightarrow> [])"
  "snd (approve_raw X R W mode eng r) =
     (case snd (engine_submit X R (cw_net W) (cw_await W) r eng) of
        None \<Rightarrow> Inl CliPanic
      | Some out \<Rightarrow> map_err CliSigner out)"
proof -
  obtain res eng' where p: "prepare X R (cw_net W) r eng = (res, eng')" by force
  note defs = approve_raw_def cli_prepare_def engine_submit_def cli_then_def cli_fail_def cli_ok_def
    cli_opened_def await_raw_def
  show "cli_opened (approve_raw X R W mode eng r) =
     (case mode of
        OpenDefault \<Rightarrow> fst (engine_submit X R (cw_net W) (cw_await W) r eng)
      | OpenPrintOnly \<Rightarrow> [])"
    using p by (simp add: defs split: open_mode.split option.split sum.split)
  show "snd (approve_raw X R W mode eng r) =
     (case snd (engine_submit X R (cw_net W) (cw_await W) r eng) of
        None \<Rightarrow> Inl CliPanic
      | Some out \<Rightarrow> map_err CliSigner out)"
    using p by (simp add: defs split: option.split sum.split)
qed

subsection \<open>The contract of a chain's command line\<close>

locale one_shot =
  fixes run :: "'w \<Rightarrow> cli_context \<Rightarrow> 'c \<Rightarrow> unit cli"
  assumes reports: "cli_reports ctx (run W ctx c)"
    and opens: "opens_shown (ctx_open ctx) (run W ctx c)"
begin

lemma failure_prints_nothing: "snd (run W ctx c) = Inl e \<Longrightarrow> cli_stdout (run W ctx c) = []"
  using reports [of ctx W c] by (simp add: cli_reports_def)

lemma json_prints_one_value:
  "ctx_output ctx = OutJson \<Longrightarrow> snd (run W ctx c) = Inr u \<Longrightarrow>
     \<exists>v. cli_stdout (run W ctx c) = [PrintedJson v]"
  using reports [of ctx W c] by (simp add: cli_reports_def)

lemma print_opens_nothing: "ctx_open ctx = OpenPrintOnly \<Longrightarrow> cli_opened (run W ctx c) = []"
  using opens [of ctx W c] by (simp add: opens_shown_def)

lemma success_opens_shown:
  "ctx_open ctx = OpenDefault \<Longrightarrow> snd (run W ctx c) = Inr u \<Longrightarrow>
     \<exists>url. cli_opened (run W ctx c) = [url] \<and> cli_shown (run W ctx c) url"
  using opens [of ctx W c] by (simp add: opens_shown_def)

end

end
