(* ===== verification/Cli_Evm.thy ===== *)
theory Cli_Evm
  imports Cli_Contract Evm_Signer
begin

section \<open>The command line: EVM commands\<close>

text \<open>
  \<open>evm.rs\<close> of the \<open>browser-web3-signer\<close> binary. \<open>evm_command\<close> has the arguments as clap hands them over,
  already parsed; \<open>evm_command_ok\<close> is what clap's attributes guarantee of them. Every command builds a
  request, approves it, and prints what it got.
\<close>

datatype evm_command =
    EvmCmdConnect "chain_id option" "address option" "url option" "string option"
  | EvmCmdSend "address option" "address option" "wei option" "call_data option" "chain_id option"
      "wei option" "wei option" "wei option"
  | EvmCmdSignMessage "string option" "u8 list option" "address option" "chain_id option"
  | EvmCmdSignTypedData string "address option" "chain_id option"

definition evm_command_ok :: "evm_command \<Rightarrow> bool" where
  "evm_command_ok c =
     (case c of
        EvmCmdSend to from value data chain gas fee prio \<Rightarrow> to \<noteq> None \<or> data \<noteq> None
      | EvmCmdSignMessage message raw address chain \<Rightarrow> (message = None) \<noteq> (raw = None)
      | _ \<Rightarrow> True)"

record evm_cli =
  ec_signer :: "unit evm_signer"
  ec_ctx :: cli_context

definition evm_cli_new :: "'e core_ext_scheme \<Rightarrow> (evm_request, 'l) cli_world \<Rightarrow> cli_context \<Rightarrow> evm_cli" where
  "evm_cli_new X W ctx =
     \<lparr>ec_signer = evm_signer_new (cw_web_ui W) (Preferred (evm_port X (cw_env W)))
        (default_chain_id (cw_env W)) (open_browser_choice (ctx_open ctx)),
      ec_ctx = ctx\<rparr>"

definition evm_cli_chain :: "evm_cli \<Rightarrow> chain_id option \<Rightarrow> chain_id" where
  "evm_cli_chain C chain = unwrap_or chain (es_default_chain_id (ec_signer C))"

definition evm_cli_approve ::
  "'e evm_ext_scheme \<Rightarrow> (evm_request, 'l) cli_world \<Rightarrow> evm_cli \<Rightarrow> ('p \<Rightarrow> string) \<Rightarrow>
     (string \<Rightarrow> 'p + 'a) \<Rightarrow> string \<Rightarrow> evm_request \<Rightarrow> 'a cli" where
  "evm_cli_approve X W C show_err parse what request =
     approve_signed X (evm_ops X) W (ctx_open (ec_ctx C)) (es_engine (ec_signer C)) show_err parse what
       request"

definition evm_cli_connect ::
  "'e evm_ext_scheme \<Rightarrow> (evm_request, 'l) cli_world \<Rightarrow> evm_cli \<Rightarrow> chain_id option \<Rightarrow> address option \<Rightarrow>
     url option \<Rightarrow> string option \<Rightarrow> unit cli" where
  "evm_cli_connect X W C chain address rpc_url chain_name =
     cli_then
       (evm_cli_approve X W C dpe_show (address_from_str X) ''address''
         (evm_connect_with (cw_fresh W)
           \<lparr>cp_chain_id = Some (evm_cli_chain C chain), cp_address = address, cp_rpc_url = rpc_url,
            cp_chain_name = chain_name\<rparr>)) (\<lambda>addr.
       cli_output (ec_ctx C) [''Connected: '' @ address_show X addr]
         (JObject [(''address'', JString (address_show X addr))]))"

definition evm_tx_explorer :: "'e core_ext_scheme \<Rightarrow> chain_id \<Rightarrow> tx_hash \<Rightarrow> url option" where
  "evm_tx_explorer X chain_id hash =
     Option.bind (Option.bind (chain_config_of chain_id) cc_block_explorer) (\<lambda>base.
       ok (x_url_parse X (base @ ''/tx/'' @ tx_hash_show X hash)))"

definition evm_cli_send ::
  "'e evm_ext_scheme \<Rightarrow> (evm_request, 'l) cli_world \<Rightarrow> evm_cli \<Rightarrow> chain_id \<Rightarrow> send_transaction_params \<Rightarrow>
     unit cli" where
  "evm_cli_send X W C chain_id params =
     cli_then
       (evm_cli_approve X W C (\<lambda>e. e) (tx_hash_from_str X) ''tx hash''
         (evm_send_transaction (cw_fresh W) params)) (\<lambda>hash.
       let explorer = evm_tx_explorer X chain_id hash
       in cli_output (ec_ctx C) ((''Tx hash: '' @ tx_hash_show X hash) # explorer_lines explorer)
            (JObject [(''txHash'', JString (tx_hash_show X hash)), (''explorer'', opt_url_json explorer)]))"

definition evm_cli_sign ::
  "'e evm_ext_scheme \<Rightarrow> (evm_request, 'l) cli_world \<Rightarrow> evm_cli \<Rightarrow> evm_request \<Rightarrow> unit cli" where
  "evm_cli_sign X W C request =
     cli_then (evm_cli_approve X W C (\<lambda>e. e) (signature_from_str X) ''signature'' request) (\<lambda>sig.
       cli_output (ec_ctx C) [''Signature: '' @ signature_show X sig]
         (JObject [(''signature'', JString (signature_show X sig))]))"

definition evm_cli_sign_typed_data ::
  "'e evm_ext_scheme \<Rightarrow> (evm_request, 'l) cli_world \<Rightarrow> evm_cli \<Rightarrow> string \<Rightarrow> address option \<Rightarrow>
     chain_id option \<Rightarrow> unit cli" where
  "evm_cli_sign_typed_data X W C file address chain =
     cli_then (read_typed_data X W file) (\<lambda>parsed.
       evm_cli_sign X W C
         (evm_sign_typed_data (cw_fresh W)
           \<lparr>td_domain = tdf_domain parsed, td_types = tdf_types parsed,
            td_primary_type = tdf_primary_type parsed, td_message = tdf_message parsed\<rparr>
           address (Some (evm_cli_chain C chain))))"

text \<open>\<open>CliPanic\<close> is the source's \<open>unreachable!\<close>.\<close>

definition evm_cli_message :: "string option \<Rightarrow> u8 list option \<Rightarrow> signable_message option" where
  "evm_cli_message message raw =
     (case (message, raw) of
        (Some text, _) \<Rightarrow> Some (MsgText text)
      | (None, Some raw) \<Rightarrow> Some (MsgRaw raw)
      | (None, None) \<Rightarrow> None)"

definition evm_cli_run ::
  "'e evm_ext_scheme \<Rightarrow> (evm_request, 'l) cli_world \<Rightarrow> cli_context \<Rightarrow> evm_command \<Rightarrow> unit cli" where
  "evm_cli_run X W ctx cmd =
     (let C = evm_cli_new X W ctx
      in case cmd of
           EvmCmdConnect chain address rpc_url chain_name \<Rightarrow>
             evm_cli_connect X W C chain address rpc_url chain_name
         | EvmCmdSend to from value data chain gas fee prio \<Rightarrow>
             (let chain_id = evm_cli_chain C chain
              in evm_cli_send X W C chain_id
                   \<lparr>sp_to = to, sp_from = from, sp_value = value, sp_data = data,
                    sp_chain_id = Some chain_id, sp_gas_limit = gas, sp_max_fee_per_gas = fee,
                    sp_max_priority_fee_per_gas = prio\<rparr>)
         | EvmCmdSignMessage message raw address chain \<Rightarrow>
             (case evm_cli_message message raw of
                None \<Rightarrow> cli_fail CliPanic
              | Some m \<Rightarrow>
                  evm_cli_sign X W C
                    (evm_sign_message (cw_fresh W) m address (Some (evm_cli_chain C chain))))
         | EvmCmdSignTypedData file address chain \<Rightarrow> evm_cli_sign_typed_data X W C file address chain)"

lemma evm_cli_new_ctx [simp]: "ec_ctx (evm_cli_new X W ctx) = ctx"
  by (simp add: evm_cli_new_def)

lemma evm_cli_new_engine [simp]:
  "eng_bind (es_engine (ec_signer (evm_cli_new X W ctx))) = Preferred (evm_port X (cw_env W))"
  "eng_server (es_engine (ec_signer (evm_cli_new X W ctx))) = None"
  "eng_browser (es_engine (ec_signer (evm_cli_new X W ctx))) = open_browser_choice (ctx_open ctx)"
  by (simp_all add: evm_cli_new_def evm_signer_new_def engine_new_def)

lemma evm_cli_approve_result:
  assumes "bridge_url_laws X" and "answers W submit"
    and "bind_listener (cw_net W) (Preferred (evm_port X (cw_env W))) = Inr (l, port)"
  shows "snd (evm_cli_approve X W (evm_cli_new X W ctx) se parse what r) =
    and_then (map_err CliSigner (submit r)) (\<lambda>raw.
      map_err (\<lambda>e. CliAnyhow (''wallet returned an invalid '' @ what @ '': '' @ se e)) (parse raw))"
proof -
  have "port_ok port"
    using bind_listener_ok(1) [OF assms(3)] evm_port_ok by auto
  then show ?thesis
    unfolding evm_cli_approve_def using assms
    by (intro approve_signed_result [of W submit X _ l port]) simp_all
qed

lemma evm_cli_approve_opens:
  assumes "bridge_url_laws X" and "ctx_open ctx = OpenDefault"
    and "bind_listener (cw_net W) (Preferred (evm_port X (cw_env W))) = Inr (l, port)"
  shows "cli_opened (evm_cli_approve X W (evm_cli_new X W ctx) se parse what r) =
    [bridge_url X port (meta_id (evm_meta r)) (evm_url_kind r)]"
proof -
  have "port_ok port"
    using bind_listener_ok(1) [OF assms(3)] evm_port_ok by auto
  moreover have "eng_browser (es_engine (ec_signer (evm_cli_new X W ctx))) = BDefault"
    using assms(2) by (simp add: evm_cli_new_def evm_signer_new_def engine_new_def open_browser_choice_def)
  ultimately show ?thesis
    unfolding evm_cli_approve_def evm_cli_new_ctx assms(2)
    using approve_signed_opens_url [OF assms(1), of W "es_engine (ec_signer (evm_cli_new X W ctx))" l port
        "evm_ops X" se parse what r] assms(3)
    by simp
qed

lemma evm_cli_message_ok: "evm_command_ok (EvmCmdSignMessage m r a c) \<Longrightarrow> evm_cli_message m r \<noteq> None"
  by (auto simp: evm_command_ok_def evm_cli_message_def split: option.splits)

lemmas evm_cli_defs = evm_cli_connect_def evm_cli_send_def evm_cli_sign_def evm_cli_sign_typed_data_def
  evm_cli_approve_def Let_def

lemma evm_cli_run_reports: "cli_reports ctx (evm_cli_run X W ctx cmd)"
  unfolding evm_cli_run_def Let_def
  by (auto simp: evm_cli_defs intro!: cli_rules split: evm_command.split option.split)

lemma evm_cli_run_opens: "opens_shown (ctx_open ctx) (evm_cli_run X W ctx cmd)"
  unfolding evm_cli_run_def Let_def
  by (auto simp: evm_cli_defs intro!: opens_shown_approve_then opens_nothing_output
      opens_shown_after [OF opens_nothing_files(2)] opens_shown_fail
      split: evm_command.split option.split)

interpretation evm_shot: one_shot "evm_cli_run X" for X :: "'e evm_ext_scheme"
  by unfold_locales (rule evm_cli_run_reports, rule evm_cli_run_opens)

end
