(* ===== verification/Cli_Tron.thy ===== *)
theory Cli_Tron
  imports Cli_Contract Tron_Signer
begin

section \<open>The command line: TRON commands\<close>

text \<open>
  \<open>tron.rs\<close> of the \<open>browser-web3-signer\<close> binary, in the form of the EVM commands. \<open>connect\<close> and the
  two signing commands put the effective network (the flag, else the default) into the request;
  \<open>send_transaction\<close>, \<open>trigger_contract\<close> and \<open>deploy_contract\<close> pass the flag alone and use the effective
  network for the explorer's link only.
\<close>

datatype tron_command =
    TronCmdConnect "tron_network option" "tron_address option"
  | TronCmdSend tron_address "tron_address option" sun "hex_data option" "tron_network option"
  | TronCmdTrigger tron_address "tron_address option" string "json_string option" "sun option"
      "sun option" "tron_network option"
  | TronCmdDeploy string hex_data "string option" "json_string option" "tron_address option"
      "sun option" "sun option" "energy_limit option" "percentage option" "tron_network option"
  | TronCmdSignMessage string "tron_address option" "tron_network option"
  | TronCmdSignTypedData string "tron_address option" "tron_network option"

record tron_cli =
  tc_signer :: "unit tron_signer"
  tc_ctx :: cli_context

definition tron_cli_new ::
  "'e core_ext_scheme \<Rightarrow> (tron_request, 'l) cli_world \<Rightarrow> cli_context \<Rightarrow> tron_cli" where
  "tron_cli_new X W ctx =
     \<lparr>tc_signer = tron_signer_new (cw_web_ui W) (Preferred (tron_port X (cw_env W)))
        (tron_default_network (cw_env W)) (open_browser_choice (ctx_open ctx)),
      tc_ctx = ctx\<rparr>"

definition tron_cli_network :: "tron_cli \<Rightarrow> tron_network option \<Rightarrow> tron_network" where
  "tron_cli_network C network = unwrap_or network (tsg_default_network (tc_signer C))"

definition tron_cli_approve ::
  "'e tron_ext_scheme \<Rightarrow> (tron_request, 'l) cli_world \<Rightarrow> tron_cli \<Rightarrow> ('p \<Rightarrow> string) \<Rightarrow>
     (string \<Rightarrow> 'p + 'a) \<Rightarrow> string \<Rightarrow> tron_request \<Rightarrow> 'a cli" where
  "tron_cli_approve X W C show_err parse what request =
     approve_signed X (tron_ops X) W (ctx_open (tc_ctx C)) (tsg_engine (tc_signer C)) show_err parse
       what request"

definition tron_cli_connect ::
  "'e tron_ext_scheme \<Rightarrow> (tron_request, 'l) cli_world \<Rightarrow> tron_cli \<Rightarrow> tron_network option \<Rightarrow>
     tron_address option \<Rightarrow> unit cli" where
  "tron_cli_connect X W C network address =
     cli_then
       (tron_cli_approve X W C dpe_show (tron_address_from_str X) ''tron address''
         (tron_connect (cw_fresh W) (Some (tron_cli_network C network)) address)) (\<lambda>addr.
       cli_output (tc_ctx C) [''Connected: '' @ to_base58 X addr]
         (JObject [(''address'', JString (to_base58 X addr))]))"

definition tron_tx_explorer :: "'e core_ext_scheme \<Rightarrow> tron_network \<Rightarrow> tx_hash \<Rightarrow> url option" where
  "tron_tx_explorer X network hash =
     Option.bind (tron_network_config_of network) (\<lambda>n.
       ok (x_url_parse X (tnc_block_explorer n @ ''/#/transaction/'' @ tx_hash_to_hex X hash)))"

definition tron_emit_tx ::
  "'e core_ext_scheme \<Rightarrow> tron_cli \<Rightarrow> tron_network \<Rightarrow> tx_hash \<Rightarrow> unit cli" where
  "tron_emit_tx X C network hash =
     (let explorer = tron_tx_explorer X network hash
      in cli_output (tc_ctx C) ((''Tx hash: '' @ tx_hash_to_hex X hash) # explorer_lines explorer)
           (JObject [(''txHash'', JString (tx_hash_to_hex X hash)), (''explorer'', opt_url_json explorer)]))"

definition tron_cli_send ::
  "'e tron_ext_scheme \<Rightarrow> (tron_request, 'l) cli_world \<Rightarrow> tron_cli \<Rightarrow> tron_send_params \<Rightarrow> unit cli" where
  "tron_cli_send X W C params =
     (let network = tron_cli_network C (ts_network params)
      in cli_then
           (tron_cli_approve X W C (\<lambda>e. e) (tx_hash_from_str X) ''tx hash''
             (tron_send_transaction (cw_fresh W) params)) (\<lambda>hash.
           tron_emit_tx X C network hash))"

definition tron_cli_trigger ::
  "'e tron_ext_scheme \<Rightarrow> (tron_request, 'l) cli_world \<Rightarrow> tron_cli \<Rightarrow> tron_trigger_params \<Rightarrow> unit cli" where
  "tron_cli_trigger X W C params =
     (let network = tron_cli_network C (tt_network params)
      in cli_then
           (tron_cli_approve X W C (\<lambda>e. e) (tx_hash_from_str X) ''tx hash''
             (tron_trigger_contract (cw_fresh W) params)) (\<lambda>hash.
           tron_emit_tx X C network hash))"

definition tron_cli_deploy ::
  "'e tron_ext_scheme \<Rightarrow> (tron_request, 'l) cli_world \<Rightarrow> tron_cli \<Rightarrow> string \<Rightarrow> tron_deploy_params \<Rightarrow>
     unit cli" where
  "tron_cli_deploy X W C abi_file params =
     (let network = tron_cli_network C (tdp_network params)
      in cli_then (read_text W ''ABI'' abi_file) (\<lambda>abi_contents.
         cli_then (cli_try (\<lambda>e. CliContext ''parsing ABI JSON'') (x_json_parse X abi_contents)) (\<lambda>abi.
         cli_then
           (approve_raw X (tron_ops X) W (ctx_open (tc_ctx C)) (tsg_engine (tc_signer C))
             (tron_deploy_contract (cw_fresh W) (params\<lparr>tdp_abi := abi\<rparr>))) (\<lambda>raw.
         cli_then (cli_try CliSigner (parse_deploy_result X raw)) (\<lambda>res.
           let explorer = tron_tx_explorer X network (dr_tx_hash res)
           in cli_output (tc_ctx C)
                ([''Tx hash:  '' @ tx_hash_to_hex X (dr_tx_hash res),
                  ''Contract: '' @ to_base58 X (dr_contract_address res)] @ explorer_lines explorer)
                (JObject
                  [(''txHash'', JString (tx_hash_to_hex X (dr_tx_hash res))),
                   (''contractAddress'', JString (to_base58 X (dr_contract_address res))),
                   (''explorer'', opt_url_json explorer)]))))))"

definition tron_cli_sign ::
  "'e tron_ext_scheme \<Rightarrow> (tron_request, 'l) cli_world \<Rightarrow> tron_cli \<Rightarrow> tron_request \<Rightarrow> unit cli" where
  "tron_cli_sign X W C request =
     cli_then (tron_cli_approve X W C (\<lambda>e. e) (signature_from_str X) ''signature'' request) (\<lambda>sig.
       cli_output (tc_ctx C) [''Signature: '' @ signature_show X sig]
         (JObject [(''signature'', JString (signature_show X sig))]))"

definition tron_cli_sign_typed_data ::
  "'e tron_ext_scheme \<Rightarrow> (tron_request, 'l) cli_world \<Rightarrow> tron_cli \<Rightarrow> string \<Rightarrow> tron_address option \<Rightarrow>
     tron_network option \<Rightarrow> unit cli" where
  "tron_cli_sign_typed_data X W C file address network =
     cli_then (read_typed_data X W file) (\<lambda>parsed.
       tron_cli_sign X W C
         (tron_sign_typed_data (cw_fresh W)
           \<lparr>ttd_domain = tdf_domain parsed, ttd_types = tdf_types parsed,
            ttd_primary_type = tdf_primary_type parsed, ttd_message = tdf_message parsed\<rparr>
           address (Some (tron_cli_network C network))))"

definition tron_cli_run ::
  "'e tron_ext_scheme \<Rightarrow> (tron_request, 'l) cli_world \<Rightarrow> cli_context \<Rightarrow> tron_command \<Rightarrow> unit cli" where
  "tron_cli_run X W ctx cmd =
     (let C = tron_cli_new X W ctx
      in case cmd of
           TronCmdConnect network address \<Rightarrow> tron_cli_connect X W C network address
         | TronCmdSend to from amount data network \<Rightarrow>
             tron_cli_send X W C
               \<lparr>ts_to = to, ts_from = from, ts_amount = amount, ts_data = data, ts_network = network\<rparr>
         | TronCmdTrigger contract from selector params fee_limit call_value network \<Rightarrow>
             tron_cli_trigger X W C
               \<lparr>tt_contract_address = contract, tt_from = from, tt_function_selector = selector,
                tt_parameters = map_option json_into_value params, tt_fee_limit = fee_limit,
                tt_call_value = call_value, tt_network = network\<rparr>
         | TronCmdDeploy abi_file bytecode name params from fee_limit call_value energy pct network \<Rightarrow>
             tron_cli_deploy X W C abi_file
               \<lparr>tdp_abi = JNull, tdp_bytecode = bytecode, tdp_contract_name = name,
                tdp_parameters = map_option json_into_value params, tdp_from = from,
                tdp_fee_limit = fee_limit, tdp_call_value = call_value,
                tdp_origin_energy_limit = energy, tdp_user_fee_percentage = pct,
                tdp_network = network\<rparr>
         | TronCmdSignMessage message address network \<Rightarrow>
             tron_cli_sign X W C
               (tron_sign_message (cw_fresh W) message address (Some (tron_cli_network C network)))
         | TronCmdSignTypedData file address network \<Rightarrow>
             tron_cli_sign_typed_data X W C file address network)"

lemma tron_cli_new_ctx [simp]: "tc_ctx (tron_cli_new X W ctx) = ctx"
  by (simp add: tron_cli_new_def)

lemma tron_cli_new_engine [simp]:
  "eng_bind (tsg_engine (tc_signer (tron_cli_new X W ctx))) = Preferred (tron_port X (cw_env W))"
  "eng_server (tsg_engine (tc_signer (tron_cli_new X W ctx))) = None"
  "eng_browser (tsg_engine (tc_signer (tron_cli_new X W ctx))) = open_browser_choice (ctx_open ctx)"
  by (simp_all add: tron_cli_new_def tron_signer_new_def engine_new_def)

lemma tron_cli_approve_ok:
  assumes "bridge_url_laws X" and "answers W submit"
    and "bind_listener (cw_net W) (Preferred (tron_port X (cw_env W))) = Inr (l, port)"
    and "submit r = Inr raw" and "parse raw = Inr v"
  shows "snd (tron_cli_approve X W (tron_cli_new X W ctx) se parse what r) = Inr v"
proof -
  have "port_ok port"
    using bind_listener_ok(1) [OF assms(3)] tron_port_ok by auto
  then show ?thesis
    unfolding tron_cli_approve_def using assms
    by (subst approve_signed_result [of W submit X _ l port]) simp_all
qed

lemmas tron_cli_defs = tron_cli_connect_def tron_cli_send_def tron_cli_trigger_def tron_cli_deploy_def
  tron_cli_sign_def tron_cli_sign_typed_data_def tron_cli_approve_def tron_emit_tx_def Let_def

lemma tron_cli_run_reports: "cli_reports ctx (tron_cli_run X W ctx cmd)"
  unfolding tron_cli_run_def Let_def
  by (auto simp: tron_cli_defs intro!: cli_rules split: tron_command.split)

lemma tron_cli_run_opens: "opens_shown (ctx_open ctx) (tron_cli_run X W ctx cmd)"
  unfolding tron_cli_run_def Let_def
  by (auto simp: tron_cli_defs intro!: opens_shown_approve_then opens_nothing_output
      opens_shown_after [OF opens_nothing_files(1)] opens_shown_after [OF opens_nothing_files(2)]
      opens_shown_after [OF opens_nothing_basic(3)] opens_nothing_then opens_nothing_basic(3)
      split: tron_command.split)

interpretation tron_shot: one_shot "tron_cli_run X" for X :: "'e tron_ext_scheme"
  by unfold_locales (rule tron_cli_run_reports, rule tron_cli_run_opens)

end
