(* ===== verification/Cli_Btc.thy ===== *)
theory Cli_Btc
  imports Cli_Contract Btc_Signer
begin

section \<open>The command line: Bitcoin commands\<close>

text \<open>
  \<open>btc.rs\<close> of the \<open>browser-web3-signer\<close> binary. \<open>btc_command_ok\<close> is clap's group for the PSBT: exactly one
  of the text and the file. \<open>btc_tx_ext\<close> adds the two counts of rust-bitcoin's transaction that a
  progress line shows.
\<close>

datatype ('a, 'p) btc_command =
    BtcCmdConnect "btc_network option" "'a unchecked_address option"
  | BtcCmdSend "'a unchecked_address" sats "'a unchecked_address option" "sat_per_vb option"
      "btc_network option"
  | BtcCmdSignPsbt "'p psbt_data option" "string option" "u32 list" bool bool
      "'a unchecked_address option" "btc_network option"
  | BtcCmdSignMessage string "'a unchecked_address option" message_protocol "btc_network option"

definition btc_command_ok :: "('a, 'p) btc_command \<Rightarrow> bool" where
  "btc_command_ok c =
     (case c of
        BtcCmdSignPsbt psbt psbt_file inputs fin bc from network \<Rightarrow> (psbt = None) \<noteq> (psbt_file = None)
      | _ \<Rightarrow> True)"

record ('a, 'k, 'p) btc_tx_ext = "('a, 'k, 'p) btc_ext" +
  x_tx_inputs :: "'p \<Rightarrow> nat"
  x_tx_outputs :: "'p \<Rightarrow> nat"

record ('a, 'p) btc_cli =
  bc_signer :: "('a, 'p, unit) btc_signer"
  bc_ctx :: cli_context

definition btc_cli_new ::
  "'e core_ext_scheme \<Rightarrow> (('a, 'p) btc_request, 'l) cli_world \<Rightarrow> cli_context \<Rightarrow> ('a, 'p) btc_cli" where
  "btc_cli_new X W ctx =
     \<lparr>bc_signer = btc_signer_new (cw_web_ui W) (Preferred (btc_port X (cw_env W)))
        (btc_default_network (cw_env W)) (open_browser_choice (ctx_open ctx)),
      bc_ctx = ctx\<rparr>"

definition btc_cli_network :: "('a, 'p) btc_cli \<Rightarrow> btc_network option \<Rightarrow> btc_network" where
  "btc_cli_network C network = unwrap_or network (bs_default_network (bc_signer C))"

definition btc_cli_approve ::
  "('a, 'k, 'p, 'e) btc_ext_scheme \<Rightarrow> (('a, 'p) btc_request, 'l) cli_world \<Rightarrow> ('a, 'p) btc_cli \<Rightarrow>
     ('a, 'p) btc_request \<Rightarrow> string cli" where
  "btc_cli_approve X W C request =
     approve_raw X (btc_ops X (cw_env W)) W (ctx_open (bc_ctx C)) (bs_engine (bc_signer C)) request"

definition btc_cli_approve_signed ::
  "('a, 'k, 'p, 'e) btc_ext_scheme \<Rightarrow> (('a, 'p) btc_request, 'l) cli_world \<Rightarrow> ('a, 'p) btc_cli \<Rightarrow>
     ('q \<Rightarrow> string) \<Rightarrow> (string \<Rightarrow> 'q + 't) \<Rightarrow> string \<Rightarrow> ('a, 'p) btc_request \<Rightarrow> 't cli" where
  "btc_cli_approve_signed X W C show_err parse what request =
     approve_signed X (btc_ops X (cw_env W)) W (ctx_open (bc_ctx C)) (bs_engine (bc_signer C)) show_err
       parse what request"

definition btc_tx_explorer ::
  "('a, 'k, 'p, 'e) btc_ext_scheme \<Rightarrow> btc_network \<Rightarrow> txid \<Rightarrow> url option" where
  "btc_tx_explorer X network t =
     Option.bind (btc_block_explorer network) (\<lambda>base. ok (x_url_parse X (base @ x_txid_show X t)))"

definition btc_cli_connect ::
  "('a, 'k, 'p, 'e) btc_ext_scheme \<Rightarrow> (('a, 'p) btc_request, 'l) cli_world \<Rightarrow> ('a, 'p) btc_cli \<Rightarrow>
     btc_network option \<Rightarrow> 'a unchecked_address option \<Rightarrow> unit cli" where
  "btc_cli_connect X W C network0 address =
     (let network = btc_cli_network C network0
      in cli_then (cli_try CliDomain (btc_connect X (cw_fresh W) network address)) (\<lambda>request.
         cli_then (btc_cli_approve X W C request) (\<lambda>raw.
         cli_then (cli_try CliSigner (parse_btc_account X raw network)) (\<lambda>account.
           cli_output (bc_ctx C)
             [''Connected: '' @ btc_address_show X (ba_address account),
              ''Public key: '' @ key_show X (ba_public_key account)]
             (JObject
               [(''address'', JString (btc_address_show X (ba_address account))),
                (''publicKey'', JString (key_show X (ba_public_key account)))])))))"

definition btc_cli_send ::
  "('a, 'k, 'p, 'e) btc_ext_scheme \<Rightarrow> (('a, 'p) btc_request, 'l) cli_world \<Rightarrow> ('a, 'p) btc_cli \<Rightarrow>
     'a send_transfer_params \<Rightarrow> unit cli" where
  "btc_cli_send X W C params =
     cli_then (cli_try CliDomain (btc_send_transfer X (cw_fresh W) params)) (\<lambda>request.
     cli_then (btc_cli_approve_signed X W C (\<lambda>e. e) (x_txid_parse X) ''txid'' request) (\<lambda>t.
       let explorer = btc_tx_explorer X (st_network params) t
       in cli_output (bc_ctx C) ((''Txid: '' @ x_txid_show X t) # explorer_lines explorer)
            (JObject [(''txid'', JString (x_txid_show X t)), (''explorer'', opt_url_json explorer)])))"

definition btc_psbt_summary :: "('a, 'k, 'p, 'e) btc_tx_ext_scheme \<Rightarrow> 'p psbt_data \<Rightarrow> string" where
  "btc_psbt_summary X sent =
     ''Signing PSBT for tx '' @ x_txid_show X (unsigned_txid X sent) @ '' ('' @
     dec (x_tx_inputs X (psbt_inner sent)) @ '' inputs, '' @
     dec (x_tx_outputs X (psbt_inner sent)) @ '' outputs)''"

definition btc_cli_sign_psbt ::
  "('a, 'k, 'p, 'e) btc_tx_ext_scheme \<Rightarrow> (('a, 'p) btc_request, 'l) cli_world \<Rightarrow> ('a, 'p) btc_cli \<Rightarrow>
     ('a, 'p) sign_psbt_params \<Rightarrow> unit cli" where
  "btc_cli_sign_psbt X W C params =
     (let sent = pp_psbt params
      in cli_then (cli_emit [Progress (btc_psbt_summary X sent)]) (\<lambda>_.
         cli_then (cli_try CliDomain (btc_sign_psbt X (cw_fresh W) params)) (\<lambda>request.
         cli_then (btc_cli_approve X W C request) (\<lambda>raw.
         cli_then (cli_try CliSigner (parse_signed_psbt X sent raw)) (\<lambda>signed.
           let explorer = Option.bind (sn_txid signed) (btc_tx_explorer X (pp_network params))
           in cli_output (bc_ctx C)
                ([''PSBT: '' @ psbt_show X (sn_psbt signed)] @
                 map (\<lambda>t. ''Txid: '' @ x_txid_show X t) (list_of_opt (sn_txid signed)) @
                 explorer_lines explorer)
                (JObject
                  [(''psbt'', JString (psbt_show X (sn_psbt signed))),
                   (''txid'', case sn_txid signed of None \<Rightarrow> JNull | Some t \<Rightarrow> JString (x_txid_show X t)),
                   (''explorer'', opt_url_json explorer)]))))))"

definition btc_cli_sign_message ::
  "('a, 'k, 'p, 'e) btc_ext_scheme \<Rightarrow> (('a, 'p) btc_request, 'l) cli_world \<Rightarrow> ('a, 'p) btc_cli \<Rightarrow>
     'a sign_message_params \<Rightarrow> unit cli" where
  "btc_cli_sign_message X W C params =
     cli_then (cli_try CliDomain (btc_sign_message X (cw_fresh W) params)) (\<lambda>request.
     cli_then (btc_cli_approve_signed X W C dpe_show (message_signature_from_str X) ''signature'' request)
       (\<lambda>sig.
       cli_output (bc_ctx C) [''Signature: '' @ message_signature_show X sig]
         (JObject [(''signature'', JString (message_signature_show X sig))])))"

definition read_psbt ::
  "('a, 'k, 'p, 'e) btc_ext_scheme \<Rightarrow> ('r, 'l) cli_world \<Rightarrow> 'p psbt_data option \<Rightarrow> string option \<Rightarrow>
     'p psbt_data cli" where
  "read_psbt X W inline file =
     (case inline of
        Some psbt \<Rightarrow> cli_ok psbt
      | None \<Rightarrow>
          cli_then (cli_try CliAnyhow (ok_or file ''one of --psbt / --psbt-file is required'')) (\<lambda>path.
          cli_then (read_text W ''PSBT'' path) (\<lambda>contents.
            cli_try CliDomain (psbt_from_str X contents))))"

definition btc_cli_run ::
  "('a, 'k, 'p, 'e) btc_tx_ext_scheme \<Rightarrow> (('a, 'p) btc_request, 'l) cli_world \<Rightarrow> cli_context \<Rightarrow>
     ('a, 'p) btc_command \<Rightarrow> unit cli" where
  "btc_cli_run X W ctx cmd =
     (let C = btc_cli_new X W ctx
      in case cmd of
           BtcCmdConnect network address \<Rightarrow> btc_cli_connect X W C network address
         | BtcCmdSend to amount from fee_rate network \<Rightarrow>
             btc_cli_send X W C
               \<lparr>st_network = btc_cli_network C network, st_to = to, st_from = from, st_amount = amount,
                st_fee_rate = fee_rate\<rparr>
         | BtcCmdSignPsbt psbt psbt_file sign_inputs fin bc from network \<Rightarrow>
             cli_then (read_psbt X W psbt psbt_file) (\<lambda>psbt.
               btc_cli_sign_psbt X W C
                 \<lparr>pp_network = btc_cli_network C network, pp_psbt = psbt, pp_from = from,
                  pp_sign_inputs = (if sign_inputs = [] then None else Some sign_inputs),
                  pp_finalize = fin, pp_broadcast = bc\<rparr>)
         | BtcCmdSignMessage message address protocol network \<Rightarrow>
             btc_cli_sign_message X W C
               \<lparr>mp_network = btc_cli_network C network, mp_message = message, mp_address = address,
                mp_protocol = protocol\<rparr>)"

lemma btc_cli_new_ctx [simp]: "bc_ctx (btc_cli_new X W ctx) = ctx"
  by (simp add: btc_cli_new_def)

lemma btc_cli_new_engine [simp]:
  "eng_bind (bs_engine (bc_signer (btc_cli_new X W ctx))) = Preferred (btc_port X (cw_env W))"
  "eng_server (bs_engine (bc_signer (btc_cli_new X W ctx))) = None"
  "eng_browser (bs_engine (bc_signer (btc_cli_new X W ctx))) = open_browser_choice (ctx_open ctx)"
  by (simp_all add: btc_cli_new_def btc_signer_new_def engine_new_def)

lemma btc_cli_approve_ok:
  assumes "bridge_url_laws X" and "answers W submit"
    and "bind_listener (cw_net W) (Preferred (btc_port X (cw_env W))) = Inr (l, port)"
  shows "snd (btc_cli_approve X W (btc_cli_new X W ctx) r) = map_err CliSigner (submit r)"
proof -
  have "port_ok port"
    using bind_listener_ok(1) [OF assms(3)] btc_port_ok by auto
  then show ?thesis
    unfolding btc_cli_approve_def using assms
    by (intro approve_raw_ok [of W submit X _ l port]) simp_all
qed

lemma read_psbt_rules [cli_rules, open_rules]:
  "cli_quiet (read_psbt X W inline file)" "opens_nothing (read_psbt X W inline file)"
  unfolding read_psbt_def
  by (auto intro!: cli_quiet_basic cli_quiet_then cli_quiet_files opens_nothing_basic opens_nothing_then
      opens_nothing_files split: option.split)

lemmas btc_cli_defs = btc_cli_connect_def btc_cli_send_def btc_cli_sign_psbt_def
  btc_cli_sign_message_def btc_cli_approve_def btc_cli_approve_signed_def Let_def

lemma btc_cli_run_reports: "cli_reports ctx (btc_cli_run X W ctx cmd)"
  unfolding btc_cli_run_def Let_def
  by (auto simp: btc_cli_defs intro!: cli_rules split: btc_command.split)

lemma btc_cli_run_opens: "opens_shown (ctx_open ctx) (btc_cli_run X W ctx cmd)"
  unfolding btc_cli_run_def Let_def
  by (auto simp: btc_cli_defs intro!: opens_shown_approve_then opens_nothing_output
      opens_shown_after [OF opens_nothing_basic(3)] opens_shown_after [OF opens_nothing_basic(4)]
      opens_shown_after [OF read_psbt_rules(2)] opens_nothing_then opens_nothing_basic(3)
      split: btc_command.split)

interpretation btc_shot: one_shot "btc_cli_run X" for X :: "('a, 'k, 'p, 'e) btc_tx_ext_scheme"
  by unfold_locales (rule btc_cli_run_reports, rule btc_cli_run_opens)

end
