(* ===== verification/Cli_Main.thy ===== *)
theory Cli_Main
  imports Cli_Evm Cli_Tron Cli_Btc
begin

section \<open>The command line: main\<close>

text \<open>
  \<open>main\<close> and \<open>run_serve\<close> of \<open>main.rs\<close>: the context from the global options, then the chosen chain's
  command, or the control API on that chain. The three worlds are the one process seen through each
  chain's request type.
\<close>

datatype chain = ChainEvm | ChainTron | ChainBtc

datatype ('a, 'p) command =
    CmdEvm evm_command
  | CmdTron tron_command
  | CmdBtc "('a, 'p) btc_command"
  | CmdServe chain

definition command_ok :: "('a, 'p) command \<Rightarrow> bool" where
  "command_ok c =
     (case c of CmdEvm e \<Rightarrow> evm_command_ok e | CmdBtc b \<Rightarrow> btc_command_ok b | _ \<Rightarrow> True)"

text \<open>The engine that a \<open>serve\<close> process holds, of the chosen chain.\<close>

datatype ('a, 'p) served =
    ServedEvm "(evm_request, address control_state) engine"
  | ServedTron "(tron_request, tron_address control_state) engine"
  | ServedBtc "(('a, 'p) btc_request, 'a unchecked_address control_state) engine"

definition run_serve ::
  "'e evm_ext_scheme \<Rightarrow> 't tron_ext_scheme \<Rightarrow> ('a, 'k, 'p, 'b) btc_ext_scheme \<Rightarrow>
     (evm_request, nat) cli_world \<Rightarrow> (tron_request, nat) cli_world \<Rightarrow>
     (('a, 'p) btc_request, nat) cli_world \<Rightarrow> cli_context \<Rightarrow> chain \<Rightarrow> ('a, 'p) served cli" where
  "run_serve XE XT XB WE WT WB ctx chain =
     (let browser = open_browser_choice (ctx_open ctx)
      in case chain of
           ChainEvm \<Rightarrow>
             cli_map ServedEvm (serve_cli (evm_ops XE) (cw_env WE) (cw_net WE) (cw_web_ui WE)
               (Preferred (evm_port XE (cw_env WE))) browser)
         | ChainTron \<Rightarrow>
             cli_map ServedTron (serve_cli (tron_ops XT) (cw_env WT) (cw_net WT) (cw_web_ui WT)
               (Preferred (tron_port XT (cw_env WT))) browser)
         | ChainBtc \<Rightarrow>
             cli_map ServedBtc (serve_cli (btc_ops XB (cw_env WB)) (cw_env WB) (cw_net WB) (cw_web_ui WB)
               (Preferred (btc_port XB (cw_env WB))) browser))"

text \<open>The browser choice of the engine that \<open>serve\<close> leaves running.\<close>

definition served_browser :: "('a, 'p) served \<Rightarrow> browser_choice" where
  "served_browser served = (case served of
     ServedEvm eng \<Rightarrow> eng_browser eng
   | ServedTron eng \<Rightarrow> eng_browser eng
   | ServedBtc eng \<Rightarrow> eng_browser eng)"

definition cli_main ::
  "'e evm_ext_scheme \<Rightarrow> 't tron_ext_scheme \<Rightarrow> ('a, 'k, 'p, 'b) btc_tx_ext_scheme \<Rightarrow>
     (evm_request, nat) cli_world \<Rightarrow> (tron_request, nat) cli_world \<Rightarrow>
     (('a, 'p) btc_request, nat) cli_world \<Rightarrow> global_opts \<Rightarrow> ('a, 'p) command \<Rightarrow> unit cli" where
  "cli_main XE XT XB WE WT WB opts command =
     (let ctx = cli_context_of opts
      in case command of
           CmdEvm cmd \<Rightarrow> evm_cli_run XE WE ctx cmd
         | CmdTron cmd \<Rightarrow> tron_cli_run XT WT ctx cmd
         | CmdBtc cmd \<Rightarrow> btc_cli_run XB WB ctx cmd
         | CmdServe chain \<Rightarrow> cli_map (\<lambda>eng. ()) (run_serve XE XT XB WE WT WB ctx chain))"

text \<open>What \<open>serve\<close> gives and writes.\<close>

lemma serve_announce_eq:
  "serve_announce env_name state =
     (map Progress (list_of_opt (map_option (\<lambda>a. ''every request expects the account in '' @ env_name)
        (cs_account state))), Inr ())"
  by (cases "cs_account state") (simp_all add: serve_announce_def cli_emit_def cli_ok_def)

lemma serve_cli_cases:
  shows "snd (serve_cli R env N web_ui bind browser) =
      map_err CliAnyhow (map_ok snd (serve_run R env N web_ui bind browser))" (is ?result)
    and "\<exists>ps. fst (serve_cli R env N web_ui bind browser) = map Progress ps @
      (case serve_run R env N web_ui bind browser of
         Inl e \<Rightarrow> []
       | Inr (port, eng) \<Rightarrow>
           [Printed (port_show port),
            Progress (''control API listening on http://127.0.0.1:'' @ port_show port)])" (is ?events)
proof -
  show ?result
  proof (cases "serve_run R env N web_ui bind browser")
    case (Inl e)
    then show ?thesis
      by (auto simp: serve_run_def and_then_Inl_iff serve_cli_def serve_announce_eq cli_then_def cli_try_def)
  next
    case (Inr x)
    then obtain state port eng where "control_configured R env = Inr state" "x = (port, eng)"
        "serve_started (start_with N (Some state) (engine_new web_ui bind browser)) = Inr (port, eng)"
      by (cases x) (auto simp: serve_run_def and_then_Inr_iff)
    with Inr show ?thesis
      by (simp add: serve_cli_def serve_announce_eq cli_then_def cli_try_def cli_emit_def cli_ok_def)
  qed
  show ?events
  proof (cases "serve_run R env N web_ui bind browser")
    case (Inl e)
    then show ?thesis
      by (auto simp: serve_run_def and_then_Inl_iff serve_cli_def serve_announce_eq cli_then_def cli_try_def)
  next
    case (Inr x)
    then obtain state port eng where "control_configured R env = Inr state" "x = (port, eng)"
        "serve_started (start_with N (Some state) (engine_new web_ui bind browser)) = Inr (port, eng)"
      by (cases x) (auto simp: serve_run_def and_then_Inr_iff)
    with Inr show ?thesis
      by (auto simp: serve_cli_def serve_announce_eq cli_then_def cli_try_def cli_emit_def cli_ok_def)
  qed
qed

lemma cli_map_simps [simp]:
  "fst (cli_map f m) = fst m" "snd (cli_map f m) = map_ok f (snd m)"
  "cli_stdout (cli_map f m) = cli_stdout m" "cli_opened (cli_map f m) = cli_opened m"
  by (simp_all add: cli_map_def cli_stdout_def cli_opened_def)

lemma progress_quiet [simp]:
  "filter on_stdout (map Progress ps) = []"
  "concat (map (\<lambda>e. case e of Opened u \<Rightarrow> [u] | _ \<Rightarrow> []) (map Progress ps)) = []"
  by (induction ps) auto

text \<open>On stdout it is the port it runs on, one line, when it starts.\<close>

lemma serve_cli_stdout:
  assumes "\<And>q. bind = Preferred q \<Longrightarrow> port_ok q"
  shows "case snd (serve_cli R env N web_ui bind browser) of
      Inl e \<Rightarrow> cli_stdout (serve_cli R env N web_ui bind browser) = []
    | Inr eng \<Rightarrow> \<exists>p. port_ok p \<and> cli_stdout (serve_cli R env N web_ui bind browser) = [Printed (port_show p)]"
proof -
  obtain ps where ps: "fst (serve_cli R env N web_ui bind browser) = map Progress ps @
     (case serve_run R env N web_ui bind browser of
        Inl e \<Rightarrow> []
      | Inr (port, eng) \<Rightarrow>
          [Printed (port_show port),
           Progress (''control API listening on http://127.0.0.1:'' @ port_show port)])"
    using serve_cli_cases(2) by blast
  show ?thesis
  proof (cases "serve_run R env N web_ui bind browser")
    case (Inl e)
    with ps show ?thesis by (simp add: serve_cli_cases(1) cli_stdout_def)
  next
    case (Inr x)
    then obtain port eng where x: "serve_run R env N web_ui bind browser = Inr (port, eng)" by (cases x) simp
    have "port_ok port" by (rule serve_run_Inr(1) [OF x assms])
    with x ps show ?thesis by (auto simp: serve_cli_cases(1) cli_stdout_def)
  qed
qed

lemma serve_cli_quiet:
  "cli_opened (serve_cli R env N web_ui bind browser) = []"
  "snd (serve_cli R env N web_ui bind browser) \<noteq> Inl CliPanic"
proof -
  show "cli_opened (serve_cli R env N web_ui bind browser) = []"
    using serve_cli_cases(2) [of R env N web_ui bind browser]
    by (auto simp: cli_opened_def split: sum.split prod.split)
  show "snd (serve_cli R env N web_ui bind browser) \<noteq> Inl CliPanic"
    by (simp add: serve_cli_cases(1) map_err_Inl_iff)
qed

lemma run_serve_stdout:
  "case snd (run_serve XE XT XB WE WT WB ctx chain) of
      Inl e \<Rightarrow> cli_stdout (run_serve XE XT XB WE WT WB ctx chain) = []
    | Inr eng \<Rightarrow> \<exists>p. port_ok p \<and> cli_stdout (run_serve XE XT XB WE WT WB ctx chain) = [Printed (port_show p)]"
  using serve_cli_stdout [of "Preferred (evm_port XE (cw_env WE))" "evm_ops XE" "cw_env WE" "cw_net WE" "cw_web_ui WE"
      "open_browser_choice (ctx_open ctx)"]
    serve_cli_stdout [of "Preferred (tron_port XT (cw_env WT))" "tron_ops XT" "cw_env WT" "cw_net WT" "cw_web_ui WT"
      "open_browser_choice (ctx_open ctx)"]
    serve_cli_stdout [of "Preferred (btc_port XB (cw_env WB))" "btc_ops XB (cw_env WB)" "cw_env WB" "cw_net WB"
      "cw_web_ui WB" "open_browser_choice (ctx_open ctx)"]
  by (cases chain)
    (auto simp: run_serve_def evm_port_ok tron_port_ok btc_port_ok split: sum.splits)

lemma run_serve_quiet:
  "cli_opened (run_serve XE XT XB WE WT WB ctx chain) = []"
  "snd (run_serve XE XT XB WE WT WB ctx chain) \<noteq> Inl CliPanic"
  by (cases chain; simp add: run_serve_def Let_def serve_cli_quiet)+

lemma serve_cli_browser:
  "snd (serve_cli R env N web_ui bind browser) = Inr eng \<Longrightarrow> eng_browser eng = browser"
  by (cases "bind_listener N bind")
    (auto simp: serve_cli_cases(1) serve_run_def start_with_def engine_new_def map_err_Inr_iff map_ok_Inr_iff
      and_then_Inr_iff dest!: serve_started_Inr)

lemma run_serve_browser:
  "map_ok served_browser (snd (run_serve XE XT XB WE WT WB ctx chain)) =
   map_ok (\<lambda>_. open_browser_choice (ctx_open ctx)) (snd (run_serve XE XT XB WE WT WB ctx chain))"
  by (cases chain; cases "snd (run_serve XE XT XB WE WT WB ctx chain)")
    (auto simp: run_serve_def served_browser_def map_ok_Inr_iff dest: serve_cli_browser)

text \<open>No command panics: clap's guarantees rule out the \<open>unreachable!\<close>, and bridge URLs parse.\<close>

definition cli_safe :: "'a cli \<Rightarrow> bool" where
  "cli_safe m \<longleftrightarrow> snd m \<noteq> Inl CliPanic"

named_theorems safe_rules

lemma cli_safe_then [safe_rules]: "cli_safe m \<Longrightarrow> (\<And>x. cli_safe (k x)) \<Longrightarrow> cli_safe (cli_then m k)"
  by (cases "snd m") (auto simp: cli_then_def cli_safe_def)

lemma cli_safe_try [safe_rules]:
  "cli_safe (cli_try CliDomain r)" "cli_safe (cli_try CliSigner s)" "cli_safe (cli_try CliAnyhow t)"
  "cli_safe (cli_try (\<lambda>e. CliContext (g e)) u)"
  by (simp_all add: cli_safe_def cli_try_def map_err_Inl_iff)

lemma cli_safe_emit [safe_rules]:
  "cli_safe (cli_emit es)" "cli_safe (cli_output ctx ls v)" "cli_safe (cli_ok x)"
  by (simp_all add: cli_safe_def cli_emit_def cli_output_def cli_ok_def)

lemma cli_safe_files [safe_rules]:
  "cli_safe (read_text W what path)" "cli_safe (read_typed_data X W path)"
  "cli_safe (read_psbt X' W inline file)"
  unfolding read_typed_data_def read_text_def read_psbt_def
  by (auto intro!: safe_rules split: option.split)

lemma cli_safe_approve:
  assumes "bridge_url_laws X" and "eng_bind eng = Preferred q" and "port_ok q" and "eng_server eng = None"
  shows "cli_safe (approve_raw X R W mode eng r)"
    and "cli_safe (approve_signed X R W mode eng se parse what r)"
  unfolding cli_safe_def by (rule approve_no_panic; simp add: assms)+

lemma evm_safe: "bridge_url_laws X \<Longrightarrow> evm_command_ok cmd \<Longrightarrow> cli_safe (evm_cli_run X W ctx cmd)"
  by (auto simp: evm_cli_run_def Let_def evm_cli_defs dest: evm_cli_message_ok
      intro!: safe_rules cli_safe_approve evm_port_ok split: evm_command.split option.split)

lemma tron_safe: "bridge_url_laws X \<Longrightarrow> cli_safe (tron_cli_run X W ctx cmd)"
  by (auto simp: tron_cli_run_def Let_def tron_cli_defs intro!: safe_rules cli_safe_approve tron_port_ok
      split: tron_command.split)

lemma btc_safe: "bridge_url_laws X \<Longrightarrow> cli_safe (btc_cli_run X W ctx cmd)"
  by (auto simp: btc_cli_run_def Let_def btc_cli_defs intro!: safe_rules cli_safe_approve btc_port_ok
      split: btc_command.split)

end
