(* ===== verification/Cli_Properties.thy ===== *)
theory Cli_Properties
  imports Cli_Main Reference
begin

section \<open>Properties of the command line\<close>

text \<open>
  What a user and a script see of a command: its output, the browser it opens, and what it submits. A
  one-shot world over the reference functions is where the properties are applied.
\<close>

subsection \<open>A world\<close>

definition demo_world :: "('r \<Rightarrow> outcome) \<Rightarrow> ('r, nat) cli_world" where
  "demo_world submit =
     \<lparr>cw_env = (\<lambda>name. EnvNotPresent), cw_web_ui = ''page'', cw_net = ref_net, cw_fresh = 7,
      cw_await = (\<lambda>eng p. case store_get (eng_store eng) (p_id p) of
        Some r \<Rightarrow> submit r | None \<Rightarrow> Inl (Cancelled [])),
      cw_read_file = (\<lambda>path. Inl ''not found'')\<rparr>"

lemma demo_world_simps [simp]:
  "cw_env (demo_world submit) name = EnvNotPresent" "cw_net (demo_world submit) = ref_net"
  "cw_fresh (demo_world submit) = 7"
  by (simp_all add: demo_world_def)

lemma demo_world_answers [simp]: "answers (demo_world submit) submit"
  by (simp add: answers_def demo_world_def)

lemma demo_world_port [simp]: "evm_port X (cw_env (demo_world submit)) = DEFAULT_PORT"
  by (simp add: evm_port_def port_from_env_def env_ok_def demo_world_def)

lemma demo_bind: "bind_listener ref_net (Preferred q) = Inr (unat (port_get q), q)"
  by (simp add: bind_listener_def ref_net_def)

lemma demo_world_bind: "bind_listener (cw_net (demo_world submit)) (Preferred q) = Inr (unat (port_get q), q)"
  by (simp add: demo_bind)

definition ref_btc_cli :: "(u64, u64, u8 list) btc_tx_ext" where
  "ref_btc_cli = btc_ext.extend ref_btc \<lparr>x_tx_inputs = length, x_tx_outputs = length\<rparr>"


text \<open>
  C20: The browser a command opens. With \<open>--print\<close> a one-shot command opens nothing. Without it it
  opens exactly one URL, the approval URL it has shown on standard error, unless it fails before that; so
  one that succeeds has opened it. \<open>serve\<close> opens nothing while it starts, and the engine it leaves running
  has the browser choice that \<open>--print\<close> asks for.
\<close>

theorem cli_browser_contract:
  "let run = cli_main XE XT XB WE WT WB opts cmd
   in case cmd of
        CmdServe c \<Rightarrow>
          cli_opened run = [] \<and>
          map_ok served_browser (snd (run_serve XE XT XB WE WT WB (cli_context_of opts) c)) =
            map_ok (\<lambda>_. if go_print opts then BPrint else BDefault) (snd run)
      | _ \<Rightarrow>
          if go_print opts then cli_opened run = []
          else (\<exists>u. cli_opened run = [u] \<and> cli_shown run u) \<or> cli_opened run = [] \<and> (\<exists>e. snd run = Inl e)"
proof -
  have opens: "if go_print opts then cli_opened run = []
      else (\<exists>u. cli_opened run = [u] \<and> cli_shown run u) \<or> cli_opened run = [] \<and> (\<exists>e. snd run = Inl e)"
    if "opens_shown (ctx_open (cli_context_of opts)) run" for run :: "unit cli"
    using that by (cases "snd run") (auto simp: opens_shown_def cli_context_of_def opts_open_mode_def)
  show ?thesis
  proof (cases cmd)
    case (CmdEvm c)
    then show ?thesis
      using opens [OF evm_shot.opens [of "cli_context_of opts" XE WE c]] by (simp only: cli_main_def Let_def command.case)
  next
    case (CmdTron c)
    then show ?thesis
      using opens [OF tron_shot.opens [of "cli_context_of opts" XT WT c]] by (simp only: cli_main_def Let_def command.case)
  next
    case (CmdBtc c)
    then show ?thesis
      using opens [OF btc_shot.opens [of "cli_context_of opts" XB WB c]] by (simp only: cli_main_def Let_def command.case)
  next
    case (CmdServe c)
    have "open_browser_choice (ctx_open (cli_context_of opts)) = (if go_print opts then BPrint else BDefault)"
      by (simp add: cli_context_of_def opts_open_mode_def open_browser_choice_def)
    with CmdServe show ?thesis
      using run_serve_browser [of XE XT XB WE WT WB "cli_context_of opts" c]
      by (cases "snd (run_serve XE XT XB WE WT WB (cli_context_of opts) c)")
        (simp_all add: cli_main_def Let_def run_serve_quiet)
  qed
qed

lemma demo_connect_opens:
  "cli_opened (evm_cli_run ref_evm (demo_world (\<lambda>r. Inr ''5'')) (cli_context_of \<lparr>go_print = False, go_json = True\<rparr>)
     (EvmCmdConnect None None None None)) = [bridge_url ref_evm DEFAULT_PORT 7 KConnect]"
proof -
  have "ctx_open (cli_context_of \<lparr>go_print = False, go_json = True\<rparr>) = OpenDefault"
    by (simp add: cli_context_of_def opts_open_mode_def)
  then show ?thesis
    by (simp add: evm_cli_run_def Let_def evm_cli_connect_def cli_opened_then opens_nothing_output demo_bind
        evm_cli_approve_opens [where port = DEFAULT_PORT] evm_connect_with_def request_meta_new_def)
qed

text \<open>
  No command reaches the \<open>unreachable!\<close> of \<open>evm sign-message\<close> or the \<open>expect\<close> of \<open>build_url\<close>: clap's
  guarantees exclude the first, and \<open>Url::parse\<close> accepts what the second gives it.
\<close>

theorem cli_never_panics:
  assumes "bridge_url_laws XE" and "bridge_url_laws XT" and "bridge_url_laws XB" and "command_ok cmd"
  shows "snd (cli_main XE XT XB WE WT WB opts cmd) \<noteq> Inl CliPanic"
  using assms evm_safe tron_safe btc_safe run_serve_quiet(2)
  by (fastforce simp: cli_main_def Let_def command_ok_def cli_safe_def split: command.splits)

lemma btc_cli_sign_psbt_prints:
  assumes "snd (btc_cli_sign_psbt X W C p) = Inr u"
  shows "\<exists>d. unsigned_txid X d = unsigned_txid X (pp_psbt p) \<and>
    (case ctx_output (bc_ctx C) of
       OutText \<Rightarrow> Printed (''PSBT: '' @ psbt_show X d) \<in> set (fst (btc_cli_sign_psbt X W C p))
     | OutJson \<Rightarrow> \<exists>v. PrintedJson v \<in> set (fst (btc_cli_sign_psbt X W C p)) \<and>
         jget v ''psbt'' = Some (JString (psbt_show X d)))"
proof -
  obtain request raw s where r: "btc_sign_psbt X (cw_fresh W) p = Inr request"
      "snd (btc_cli_approve X W C request) = Inr raw" "parse_signed_psbt X (pp_psbt p) raw = Inr s"
    using assms by (auto simp: btc_cli_sign_psbt_def Let_def cli_then_Inr_iff cli_try_Inr_iff)
  have "unsigned_txid X (sn_psbt s) = unsigned_txid X (pp_psbt p)"
    by (rule parse_signed_psbt_same(1) [OF r(3)])
  then show ?thesis
    using r by (intro exI [of _ "sn_psbt s"])
      (auto simp: btc_cli_sign_psbt_def Let_def cli_then_step [OF r(2)] cli_then_def cli_try_def cli_emit_def
        cli_output_def split: output_format.split)
qed

lemma ref_cli_url_laws [simp]: "bridge_url_laws ref_tron" "bridge_url_laws ref_btc_cli"
  by (rule ref_url_parse_bridge, simp add: ref_simps ref_btc_cli_def btc_ext.defs)+

theorem cli_never_panics_witness:
  "snd (cli_main ref_evm ref_tron ref_btc_cli (demo_world (\<lambda>r. Inr [])) (demo_world (\<lambda>r. Inr []))
     (demo_world (\<lambda>r. Inr [])) \<lparr>go_print = True, go_json = False\<rparr>
     (CmdEvm (EvmCmdSignMessage None (Some [1]) None None))) \<noteq> Inl CliPanic"
  by (rule cli_never_panics) (simp_all add: command_ok_def evm_command_ok_def)


text \<open>
  C21: \<open>btc sign-psbt\<close> prints a PSBT of the transaction it was given. When it succeeds, the PSBT on standard
  output, as text or in the JSON value, has the txid of the PSBT in the arguments or the file.
\<close>

theorem btc_cli_psbt_same_transaction:
  assumes "snd (btc_cli_run X W ctx (BtcCmdSignPsbt arg file inputs fin bc from network)) = Inr u"
  shows "\<exists>psbt d. snd (read_psbt X W arg file) = Inr psbt \<and>
    unsigned_txid X d = unsigned_txid X psbt \<and>
    (case ctx_output ctx of
       OutText \<Rightarrow> Printed (''PSBT: '' @ psbt_show X d)
         \<in> set (fst (btc_cli_run X W ctx (BtcCmdSignPsbt arg file inputs fin bc from network)))
     | OutJson \<Rightarrow> \<exists>v. PrintedJson v
         \<in> set (fst (btc_cli_run X W ctx (BtcCmdSignPsbt arg file inputs fin bc from network))) \<and>
         jget v ''psbt'' = Some (JString (psbt_show X d)))"
proof -
  let ?C = "btc_cli_new X W ctx"
  let ?p = "\<lambda>psbt. \<lparr>pp_network = btc_cli_network ?C network, pp_psbt = psbt, pp_from = from,
    pp_sign_inputs = (if inputs = [] then None else Some inputs), pp_finalize = fin, pp_broadcast = bc\<rparr>"
  let ?run = "btc_cli_run X W ctx (BtcCmdSignPsbt arg file inputs fin bc from network)"
  have run: "?run = cli_then (read_psbt X W arg file) (\<lambda>psbt. btc_cli_sign_psbt X W ?C (?p psbt))"
    by (simp add: btc_cli_run_def Let_def)
  then obtain psbt where psbt: "snd (read_psbt X W arg file) = Inr psbt"
      "snd (btc_cli_sign_psbt X W ?C (?p psbt)) = Inr u"
    using assms by (auto simp: cli_then_Inr_iff)
  then obtain d where d: "unsigned_txid X d = unsigned_txid X psbt"
      "case ctx_output ctx of
         OutText \<Rightarrow> Printed (''PSBT: '' @ psbt_show X d)
           \<in> set (fst (btc_cli_sign_psbt X W ?C (?p psbt)))
       | OutJson \<Rightarrow> \<exists>v. PrintedJson v \<in> set (fst (btc_cli_sign_psbt X W ?C (?p psbt))) \<and>
           jget v ''psbt'' = Some (JString (psbt_show X d))"
    using btc_cli_sign_psbt_prints [OF psbt(2)] by auto
  have "set (fst (btc_cli_sign_psbt X W ?C (?p psbt))) \<subseteq> set (fst ?run)"
    using run cli_then_step [OF psbt(1), of "\<lambda>psbt. btc_cli_sign_psbt X W ?C (?p psbt)"] by simp
  with psbt(1) d show ?thesis
    by (intro exI [of _ psbt] exI [of _ d]) (auto split: output_format.splits)
qed

lemma ref_btc_cli_laws [simp]: "btc_laws ref_btc_cli"
  by (simp add: btc_laws_def ref_simps ref_btc_cli_def btc_ext.defs ref_hex_encode_digits)

lemma ref_cli_psbt: "psbt_from_str ref_btc_cli (ref_hex_encode [1, 0]) = Inr (PsbtData [1, 0])"
proof -
  have "psbt_show ref_btc_cli (PsbtData [1, 0]) = ref_hex_encode [1, 0]"
    by (simp add: psbt_show_def ref_btc_cli_def ref_btc_def btc_ext.defs)
  then show ?thesis
    using wire_codec.parse_render [OF psbt_codec [OF ref_btc_cli_laws], of "PsbtData [1, 0]"] by simp
qed

lemma demo_sign_psbt:
  "snd (btc_cli_run ref_btc_cli (demo_world (\<lambda>r. Inr ''signed'')) ctx
     (BtcCmdSignPsbt (Some (PsbtData [7, 7])) None [1] False False None None)) = Inr ()"
proof -
  have "show_word (2 :: u256) = ''2''" by code_simp
  then have t: "ref_word ''2'' = Inr (2 :: u256)" using ref_word_show [of "2 :: u256"] by simp
  have "parse_signed_psbt ref_btc_cli (PsbtData [7, 7]) ''signed'' =
      Inr \<lparr>sn_psbt = PsbtData [1, 0], sn_txid = Some 2\<rparr>"
    using parse_signed_psbt_accepts [of ref_btc_cli "''signed''"
        "JObject [(''psbt'', JString (ref_hex_encode [1, 0])), (''txid'', JString ''2'')]"
        "ref_hex_encode [1, 0]" "PsbtData [1, 0]" "PsbtData [7, 7]" "Some ''2''"] ref_cli_psbt t
    by (simp add: ref_btc_cli_def ref_btc_def btc_ext.defs ref_json_parse_def unsigned_txid_def)
  moreover have "psbt_input_count ref_btc_cli (PsbtData [7, 7]) = 2"
    by (simp add: psbt_input_count_def ref_btc_cli_def ref_btc_def btc_ext.defs)
  ultimately show ?thesis
    by (simp add: btc_cli_run_def Let_def read_psbt_def btc_cli_sign_psbt_def cli_then_Inr_iff cli_ok_def
        cli_emit_def cli_try_Inr_iff btc_sign_psbt_def btc_checked_def map_err_Inr_iff
        btc_cli_approve_ok [OF ref_cli_url_laws(2) demo_world_answers demo_world_bind])
qed

theorem btc_cli_psbt_same_transaction_witness:
  "\<exists>d. unsigned_txid ref_btc_cli d = unsigned_txid ref_btc_cli (PsbtData [7, 7]) \<and>
     Printed (''PSBT: '' @ psbt_show ref_btc_cli d) \<in> set (fst
       (btc_cli_run ref_btc_cli (demo_world (\<lambda>r. Inr ''signed'')) \<lparr>ctx_output = OutText, ctx_open = OpenPrintOnly\<rparr>
         (BtcCmdSignPsbt (Some (PsbtData [7, 7])) None [1] False False None None)))"
  using btc_cli_psbt_same_transaction [OF demo_sign_psbt, of "\<lparr>ctx_output = OutText, ctx_open = OpenPrintOnly\<rparr>"]
  by (auto simp: read_psbt_def cli_ok_def)

text \<open>
  C35: The EVM command line submits a transaction that no wallet can send. With empty \<open>--data\<close> and no
  \<open>--to\<close>, which clap accepts, \<open>send-transaction\<close> puts exactly that transaction before the wallet: it succeeds
  if and only if the wallet's answer to that request is a hash, and the wallet's error is its error.
  \<open>EvmSigner::send_transaction\<close> refuses the same parameters without submitting anything.
\<close>

theorem evm_cli_skips_check:
  assumes "bridge_url_laws X" and "answers W submit"
    and "bind_listener (cw_net W) (Preferred (evm_port X (cw_env W))) = Inr (l, port)"
    and "params = \<lparr>sp_to = None, sp_from = from, sp_value = value, sp_data = Some (CallData []),
      sp_chain_id = Some (unwrap_or chain (default_chain_id (cw_env W))), sp_gas_limit = gas,
      sp_max_fee_per_gas = fee, sp_max_priority_fee_per_gas = prio\<rparr>"
    and "cmd = EvmCmdSend None from value (Some (CallData [])) chain gas fee prio"
    and "request = evm_send_transaction (cw_fresh W) params"
  shows "evm_command_ok cmd \<and>
    (snd (evm_cli_run X W ctx cmd) = Inr () \<longleftrightarrow>
       (\<exists>raw h. submit request = Inr raw \<and> tx_hash_from_str X raw = Inr h)) \<and>
    (\<forall>e. submit request = Inl e \<longrightarrow> snd (evm_cli_run X W ctx cmd) = Inl (CliSigner e)) \<and>
    (\<exists>e. \<forall>submit'. evm_send X submit' i S params = Inl (Invalid e))"
proof -
  let ?approve = "evm_cli_approve X W (evm_cli_new X W ctx) (\<lambda>e. e) (tx_hash_from_str X) ''tx hash'' request"
  have "evm_cli_chain (evm_cli_new X W ctx) chain = unwrap_or chain (default_chain_id (cw_env W))"
    by (simp add: evm_cli_chain_def evm_cli_new_def evm_signer_new_def)
  then have run: "snd (evm_cli_run X W ctx cmd) = map_ok (\<lambda>h. ()) (snd ?approve)"
    by (cases "snd ?approve")
      (simp_all add: evm_cli_run_def Let_def evm_cli_send_def assms(4-6) cli_then_def)
  note result = evm_cli_approve_result [OF assms(1-3), where r = request and parse = "tx_hash_from_str X"]
  obtain e where "send_check params = Inl e" by (simp add: assms(4) send_check_def)
  then have "evm_send X submit' i S params = Inl (Invalid e)" for submit' by (rule evm_send_refused)
  moreover have "evm_command_ok cmd" by (simp add: assms(5) evm_command_ok_def)
  ultimately show ?thesis
    by (auto simp: run result result_iff)
qed

lemma ref_evm_hash:
  "tx_hash_from_str ref_evm (ref_hex_encode (replicate 32 7)) = Inr (TxHash (replicate 32 7))"
proof -
  have "hex_laws ref_evm"
    by (simp add: hex_laws_def ref_simps ref_hex_encode_length ref_hex_encode_digits)
  then show ?thesis
    using hex_raw_bare [of ref_evm "replicate 32 7"] by (simp add: tx_hash_from_str_def ref_simps)
qed

theorem evm_cli_skips_check_witness:
  "snd (evm_cli_run ref_evm (demo_world (\<lambda>r. Inr (ref_hex_encode (replicate 32 7))))
     \<lparr>ctx_output = OutText, ctx_open = OpenPrintOnly\<rparr> (EvmCmdSend None None None (Some (CallData [])) None None None None)) = Inr ()"
proof -
  let ?W = "demo_world (\<lambda>r. Inr (ref_hex_encode (replicate 32 7))) :: (evm_request, nat) cli_world"
  have "bind_listener (cw_net ?W) (Preferred (evm_port ref_evm (cw_env ?W))) =
      Inr (unat (port_get DEFAULT_PORT), DEFAULT_PORT)"
    by (simp add: demo_bind)
  from evm_cli_skips_check [OF ref_url_laws(2) demo_world_answers this refl refl refl, THEN conjunct2, THEN conjunct1]
  show ?thesis using ref_evm_hash by blast
qed

text \<open>
  The network of a TRON command. Without \<open>--network\<close>, \<open>connect\<close> submits the default network, and
  \<open>send-transaction\<close> submits none, where \<open>TronSigner::send_transaction\<close> fills the default in.
\<close>

theorem tron_cli_network_dropped:
  assumes "answers W submit"
  shows "(snd (tron_cli_run X W ctx (TronCmdConnect None a)) = Inr () \<longrightarrow>
      (\<exists>raw. submit (TronConnect (request_meta_new (cw_fresh W))
        (Some (tron_default_network (cw_env W))) a) = Inr raw)) \<and>
    (snd (tron_cli_run X W ctx (TronCmdSend to from amount data None)) = Inr () \<longrightarrow>
      (\<exists>raw. submit (TronSendTransaction (request_meta_new (cw_fresh W)) None to from amount data) =
        Inr raw)) \<and>
    (\<forall>h. tron_send X submit i S
        \<lparr>ts_to = to, ts_from = from, ts_amount = amount, ts_data = data, ts_network = None\<rparr> = Inr h \<longrightarrow>
      (\<exists>raw. submit (TronSendTransaction (request_meta_new i) (Some (tsg_default_network S)) to from
        amount data) = Inr raw))"
proof (intro conjI allI impI)
  assume "snd (tron_cli_run X W ctx (TronCmdConnect None a)) = Inr ()"
  then show "\<exists>raw. submit (TronConnect (request_meta_new (cw_fresh W))
      (Some (tron_default_network (cw_env W))) a) = Inr raw"
    by (auto simp: tron_cli_run_def Let_def tron_cli_defs cli_then_Inr_iff tron_connect_def
        tron_cli_network_def tron_cli_new_def tron_signer_new_def dest: approve_signed_Inr [OF assms])
next
  assume "snd (tron_cli_run X W ctx (TronCmdSend to from amount data None)) = Inr ()"
  then show "\<exists>raw. submit (TronSendTransaction (request_meta_new (cw_fresh W)) None to from amount data) =
      Inr raw"
    by (auto simp: tron_cli_run_def Let_def tron_cli_defs cli_then_Inr_iff tron_send_transaction_def
        dest: approve_signed_Inr [OF assms])
next
  fix h
  assume "tron_send X submit i S
    \<lparr>ts_to = to, ts_from = from, ts_amount = amount, ts_data = data, ts_network = None\<rparr> = Inr h"
  then show "\<exists>raw. submit (TronSendTransaction (request_meta_new i) (Some (tsg_default_network S)) to from
      amount data) = Inr raw"
    by (auto simp: tron_send_def and_then_Inr_iff tron_send_transaction_def network_or_default_def)
qed

lemma ref_tron_hash:
  "tx_hash_from_str ref_tron (ref_hex_encode (replicate 32 7)) = Inr (TxHash (replicate 32 7))"
  using hex_raw_bare [OF ref_hex_laws(2), of "replicate 32 7"] by (simp add: tx_hash_from_str_def ref_simps)

theorem tron_cli_network_dropped_witness:
  "\<exists>raw. (\<lambda>r. Inr (ref_hex_encode (replicate 32 7)) :: outcome)
     (TronSendTransaction (request_meta_new (cw_fresh (demo_world
       (\<lambda>r. Inr (ref_hex_encode (replicate 32 7))) :: (tron_request, nat) cli_world)))
       None (TronAddress (0x41 # replicate 20 1)) None (Sun 5) None) = Inr raw"
proof -
  let ?W = "demo_world (\<lambda>r. Inr (ref_hex_encode (replicate 32 7))) :: (tron_request, nat) cli_world"
  have ok: "snd (tron_cli_approve ref_tron ?W (tron_cli_new ref_tron ?W ctx) (\<lambda>e. e) (tx_hash_from_str ref_tron) ''tx hash'' r) =
      Inr (TxHash (replicate 32 7))" for r ctx
    by (rule tron_cli_approve_ok [OF ref_cli_url_laws(1) demo_world_answers demo_world_bind, OF refl], rule ref_tron_hash)
  have "snd (tron_cli_run ref_tron ?W ctx
      (TronCmdSend (TronAddress (0x41 # replicate 20 1)) None (Sun 5) None None)) = Inr ()" for ctx
    by (simp add: tron_cli_run_def Let_def tron_cli_send_def tron_emit_tx_def cli_then_step [OF ok])
  from tron_cli_network_dropped [OF demo_world_answers, THEN conjunct2, THEN conjunct1, THEN mp, OF this]
  show ?thesis .
qed



end
