(* ===== verification/Harness.thy ===== *)
theory Harness
  imports Broker
begin

section \<open>The browser-test harness\<close>

text \<open>
  \<open>bin/common/harness.rs\<close> of the \<open>browser-web3-signer\<close> crate, the one library behind the three chains'
  test binaries: a bridge with two more routes. \<open>create_request\<close> registers a request and spawns a task
  that awaits its result and puts the outcome into a cache; \<open>test_result\<close> looks into that cache. The
  harness is the bridge's transition system with the cache and the tasks that have written to it: the task
  of the \<open>k\<close>-th request takes its one step when the \<open>k\<close>-th future is done.
\<close>

record ('r, 'x) harness =
  hs_bridge :: "('r, 'x) bridge"
  hs_results :: "uuid \<Rightarrow> json option"
  hs_cached :: "nat list"

definition as_outcome :: "outcome \<Rightarrow> json" where
  "as_outcome res =
     (case res of
        Inr v \<Rightarrow> JObject [(''success'', JBool True), (''result'', JString v)]
      | Inl e \<Rightarrow> JObject [(''success'', JBool False), (''error'', JString (signer_error_show e))])"

text \<open>A refusal is a bare status code; the answer of a registered request is its id.\<close>

definition create_request ::
  "'e core_ext_scheme \<Rightarrow> ('r, 'y) request_ops_scheme \<Rightarrow> 'l net \<Rightarrow> uuid \<Rightarrow> json \<Rightarrow> ('r, 'x) engine \<Rightarrow>
     (nat + json \<times> prepared) option \<times> ('r, 'x) engine" where
  "create_request X R N fresh body eng =
     (case r_from_json R fresh body of
        Inl e \<Rightarrow> (Some (Inl 400), eng)
      | Inr req \<Rightarrow>
          (case prepare X R N req eng of
             (None, eng') \<Rightarrow> (None, eng')
           | (Some (Inl e), eng') \<Rightarrow> (Some (Inl 500), eng')
           | (Some (Inr p), eng') \<Rightarrow>
               (Some (Inr (JObject [(''id'', JString (x_uuid_show X (p_id p)))], p)), eng')))"

definition test_result :: "('r, 'x) harness \<Rightarrow> uuid \<Rightarrow> json" where
  "test_result h i =
     (case hs_results h i of
        Some o' \<Rightarrow> o'
      | None \<Rightarrow>
          if store_has (br_store (hs_bridge h)) i then JObject [(''pending'', JBool True)] else JNull)"

datatype harness_route = HCreate | HResult string

definition harness_route_of :: "http_method \<Rightarrow> string \<Rightarrow> harness_route option" where
  "harness_route_of m path =
     (if path = ''/api/test/create-request'' \<and> m = POST then Some HCreate
      else case path_id ''/api/test/result/'' path of
        Some s \<Rightarrow> if m = GET \<or> m = HEAD then Some (HResult s) else None
      | None \<Rightarrow> None)"

text \<open>The spawned task of the \<open>k\<close>-th request.\<close>

definition cache_step :: "nat \<Rightarrow> ('r, 'x) harness \<Rightarrow> ('r, 'x) harness" where
  "cache_step k h =
     (let f = br_futs (hs_bridge h) ! k
      in case fut_state f of
           FDone out \<Rightarrow>
             h\<lparr>hs_results := (hs_results h)(fut_id f \<mapsto> as_outcome out), hs_cached := k # hs_cached h\<rparr>
         | _ \<Rightarrow> h)"

definition harness_init :: "string \<Rightarrow> ('r, 'x) harness" where
  "harness_init web_ui =
     \<lparr>hs_bridge = bridge_init (engine_new web_ui Ephemeral BPrint), hs_results = (\<lambda>i. None),
      hs_cached = []\<rparr>"

text \<open>What \<open>run\<close> prints: the port, or the error it exits with.\<close>

definition harness_run :: "nat net \<Rightarrow> string \<Rightarrow> 'x \<Rightarrow> string + port \<times> ('r, 'x) engine" where
  "harness_run N web_ui extra =
     (case start_with N (Some extra) (engine_new web_ui Ephemeral BPrint) of
        (Inr port, eng) \<Rightarrow> Inr (port, eng)
      | (Inl e, eng) \<Rightarrow> Inl (''failed to start engine: '' @ signer_error_show e))"

inductive harness_step ::
  "'e core_ext_scheme \<Rightarrow> ('r, 'y) request_ops_scheme \<Rightarrow> ('r, 'x) harness \<Rightarrow> ('r, 'x) harness \<Rightarrow> bool"
  for X R where
  create: "create_request X R (N :: nat net) fresh body (br_engine (hs_bridge h)) = (Some (Inr (v, p)), eng') \<Longrightarrow>
     harness_step X R h
       (h\<lparr>hs_bridge := (hs_bridge h)\<lparr>br_engine := eng', br_futs := br_futs (hs_bridge h) @ [future_of p]\<rparr>\<rparr>)"
| bridge: "bridge_step X R (hs_bridge h) b' \<Longrightarrow> length (br_futs b') = length (br_futs (hs_bridge h)) \<Longrightarrow>
     harness_step X R h (h\<lparr>hs_bridge := b'\<rparr>)"
| cache: "k < length (br_futs (hs_bridge h)) \<Longrightarrow> k \<notin> set (hs_cached h) \<Longrightarrow>
     harness_step X R h (cache_step k h)"

inductive harness_reachable ::
  "'e core_ext_scheme \<Rightarrow> ('r, 'y) request_ops_scheme \<Rightarrow> ('r, 'x) harness \<Rightarrow> bool" for X R where
  init: "harness_reachable X R (harness_init web_ui)"
| step: "harness_reachable X R h \<Longrightarrow> harness_step X R h h' \<Longrightarrow> harness_reachable X R h'"

lemma create_request_prepare:
  "create_request X R N fresh body eng = (Some (Inr (v, p)), eng') \<Longrightarrow>
     \<exists>req. r_from_json R fresh body = Inr req \<and> prepare X R N req eng = (Some (Inr p), eng')"
  by (auto simp: create_request_def split: sum.splits prod.splits option.splits)

text \<open>A step of the harness is a step of its bridge, or leaves the bridge as it is.\<close>

lemma harness_step_bridge:
  "harness_step X R h h' \<Longrightarrow> hs_bridge h' = hs_bridge h \<or> bridge_step X R (hs_bridge h) (hs_bridge h')"
proof (induction rule: harness_step.induct)
  case (create N fresh body h v p eng')
  then obtain req where "prepare X R N req (br_engine (hs_bridge h)) = (Some (Inr p), eng')"
    using create_request_prepare by blast
  from bridge_step.submit [OF this] show ?case by simp
next
  case (cache k h)
  then show ?case by (simp add: cache_step_def Let_def split: fut_state.split)
qed simp

lemma harness_bridge_reachable: "harness_reachable X R h \<Longrightarrow> bridge_reachable X R (hs_bridge h)"
proof (induction rule: harness_reachable.induct)
  case (init web_ui)
  then show ?case by (simp add: harness_init_def bridge_reachable.init)
next
  case (step h h')
  then show ?case using harness_step_bridge bridge_reachable.step by metis
qed

text \<open>A finished future stays as it is, so what the cache says stays true.\<close>

definition cache_ok :: "('r, 'x) harness \<Rightarrow> bool" where
  "cache_ok h \<longleftrightarrow>
     (\<forall>i v. hs_results h i = Some v \<longrightarrow>
        (\<exists>(j, out) \<in> set (bk_outcomes (broker_of (hs_bridge h))). j = i \<and> (\<exists>o'. out = Some o' \<and> v = as_outcome o')))"

lemma outcomes_stay:
  assumes "bridge_step X R b b'" and "bridge_reachable X R b"
    and "(i, Some out) \<in> set (bk_outcomes (broker_of b))"
  shows "(i, Some out) \<in> set (bk_outcomes (broker_of b'))"
proof -
  obtain k where k: "k < length (bk_outcomes (broker_of b))" "bk_outcomes (broker_of b) ! k = (i, Some out)"
    using assms(3) by (auto simp: in_set_conv_nth)
  show ?thesis
    using bridge_step_refines [OF assms(1) bridge_reachable_inv [OF assms(2)]]
      broker_outcome_stays [OF _ k] assms(3) nth_mem by metis
qed

lemma cache_ok_reachable: "harness_reachable X R h \<Longrightarrow> cache_ok h"
proof (induction rule: harness_reachable.induct)
  case (init web_ui)
  then show ?case by (simp add: cache_ok_def harness_init_def)
next
  case (step h h')
  have b: "bridge_reachable X R (hs_bridge h)" using step.hyps(1) by (rule harness_bridge_reachable)
  show ?case
    using step.hyps(2)
  proof cases
    case (cache k)
    let ?f = "br_futs (hs_bridge h) ! k"
    show ?thesis
    proof (cases "fut_state ?f")
      case (FDone out)
      then have "(fut_id ?f, Some out) \<in> set (bk_outcomes (broker_of (hs_bridge h)))"
        using cache(2) nth_mem [OF cache(2)]
        by (force simp: broker_of_def outcome_of_def fut_outcome_def)
      with FDone cache step.IH show ?thesis
        by (fastforce simp: cache_ok_def cache_step_def Let_def split: if_splits)
    qed (use cache step.IH in \<open>simp_all add: cache_step_def Let_def\<close>)
  next
    case (create N fresh body v p eng')
    then have "bridge_step X R (hs_bridge h) (hs_bridge h')" "hs_results h' = hs_results h"
      using create_request_prepare [OF create(2)] bridge_step.submit by fastforce+
    with step.IH outcomes_stay [OF _ b] show ?thesis by (fastforce simp: cache_ok_def)
  next
    case (bridge b')
    with step.IH outcomes_stay [OF _ b] show ?thesis by (fastforce simp: cache_ok_def)
  qed
qed

lemma cached_outcome:
  assumes "harness_reachable X R h" and "hs_results h i = Some v"
  shows "\<exists>f \<in> set (br_futs (hs_bridge h)). \<exists>out. fut_id f = i \<and> fut_outcome f = Some out \<and> v = as_outcome out"
proof -
  obtain o' where "(i, Some o') \<in> set (bk_outcomes (broker_of (hs_bridge h)))" "v = as_outcome o'"
    using cache_ok_reachable [OF assms(1)] assms(2) unfolding cache_ok_def by fastforce
  moreover from this(1) obtain f where "f \<in> set (br_futs (hs_bridge h))" "outcome_of f = (i, Some o')"
    by (force simp: broker_of_def)
  ultimately show ?thesis unfolding outcome_of_def by blast
qed

lemma harness_run_Inr:
  assumes "harness_run N web_ui extra = Inr (port, eng)"
  shows "start_with N (Some extra) (engine_new web_ui Ephemeral BPrint) = (Inr port, eng)"
  using assms by (auto simp: harness_run_def split: prod.splits sum.splits)

end
