(* ===== verification/Harness_Properties.thy ===== *)
theory Harness_Properties
  imports Harness Reference
begin

section \<open>Properties of the browser-test harness\<close>

text \<open>What a test reads from the harness's two routes, with a run of the EVM harness.\<close>

text \<open>
  C31: The harness reports honestly. Whatever the interleaving of requests, wallets and the tasks that fill
  the cache, a result that \<open>GET /api/test/result/{id}\<close> reports as a success is one that a wallet posted for
  that id and that was answered with 200.
\<close>

theorem harness_result_honest:
  assumes "harness_reachable X R h"
    and "test_result h i = JObject [(''success'', JBool True), (''result'', JString v)]"
  shows "\<exists>p \<in> set (br_posts (hs_bridge h)). po_id p = i \<and> po_result p = RSuccess v \<and>
    po_phase p = PAnswered completed"
proof -
  have "hs_results h i = Some (JObject [(''success'', JBool True), (''result'', JString v)])"
    using assms(2) by (auto simp: test_result_def split: option.splits if_splits)
  with cached_outcome [OF assms(1)] obtain f out where f: "f \<in> set (br_futs (hs_bridge h))"
    "fut_id f = i" "fut_outcome f = Some out"
    "as_outcome out = JObject [(''success'', JBool True), (''result'', JString v)]" by metis
  have "out = Inr v" using f(4) by (auto simp: as_outcome_def split: sum.splits)
  then have "explained X (br_posts (hs_bridge h)) i (Inr v)"
    using reachable_outcome [OF harness_bridge_reachable [OF assms(1)] f(1,3)] f(2) by simp
  then show ?thesis by (auto simp: explained_success answered_def is_answer_def)
qed

definition demo_harness :: "(evm_request, unit) bridge \<Rightarrow> (evm_request, unit) harness" where
  "demo_harness b = \<lparr>hs_bridge = b, hs_results = (\<lambda>i. None), hs_cached = []\<rparr>"

lemma demo_create:
  "create_request ref_evm (evm_ops ref_evm) ref_net 7 (JObject [(''type'', JString ''connect'')])
     (br_engine demo_start) =
   (Some (Inr (JObject [(''id'', JString (show_word (7 :: uuid)))], demo_prepared)), demo_engine)"
proof -
  have "r_from_json (evm_ops ref_evm) 7 (JObject [(''type'', JString ''connect'')]) = Inr demo_request"
    by (simp add: evm_ops_def evm_from_json_def str_field_def opt_address_def opt_parsed_def
        evm_connect_def str_opt_def demo_request_def)
  moreover have "x_uuid_show ref_evm (p_id demo_prepared) = show_word (7 :: uuid)"
    by (simp add: ref_evm_def demo_prepared_def)
  ultimately show ?thesis by (simp add: create_request_def demo_prepare)
qed

lemma demo_harness_waiting: "harness_reachable ref_evm (evm_ops ref_evm) (demo_harness demo_waiting)"
proof -
  have "demo_harness demo_start = harness_init ''page''"
    by (simp add: demo_harness_def harness_init_def demo_start_def)
  then have start: "harness_reachable ref_evm (evm_ops ref_evm) (demo_harness demo_start)"
    using harness_reachable.init by metis
  have "create_request ref_evm (evm_ops ref_evm) ref_net 7 (JObject [(''type'', JString ''connect'')])
      (br_engine (hs_bridge (demo_harness demo_start))) =
    (Some (Inr (JObject [(''id'', JString (show_word (7 :: uuid)))], demo_prepared)), demo_engine)"
    by (simp add: demo_create demo_harness_def)
  from harness_reachable.step [OF start harness_step.create [OF this]] show ?thesis
    by (simp add: demo_harness_def demo_waiting_def)
qed

lemma demo_harness_bridge:
  assumes "harness_reachable X R (demo_harness b)" and "bridge_step X R b b'"
    and "length (br_futs b') = length (br_futs b)"
  shows "harness_reachable X R (demo_harness b')"
  using harness_reachable.step [OF assms(1) harness_step.bridge [of X R "demo_harness b" b']] assms(2,3)
  by (simp add: demo_harness_def)

lemma demo_harness_done:
  "harness_reachable ref_evm (evm_ops ref_evm) (demo_harness (demo_done res))"
proof -
  let ?b = "demo_waiting\<lparr>br_posts := br_posts demo_waiting @
    [\<lparr>po_id = 7, po_result = res, po_phase = PCheck\<rparr>]\<rparr>"
  have b: "harness_reachable ref_evm (evm_ops ref_evm) (demo_harness ?b)"
    by (rule demo_harness_bridge [OF demo_harness_waiting bridge_step.arrive]) simp
  have c: "harness_reachable ref_evm (evm_ops ref_evm) (demo_harness (check_step 0 ?b))"
    by (rule demo_harness_bridge [OF b bridge_step.check]) (simp_all add: demo_states check_step_def)
  have d: "harness_reachable ref_evm (evm_ops ref_evm) (demo_harness (demo_post res demo_waiting))"
    unfolding demo_post_def
    by (rule demo_harness_bridge [OF c bridge_step.finish])
      (simp_all add: demo_states check_step_def post_check_def store_has_def finish_step_def Let_def)
  show ?thesis
    unfolding demo_done_def
    by (rule demo_harness_bridge [OF d bridge_step.poll]) (simp_all add: demo_post_states poll_step_def)
qed

theorem harness_result_honest_witness:
  "test_result (cache_step 0 (demo_harness (demo_done (RSuccess ''ok'')))) 7 =
     JObject [(''success'', JBool True), (''result'', JString ''ok'')] \<and>
   (\<exists>p \<in> set (br_posts (demo_done (RSuccess ''ok''))). po_result p = RSuccess ''ok'')"
proof -
  let ?h = "demo_harness (demo_done (RSuccess ''ok''))"
  have k: "0 < length (br_futs (hs_bridge ?h))" "0 \<notin> set (hs_cached ?h)"
    by (simp_all add: demo_harness_def demo_done_states)
  have r: "test_result (cache_step 0 ?h) 7 = JObject [(''success'', JBool True), (''result'', JString ''ok'')]"
    by (simp add: test_result_def cache_step_def Let_def demo_harness_def demo_done_states settle_def
        map_result_def as_outcome_def)
  have "hs_bridge (cache_step 0 ?h) = demo_done (RSuccess ''ok'')"
    by (simp add: cache_step_def Let_def demo_harness_def demo_done_states settle_def map_result_def)
  with r harness_result_honest
      [OF harness_reachable.step [OF demo_harness_done harness_step.cache [OF k]] r]
  show ?thesis by auto
qed

end
