(* ===== verification/Test_Std.thy ===== *)
theory Test_Std
  imports Core_Bytes Core_Types "HOL-Library.Monad_Syntax" "HOL-Library.Sublist"
begin

section \<open>What the repository's tests are written with\<close>

text \<open>
  A test of the sources is a function of what it draws and calls (fresh ids, library functions) into
  \<open>unit option\<close>: \<open>Some ()\<close> when it passes, \<open>None\<close> when an assertion or an \<open>unwrap\<close> fails. Here are its
  parts: \<open>assert!\<close>, \<open>unwrap_err\<close>, a loop over cases, indexing and assignment into a JSON value, and
  \<open>str::contains\<close>.
\<close>

definition test_assert :: "bool \<Rightarrow> unit option" where
  "test_assert b = (if b then Some () else None)"

fun unwrap_err :: "'e + 'a \<Rightarrow> 'e option" where
  "unwrap_err (Inl e) = Some e"
| "unwrap_err (Inr x) = None"

fun is_err :: "'e + 'a \<Rightarrow> bool" where
  "is_err (Inl e) = True"
| "is_err (Inr x) = False"

primrec test_all :: "('a \<Rightarrow> unit option) \<Rightarrow> 'a list \<Rightarrow> unit option" where
  "test_all t [] = Some ()"
| "test_all t (x # xs) = Option.bind (t x) (\<lambda>_. test_all t xs)"

text \<open>\<open>value["key"]\<close>, and \<open>value["key"] = x\<close> on an object.\<close>

definition jindex :: "json \<Rightarrow> string \<Rightarrow> json" where
  "jindex v key = unwrap_or (jget v key) JNull"

fun jset :: "json \<Rightarrow> string \<Rightarrow> json \<Rightarrow> json" where
  "jset (JObject fs) key x = JObject (AList.update key x fs)"
| "jset v key x = v"

definition str_contains :: "string \<Rightarrow> string \<Rightarrow> bool" where
  "str_contains s t = sublist t s"

lemma test_assert_simps [simp]:
  "test_assert True = Some ()" "test_assert False = None" "test_assert b = Some u \<longleftrightarrow> b"
  "Option.bind (test_assert b) f = (if b then f () else None)"
  by (simp_all add: test_assert_def)

lemma is_err_iff: "is_err r \<longleftrightarrow> (\<exists>e. r = Inl e)"
  by (cases r) simp_all

lemma is_err_simps [simp]:
  "is_err (map_ok f r) = is_err r" "is_err (map_err g r) = is_err r" "is_err r \<Longrightarrow> is_err (and_then r h)"
  by (cases r; simp)+

lemma test_all_iff: "test_all t xs = Some u \<longleftrightarrow> (\<forall>x \<in> set xs. t x = Some ())"
  by (induction xs) (auto simp: bind_eq_Some_conv)

lemma jindex_set [simp]: "jindex (jset (JObject fs) k x) k' = (if k' = k then x else jindex (JObject fs) k')"
  by (simp add: jindex_def map_of_update_eq)

lemma jget_set [simp]: "jget (jset (JObject fs) k x) k' = (if k' = k then Some x else map_of fs k')"
  by (simp add: map_of_update_eq)

lemma str_contains_append:
  "str_contains s t \<Longrightarrow> str_contains (r @ s) t" "str_contains r t \<Longrightarrow> str_contains (r @ s) t"
  "str_contains t t"
  by (auto simp: str_contains_def sublist_append)

text \<open>Decimal numbers, printed.\<close>

lemma digit_chars:
  "char_of (48 :: nat) = CHR ''0''" "char_of (49 :: nat) = CHR ''1''" "char_of (50 :: nat) = CHR ''2''"
  "char_of (51 :: nat) = CHR ''3''" "char_of (52 :: nat) = CHR ''4''" "char_of (53 :: nat) = CHR ''5''"
  "char_of (54 :: nat) = CHR ''6''" "char_of (55 :: nat) = CHR ''7''" "char_of (56 :: nat) = CHR ''8''"
  "char_of (57 :: nat) = CHR ''9''"
  by code_simp+

lemmas show_texts = show_word_def dec.simps digit_chars

subsection \<open>What the tests of an expected account see\<close>

text \<open>The text of the refusal, which names both accounts.\<close>

definition account_mismatch :: "('a \<Rightarrow> string) \<Rightarrow> 'a \<Rightarrow> 'a \<Rightarrow> string" where
  "account_mismatch show_acct named account =
     ''the request names account '' @ show_acct named @ '', not the expected '' @ show_acct account"

lemma expect_account_cases:
  "expect_account sa None a = Inr (Some a)"
  "expect_account sa (Some a) a = Inr (Some a)"
  "named \<noteq> a \<Longrightarrow> expect_account sa (Some named) a = Inl (account_mismatch sa named a)"
  by (simp_all add: expect_account_def account_mismatch_def)

lemma account_mismatch_contains:
  "str_contains (account_mismatch sa named a) (sa named)"
  "str_contains (account_mismatch sa named a) (sa a)"
  unfolding account_mismatch_def by (intro str_contains_append)+

end
