(* ===== verification/Http_Roundtrip.thy ===== *)
theory Http_Roundtrip
  imports Core_Http Test_Std
begin

section \<open>The bridge's integration tests\<close>

text \<open>
  \<open>tests/http_roundtrip.rs\<close> of \<open>browser-web3-signer-core\<close>: its request type \<open>Dummy\<close> and its five tests, run
  on the model. A test is a function of the world it runs in (the sockets, the ids drawn, axum's
  extraction); \<open>None\<close> is a failed assertion or a failed \<open>unwrap\<close>. The client talks to the router of the
  running server, extra routes first where they match. An \<open>await\<close> with no other task left to run is
  \<open>await_result\<close>: it polls, sleeps until the deadline it is given, and polls again, as a runtime with a
  paused clock does.
\<close>

subsection \<open>Awaiting a result\<close>

definition sleep_until :: "nat \<Rightarrow> fut_state \<Rightarrow> nat" where
  "sleep_until now s = (case s of FWaiting d \<Rightarrow> max now d | _ \<Rightarrow> now)"

fun polls_left :: "nat \<Rightarrow> fut_state \<Rightarrow> nat" where
  "polls_left now FCreated = 3"
| "polls_left now (FWaiting d) = (if d \<le> now then 2 else 3)"
| "polls_left now (FClosing e) = 1"
| "polls_left now _ = 0"

definition fut_done_state :: "fut_state \<Rightarrow> bool" where
  "fut_done_state s \<longleftrightarrow> (case s of FDone out \<Rightarrow> True | FDropped \<Rightarrow> True | _ \<Rightarrow> False)"

lemma polls_left_settle [simp]: "polls_left now (settle out) < 2"
  by (auto simp: settle_def split: sum.split)

lemma poll_waiting_decreases:
  assumes "fut_state f = FCreated \<and> d = now + REQUEST_TIMEOUT \<or> fut_state f = FWaiting d"
  shows "polls_left (sleep_until now (fut_state (snd (poll_waiting X now d st f))))
      (fut_state (snd (poll_waiting X now d st f))) < polls_left now (fut_state f)"
proof (cases "poll_timeout X now (fut_id f) (store_recv st (fut_rx f)) d")
  case None
  then have "\<not> d \<le> now" by (auto simp: poll_timeout_def split: cell.splits)
  with None assms show ?thesis by (auto simp: poll_waiting_def sleep_until_def)
next
  case (Some out)
  have "polls_left t (settle out) < 3" for t
    using polls_left_settle [of t out] by linarith
  with Some assms show ?thesis by (auto simp: poll_waiting_def)
qed

lemma fut_poll_decreases:
  assumes "\<not> fut_done_state (fut_state f)"
  shows "polls_left (sleep_until now (fut_state (snd (fut_poll X now st f))))
      (fut_state (snd (fut_poll X now st f))) < polls_left now (fut_state f)"
  using assms poll_waiting_decreases [of f _ now X st]
  by (cases "fut_state f") (auto simp: fut_poll_def sleep_until_def fut_done_state_def)

function await_result ::
  "'e core_ext_scheme \<Rightarrow> nat \<Rightarrow> 'r store \<Rightarrow> future \<Rightarrow> outcome option \<times> nat \<times> 'r store" where
  "await_result X now st f =
     (case fut_state f of
        FDone out \<Rightarrow> (Some out, now, st)
      | FDropped \<Rightarrow> (None, now, st)
      | _ \<Rightarrow>
          let polled = fut_poll X now st f
          in await_result X (sleep_until now (fut_state (snd polled))) (fst polled) (snd polled))"
  by pat_completeness auto

termination
proof (relation "measure (\<lambda>(X, now, st, f). polls_left now (fut_state f))", goal_cases)
  case 1
  show ?case by simp
next
  case (2 X now st f polled)
  then show ?case using fut_poll_decreases [of f now X st] by (simp add: fut_done_state_def case_prod_beta)
next
  case (3 X now st f d polled)
  then show ?case using fut_poll_decreases [of f now X st] by (simp add: fut_done_state_def case_prod_beta)
next
  case (4 X now st f e polled)
  then show ?case using fut_poll_decreases [of f now X st] by (simp add: fut_done_state_def case_prod_beta)
qed

declare await_result.simps [simp del]

lemma await_done: "fut_state f = FDone out \<Longrightarrow> await_result X now st f = (Some out, now, st)"
  by (simp add: await_result.simps [of X now st f])

lemma await_step:
  "\<not> fut_done_state (fut_state f) \<Longrightarrow>
     await_result X now st f =
       await_result X (sleep_until now (fut_state (snd (fut_poll X now st f))))
         (fst (fut_poll X now st f)) (snd (fut_poll X now st f))"
  by (subst await_result.simps) (auto simp: fut_done_state_def Let_def split: fut_state.split)

subsection \<open>The test's request\<close>

record dummy_request =
  dm_id :: uuid
  dm_kind :: string
  dm_created_at :: u64
  dm_message :: string

definition dummy_serialize :: "'e core_ext_scheme \<Rightarrow> dummy_request \<Rightarrow> json" where
  "dummy_serialize X d =
     JObject [(''id'', JString (x_uuid_show X (dm_id d))), (''type'', JString (dm_kind d)),
       (''createdAt'', JNumber (PosInt (dm_created_at d))), (''message'', JString (dm_message d))]"

definition dummy_from_json :: "uuid \<Rightarrow> json \<Rightarrow> string + dummy_request" where
  "dummy_from_json fresh body =
     Inr \<lparr>dm_id = fresh, dm_kind = ''sign_message'', dm_created_at = 0,
          dm_message = unwrap_or (Option.bind (jget body ''message'') as_str) []\<rparr>"

definition dummy_ops :: "'e core_ext_scheme \<Rightarrow> dummy_request request_ops" where
  "dummy_ops X =
     \<lparr>r_id = dm_id, r_url_kind = (\<lambda>d. KSign), r_serialize = dummy_serialize X,
      r_from_json = dummy_from_json, r_check_result = accept_any\<rparr>"

definition TEST_HTML :: string where
  "TEST_HTML = ''<!doctype html><title>test</title>''"

definition dummy_new :: "uuid \<Rightarrow> dummy_request" where
  "dummy_new fresh =
     \<lparr>dm_id = fresh, dm_kind = ''sign_message'', dm_created_at = 0, dm_message = ''hello''\<rparr>"

subsection \<open>The client and the runtime\<close>

type_synonym 'r extra_routes = "http_method \<Rightarrow> string \<Rightarrow> 'r store \<Rightarrow> response option"

type_synonym test_engine = "(dummy_request, dummy_request extra_routes) engine"

definition client ::
  "json axum \<Rightarrow> assets \<Rightarrow> 'e core_ext_scheme \<Rightarrow> test_engine \<Rightarrow> http_method \<Rightarrow> string \<Rightarrow> json \<Rightarrow>
     (response \<times> test_engine) option" where
  "client H A X eng m path b =
     (case eng_server eng of
        None \<Rightarrow> None
      | Some srv \<Rightarrow>
          (case Option.bind (srv_extra srv) (\<lambda>extra. extra m path (eng_store eng)) of
             Some rsp \<Rightarrow> Some (rsp, eng)
           | None \<Rightarrow>
               let answer = bridge_answer H (dummy_ops X)
                     \<lparr>app_index_html = eng_index_html eng, app_assets = A\<rparr> m path b (eng_store eng)
               in Some (snd answer, eng\<lparr>eng_store := fst answer\<rparr>)))"

definition response_json :: "response \<Rightarrow> json option" where
  "response_json rsp = (case rs_body rsp of BJson v \<Rightarrow> Some v | BText s \<Rightarrow> None)"

definition response_text :: "response \<Rightarrow> string option" where
  "response_text rsp = (case rs_body rsp of BText s \<Rightarrow> Some s | BJson v \<Rightarrow> None)"

definition test_start :: "'l net \<Rightarrow> dummy_request extra_routes option \<Rightarrow> (port \<times> test_engine) option" where
  "test_start N extra =
     (case start_with N extra (engine_new TEST_HTML Ephemeral BPrint) of
        (Inr port, eng) \<Rightarrow> Some (port, eng)
      | (Inl e, eng) \<Rightarrow> None)"

definition test_prepare ::
  "'e core_ext_scheme \<Rightarrow> 'l net \<Rightarrow> dummy_request \<Rightarrow> test_engine \<Rightarrow> (prepared \<times> test_engine) option" where
  "test_prepare X N req eng =
     (case prepare X (dummy_ops X) N req eng of
        (Some (Inr p), eng') \<Rightarrow> Some (p, eng')
      | _ \<Rightarrow> None)"

definition await_prepared ::
  "'e core_ext_scheme \<Rightarrow> nat \<Rightarrow> test_engine \<Rightarrow> prepared \<Rightarrow> (outcome \<times> test_engine) option" where
  "await_prepared X now eng p =
     (case await_result X now (eng_store eng) (future_of p) of
        (Some out, t, st) \<Rightarrow> Some (out, eng\<lparr>eng_store := st\<rparr>)
      | (None, t, st) \<Rightarrow> None)"

subsection \<open>The tests\<close>

definition round_trip_success ::
  "json axum \<Rightarrow> assets \<Rightarrow> 'e core_ext_scheme \<Rightarrow> 'l net \<Rightarrow> uuid \<Rightarrow> test_engine option" where
  "round_trip_success H A X N fresh =
     do {
       (port, eng) \<leftarrow> test_start N None;
       let req = dummy_new fresh;
       let i = x_uuid_show X (dm_id req);
       (p, eng) \<leftarrow> test_prepare X N req eng;
       test_assert (p_url p = ''http://127.0.0.1:'' @ port_show port @ ''/sign/'' @ i);
       (rsp, eng) \<leftarrow> client H A X eng GET (''/api/pending/'' @ i) JNull;
       pending \<leftarrow> response_json rsp;
       test_assert (jindex (jindex pending ''request'') ''type'' = JString ''sign_message'');
       test_assert (jindex (jindex pending ''request'') ''message'' = JString ''hello'');
       test_assert (jindex (jindex pending ''request'') ''id'' = JString i);
       (rsp, eng) \<leftarrow> client H A X eng GET ''/api/health'' JNull;
       health \<leftarrow> response_json rsp;
       test_assert (jindex health ''status'' = JString ''ok'');
       test_assert (jindex health ''pendingRequests'' = JNumber (PosInt 1));
       test_assert (jindex health ''version'' = JString (as_version A));
       (rsp, eng) \<leftarrow> client H A X eng POST (''/api/complete/'' @ i)
         (JObject [(''success'', JBool True), (''result'', JString ''0xSIGNATURE'')]);
       test_assert (200 \<le> rs_status rsp \<and> rs_status rsp < 300);
       (out, eng) \<leftarrow> await_prepared X 0 eng p;
       signature \<leftarrow> ok out;
       test_assert (signature = ''0xSIGNATURE'');
       Some (shutdown eng)
     }"

definition round_trip_error_with_code ::
  "json axum \<Rightarrow> assets \<Rightarrow> 'e core_ext_scheme \<Rightarrow> 'l net \<Rightarrow> uuid \<Rightarrow> test_engine option" where
  "round_trip_error_with_code H A X N fresh =
     do {
       (port, eng) \<leftarrow> test_start N None;
       let req = dummy_new fresh;
       (p, eng) \<leftarrow> test_prepare X N req eng;
       (rsp, eng) \<leftarrow> client H A X eng POST (''/api/complete/'' @ x_uuid_show X (dm_id req))
         (JObject [(''success'', JBool False), (''error'', JString ''wrong account''),
           (''code'', JString ''WRONG_WALLET_ADDRESS'')]);
       (out, eng) \<leftarrow> await_prepared X 0 eng p;
       err \<leftarrow> (case out of Inl e \<Rightarrow> Some e | Inr v \<Rightarrow> None);
       test_assert (is_wrong_wallet_address err);
       Some (shutdown eng)
     }"

definition unknown_id_is_404 ::
  "json axum \<Rightarrow> assets \<Rightarrow> 'e core_ext_scheme \<Rightarrow> 'l net \<Rightarrow> uuid \<Rightarrow> uuid \<Rightarrow> test_engine option" where
  "unknown_id_is_404 H A X N fresh fresh' =
     do {
       (port, eng) \<leftarrow> test_start N None;
       (rsp, eng) \<leftarrow> client H A X eng GET (''/api/pending/'' @ x_uuid_show X fresh) JNull;
       test_assert (rs_status rsp = 404);
       (rsp, eng) \<leftarrow> client H A X eng GET (''/sign/'' @ x_uuid_show X fresh') JNull;
       html \<leftarrow> response_text rsp;
       test_assert (sublist ''<title>test</title>'' html);
       Some (shutdown eng)
     }"

definition times_out_and_clears_entry ::
  "'e core_ext_scheme \<Rightarrow> 'l net \<Rightarrow> uuid \<Rightarrow> test_engine option" where
  "times_out_and_clears_entry X N fresh =
     do {
       (port, eng) \<leftarrow> test_start N None;
       (p, eng) \<leftarrow> test_prepare X N (dummy_new fresh) eng;
       (out, eng) \<leftarrow> await_prepared X (5 * 60 + 1) eng p;
       err \<leftarrow> (case out of Inl e \<Rightarrow> Some e | Inr v \<Rightarrow> None);
       test_assert (case err of Timeout t \<Rightarrow> True | _ \<Rightarrow> False);
       Some (shutdown eng)
     }"

definition test_ping :: "dummy_request extra_routes" where
  "test_ping m path st =
     (if path = ''/api/test/ping'' \<and> (m = GET \<or> m = HEAD) then
        Some \<lparr>rs_status = 200, rs_headers = [(''content-type'', ''text/plain; charset=utf-8'')],
          rs_body = BText (''pending='' @ dec (store_len st))\<rparr>
      else None)"

definition start_with_merges_extra_routes ::
  "json axum \<Rightarrow> assets \<Rightarrow> 'e core_ext_scheme \<Rightarrow> 'l net \<Rightarrow> uuid \<Rightarrow> test_engine option" where
  "start_with_merges_extra_routes H A X N fresh =
     do {
       (port, eng) \<leftarrow> test_start N (Some test_ping);
       (rsp, eng) \<leftarrow> client H A X eng GET ''/api/test/ping'' JNull;
       test_assert (response_text rsp = Some ''pending=0'');
       (p, eng) \<leftarrow> test_prepare X N (dummy_new fresh) eng;
       (rsp, eng) \<leftarrow> client H A X eng GET ''/api/test/ping'' JNull;
       test_assert (response_text rsp = Some ''pending=1'');
       (rsp, eng) \<leftarrow> client H A X eng GET ''/api/health'' JNull;
       health \<leftarrow> response_json rsp;
       test_assert (jindex health ''pendingRequests'' = JNumber (PosInt 1));
       let dropped = fut_drop (eng_store eng) (future_of p);
       Some (shutdown (eng\<lparr>eng_store := fst dropped\<rparr>))
     }"

subsection \<open>The tests pass\<close>

text \<open>What a test assumes of its libraries: ids and JSON bodies pass through axum as they are.\<close>

definition test_laws :: "json axum \<Rightarrow> 'e core_ext_scheme \<Rightarrow> bool" where
  "test_laws H X \<longleftrightarrow> bridge_url_laws X \<and>
     (\<forall>i. x_uuid_show X i \<noteq> [] \<and> CHR ''/'' \<notin> set (x_uuid_show X i) \<and>
        ax_path_id H (x_uuid_show X i) = Inr i) \<and>
     (\<forall>v. ax_json H v = Inr v)"

definition test_engine_with :: "port \<Rightarrow> dummy_request extra_routes option \<Rightarrow> dummy_request store \<Rightarrow> test_engine" where
  "test_engine_with port extra st =
     \<lparr>eng_store = st, eng_index_html = TEST_HTML, eng_bind = Ephemeral, eng_browser = BPrint,
      eng_server = Some \<lparr>srv_port = port, srv_extra = extra\<rparr>\<rparr>"

definition one_pending :: "uuid \<Rightarrow> dummy_request store" where
  "one_pending i = \<lparr>st_pending = [(i, \<lparr>e_request = dummy_new i, e_tx = 0\<rparr>)], st_chans = [os_new]\<rparr>"

lemma test_started:
  "bind_listener N Ephemeral = Inr (l, port) \<Longrightarrow>
     test_start N extra = Some (port, test_engine_with port extra store_new)"
  by (simp add: test_start_def start_with_def engine_new_def test_engine_with_def)

lemma test_prepared:
  assumes "bridge_url_laws X" and "port_ok port"
  shows "test_prepare X N (dummy_new i) (test_engine_with port extra store_new) =
    Some (\<lparr>p_id = i, p_url = bridge_url X port i KSign, p_rx = 0\<rparr>, test_engine_with port extra (one_pending i))"
  using assms
  by (simp add: test_prepare_def prepare_def register_def start_def start_with_def test_engine_with_def Let_def
      build_url_eq dummy_ops_def store_create_def store_new_def one_pending_def dummy_new_def
      drop_entry_def)

lemma client_answer:
  "(case extra of None \<Rightarrow> True | Some e \<Rightarrow> e m path st = None) \<Longrightarrow>
     client H A X (test_engine_with port extra st) m path b =
       Some (snd (bridge_answer H (dummy_ops X) \<lparr>app_index_html = TEST_HTML, app_assets = A\<rparr> m path b st),
         test_engine_with port extra
           (fst (bridge_answer H (dummy_ops X) \<lparr>app_index_html = TEST_HTML, app_assets = A\<rparr> m path b st)))"
  by (simp add: client_def test_engine_with_def Let_def split: option.splits)

lemma test_get_pending:
  assumes "test_laws H X"
  shows "client H A X (test_engine_with port None st) GET (''/api/pending/'' @ x_uuid_show X i) b =
    Some (get_pending (dummy_ops X) st i, test_engine_with port None st)"
  using assms
  by (simp add: client_answer bridge_answer_def bridge_route_pending test_laws_def del: append.simps)

lemma test_post_complete:
  assumes "test_laws H X" and "complete_deserialize v = Some req"
  shows "client H A X (test_engine_with port None st) POST (''/api/complete/'' @ x_uuid_show X i) v =
    Some (snd (post_complete st i req), test_engine_with port None (fst (post_complete st i req)))"
  using assms
  by (simp add: client_answer bridge_answer_def bridge_route_complete test_laws_def del: append.simps)

lemma test_health:
  "(case extra of None \<Rightarrow> True | Some e \<Rightarrow> e GET ''/api/health'' st = None) \<Longrightarrow>
     client H A X (test_engine_with port extra st) GET ''/api/health'' b =
       Some (get_health A st, test_engine_with port extra st)"
  by (simp add: client_answer bridge_answer_def bridge_route_def path_id_def strip_prefix_def getting_def)

lemma await_settled:
  assumes "fut_state f = FCreated \<and> d = now + REQUEST_TIMEOUT \<or> fut_state f = FWaiting d"
    and "poll_timeout X now (fut_id f) (store_recv st (fut_rx f)) d = Some out"
  shows "\<exists>t st'. await_result X now st f = (Some out, t, st') \<and> st_pending st' =
    (case out of Inr v \<Rightarrow> st_pending st | Inl e \<Rightarrow> AList.delete (fut_id f) (st_pending st))"
proof -
  let ?st = "store_drop_rx st (fut_rx f)"
  let ?f = "f\<lparr>fut_state := settle out\<rparr>"
  have p: "fut_poll X now st f = (?st, ?f)"
    using assms by (auto simp: fut_poll_def poll_waiting_def)
  have "\<not> fut_done_state (fut_state f)" using assms(1) by (auto simp: fut_done_state_def)
  then have a: "await_result X now st f = await_result X (sleep_until now (fut_state ?f)) ?st ?f"
    using await_step [of f X now st] p by simp
  show ?thesis
  proof (cases out)
    case (Inr v)
    then show ?thesis using a by (simp add: settle_def await_done store_drop_rx_def)
  next
    case (Inl e)
    then have "fut_state ?f = FClosing e" by (simp add: settle_def)
    then have "await_result X t ?st ?f = (Some (Inl e), t, fst (store_cancel ?st (fut_id f)))" for t
      using await_step [of ?f X t ?st]
      by (simp add: fut_done_state_def fut_poll_def sleep_until_def await_done)
    with a Inl show ?thesis
      by (auto simp: store_cancel_def store_drop_rx_def map_of_eq_None_iff split: option.split)
  qed
qed

lemma await_silent:
  assumes "fut_state f = FCreated" and "store_recv st (fut_rx f) = Empty"
  shows "\<exists>t st'. await_result X now st f = (Some (Inl timeout_error), t, st') \<and>
    st_pending st' = AList.delete (fut_id f) (st_pending st)"
proof -
  let ?d = "now + REQUEST_TIMEOUT" and ?f = "f\<lparr>fut_state := FWaiting (now + REQUEST_TIMEOUT)\<rparr>"
  have "fut_poll X now st f = (st, ?f)"
    using assms by (simp add: fut_poll_def poll_waiting_def poll_timeout_def REQUEST_TIMEOUT_def)
  then have "await_result X now st f = await_result X ?d st ?f"
    using await_step [of f X now st] assms(1) by (simp add: fut_done_state_def sleep_until_def)
  then show ?thesis
    using await_settled [of ?f ?d ?d X st "Inl timeout_error"] assms(2) by (simp add: poll_timeout_def)
qed

text \<open>The two awaits of the tests: of an answered request, and of one that nobody answers.\<close>

definition one_answered :: "request_result \<Rightarrow> dummy_request store" where
  "one_answered res = \<lparr>st_pending = [], st_chans = [\<lparr>os_cell = Sent res, os_rx_alive = True\<rparr>]\<rparr>"

lemma post_one_pending:
  "post_complete (one_pending i) i req = (one_answered (result_from_complete req), completed)"
  by (simp add: post_complete_def post_check_def store_has_def one_pending_def post_finish_def
      store_complete_def os_send_def os_put_def os_new_def one_answered_def)

lemma await_prepared_Some:
  assumes "await_result X now st (future_of p) = (Some out, t, st')"
  shows "await_prepared X now (test_engine_with port extra st) p =
    Some (out, test_engine_with port extra st')"
  using assms by (simp add: await_prepared_def test_engine_with_def)

lemma await_one_answered:
  "\<exists>st'. await_prepared X now (test_engine_with port extra (one_answered res)) \<lparr>p_id = i, p_url = url, p_rx = 0\<rparr> =
     Some (map_result res, test_engine_with port extra st') \<and> store_len st' = 0"
proof -
  let ?p = "\<lparr>p_id = i, p_url = url, p_rx = 0\<rparr>"
  have "fut_state (future_of ?p) = FCreated"
    "store_recv (one_answered res) (fut_rx (future_of ?p)) = Sent res"
    by (simp_all add: future_of_def store_recv_def one_answered_def os_recv_def)
  then obtain t st' where "await_result X now (one_answered res) (future_of ?p) = (Some (map_result res), t, st')"
      "st_pending st' = (case map_result res of Inr v \<Rightarrow> st_pending (one_answered res)
        | Inl e \<Rightarrow> AList.delete (fut_id (future_of ?p)) (st_pending (one_answered res)))"
    using await_settled [of "future_of ?p" _ now X "one_answered res" "map_result res"]
    by (auto simp: poll_timeout_def)
  moreover from this(2) have "store_len st' = 0"
    by (cases "map_result res") (simp_all add: store_len_def one_answered_def)
  ultimately show ?thesis using await_prepared_Some by blast
qed

lemma await_one_pending:
  "\<exists>st'. await_prepared X now (test_engine_with port extra (one_pending i)) \<lparr>p_id = i, p_url = url, p_rx = 0\<rparr> =
     Some (Inl timeout_error, test_engine_with port extra st') \<and> store_len st' = 0"
proof -
  let ?p = "\<lparr>p_id = i, p_url = url, p_rx = 0\<rparr>"
  have "fut_state (future_of ?p) = FCreated" "store_recv (one_pending i) (fut_rx (future_of ?p)) = Empty"
    by (simp_all add: future_of_def store_recv_def one_pending_def os_recv_def os_new_def)
  then obtain t st' where "await_result X now (one_pending i) (future_of ?p) = (Some (Inl timeout_error), t, st')"
      "st_pending st' = AList.delete (fut_id (future_of ?p)) (st_pending (one_pending i))"
    using await_silent by blast
  moreover from this(2) have "store_len st' = 0"
    by (simp add: store_len_def one_pending_def future_of_def)
  ultimately show ?thesis using await_prepared_Some by blast
qed

lemma completed_ok: "200 \<le> rs_status completed \<and> rs_status completed < 300"
  by (simp add: completed_def json_response_def)

lemma pending_page:
  "response_json (get_pending (dummy_ops X) (one_pending i) i) =
     Some (pending_response (dummy_serialize X (dummy_new i)))"
  by (simp add: get_pending_def store_get_def one_pending_def response_json_def json_response_def dummy_ops_def)

lemma health_page:
  "response_json (get_health A st) =
     Some (JObject [(''status'', JString ''ok''),
       (''pendingRequests'', JNumber (PosInt (of_nat (store_len st)))), (''version'', JString (as_version A))])"
  by (simp add: get_health_def response_json_def json_response_def)

lemma page_fields:
  "jindex (jindex (pending_response (dummy_serialize X (dummy_new i))) ''request'') ''type'' =
     JString ''sign_message''"
  "jindex (jindex (pending_response (dummy_serialize X (dummy_new i))) ''request'') ''message'' = JString ''hello''"
  "jindex (jindex (pending_response (dummy_serialize X (dummy_new i))) ''request'') ''id'' =
     JString (x_uuid_show X i)"
  by (simp_all add: jindex_def pending_response_def dummy_serialize_def dummy_new_def)

lemma health_fields:
  "jindex (JObject [(''status'', JString s), (''pendingRequests'', n), (''version'', v)]) ''status'' = JString s"
  "jindex (JObject [(''status'', JString s), (''pendingRequests'', n), (''version'', v)]) ''pendingRequests'' = n"
  "jindex (JObject [(''status'', JString s), (''pendingRequests'', n), (''version'', v)]) ''version'' = v"
  by (simp_all add: jindex_def)

lemma complete_success_body:
  "complete_deserialize (JObject [(''success'', JBool True), (''result'', JString v)]) =
     Some \<lparr>car_success = True, car_result = Some v, car_error = None, car_code = None\<rparr>"
  by (simp add: complete_deserialize_def de_arity_def de_field_def)

lemma complete_error_body:
  "complete_deserialize
     (JObject [(''success'', JBool False), (''error'', JString e), (''code'', JString c)]) =
     Some \<lparr>car_success = False, car_result = None, car_error = Some e, car_code = Some c\<rparr>"
  by (simp add: complete_deserialize_def de_arity_def de_field_def)

text \<open>A test that passes, with what it leaves: the server stopped, \<open>n\<close> requests in the store.\<close>

definition passes :: "nat \<Rightarrow> test_engine option \<Rightarrow> bool" where
  "passes n test \<longleftrightarrow> (\<exists>eng. test = Some eng \<and> eng_server eng = None \<and> store_len (eng_store eng) = n)"

lemma passes_shutdown: "store_len st = n \<Longrightarrow> passes n (Some (shutdown (test_engine_with port extra st)))"
  by (simp add: passes_def shutdown_def test_engine_with_def)

lemma round_trip_success_passes:
  assumes laws: "test_laws H X" and bind: "bind_listener N Ephemeral = Inr (l, port)"
    and other: "port \<noteq> Port 80"
  shows "passes 0 (round_trip_success H A X N i)"
proof -
  have port: "port_ok port" using bind bind_listener_ok(1) by (metis bind_port.distinct(1))
  have url: "bridge_url_laws X" using laws by (simp add: test_laws_def)
  have len: "store_len (one_pending i) = 1" by (simp add: store_len_def one_pending_def)
  let ?req = "\<lparr>car_success = True, car_result = Some ''0xSIGNATURE'', car_error = None, car_code = None\<rparr>"
  let ?res = "RSuccess ''0xSIGNATURE''"
  have res: "result_from_complete ?req = ?res" by (simp add: result_from_complete_def)
  obtain st' where st: "await_prepared X 0 (test_engine_with port None (one_answered ?res))
        \<lparr>p_id = i, p_url = bridge_url X port i KSign, p_rx = 0\<rparr> =
      Some (map_result ?res, test_engine_with port None st')" "store_len st' = 0"
    using await_one_answered by blast
  have page: "bridge_url X port i KSign = ''http://127.0.0.1:'' @ port_show port @ ''/sign/'' @ x_uuid_show X i"
    by (simp add: bridge_url_other_port [OF other] url_text_def url_segment_def)
  have sig: "ok (map_result ?res) = Some ''0xSIGNATURE''" by (simp add: map_result_def)
  have id: "dm_id (dummy_new i) = i" by (simp add: dummy_new_def)
  show ?thesis
    unfolding round_trip_success_def Let_def id
    by (simp add: test_started [OF bind] test_prepared [OF url port] test_get_pending [OF laws] pending_page
        test_health health_page len test_post_complete [OF laws complete_success_body] post_one_pending st [unfolded page]
        res page_fields health_fields page sig completed_ok passes_shutdown
        del: append.simps)
qed

lemma round_trip_error_passes:
  assumes laws: "test_laws H X" and bind: "bind_listener N Ephemeral = Inr (l, port)"
  shows "passes 0 (round_trip_error_with_code H A X N i)"
proof -
  have port: "port_ok port" using bind bind_listener_ok(1) by (metis bind_port.distinct(1))
  have url: "bridge_url_laws X" using laws by (simp add: test_laws_def)
  let ?req = "\<lparr>car_success = False, car_result = None, car_error = Some ''wrong account'',
    car_code = Some ''WRONG_WALLET_ADDRESS''\<rparr>"
  let ?res = "RError ''wrong account'' (Some ''WRONG_WALLET_ADDRESS'')"
  have res: "result_from_complete ?req = ?res" by (simp add: result_from_complete_def)
  obtain st' where st: "await_prepared X 0 (test_engine_with port None (one_answered ?res))
        \<lparr>p_id = i, p_url = bridge_url X port i KSign, p_rx = 0\<rparr> =
      Some (map_result ?res, test_engine_with port None st')" "store_len st' = 0"
    using await_one_answered by blast
  have err: "map_result ?res = Inl (Rejected ''wrong account'' (Some ''WRONG_WALLET_ADDRESS''))"
    "is_wrong_wallet_address (Rejected ''wrong account'' (Some ''WRONG_WALLET_ADDRESS''))"
    by (simp_all add: map_result_def is_wrong_wallet_address_iff WRONG_WALLET_ADDRESS_def)
  have id: "dm_id (dummy_new i) = i" by (simp add: dummy_new_def)
  show ?thesis
    unfolding round_trip_error_with_code_def Let_def id
    by (simp add: test_started [OF bind] test_prepared [OF url port]
        test_post_complete [OF laws complete_error_body] post_one_pending res st err WRONG_WALLET_ADDRESS_def
        passes_shutdown
        del: append.simps)
qed

lemma unknown_id_passes:
  assumes laws: "test_laws H X" and bind: "bind_listener N Ephemeral = Inr (l, port)"
  shows "passes 0 (unknown_id_is_404 H A X N i j)"
proof -
  have none: "get_pending (dummy_ops X) store_new i = not_found"
    by (simp add: get_pending_def store_get_def store_new_def)
  have index: "client H A X (test_engine_with port None st) GET (''/sign/'' @ s) b =
      Some (serve_index TEST_HTML, test_engine_with port None st)" for s st b
    by (simp add: client_answer bridge_answer_def bridge_route_def path_id_def strip_prefix_def)
  have "TEST_HTML = ''<!doctype html>'' @ ''<title>test</title>''" by (simp add: TEST_HTML_def)
  then have title: "sublist ''<title>test</title>'' TEST_HTML" by (metis sublist_append_leftI)
  have html: "response_text (serve_index TEST_HTML) = Some TEST_HTML"
    by (simp add: response_text_def serve_index_def file_response_def)
  have s404: "rs_status not_found = 404"
    by (simp add: not_found_def json_error_def json_response_def)
  have empty: "store_len (store_new :: dummy_request store) = 0" by (simp add: store_len_def store_new_def)
  show ?thesis
    unfolding unknown_id_is_404_def
    by (simp add: test_started [OF bind] test_get_pending [OF laws] none s404 index html title passes_shutdown
        empty del: append.simps)
qed

lemma times_out_passes:
  assumes url: "bridge_url_laws X" and bind: "bind_listener N Ephemeral = Inr (l, port)"
  shows "passes 0 (times_out_and_clears_entry X N i)"
proof -
  have port: "port_ok port" using bind bind_listener_ok(1) by (metis bind_port.distinct(1))
  obtain st' where st: "await_prepared X (5 * 60 + 1) (test_engine_with port None (one_pending i))
        \<lparr>p_id = i, p_url = bridge_url X port i KSign, p_rx = 0\<rparr> =
      Some (Inl timeout_error, test_engine_with port None st')" "store_len st' = 0"
    using await_one_pending by blast
  show ?thesis
    unfolding times_out_and_clears_entry_def
    using st by (simp add: test_started [OF bind] test_prepared [OF url port] timeout_error_def passes_shutdown)
qed

lemma ping:
  "path = ''/api/test/ping'' \<Longrightarrow>
     client H A X (test_engine_with port (Some test_ping) st) GET path b =
       Some (\<lparr>rs_status = 200, rs_headers = [(''content-type'', ''text/plain; charset=utf-8'')],
           rs_body = BText (''pending='' @ dec (store_len st))\<rparr>, test_engine_with port (Some test_ping) st)"
  by (simp add: client_def test_engine_with_def test_ping_def)

lemma start_with_merges_passes:
  assumes laws: "test_laws H X" and bind: "bind_listener N Ephemeral = Inr (l, port)"
  shows "passes 1 (start_with_merges_extra_routes H A X N i)"
proof -
  have port: "port_ok port" using bind bind_listener_ok(1) by (metis bind_port.distinct(1))
  have url: "bridge_url_laws X" using laws by (simp add: test_laws_def)
  have len: "store_len (one_pending i) = 1" "store_len (store_new :: dummy_request store) = 0"
    by (simp_all add: store_len_def one_pending_def store_new_def)
  have digits: "dec 0 = ''0''" "dec (Suc 0) = ''1''" by code_simp+
  have health: "client H A X (test_engine_with port (Some test_ping) st) GET ''/api/health'' b =
      Some (get_health A st, test_engine_with port (Some test_ping) st)" for st b
    by (rule test_health) (simp add: test_ping_def)
  have drop: "eng\<lparr>eng_store := st'\<rparr> = test_engine_with port (Some test_ping) st'"
    if "eng = test_engine_with port (Some test_ping) st" for eng st st'
    using that by (simp add: test_engine_with_def)
  have left: "store_len (fst (fut_drop (one_pending i) (future_of p))) = 1" for p
    by (simp add: fut_drop_def future_of_def store_drop_rx_def store_len_def one_pending_def)
  have stores: "eng_store (test_engine_with port (Some test_ping) st) = st" for st
    by (simp add: test_engine_with_def)
  show ?thesis
    unfolding start_with_merges_extra_routes_def Let_def
    by (simp add: test_started [OF bind] ping len digits response_text_def test_prepared [OF url port] health
        health_page health_fields stores drop [OF refl] left passes_shutdown)
qed

end
