(* ===== verification/Roundtrip_Properties.thy ===== *)
theory Roundtrip_Properties
  imports Http_Roundtrip Core_Properties Broker
begin

section \<open>Awaiting a result, and the integration tests\<close>

text \<open>
  An await with nobody else at work ends within the timeout, and the five tests of
  \<open>tests/http_roundtrip.rs\<close> pass on the model, with what they leave behind.
\<close>

subsection \<open>An await ends\<close>

definition await_deadline :: "nat \<Rightarrow> fut_state \<Rightarrow> nat" where
  "await_deadline now s = (case s of FCreated \<Rightarrow> now + 300 | FWaiting d \<Rightarrow> max now d | _ \<Rightarrow> now)"

lemma await_deadline_poll:
  "let s = fut_state (snd (fut_poll X now st f))
   in now \<le> sleep_until now s \<and> await_deadline (sleep_until now s) s \<le> await_deadline now (fut_state f)"
  by (auto simp: fut_poll_def poll_waiting_def settle_def sleep_until_def await_deadline_def
      REQUEST_TIMEOUT_def split: fut_state.splits option.splits sum.splits)

text \<open>
  C17: Awaiting a request's result ends. With no wallet and no other task at work, polling the future,
  sleeping until the deadline it waits for and polling again returns an outcome, and by then at most 300
  seconds have passed since the await began, or what was left of an earlier deadline.
\<close>

theorem await_returns:
  assumes "fut_state f \<noteq> FDropped"
  shows "\<exists>out t st'. await_result X now st f = (Some out, t, st') \<and> now \<le> t \<and>
    t \<le> (case fut_state f of FCreated \<Rightarrow> now + 300 | FWaiting d \<Rightarrow> max now d | _ \<Rightarrow> now)"
proof -
  have "\<exists>out t st'. await_result X now st f = (Some out, t, st') \<and> now \<le> t \<and>
      t \<le> await_deadline now (fut_state f)"
    using assms
  proof (induction "polls_left now (fut_state f)" arbitrary: now st f rule: less_induct)
    case less
    show ?case
    proof (cases "fut_done_state (fut_state f)")
      case True
      with less.prems obtain out where "fut_state f = FDone out"
        by (auto simp: fut_done_state_def split: fut_state.splits)
      then show ?thesis by (simp add: await_done await_deadline_def)
    next
      case False
      let ?sf = "fut_poll X now st f"
      let ?t = "sleep_until now (fut_state (snd ?sf))"
      obtain out t st' where r: "await_result X ?t (fst ?sf) (snd ?sf) = (Some out, t, st')" "?t \<le> t"
          "t \<le> await_deadline ?t (fut_state (snd ?sf))"
        using less.hyps [OF fut_poll_decreases [OF False] fut_poll_keeps_live [OF less.prems]] by blast
      have "now \<le> ?t" "await_deadline ?t (fut_state (snd ?sf)) \<le> await_deadline now (fut_state f)"
        using await_deadline_poll [of X now st f] by (simp_all add: Let_def)
      with r(2,3) have "now \<le> t" "t \<le> await_deadline now (fut_state f)" by linarith+
      moreover have "await_result X now st f = (Some out, t, st')"
        using await_step [OF False, of X now st] r(1) by simp
      ultimately show ?thesis by blast
    qed
  qed
  then show ?thesis by (simp add: await_deadline_def)
qed

theorem await_returns_witness:
  "\<exists>out t st'. await_result ref_evm 5 (br_store demo_waiting) (br_futs demo_waiting ! 0) = (Some out, t, st') \<and>
     t \<le> 305"
  using await_returns [of "br_futs demo_waiting ! 0" ref_evm 5 "br_store demo_waiting"]
  by (auto simp: demo_states)

subsection \<open>The integration tests pass\<close>

text \<open>
  C32: The bridge's integration tests pass. On every machine with a free port, and with ids and JSON bodies
  that go through axum unchanged, the five tests of \<open>http_roundtrip.rs\<close> pass. The first four leave an empty
  store, the one that times out included; the last leaves the request whose future it drops. The port the
  system hands out must not be 80, since \<open>Url::parse\<close> drops that one from the text which the first test
  compares.
\<close>

theorem integration_tests_pass:
  assumes "test_laws H X" and "bind_listener N Ephemeral = Inr (l, port)" and "port \<noteq> Port 80"
  shows "passes 0 (round_trip_success H A X N i) \<and> passes 0 (round_trip_error_with_code H A X N i) \<and>
    passes 0 (unknown_id_is_404 H A X N i j) \<and> passes 0 (times_out_and_clears_entry X N i) \<and>
    passes 1 (start_with_merges_extra_routes H A X N i)"
proof -
  have "bridge_url_laws X" using assms(1) by (simp add: test_laws_def)
  then show ?thesis
    using round_trip_success_passes [OF assms] round_trip_error_passes [OF assms(1,2)] unknown_id_passes [OF assms(1,2)]
      times_out_passes [OF _ assms(2)] start_with_merges_passes [OF assms(1,2)]
    by blast
qed

lemma show_word_no_slash: "show_word w \<noteq> [] \<and> CHR ''/'' \<notin> set (show_word w)"
  using all_digits_dec [of "unat w"] dec_nonempty [of "unat w"]
  by (auto simp: show_word_def all_digits_def list_all_iff digit_of_def)

theorem integration_tests_pass_witness:
  "passes 0 (round_trip_success ref_axum \<lparr>as_core_js = [], as_core_css = [], as_version = ''v1''\<rparr> ref_core ref_net 7) \<and>
   passes 0 (times_out_and_clears_entry ref_core ref_net 7)"
proof -
  have "test_laws ref_axum ref_core"
    using ref_url_laws(1)
    by (simp add: test_laws_def ref_axum_def ref_core_def [THEN arg_cong [of _ _ x_uuid_show]] show_word_no_slash)
  moreover have "bind_listener ref_net Ephemeral = Inr (0, Port 40000)"
    by (simp add: bind_listener_def bind_ephemeral_def ref_net_def port_try_new_def)
  ultimately show ?thesis
    using integration_tests_pass [of ref_axum ref_core ref_net 0 "Port 40000"] by simp
qed

end
