(* ===== verification/Tasks.thy ===== *)
theory Tasks
  imports Broker
begin

section \<open>Callers of the bridge at work\<close>

text \<open>
  Whoever asks a wallet for something runs the same course: build a request or refuse, start the bridge,
  register the request, await its future, and make a value of the outcome (\<open>Engine::submit\<close> and what its
  callers put around it). A \<open>client\<close> is what differs between callers; a task is one call. Tasks run
  concurrently over one bridge, and a step is what a task does between two points where another can run:
  it builds its request and starts the bridge; it registers the request, with the port it was given (the
  bridge may have been shut down in between), and opens its approval URL as the engine is told to; it
  returns, when its future is done; its caller drops it, and with it the future. Nothing else registers a
  request, drops a future or opens a URL, so the bridge's own steps are the quiet ones. The state keeps the
  URLs that were opened, in order. The invariant ties every waiting
  task to a future of its own request, no two tasks to one future, every value to an outcome of such a
  future, and every request the bridge serves to a task.
\<close>

subsection \<open>State and steps\<close>

record ('b, 'r, 'v) client =
  cl_request :: "uuid \<Rightarrow> 'b \<Rightarrow> 'v + 'r"
  cl_return :: "'b \<Rightarrow> 'r \<Rightarrow> outcome \<Rightarrow> 'v"

datatype ('r, 'v) task_phase =
    TStarted 'r port
  | TWaiting 'r nat
  | TReturned "'r option" 'v
  | TDropped

record ('b, 'r, 'v) task =
  tk_id :: uuid
  tk_input :: 'b
  tk_phase :: "('r, 'v) task_phase"

record ('b, 'r, 'v, 'x) system =
  sy_bridge :: "('r, 'x) bridge"
  sy_tasks :: "('b, 'r, 'v) task list"
  sy_opened :: "url list"

definition add_task ::
  "uuid \<Rightarrow> 'b \<Rightarrow> ('r, 'v) task_phase \<Rightarrow> ('r, 'x) engine \<Rightarrow> ('b, 'r, 'v, 'x) system \<Rightarrow> ('b, 'r, 'v, 'x) system" where
  "add_task fresh input ph eng s =
     s\<lparr>sy_bridge := (sy_bridge s)\<lparr>br_engine := eng\<rparr>,
       sy_tasks := sy_tasks s @ [\<lparr>tk_id = fresh, tk_input = input, tk_phase = ph\<rparr>]\<rparr>"

definition set_phase :: "nat \<Rightarrow> ('r, 'v) task_phase \<Rightarrow> ('b, 'r, 'v, 'x) system \<Rightarrow> ('b, 'r, 'v, 'x) system" where
  "set_phase n ph s = s\<lparr>sy_tasks := (sy_tasks s)[n := (sy_tasks s ! n)\<lparr>tk_phase := ph\<rparr>]\<rparr>"

definition task_begin ::
  "('b, 'r, 'v) client \<Rightarrow> nat net \<Rightarrow> uuid \<Rightarrow> 'b \<Rightarrow> ('b, 'r, 'v, 'x) system \<Rightarrow> ('b, 'r, 'v, 'x) system" where
  "task_begin C N fresh input s =
     (case cl_request C fresh input of
        Inl v \<Rightarrow> add_task fresh input (TReturned None v) (br_engine (sy_bridge s)) s
      | Inr req \<Rightarrow>
          (case start N (br_engine (sy_bridge s)) of
             (Inl e, eng) \<Rightarrow> add_task fresh input (TReturned (Some req) (cl_return C input req (Inl e))) eng s
           | (Inr port, eng) \<Rightarrow> add_task fresh input (TStarted req port) eng s))"

text \<open>\<open>None\<close> is the panic of \<open>prepare\<close>.\<close>

definition task_register ::
  "'e core_ext_scheme \<Rightarrow> ('r, 'y) request_ops_scheme \<Rightarrow> nat \<Rightarrow> ('b, 'r, 'v, 'x) system \<Rightarrow>
     ('b, 'r, 'v, 'x) system option" where
  "task_register X R n s =
     (let b = sy_bridge s
      in case tk_phase (sy_tasks s ! n) of
           TStarted req port \<Rightarrow>
             (case register X R port req (br_store b) of
                (None, st) \<Rightarrow> None
              | (Some p, st) \<Rightarrow>
                  Some ((set_phase n (TWaiting req (length (br_futs b)))
                    (s\<lparr>sy_bridge := (put_store st b)\<lparr>br_futs := br_futs b @ [future_of p]\<rparr>\<rparr>))
                      \<lparr>sy_opened := sy_opened s @ engine_open (br_engine b) (p_url p)\<rparr>))
         | _ \<Rightarrow> Some s)"

definition task_finish :: "('b, 'r, 'v) client \<Rightarrow> nat \<Rightarrow> ('b, 'r, 'v, 'x) system \<Rightarrow> ('b, 'r, 'v, 'x) system" where
  "task_finish C n s =
     (case tk_phase (sy_tasks s ! n) of
        TWaiting req k \<Rightarrow>
          (case fut_state (br_futs (sy_bridge s) ! k) of
             FDone out \<Rightarrow> set_phase n (TReturned (Some req) (cl_return C (tk_input (sy_tasks s ! n)) req out)) s
           | _ \<Rightarrow> s)
      | _ \<Rightarrow> s)"

definition task_drop :: "nat \<Rightarrow> ('b, 'r, 'v, 'x) system \<Rightarrow> ('b, 'r, 'v, 'x) system" where
  "task_drop n s =
     (case tk_phase (sy_tasks s ! n) of
        TWaiting req k \<Rightarrow> set_phase n TDropped (s\<lparr>sy_bridge := drop_step k (sy_bridge s)\<rparr>)
      | _ \<Rightarrow> s)"

definition system_init :: "('r, 'x) engine \<Rightarrow> ('b, 'r, 'v, 'x) system" where
  "system_init eng = \<lparr>sy_bridge = bridge_init eng, sy_tasks = [], sy_opened = []\<rparr>"

inductive system_step ::
  "'e core_ext_scheme \<Rightarrow> ('r, 'y) request_ops_scheme \<Rightarrow> ('b, 'r, 'v) client \<Rightarrow> ('b, 'r, 'v, 'x) system \<Rightarrow>
     ('b, 'r, 'v, 'x) system \<Rightarrow> bool" for X R C where
  begins: "system_step X R C s (task_begin C N fresh input s)"
| registers: "n < length (sy_tasks s) \<Longrightarrow> task_register X R n s = Some s' \<Longrightarrow> system_step X R C s s'"
| finishes: "n < length (sy_tasks s) \<Longrightarrow> system_step X R C s (task_finish C n s)"
| dropped: "n < length (sy_tasks s) \<Longrightarrow> system_step X R C s (task_drop n s)"
| bridge: "quiet_step X R (sy_bridge s) b' \<Longrightarrow> system_step X R C s (s\<lparr>sy_bridge := b'\<rparr>)"

inductive system_reachable ::
  "'e core_ext_scheme \<Rightarrow> ('r, 'y) request_ops_scheme \<Rightarrow> ('b, 'r, 'v) client \<Rightarrow> ('b, 'r, 'v, 'x) system \<Rightarrow> bool"
  for X R C where
  init: "system_reachable X R C (system_init (engine_new web_ui bind browser))"
| step: "system_reachable X R C s \<Longrightarrow> system_step X R C s s' \<Longrightarrow> system_reachable X R C s'"

text \<open>A call on its own: what the source's function gives when its await gives \<open>submit req\<close>.\<close>

definition client_call ::
  "('b, 'r, 'v) client \<Rightarrow> ('r \<Rightarrow> outcome) \<Rightarrow> uuid \<Rightarrow> 'b \<Rightarrow> 'v \<times> 'r option" where
  "client_call C submit fresh input =
     (case cl_request C fresh input of
        Inl v \<Rightarrow> (v, None)
      | Inr req \<Rightarrow> (cl_return C input req (submit req), Some req))"

subsection \<open>The invariant\<close>

definition task_ok ::
  "('r, 'y) request_ops_scheme \<Rightarrow> ('b, 'r, 'v) client \<Rightarrow> (uuid \<times> outcome option) list \<Rightarrow> ('b, 'r, 'v) task \<Rightarrow> bool" where
  "task_ok R C outs t \<longleftrightarrow>
     (case tk_phase t of
        TStarted req port \<Rightarrow> cl_request C (tk_id t) (tk_input t) = Inr req
      | TWaiting req k \<Rightarrow>
          cl_request C (tk_id t) (tk_input t) = Inr req \<and> k < length outs \<and> fst (outs ! k) = r_id R req
      | TReturned None v \<Rightarrow> cl_request C (tk_id t) (tk_input t) = Inl v
      | TReturned (Some req) v \<Rightarrow>
          cl_request C (tk_id t) (tk_input t) = Inr req \<and>
          (\<exists>out. v = cl_return C (tk_input t) req out \<and>
             ((\<exists>e. out = Inl (Http e)) \<or> (r_id R req, Some out) \<in> set outs))
      | TDropped \<Rightarrow> True)"

definition outs_grow :: "(uuid \<times> outcome option) list \<Rightarrow> (uuid \<times> outcome option) list \<Rightarrow> bool" where
  "outs_grow outs outs' \<longleftrightarrow>
     length outs \<le> length outs' \<and>
     (\<forall>k < length outs. fst (outs' ! k) = fst (outs ! k) \<and>
        (snd (outs ! k) \<noteq> None \<longrightarrow> snd (outs' ! k) = snd (outs ! k)))"

lemma outs_grow_refl [simp]: "outs_grow outs outs"
  by (simp add: outs_grow_def)

lemma outs_grow_broker: "broker_step X R s s' \<Longrightarrow> outs_grow (bk_outcomes s) (bk_outcomes s')"
  by (erule broker_stepE) (auto simp: outs_grow_def nth_append nth_list_update)

lemma outs_grow_mem:
  assumes "outs_grow outs outs'" and "(i, Some out) \<in> set outs"
  shows "(i, Some out) \<in> set outs'"
proof -
  obtain k where k: "k < length outs" "outs ! k = (i, Some out)"
    using assms(2) by (auto simp: in_set_conv_nth)
  then have "outs' ! k = (i, Some out)" "k < length outs'"
    using assms(1) by (auto simp: outs_grow_def prod_eq_iff)
  then show ?thesis using nth_mem by metis
qed

lemma task_ok_grow:
  assumes "task_ok R C outs t" and "outs_grow outs outs'"
  shows "task_ok R C outs' t"
  using assms outs_grow_mem [OF assms(2)]
  by (fastforce simp: task_ok_def outs_grow_def split: task_phase.splits option.splits)

lemma outs_grow_bridge:
  assumes "bridge_step X R b b'" and "bridge_reachable X R b"
  shows "outs_grow (bk_outcomes (broker_of b)) (bk_outcomes (broker_of b'))"
  using bridge_step_refines [OF assms(1) bridge_reachable_inv [OF assms(2)]] outs_grow_broker
  by (metis outs_grow_refl)

definition system_outs :: "('b, 'r, 'v, 'x) system \<Rightarrow> (uuid \<times> outcome option) list" where
  "system_outs s = bk_outcomes (broker_of (sy_bridge s))"

definition tasks_ok :: "('r, 'y) request_ops_scheme \<Rightarrow> ('b, 'r, 'v) client \<Rightarrow> ('b, 'r, 'v, 'x) system \<Rightarrow> bool" where
  "tasks_ok R C s \<longleftrightarrow> (\<forall>t \<in> set (sy_tasks s). task_ok R C (system_outs s) t)"

definition waits :: "('b, 'r, 'v, 'x) system \<Rightarrow> nat \<Rightarrow> nat \<Rightarrow> bool" where
  "waits s n k \<longleftrightarrow> n < length (sy_tasks s) \<and> (\<exists>req. tk_phase (sy_tasks s ! n) = TWaiting req k)"

definition waits_ok :: "('b, 'r, 'v, 'x) system \<Rightarrow> bool" where
  "waits_ok s \<longleftrightarrow>
     (\<forall>n k. waits s n k \<longrightarrow> k < length (br_futs (sy_bridge s)) \<and>
        fut_state (br_futs (sy_bridge s) ! k) \<noteq> FDropped \<and> (\<forall>m. waits s m k \<longrightarrow> m = n))"

definition served_ok :: "('b, 'r, 'v) client \<Rightarrow> ('b, 'r, 'v, 'x) system \<Rightarrow> bool" where
  "served_ok C s \<longleftrightarrow>
     (\<forall>i r. store_get (br_store (sy_bridge s)) i = Some r \<longrightarrow>
        (\<exists>t \<in> set (sy_tasks s). cl_request C (tk_id t) (tk_input t) = Inr r))"

definition system_ok :: "('r, 'y) request_ops_scheme \<Rightarrow> ('b, 'r, 'v) client \<Rightarrow> ('b, 'r, 'v, 'x) system \<Rightarrow> bool" where
  "system_ok R C s \<longleftrightarrow> tasks_ok R C s \<and> waits_ok s \<and> served_ok C s"

end
