(* ===== verification/Task_Invariant.thy ===== *)
theory Task_Invariant
  imports Tasks
begin

section \<open>The invariant of the callers\<close>

text \<open>
  Every step keeps \<open>system_ok\<close>, one lemma per step; then what follows for a caller, first for any client,
  then in the contract \<open>bridge_client\<close>, whose one law is that a client builds its request under the id it
  was given; and that a waiting task can always be brought to its return.
\<close>

subsection \<open>Fields\<close>

lemma set_phase_simps [simp]:
  "sy_bridge (set_phase n ph s) = sy_bridge s"
  "sy_tasks (set_phase n ph s) = (sy_tasks s)[n := (sy_tasks s ! n)\<lparr>tk_phase := ph\<rparr>]"
  "sy_opened (set_phase n ph s) = sy_opened s"
  by (simp_all add: set_phase_def)

lemma add_task_simps [simp]:
  "sy_bridge (add_task fresh input ph eng s) = (sy_bridge s)\<lparr>br_engine := eng\<rparr>"
  "sy_tasks (add_task fresh input ph eng s) = sy_tasks s @ [\<lparr>tk_id = fresh, tk_input = input, tk_phase = ph\<rparr>]"
  "sy_opened (add_task fresh input ph eng s) = sy_opened s"
  by (simp_all add: add_task_def)

lemma waits_bridge [simp]: "waits (s\<lparr>sy_bridge := b\<rparr>) n k \<longleftrightarrow> waits s n k"
  by (simp add: waits_def)

lemma waits_set_phase:
  "n < length (sy_tasks s) \<Longrightarrow> waits (set_phase n ph s) m k \<longleftrightarrow>
     (if m = n then \<exists>req. ph = TWaiting req k else waits s m k)"
  by (auto simp: waits_def)

lemma waits_add_task:
  "\<forall>req k. ph \<noteq> TWaiting req k \<Longrightarrow> waits (add_task fresh input ph eng s) n k \<Longrightarrow> waits s n k"
  by (auto simp: waits_def nth_append less_Suc_eq)

lemma system_outs_opened [simp]: "system_outs (s\<lparr>sy_opened := us\<rparr>) = system_outs s"
  by (simp add: system_outs_def)

lemma system_ok_opened [simp]: "system_ok R C (s\<lparr>sy_opened := us\<rparr>) = system_ok R C s"
  by (simp add: system_ok_def tasks_ok_def waits_ok_def waits_def served_ok_def)

lemma system_outs_bridge [simp]: "system_outs (s\<lparr>sy_bridge := b\<rparr>) = bk_outcomes (broker_of b)"
  by (simp add: system_outs_def)

subsection \<open>Fewer waits, fewer requests served\<close>

lemma waits_ok_fewer:
  assumes "waits_ok s" and "\<And>n k. waits s' n k \<Longrightarrow> waits s n k"
    and "length (br_futs (sy_bridge s)) \<le> length (br_futs (sy_bridge s'))"
    and "\<And>n k. waits s' n k \<Longrightarrow> k < length (br_futs (sy_bridge s)) \<Longrightarrow>
      fut_state (br_futs (sy_bridge s) ! k) \<noteq> FDropped \<Longrightarrow> fut_state (br_futs (sy_bridge s') ! k) \<noteq> FDropped"
  shows "waits_ok s'"
  unfolding waits_ok_def
proof (intro allI impI)
  fix n k
  assume w: "waits s' n k"
  have k: "k < length (br_futs (sy_bridge s))" "fut_state (br_futs (sy_bridge s) ! k) \<noteq> FDropped"
      "\<forall>m. waits s m k \<longrightarrow> m = n"
    using assms(1,2) w unfolding waits_ok_def by blast+
  then have "fut_state (br_futs (sy_bridge s') ! k) \<noteq> FDropped" using assms(4) w by blast
  with k assms(2,3) show "k < length (br_futs (sy_bridge s')) \<and>
      fut_state (br_futs (sy_bridge s') ! k) \<noteq> FDropped \<and> (\<forall>m. waits s' m k \<longrightarrow> m = n)"
    by auto
qed

text \<open>The tasks of a system, by what they were called with.\<close>

definition called :: "('b, 'r, 'v, 'x) system \<Rightarrow> (uuid \<times> 'b) set" where
  "called s = (\<lambda>t. (tk_id t, tk_input t)) ` set (sy_tasks s)"

lemma called_map: "called s = set (map (\<lambda>t. (tk_id t, tk_input t)) (sy_tasks s))"
  by (simp add: called_def)

lemma map_update_same: "f y = f (xs ! n) \<Longrightarrow> map f (xs[n := y]) = map f xs"
  by (cases "n < length xs") (simp_all add: list_eq_iff_nth_eq nth_list_update)

lemma called_set_phase [simp]: "called (set_phase n ph s) = called s"
  unfolding called_map set_phase_simps by (rule arg_cong [OF map_update_same]) simp

lemma called_simps [simp]:
  "called (s\<lparr>sy_bridge := b\<rparr>) = called s"
  "called (s\<lparr>sy_opened := us\<rparr>) = called s"
  "called (add_task fresh input ph eng s) = insert (fresh, input) (called s)"
  by (auto simp: called_def)

lemma served_ok_called:
  "served_ok C s \<longleftrightarrow>
     (\<forall>i r. store_get (br_store (sy_bridge s)) i = Some r \<longrightarrow>
        (\<exists>(fresh, input) \<in> called s. cl_request C fresh input = Inr r))"
  by (simp add: served_ok_def called_def)

lemma served_ok_fewer:
  assumes "served_ok C s" and "store_get (br_store (sy_bridge s')) \<subseteq>\<^sub>m store_get (br_store (sy_bridge s))"
    and "called s \<subseteq> called s'"
  shows "served_ok C s'"
  unfolding served_ok_called
proof (intro allI impI)
  fix i r
  assume "store_get (br_store (sy_bridge s')) i = Some r"
  then have "store_get (br_store (sy_bridge s)) i = Some r"
    using assms(2) by (force simp: map_le_def dom_def)
  then show "\<exists>(fresh, input) \<in> called s'. cl_request C fresh input = Inr r"
    using assms(1,3) unfolding served_ok_called by blast
qed

subsection \<open>Every step keeps the invariant\<close>

text \<open>A quiet step of the bridge; the tasks are as they were.\<close>

lemma tasks_ok_bridge:
  assumes "tasks_ok R C s" and "bridge_step X R (sy_bridge s) b'" and "bridge_reachable X R (sy_bridge s)"
  shows "tasks_ok R C (s\<lparr>sy_bridge := b'\<rparr>)"
  using assms(1) outs_grow_bridge [OF assms(2,3)] task_ok_grow
  by (fastforce simp: tasks_ok_def system_outs_def)

lemma system_ok_quiet:
  assumes "system_ok R C s" and "quiet_step X R (sy_bridge s) b'" and "bridge_reachable X R (sy_bridge s)"
  shows "system_ok R C (s\<lparr>sy_bridge := b'\<rparr>)"
proof -
  have "waits_ok (s\<lparr>sy_bridge := b'\<rparr>)"
    by (rule waits_ok_fewer [of s]) (use assms(1,2) in \<open>auto simp: system_ok_def quiet_step_def\<close>)
  moreover have "served_ok C (s\<lparr>sy_bridge := b'\<rparr>)"
    by (rule served_ok_fewer [of C s])
      (use assms(1) quiet_step_served [OF assms(2,3)] in \<open>simp_all add: system_ok_def\<close>)
  ultimately show ?thesis
    using tasks_ok_bridge [OF _ quiet_stepD [OF assms(2)] assms(3)] assms(1) by (simp add: system_ok_def)
qed

text \<open>A task changes its phase.\<close>

lemma tasks_ok_set_phase:
  assumes "tasks_ok R C s" and "task_ok R C (system_outs s) ((sy_tasks s ! n)\<lparr>tk_phase := ph\<rparr>)"
  shows "tasks_ok R C (set_phase n ph s)"
  using assms set_update_subset_insert [of "sy_tasks s" n "(sy_tasks s ! n)\<lparr>tk_phase := ph\<rparr>"]
  by (auto simp: tasks_ok_def system_outs_def)

lemma system_ok_set_phase:
  assumes "system_ok R C s" and "n < length (sy_tasks s)"
    and "task_ok R C (system_outs s) ((sy_tasks s ! n)\<lparr>tk_phase := ph\<rparr>)"
    and "\<forall>req k. ph \<noteq> TWaiting req k"
  shows "system_ok R C (set_phase n ph s)"
proof -
  have "waits_ok (set_phase n ph s)"
    by (rule waits_ok_fewer [of s])
      (use assms(1,4) in \<open>auto simp: system_ok_def waits_set_phase [OF assms(2)] split: if_splits\<close>)
  moreover have "served_ok C (set_phase n ph s)"
    by (rule served_ok_fewer [of C s]) (use assms(1) in \<open>simp_all add: system_ok_def\<close>)
  ultimately show ?thesis
    using tasks_ok_set_phase [OF _ assms(3)] assms(1) by (simp add: system_ok_def)
qed

lemma system_ok_waiting:
  assumes "system_ok R C s" and "n < length (sy_tasks s)" and "tk_phase (sy_tasks s ! n) = TWaiting req k"
  shows "cl_request C (tk_id (sy_tasks s ! n)) (tk_input (sy_tasks s ! n)) = Inr req \<and>
    k < length (system_outs s) \<and> fst (system_outs s ! k) = r_id R req"
proof -
  have "task_ok R C (system_outs s) (sy_tasks s ! n)"
    using assms(1,2) by (simp add: system_ok_def tasks_ok_def)
  with assms(3) show ?thesis by (simp add: task_ok_def)
qed

text \<open>A task begins: it is refused, the bridge does not start, or it has a port.\<close>

lemma start_quiet: "quiet_step X R b (b\<lparr>br_engine := snd (start (N :: nat net) (br_engine b))\<rparr>)"
  using bridge_step.starts [of X R b N None] by (simp add: quiet_step_def start_def)

lemma system_ok_add_task:
  assumes "system_ok R C s" and "bridge_reachable X R (sy_bridge s)"
    and "quiet_step X R (sy_bridge s) ((sy_bridge s)\<lparr>br_engine := eng\<rparr>)"
    and "task_ok R C (bk_outcomes (broker_of ((sy_bridge s)\<lparr>br_engine := eng\<rparr>)))
      \<lparr>tk_id = fresh, tk_input = input, tk_phase = ph\<rparr>"
    and "\<forall>req k. ph \<noteq> TWaiting req k"
  shows "system_ok R C (add_task fresh input ph eng s)"
proof -
  let ?s = "s\<lparr>sy_bridge := (sy_bridge s)\<lparr>br_engine := eng\<rparr>\<rparr>"
  have ok: "system_ok R C ?s" by (rule system_ok_quiet [OF assms(1,3,2)])
  have "tasks_ok R C (add_task fresh input ph eng s)"
    using ok assms(4) by (simp add: system_ok_def tasks_ok_def system_outs_def)
  moreover have "waits_ok (add_task fresh input ph eng s)"
    by (rule waits_ok_fewer [of ?s])
      (use ok waits_add_task [OF assms(5)] in \<open>simp_all add: system_ok_def\<close>)
  moreover have "served_ok C (add_task fresh input ph eng s)"
    by (rule served_ok_fewer [of C ?s]) (use ok in \<open>auto simp: system_ok_def\<close>)
  ultimately show ?thesis by (simp add: system_ok_def)
qed

lemma task_begin_ok:
  assumes "system_ok R C s" and "bridge_reachable X R (sy_bridge s)"
  shows "(sy_bridge (task_begin C N fresh input s) = sy_bridge s \<or>
      bridge_step X R (sy_bridge s) (sy_bridge (task_begin C N fresh input s))) \<and>
    system_ok R C (task_begin C N fresh input s)"
proof -
  let ?b = "sy_bridge s"
  have same: "quiet_step X R ?b (?b\<lparr>br_engine := br_engine ?b\<rparr>)"
    using quiet_step_intros(5) [of X R ?b 0] by simp
  have started: "quiet_step X R ?b (?b\<lparr>br_engine := eng\<rparr>)" if "start N (br_engine ?b) = (out, eng)" for out eng
    using start_quiet [of X R ?b N] that by simp
  show ?thesis
  proof (cases "cl_request C fresh input")
    case (Inl v)
    then show ?thesis
      using system_ok_add_task [OF assms same, of fresh input "TReturned None v"]
      by (simp add: task_begin_def task_ok_def)
  next
    case (Inr req)
    obtain out eng where st: "start N (br_engine ?b) = (out, eng)" by fastforce
    note step = quiet_stepD [OF started [OF st]]
    show ?thesis
    proof (cases out)
      case (Inl e)
      then obtain t where "e = Http t"
        using st bind_listener_Http [of N "eng_bind (br_engine ?b)" e]
        by (auto simp: start_def start_with_def split: option.splits sum.splits)
      then show ?thesis
        using st Inl \<open>cl_request C fresh input = Inr req\<close> step
          system_ok_add_task [OF assms started [OF st], of fresh input "TReturned (Some req) (cl_return C input req (Inl e))"]
        by (auto simp: task_begin_def task_ok_def)
    next
      case (Inr port)
      then show ?thesis
        using st \<open>cl_request C fresh input = Inr req\<close> step
          system_ok_add_task [OF assms started [OF st], of fresh input "TStarted req port"]
        by (auto simp: task_begin_def task_ok_def)
    qed
  qed
qed

text \<open>A task registers its request.\<close>

lemma task_register_cases:
  assumes "task_register X R n s = Some s'"
  obtains "s' = s"
  | req port p st where "tk_phase (sy_tasks s ! n) = TStarted req port"
      and "register X R port req (br_store (sy_bridge s)) = (Some p, st)"
      and "s' = (set_phase n (TWaiting req (length (br_futs (sy_bridge s))))
        (s\<lparr>sy_bridge := (put_store st (sy_bridge s))\<lparr>br_futs := br_futs (sy_bridge s) @ [future_of p]\<rparr>\<rparr>))
          \<lparr>sy_opened := sy_opened s @ engine_open (br_engine (sy_bridge s)) (p_url p)\<rparr>"
  using assms by (auto simp: task_register_def Let_def split: task_phase.splits prod.splits option.splits)

lemma task_register_ok:
  assumes "system_ok R C s" and "n < length (sy_tasks s)" and "task_register X R n s = Some s'"
    and "bridge_reachable X R (sy_bridge s)"
  shows "(sy_bridge s' = sy_bridge s \<or> bridge_step X R (sy_bridge s) (sy_bridge s')) \<and> system_ok R C s'"
  using assms(3)
proof (cases rule: task_register_cases)
  case (2 req port p st)
  let ?b = "sy_bridge s"
  let ?b' = "(put_store st ?b)\<lparr>br_futs := br_futs ?b @ [future_of p]\<rparr>"
  let ?s = "s\<lparr>sy_bridge := ?b'\<rparr>" and ?ph = "TWaiting req (length (br_futs ?b))"
  have step: "bridge_step X R ?b ?b'" by (rule bridge_step.registers [OF 2(2)])
  have p: "p_id p = r_id R req" "store_get st = (store_get (br_store ?b))(r_id R req \<mapsto> req)"
    using register_Some [OF 2(2)] by (simp_all add: store_get_ops)
  have ok: "tasks_ok R C s" "waits_ok s" "served_ok C s" using assms(1) by (simp_all add: system_ok_def)
  have built: "cl_request C (tk_id (sy_tasks s ! n)) (tk_input (sy_tasks s ! n)) = Inr req"
    using ok(1) assms(2) 2(1) by (fastforce simp: tasks_ok_def task_ok_def dest: nth_mem)
  have "tasks_ok R C (set_phase n ?ph ?s)"
    by (rule tasks_ok_set_phase [OF tasks_ok_bridge [OF ok(1) step assms(4)]])
      (simp add: task_ok_def built p(1) broker_of_def outcome_of_def nth_append)
  moreover have "waits_ok (set_phase n ?ph ?s)"
    using ok(2) assms(2) unfolding waits_ok_def
    by (auto simp: waits_set_phase nth_append intro: less_SucI split: if_splits)
  moreover have "served_ok C (set_phase n ?ph ?s)"
    unfolding served_ok_called
  proof (intro allI impI)
    fix i r
    assume "store_get (br_store (sy_bridge (set_phase n ?ph ?s))) i = Some r"
    then have "r = req \<or> store_get (br_store ?b) i = Some r"
      using p(2) by (auto split: if_splits)
    moreover have "(tk_id (sy_tasks s ! n), tk_input (sy_tasks s ! n)) \<in> called s"
      using assms(2) by (simp add: called_def)
    ultimately show "\<exists>(fresh, input) \<in> called (set_phase n ?ph ?s). cl_request C fresh input = Inr r"
      using ok(3) built unfolding served_ok_called by auto
  qed
  ultimately have "system_ok R C (set_phase n ?ph ?s)" by (simp add: system_ok_def)
  then show ?thesis using step 2(3) by simp
qed (use assms(1) in simp)

text \<open>A task returns.\<close>

lemma waiting_outcome:
  assumes "system_ok R C s" and "n < length (sy_tasks s)" and "tk_phase (sy_tasks s ! n) = TWaiting req k"
    and "fut_state (br_futs (sy_bridge s) ! k) = FDone out"
  shows "(r_id R req, Some out) \<in> set (system_outs s)"
proof -
  have k: "k < length (system_outs s)" "fst (system_outs s ! k) = r_id R req"
    using system_ok_waiting [OF assms(1-3)] by simp_all
  then have "system_outs s ! k = (r_id R req, Some out)"
    using assms(4) by (simp add: system_outs_def broker_of_def outcome_of_def fut_outcome_def prod_eq_iff)
  with k(1) show ?thesis using nth_mem by metis
qed

lemma task_finish_ok:
  assumes "system_ok R C s" and "n < length (sy_tasks s)"
  shows "sy_bridge (task_finish C n s) = sy_bridge s \<and> system_ok R C (task_finish C n s)"
proof (cases "\<exists>req k out. tk_phase (sy_tasks s ! n) = TWaiting req k \<and>
    fut_state (br_futs (sy_bridge s) ! k) = FDone out")
  case True
  then obtain req k out where ph: "tk_phase (sy_tasks s ! n) = TWaiting req k"
      "fut_state (br_futs (sy_bridge s) ! k) = FDone out" by blast
  let ?t = "sy_tasks s ! n" and ?v = "cl_return C (tk_input (sy_tasks s ! n)) req out"
  have "cl_request C (tk_id ?t) (tk_input ?t) = Inr req"
    using system_ok_waiting [OF assms ph(1)] by simp
  with waiting_outcome [OF assms ph] have "task_ok R C (system_outs s) (?t\<lparr>tk_phase := TReturned (Some req) ?v\<rparr>)"
    by (auto simp: task_ok_def)
  then have "system_ok R C (set_phase n (TReturned (Some req) ?v) s)"
    by (rule system_ok_set_phase [OF assms]) simp
  then show ?thesis using ph by (simp add: task_finish_def)
next
  case False
  then have "task_finish C n s = s"
    by (auto simp: task_finish_def split: task_phase.splits fut_state.splits)
  with assms(1) show ?thesis by simp
qed

text \<open>A caller that goes away drops the future of its own task and of no other.\<close>

lemma drop_step_served: "store_get (br_store (drop_step k b)) = store_get (br_store b)"
  by (auto simp: drop_step_def fut_drop_def store_get_ops split: fut_state.split)

lemma task_drop_ok:
  assumes "system_ok R C s" and "n < length (sy_tasks s)" and "bridge_reachable X R (sy_bridge s)"
  shows "(sy_bridge (task_drop n s) = sy_bridge s \<or> bridge_step X R (sy_bridge s) (sy_bridge (task_drop n s))) \<and>
    system_ok R C (task_drop n s)"
proof (cases "tk_phase (sy_tasks s ! n)")
  case (TWaiting req k)
  let ?s = "s\<lparr>sy_bridge := drop_step k (sy_bridge s)\<rparr>"
  have n: "n < length (sy_tasks ?s)" using assms(2) by simp
  have "k < length (system_outs s)"
    using system_ok_waiting [OF assms(1,2) TWaiting] by simp
  then have step: "bridge_step X R (sy_bridge s) (drop_step k (sy_bridge s))"
    by (intro bridge_step.dropped) (simp add: system_outs_def broker_of_def)
  have own: "j \<noteq> k" if "waits (set_phase n TDropped ?s) m j" for m j
    using that assms(1,2) TWaiting unfolding system_ok_def waits_ok_def waits_set_phase [OF n]
    by (auto simp: waits_def split: if_splits)
  have "waits_ok (set_phase n TDropped ?s)"
  proof (rule waits_ok_fewer [of s])
    fix m j
    assume "waits (set_phase n TDropped ?s) m j" and "fut_state (br_futs (sy_bridge s) ! j) \<noteq> FDropped"
    then show "fut_state (br_futs (sy_bridge (set_phase n TDropped ?s)) ! j) \<noteq> FDropped"
      using own [of m j] by (simp add: drop_step_def)
  qed (use assms(1) in \<open>auto simp: system_ok_def waits_set_phase [OF n] split: if_splits\<close>,
    simp add: drop_step_def)
  moreover have "tasks_ok R C (set_phase n TDropped ?s)"
    by (rule tasks_ok_set_phase [OF tasks_ok_bridge [OF _ step assms(3)]])
      (use assms(1) in \<open>simp_all add: system_ok_def task_ok_def\<close>)
  moreover have "served_ok C (set_phase n TDropped ?s)"
    by (rule served_ok_fewer [of C s]) (use assms(1) in \<open>simp_all add: system_ok_def drop_step_served\<close>)
  ultimately show ?thesis using step TWaiting by (simp add: task_drop_def system_ok_def)
qed (use assms(1) in \<open>simp_all add: task_drop_def\<close>)

subsection \<open>Reachable states\<close>

lemma system_reachable_ok:
  "system_reachable X R C s \<Longrightarrow> bridge_reachable X R (sy_bridge s) \<and> system_ok R C s"
proof (induction rule: system_reachable.induct)
  case (init web_ui bind browser)
  then show ?case
    using bridge_reachable.init [of X R web_ui bind browser]
    by (simp add: system_init_def system_ok_def tasks_ok_def waits_ok_def waits_def
        served_ok_def bridge_init_def br_store_def engine_new_def store_new_def store_get_def)
next
  case (step s s')
  then have b: "bridge_reachable X R (sy_bridge s)" and ok: "system_ok R C s" by simp_all
  from step.hyps(2) show ?case
  proof cases
    case (begins N fresh input)
    from task_begin_ok [OF ok b, of N fresh input] begins b show ?thesis
      using bridge_reachable.step [OF b] by auto
  next
    case (registers n)
    from task_register_ok [OF ok registers b] b show ?thesis using bridge_reachable.step [OF b] by auto
  next
    case (finishes n)
    then show ?thesis using task_finish_ok [OF ok] b by simp
  next
    case (dropped n)
    from task_drop_ok [OF ok dropped(2) b] b dropped(1) show ?thesis
      using bridge_reachable.step [OF b] by auto
  next
    case (bridge b')
    then show ?thesis using system_ok_quiet [OF ok _ b] bridge_reachable.step [OF b quiet_stepD] by simp
  qed
qed

lemma system_quiet_steps:
  "(quiet_step X R)\<^sup>*\<^sup>* (sy_bridge s) b' \<Longrightarrow> (system_step X R C)\<^sup>*\<^sup>* s (s\<lparr>sy_bridge := b'\<rparr>)"
proof (induction rule: rtranclp_induct)
  case (step c c')
  have "system_step X R C (s\<lparr>sy_bridge := c\<rparr>) (s\<lparr>sy_bridge := c'\<rparr>)"
    using system_step.bridge [of X R "s\<lparr>sy_bridge := c\<rparr>" c' C] step.hyps(2) by simp
  with step.IH show ?case by simp
qed simp

subsection \<open>What a caller can rely on\<close>

text \<open>
  A value that was returned for a request is what the client makes of an outcome of that request: the
  bridge did not start, or the outcome is one the bridge explains (a wallet's accepted answer under the
  request's id, a cancellation, the timeout).
\<close>

lemma outs_explained:
  assumes "system_reachable X R C s" and "(i, Some out) \<in> set (system_outs s)"
  shows "explained X (br_posts (sy_bridge s)) i out"
proof -
  obtain f where "f \<in> set (br_futs (sy_bridge s))" "outcome_of f = (i, Some out)"
    using assms(2) by (auto simp: system_outs_def broker_of_def)
  then show ?thesis
    using reachable_outcome [of X R "sy_bridge s" f out] system_reachable_ok [OF assms(1)]
    by (simp add: outcome_of_def)
qed

lemma returned_explained:
  assumes "system_reachable X R C s" and "t \<in> set (sy_tasks s)" and "tk_phase t = TReturned (Some req) v"
  obtains out where "cl_request C (tk_id t) (tk_input t) = Inr req" and "v = cl_return C (tk_input t) req out"
    and "(\<exists>e. out = Inl (Http e)) \<or> explained X (br_posts (sy_bridge s)) (r_id R req) out"
proof -
  have "task_ok R C (system_outs s) t"
    using system_reachable_ok [OF assms(1)] assms(2) by (simp add: system_ok_def tasks_ok_def)
  then obtain out where "cl_request C (tk_id t) (tk_input t) = Inr req"
      "v = cl_return C (tk_input t) req out"
      "(\<exists>e. out = Inl (Http e)) \<or> (r_id R req, Some out) \<in> set (system_outs s)"
    using assms(3) by (auto simp: task_ok_def)
  then show ?thesis using that outs_explained [OF assms(1)] by blast
qed

lemma posted_success:
  assumes "explained X ps i (Inr raw)"
  shows "\<exists>p \<in> set ps. po_id p = i \<and> po_result p = RSuccess raw \<and> po_phase p = PAnswered completed"
  using assms by (auto simp: explained_success answered_def is_answer_def)

lemma refused_reason:
  assumes "system_reachable X R C s" and "t \<in> set (sy_tasks s)" and "tk_phase t = TReturned None v"
  shows "cl_request C (tk_id t) (tk_input t) = Inl v"
  using system_reachable_ok [OF assms(1)] assms(2,3) by (auto simp: system_ok_def tasks_ok_def task_ok_def)

text \<open>A returned value is the one the call gives on its own, for some outcome of its await.\<close>

lemma returned_call:
  assumes "system_reachable X R C s" and "t \<in> set (sy_tasks s)" and "tk_phase t = TReturned sent v"
  shows "\<exists>submit. client_call C submit (tk_id t) (tk_input t) = (v, sent)"
proof (cases sent)
  case None
  then show ?thesis using refused_reason [OF assms(1,2)] assms(3) by (simp add: client_call_def)
next
  case (Some req)
  obtain out where "cl_request C (tk_id t) (tk_input t) = Inr req" "v = cl_return C (tk_input t) req out"
    using returned_explained [OF assms(1,2) assms(3) [unfolded Some]] by blast
  then have "client_call C (\<lambda>r. out) (tk_id t) (tk_input t) = (v, sent)"
    using Some by (simp add: client_call_def)
  then show ?thesis by blast
qed

lemma served_from_task:
  assumes "system_reachable X R C s" and "store_get (br_store (sy_bridge s)) i = Some r"
  shows "r_id R r = i \<and> (\<exists>t \<in> set (sy_tasks s). cl_request C (tk_id t) (tk_input t) = Inr r)"
proof -
  have ok: "bridge_reachable X R (sy_bridge s)" "served_ok C s"
    using system_reachable_ok [OF assms(1)] by (simp_all add: system_ok_def)
  then have "r_id R r = i"
    using store_inv_key [OF reachable_store_inv [OF ok(1)]] assms(2) by (auto simp: store_get_abs)
  with ok(2) assms(2) show ?thesis by (auto simp: served_ok_def)
qed

text \<open>
  From every reachable state in which a task waits, three polls of its future, with the timeout passing
  after the first, and the task's last step have it return.
\<close>

definition timed_polls :: "'e core_ext_scheme \<Rightarrow> nat \<Rightarrow> ('r, 'x) bridge \<Rightarrow> ('r, 'x) bridge" where
  "timed_polls X k b =
     (let b1 = poll_step X k b
      in poll_step X k (poll_step X k (b1\<lparr>br_now := br_now b1 + REQUEST_TIMEOUT\<rparr>)))"

lemma task_returns:
  assumes "system_reachable X R C s" and "n < length (sy_tasks s)"
    and "tk_phase (sy_tasks s ! n) = TWaiting req k"
  shows "let s' = task_finish C n (s\<lparr>sy_bridge := timed_polls X k (sy_bridge s)\<rparr>)
         in (system_step X R C)\<^sup>*\<^sup>* s s' \<and>
            (\<exists>out. tk_phase (sy_tasks s' ! n) =
               TReturned (Some req) (cl_return C (tk_input (sy_tasks s ! n)) req out))"
proof -
  let ?b = "sy_bridge s"
  let ?b1 = "poll_step X k ?b"
  let ?b2 = "?b1\<lparr>br_now := br_now ?b1 + REQUEST_TIMEOUT\<rparr>"
  let ?b4 = "timed_polls X k ?b"
  have ok: "bridge_reachable X R ?b" "waits_ok s"
    using system_reachable_ok [OF assms(1)] by (simp_all add: system_ok_def)
  have k: "k < length (br_futs ?b)" "fut_state (br_futs ?b ! k) \<noteq> FDropped"
    using ok(2) assms(2,3) by (auto simp: waits_ok_def waits_def)
  have quiet: "(quiet_step X R)\<^sup>*\<^sup>* ?b ?b4"
    using quiet_step_intros(1) [of k ?b X R] quiet_step_intros(5) [of X R ?b1 REQUEST_TIMEOUT]
      quiet_step_intros(1) [of k ?b2 X R] quiet_step_intros(1) [of k "poll_step X k ?b2" X R] k(1)
    by (simp add: poll_step_def timed_polls_def Let_def)
  have near: "d \<le> br_now ?b + REQUEST_TIMEOUT" if "fut_state (br_futs ?b ! k) = FWaiting d" for d
    using bridge_reachable_inv [OF ok(1)] that nth_mem [OF k(1)]
    by (auto simp: bridge_inv_def deadlines_near_def)
  have "\<exists>out. fut_state (br_futs ?b4 ! k) = FDone out"
    using fut_three_polls [OF k(2) near, of "br_now ?b1 + REQUEST_TIMEOUT"] k(1)
    by (simp add: poll_step_def timed_polls_def Let_def)
  then obtain out where "fut_state (br_futs ?b4 ! k) = FDone out" ..
  then have fin: "task_finish C n (s\<lparr>sy_bridge := ?b4\<rparr>) =
      set_phase n (TReturned (Some req) (cl_return C (tk_input (sy_tasks s ! n)) req out)) (s\<lparr>sy_bridge := ?b4\<rparr>)"
    using assms(3) by (simp add: task_finish_def)
  have "(system_step X R C)\<^sup>*\<^sup>* s (s\<lparr>sy_bridge := ?b4\<rparr>)"
    using system_quiet_steps [OF quiet] by simp
  moreover have "system_step X R C (s\<lparr>sy_bridge := ?b4\<rparr>) (task_finish C n (s\<lparr>sy_bridge := ?b4\<rparr>))"
    by (rule system_step.finishes) (simp add: assms(2))
  ultimately have "(system_step X R C)\<^sup>*\<^sup>* s (task_finish C n (s\<lparr>sy_bridge := ?b4\<rparr>))"
    by (rule rtranclp.rtrancl_into_rtrancl)
  with fin show ?thesis using assms(2) by (auto simp: Let_def)
qed

subsection \<open>The contract of a client\<close>

locale bridge_client =
  fixes X :: "'e core_ext_scheme" and R :: "('r, 'y) request_ops_scheme" and C :: "('b, 'r, 'v) client"
  assumes request_id: "cl_request C fresh input = Inr req \<Longrightarrow> r_id R req = fresh"
begin

text \<open>The request the bridge serves under an id is the one of a task with that id.\<close>

lemma served_own:
  assumes "system_reachable X R C s" and "store_get (br_store (sy_bridge s)) i = Some r"
  shows "\<exists>t \<in> set (sy_tasks s). tk_id t = i \<and> cl_request C i (tk_input t) = Inr r"
proof -
  obtain t where t: "t \<in> set (sy_tasks s)" "cl_request C (tk_id t) (tk_input t) = Inr r"
    using served_from_task [OF assms] by blast
  moreover have "tk_id t = i"
    using request_id [OF t(2)] served_from_task [OF assms] by simp
  ultimately show ?thesis by auto
qed

lemma served_by_id:
  assumes "system_reachable X R C s" and "distinct (map tk_id (sy_tasks s))" and "t \<in> set (sy_tasks s)"
    and "store_get (br_store (sy_bridge s)) (tk_id t) = Some r"
  shows "cl_request C (tk_id t) (tk_input t) = Inr r"
proof -
  obtain u where "u \<in> set (sy_tasks s)" "tk_id u = tk_id t" "cl_request C (tk_id t) (tk_input u) = Inr r"
    using served_own [OF assms(1,4)] by blast
  moreover from this(1,2) have "u = t"
    using assms(2,3) by (simp add: distinct_map inj_on_def)
  ultimately show ?thesis by simp
qed

text \<open>A value comes from the wallet's answer to the task's own request, or from an error.\<close>

lemma returned_own:
  assumes "system_reachable X R C s" and "t \<in> set (sy_tasks s)" and "tk_phase t = TReturned (Some req) v"
  shows "cl_request C (tk_id t) (tk_input t) = Inr req \<and>
    ((\<exists>e. v = cl_return C (tk_input t) req (Inl e)) \<or>
     (\<exists>raw. v = cl_return C (tk_input t) req (Inr raw) \<and>
        (\<exists>p \<in> set (br_posts (sy_bridge s)). po_id p = tk_id t \<and> po_result p = RSuccess raw \<and>
           po_phase p = PAnswered completed)))"
proof -
  obtain out where out: "cl_request C (tk_id t) (tk_input t) = Inr req" "v = cl_return C (tk_input t) req out"
      "(\<exists>e. out = Inl (Http e)) \<or> explained X (br_posts (sy_bridge s)) (r_id R req) out"
    using returned_explained [OF assms] by blast
  then show ?thesis
    using posted_success [of X "br_posts (sy_bridge s)" "tk_id t"] request_id [OF out(1)]
    by (cases out) auto
qed

end

end
