(* ===== verification/Serve_System.thy ===== *)
theory Serve_System
  imports Serve Task_Invariant Evm_Types Tron_Types Btc_Types
begin

section \<open>The control API at work\<close>

text \<open>
  \<open>serve\<close> as it runs: a task of \<open>Tasks\<close> for every control request, each of which runs \<open>handle_request\<close>
  of \<open>serve.rs\<close>. A client that hangs up drops its task. Every chain's \<open>account_impl\<close> makes \<open>serve\<close> over
  that chain a \<open>bridge_client\<close>.
\<close>

definition serve_client ::
  "('r, 'a, 'y) account_ops_scheme \<Rightarrow> 'a control_state \<Rightarrow> (json, 'r, response) client" where
  "serve_client R S =
     \<lparr>cl_request = (\<lambda>fresh body. map_err (json_error 400) (control_request R S fresh body)),
      cl_return = (\<lambda>body req out. answer_of (checked_result R req out))\<rparr>"

lemma serve_client_simps [simp]:
  "cl_request (serve_client R S) fresh body = map_err (json_error 400) (control_request R S fresh body)"
  "cl_return (serve_client R S) body req out = answer_of (checked_result R req out)"
  by (simp_all add: serve_client_def)

text \<open>A task of its own is \<open>handle_request\<close>.\<close>

lemma serve_client_call: "client_call (serve_client R S) submit fresh body = handle_request R submit S fresh body"
  by (cases "control_request R S fresh body") (simp_all add: client_call_def handle_request_def)

sublocale account_impl \<subseteq> serve: bridge_client X R "serve_client R S" for S
  by unfold_locales (simp add: result_iff control_request_fresh)

subsection \<open>Answers\<close>

lemma answered_200:
  assumes "system_reachable X R (serve_client R S) s" and "t \<in> set (sy_tasks s)"
    and "tk_phase t = TReturned sent rsp" and "rs_status rsp = 200"
  shows "\<exists>req res. sent = Some req \<and> control_request R S (tk_id t) (tk_input t) = Inr req \<and>
    r_check_result R req res = Inr () \<and> rs_body rsp = BJson (result_serialize (RSuccess res)) \<and>
    (\<exists>p \<in> set (br_posts (sy_bridge s)). po_id p = r_id R req \<and> po_result p = RSuccess res \<and>
       po_phase p = PAnswered completed)"
proof (cases sent)
  case None
  then show ?thesis
    using refused_reason [OF assms(1,2)] assms(3,4)
    by (auto simp: map_err_Inl_iff json_error_def json_response_def)
next
  case (Some req)
  obtain out where out: "control_request R S (tk_id t) (tk_input t) = Inr req"
      "rsp = answer_of (checked_result R req out)"
      "(\<exists>e. out = Inl (Http e)) \<or> explained X (br_posts (sy_bridge s)) (r_id R req) out"
    using returned_explained [OF assms(1,2) assms(3) [unfolded Some]] by (auto simp: result_iff)
  then obtain res where res: "out = Inr res" "r_check_result R req res = Inr ()"
      "checked_result R req out = Inr res"
    using assms(4) by (auto simp: answer_of_status is_ok_iff checked_result_Inr_iff)
  then show ?thesis
    using Some out answer_of_body posted_success by fastforce
qed

text \<open>A request the bridge serves came from a task, whose body it is; with a configured account it names that.\<close>

lemma served_from_body:
  assumes "system_reachable X R (serve_client R S) s" and "store_get (br_store (sy_bridge s)) i = Some r"
  shows "r_id R r = i \<and> (\<exists>t \<in> set (sy_tasks s). control_request R S (tk_id t) (tk_input t) = Inr r)"
  using served_from_task [OF assms] by (simp add: result_iff)

context account_impl
begin

lemma served_names:
  assumes "system_reachable X R (serve_client R S) s" and "store_get (br_store (sy_bridge s)) i = Some r"
    and "cs_account S = Some a"
  shows "named_account r = Some (account_value a)"
  using served_from_body [OF assms(1,2)] control_request_names assms(3) by blast

end

end
