(* ===== verification/Task_Run.thy ===== *)
theory Task_Run
  imports Task_Invariant Reference
begin

section \<open>A run of one task\<close>

text \<open>
  For the witnesses: one call of any client is begun, registered, served, answered by a wallet and
  returned, over the sockets of \<open>Reference\<close>.
\<close>

definition one_bridge :: "('r, 'y) request_ops_scheme \<Rightarrow> 'r \<Rightarrow> ('r, unit) bridge" where
  "one_bridge R req =
     \<lparr>br_engine =
        \<lparr>eng_store = \<lparr>st_pending = [(r_id R req, \<lparr>e_request = req, e_tx = 0\<rparr>)], st_chans = [os_new]\<rparr>,
         eng_index_html = ''page'', eng_bind = Ephemeral, eng_browser = BPrint,
         eng_server = Some \<lparr>srv_port = Port 40000, srv_extra = None\<rparr>\<rparr>,
      br_futs = [\<lparr>fut_id = r_id R req, fut_rx = 0, fut_state = FCreated\<rparr>], br_posts = [], br_now = 0\<rparr>"

definition one_task :: "uuid \<Rightarrow> 'b \<Rightarrow> ('r, 'v) task_phase \<Rightarrow> ('r, unit) bridge \<Rightarrow> ('b, 'r, 'v, unit) system" where
  "one_task fresh input ph b =
     \<lparr>sy_bridge = b, sy_tasks = [\<lparr>tk_id = fresh, tk_input = input, tk_phase = ph\<rparr>],
      sy_opened = []\<rparr>"

definition one_posted ::
  "'e core_ext_scheme \<Rightarrow> ('r, 'y) request_ops_scheme \<Rightarrow> 'r \<Rightarrow> request_result \<Rightarrow> ('r, unit) bridge" where
  "one_posted X R req res =
     poll_step X 0 (finish_step 0 (check_step 0 ((one_bridge R req)\<lparr>br_posts :=
       br_posts (one_bridge R req) @ [\<lparr>po_id = r_id R req, po_result = res, po_phase = PCheck\<rparr>]\<rparr>)))"

lemma one_task_waits:
  assumes "bridge_url_laws X" and "cl_request C fresh input = Inr req"
  shows "system_reachable X R C (one_task fresh input (TWaiting req 0) (one_bridge R req))"
proof -
  let ?eng = "\<lparr>eng_store = store_new, eng_index_html = ''page'', eng_bind = Ephemeral, eng_browser = BPrint,
    eng_server = Some \<lparr>srv_port = Port 40000, srv_extra = None\<rparr>\<rparr>"
  let ?s = "one_task fresh input (TStarted req (Port 40000)) (bridge_init ?eng)"
  have "task_begin C ref_net fresh input (system_init (engine_new ''page'' Ephemeral BPrint)) = ?s"
    using assms(2)
    by (simp add: task_begin_def start_def start_with_def engine_new_def bind_listener_def bind_ephemeral_def
        ref_net_def port_try_new_def system_init_def bridge_init_def add_task_def one_task_def)
  then have begun: "system_reachable X R C ?s"
    using system_reachable.step [OF system_reachable.init system_step.begins] by metis
  have "port_ok (Port 40000)" by (simp add: port_ok_def)
  note url = build_url_eq [OF assms(1) this]
  have "task_register X R 0 ?s = Some (one_task fresh input (TWaiting req 0) (one_bridge R req))"
    by (simp add: task_register_def one_task_def bridge_init_def br_store_def put_store_def register_def url
        store_create_def store_new_def drop_entry_def Let_def set_phase_def future_of_def one_bridge_def
        engine_open_def browser_open_def)
  then show ?thesis
    using system_reachable.step [OF begun system_step.registers [of 0 ?s]] by (simp add: one_task_def)
qed

lemma one_quiet_run:
  assumes "(quiet_step X R)\<^sup>*\<^sup>* b b'" and "system_reachable X R C (one_task fresh input ph b)"
  shows "system_reachable X R C (one_task fresh input ph b')"
  using assms
proof (induction rule: rtranclp_induct)
  case (step c c')
  then show ?case
    using system_reachable.step [OF _ system_step.bridge [of X R "one_task fresh input ph c" c' C]]
    by (simp add: one_task_def)
qed

lemma one_posted_run: "(quiet_step X R)\<^sup>*\<^sup>* (one_bridge R req) (one_posted X R req res)"
proof -
  let ?b = "(one_bridge R req)\<lparr>br_posts :=
    br_posts (one_bridge R req) @ [\<lparr>po_id = r_id R req, po_result = res, po_phase = PCheck\<rparr>]\<rparr>"
  have "quiet_step X R (one_bridge R req) ?b" by (rule quiet_step_intros)
  moreover have "quiet_step X R ?b (check_step 0 ?b)"
    by (rule quiet_step_intros) (simp_all add: one_bridge_def)
  moreover have "quiet_step X R (check_step 0 ?b) (finish_step 0 (check_step 0 ?b))"
    by (rule quiet_step_intros)
      (simp_all add: one_bridge_def check_step_def post_check_def store_has_def br_store_def)
  moreover have "quiet_step X R (finish_step 0 (check_step 0 ?b)) (one_posted X R req res)"
    unfolding one_posted_def
    by (rule quiet_step_intros) (simp add: one_bridge_def check_step_def finish_step_def Let_def)
  ultimately show ?thesis by (meson rtranclp.rtrancl_into_rtrancl rtranclp.rtrancl_refl)
qed

lemma one_posted_states:
  "br_futs (one_posted X R req res) =
     [\<lparr>fut_id = r_id R req, fut_rx = 0, fut_state = settle (map_result res)\<rparr>]"
  by (simp add: one_posted_def poll_step_def finish_step_def check_step_def Let_def one_bridge_def post_check_def
      store_has_def br_store_def put_store_def put_phase_def post_finish_def store_complete_def os_send_def
      os_put_def os_new_def fut_poll_def poll_waiting_def store_recv_def os_recv_def poll_timeout_def
      store_drop_rx_def os_drop_rx_def put_future_def)

text \<open>A wallet that answers a request with a value has the task return what the client makes of it.\<close>

lemma one_task_returned:
  assumes "bridge_url_laws X" and "cl_request C fresh input = Inr req"
  shows "system_reachable X R C
    (one_task fresh input (TReturned (Some req) (cl_return C input req (Inr v))) (one_posted X R req (RSuccess v)))"
proof -
  let ?s = "one_task fresh input (TWaiting req 0) (one_posted X R req (RSuccess v))"
  have "system_reachable X R C ?s"
    by (rule one_quiet_run [OF one_posted_run one_task_waits [OF assms]])
  moreover have "0 < length (sy_tasks ?s)" by (simp add: one_task_def)
  ultimately have "system_reachable X R C (task_finish C 0 ?s)"
    using system_reachable.step system_step.finishes by metis
  then show ?thesis
    by (simp add: task_finish_def one_task_def one_posted_states settle_def map_result_def set_phase_def)
qed

text \<open>A wallet that rejects it has the task return the error; the future's last poll withdraws the request.\<close>

lemma one_task_rejected:
  assumes "bridge_url_laws X" and "cl_request C fresh input = Inr req"
  shows "system_reachable X R C
    (one_task fresh input (TReturned (Some req) (cl_return C input req (Inl (Rejected err code))))
      (poll_step X 0 (one_posted X R req (RError err code))))"
proof -
  let ?b = "one_posted X R req (RError err code)"
  let ?s = "one_task fresh input (TWaiting req 0) (poll_step X 0 ?b)"
  have "quiet_step X R ?b (poll_step X 0 ?b)"
    by (rule quiet_step_intros) (simp add: one_posted_states)
  then have "system_reachable X R C ?s"
    using one_quiet_run [OF rtranclp.rtrancl_into_rtrancl [OF one_posted_run] one_task_waits [OF assms]] by blast
  moreover have "0 < length (sy_tasks ?s)" by (simp add: one_task_def)
  ultimately have "system_reachable X R C (task_finish C 0 ?s)"
    using system_reachable.step system_step.finishes by metis
  moreover have "fut_state (br_futs (poll_step X 0 ?b) ! 0) = FDone (Inl (Rejected err code))"
    by (simp add: poll_step_def one_posted_states settle_def map_result_def fut_poll_def)
  ultimately show ?thesis
    by (simp add: task_finish_def one_task_def set_phase_def)
qed

end
