(* ===== verification/Task_History.thy ===== *)
theory Task_History
  imports Task_Invariant
begin

section \<open>What a running system has done\<close>

text \<open>
  Two facts about the past of a reachable state. A value that a task returned is what the client makes of
  an outcome of its own future, or of the error with which the bridge failed to start when the task began.
  And the URLs that were opened: none when the engine is told to print, otherwise one for each request that
  was registered, in order, the approval page of that request.
\<close>

subsection \<open>Steps\<close>

lemma system_step_bridge:
  assumes "system_reachable X R C s" and "system_step X R C s s'"
  shows "sy_bridge s' = sy_bridge s \<or> bridge_step X R (sy_bridge s) (sy_bridge s')"
proof -
  have b: "bridge_reachable X R (sy_bridge s)" and ok: "system_ok R C s"
    using system_reachable_ok [OF assms(1)] by simp_all
  from assms(2) show ?thesis
  proof cases
    case (begins N fresh input)
    then show ?thesis using task_begin_ok [OF ok b, of N fresh input] by simp
  next
    case (registers n)
    then show ?thesis using task_register_ok [OF ok registers b] by simp
  next
    case (finishes n)
    then show ?thesis using task_finish_ok [OF ok] by simp
  next
    case (dropped n)
    then show ?thesis using task_drop_ok [OF ok dropped(2) b] by simp
  qed (simp add: quiet_stepD)
qed

lemma system_outs_grow:
  assumes "system_reachable X R C s" and "system_step X R C s s'"
  shows "outs_grow (system_outs s) (system_outs s')"
  using system_step_bridge [OF assms] outs_grow_bridge system_reachable_ok [OF assms(1)]
  by (auto simp: system_outs_def)

lemma system_steps_reachable:
  assumes "(system_step X R C)\<^sup>*\<^sup>* s s'" and "system_reachable X R C s"
  shows "system_reachable X R C s'"
  using assms by (induction rule: rtranclp_induct) (auto intro: system_reachable.step)

text \<open>A system over an engine that has been started is reachable.\<close>

lemma system_started:
  assumes "start_with (N :: nat net) extra (engine_new web_ui bind browser) = (out, eng)"
  shows "system_reachable X R C (system_init eng)"
proof -
  let ?e = "engine_new web_ui bind browser"
  have "bridge_step X R (bridge_init ?e) (bridge_init eng)"
    using bridge_step.starts [of X R "bridge_init ?e" N extra] assms by (simp add: bridge_init_def)
  then have "quiet_step X R (bridge_init ?e) (bridge_init eng)"
    by (simp add: quiet_step_def bridge_init_def)
  then have "system_step X R C (system_init ?e) (system_init eng)"
    using system_step.bridge [of X R "system_init ?e" "bridge_init eng" C] by (simp add: system_init_def)
  with system_reachable.init show ?thesis by (rule system_reachable.step)
qed

subsection \<open>Why a task returned what it did\<close>

text \<open>The call began in a state where the bridge could not be started, and that was the error.\<close>

definition start_failed ::
  "'e core_ext_scheme \<Rightarrow> ('r, 'y) request_ops_scheme \<Rightarrow> ('b, 'r, 'v) client \<Rightarrow> ('b, 'r, 'v, 'x) system \<Rightarrow>
     uuid \<Rightarrow> 'b \<Rightarrow> signer_error \<Rightarrow> bool" where
  "start_failed X R C s fresh input e \<longleftrightarrow>
     (\<exists>s0 N. system_reachable X R C s0 \<and> fst (start (N :: nat net) (br_engine (sy_bridge s0))) = Inl e \<and>
        (system_step X R C)\<^sup>*\<^sup>* (task_begin C N fresh input s0) s)"

lemma start_failed_step:
  "start_failed X R C s fresh input e \<Longrightarrow> system_step X R C s s' \<Longrightarrow> start_failed X R C s' fresh input e"
  unfolding start_failed_def by (meson rtranclp.rtrancl_into_rtrancl)

definition return_caused ::
  "'e core_ext_scheme \<Rightarrow> ('r, 'y) request_ops_scheme \<Rightarrow> ('b, 'r, 'v) client \<Rightarrow> ('b, 'r, 'v, 'x) system \<Rightarrow>
     ('b, 'r, 'v) task \<Rightarrow> bool" where
  "return_caused X R C s t \<longleftrightarrow>
     (\<forall>req v. tk_phase t = TReturned (Some req) v \<longrightarrow>
        (\<exists>out. v = cl_return C (tk_input t) req out \<and>
           ((\<exists>e. out = Inl e \<and> start_failed X R C s (tk_id t) (tk_input t) e) \<or>
            (r_id R req, Some out) \<in> set (system_outs s))))"

lemma return_caused_step:
  assumes "return_caused X R C s t" and "system_reachable X R C s" and "system_step X R C s s'"
  shows "return_caused X R C s' t"
  unfolding return_caused_def
proof (intro allI impI)
  fix req v
  assume "tk_phase t = TReturned (Some req) v"
  then obtain out where out: "v = cl_return C (tk_input t) req out"
      "(\<exists>e. out = Inl e \<and> start_failed X R C s (tk_id t) (tk_input t) e) \<or>
       (r_id R req, Some out) \<in> set (system_outs s)"
    using assms(1) unfolding return_caused_def by blast
  have "(\<exists>e. out = Inl e \<and> start_failed X R C s' (tk_id t) (tk_input t) e) \<or>
      (r_id R req, Some out) \<in> set (system_outs s')"
    using out(2) start_failed_step [OF _ assms(3)] outs_grow_mem [OF system_outs_grow [OF assms(2,3)]] by auto
  with out(1) show "\<exists>out. v = cl_return C (tk_input t) req out \<and>
      ((\<exists>e. out = Inl e \<and> start_failed X R C s' (tk_id t) (tk_input t) e) \<or>
       (r_id R req, Some out) \<in> set (system_outs s'))"
    by blast
qed

lemma return_caused_other: "\<forall>req v. tk_phase t \<noteq> TReturned (Some req) v \<Longrightarrow> return_caused X R C s t"
  by (simp add: return_caused_def)

text \<open>A task of the next state was one before, or it is the one that the step is about.\<close>

lemma set_phase_tasks:
  "t \<in> set (sy_tasks (set_phase n ph s)) \<Longrightarrow> t \<in> set (sy_tasks s) \<or> t = (sy_tasks s ! n)\<lparr>tk_phase := ph\<rparr>"
  using set_update_subset_insert [of "sy_tasks s" n "(sy_tasks s ! n)\<lparr>tk_phase := ph\<rparr>"] by auto

lemma begun_caused:
  assumes "system_reachable X R C s" and "t \<in> set (sy_tasks (task_begin C N fresh input s))"
  shows "t \<in> set (sy_tasks s) \<or> return_caused X R C (task_begin C N fresh input s) t"
proof (cases "t \<in> set (sy_tasks s)")
  case False
  show ?thesis
  proof (cases "\<exists>req v. tk_phase t = TReturned (Some req) v")
    case True
    then obtain req v where ph: "tk_phase t = TReturned (Some req) v" by blast
    obtain e eng where e: "start N (br_engine (sy_bridge s)) = (Inl e, eng)"
        "t = \<lparr>tk_id = fresh, tk_input = input, tk_phase = TReturned (Some req) (cl_return C input req (Inl e))\<rparr>"
      using assms(2) False ph by (auto simp: task_begin_def split: sum.splits prod.splits)
    then have "start_failed X R C (task_begin C N fresh input s) fresh input e"
      unfolding start_failed_def by (intro exI [of _ s] exI [of _ N]) (simp add: assms(1))
    with e(2) show ?thesis by (auto simp: return_caused_def)
  qed (simp add: return_caused_other)
qed simp

lemma finished_caused:
  assumes "system_ok R C s" and "n < length (sy_tasks s)" and "t \<in> set (sy_tasks (task_finish C n s))"
  shows "t \<in> set (sy_tasks s) \<or> return_caused X R C (task_finish C n s) t"
proof (cases "task_finish C n s = s")
  case False
  then obtain req k out where ph: "tk_phase (sy_tasks s ! n) = TWaiting req k"
      "fut_state (br_futs (sy_bridge s) ! k) = FDone out"
    by (auto simp: task_finish_def split: task_phase.splits fut_state.splits)
  then have fin: "task_finish C n s =
      set_phase n (TReturned (Some req) (cl_return C (tk_input (sy_tasks s ! n)) req out)) s"
    by (simp add: task_finish_def)
  have "(r_id R req, Some out) \<in> set (system_outs (task_finish C n s))"
    using waiting_outcome [OF assms(1,2) ph] by (simp add: fin system_outs_def)
  then show ?thesis
    using set_phase_tasks assms(3) unfolding fin by (fastforce simp: return_caused_def)
qed (use assms(3) in simp)

lemma returned_caused:
  "system_reachable X R C s \<Longrightarrow> \<forall>t \<in> set (sy_tasks s). return_caused X R C s t"
proof (induction rule: system_reachable.induct)
  case (step s s')
  have ok: "system_ok R C s" using system_reachable_ok [OF step.hyps(1)] by simp
  have "t \<in> set (sy_tasks s) \<or> return_caused X R C s' t" if t: "t \<in> set (sy_tasks s')" for t
    using step.hyps(2)
  proof cases
    case (begins N fresh input)
    then show ?thesis using begun_caused [OF step.hyps(1)] t by simp
  next
    case (registers n)
    from registers(2) show ?thesis
    proof (cases rule: task_register_cases)
      case (2 req port p st)
      then have "t \<in> set (sy_tasks s) \<or> (\<exists>req k. tk_phase t = TWaiting req k)"
        using t set_phase_tasks by fastforce
      then show ?thesis by (auto intro!: return_caused_other)
    qed (use t in simp)
  next
    case (finishes n)
    then show ?thesis using finished_caused [OF ok] t by simp
  next
    case (dropped n)
    then have "t \<in> set (sy_tasks s) \<or> tk_phase t = TDropped"
      using t set_phase_tasks by (fastforce simp: task_drop_def split: task_phase.splits)
    then show ?thesis by (auto intro!: return_caused_other)
  qed (use t in simp)
  then show ?case using return_caused_step [OF _ step.hyps] step.IH by blast
qed (simp add: system_init_def)

lemma start_failed_Http: "start_failed X R C s fresh input e \<Longrightarrow> \<exists>reason. e = Http reason"
  by (auto simp: start_failed_def start_def start_with_def dest: bind_listener_Http
      split: option.splits sum.splits)

lemma returned_because:
  assumes "system_reachable X R C s" and "t \<in> set (sy_tasks s)" and "tk_phase t = TReturned (Some req) v"
  obtains out where "cl_request C (tk_id t) (tk_input t) = Inr req" and "v = cl_return C (tk_input t) req out"
    and "(\<exists>e. out = Inl e \<and> start_failed X R C s (tk_id t) (tk_input t) e) \<or>
      explained X (br_posts (sy_bridge s)) (r_id R req) out"
proof -
  have "return_caused X R C s t" using returned_caused [OF assms(1)] assms(2) by blast
  then obtain out where out: "v = cl_return C (tk_input t) req out"
      "(\<exists>e. out = Inl e \<and> start_failed X R C s (tk_id t) (tk_input t) e) \<or>
       (r_id R req, Some out) \<in> set (system_outs s)"
    using assms(3) unfolding return_caused_def by blast
  have "cl_request C (tk_id t) (tk_input t) = Inr req" by (rule returned_explained [OF assms])
  with out show ?thesis using that outs_explained [OF assms(1)] by blast
qed

subsection \<open>The URLs that were opened\<close>

lemma bridge_step_browser:
  "bridge_step X R b b' \<Longrightarrow> eng_browser (br_engine b') = eng_browser (br_engine b)"
  by (erule bridge_step.cases)
    (auto simp: prepare_def start_def start_with_def shutdown_def put_store_def poll_step_def drop_step_def
      put_future_def check_step_def finish_step_def put_phase_def Let_def
      split: prod.splits option.splits sum.splits)

lemma system_steps_browser:
  assumes "(system_step X R C)\<^sup>*\<^sup>* s s'" and "system_reachable X R C s"
  shows "eng_browser (br_engine (sy_bridge s')) = eng_browser (br_engine (sy_bridge s))"
  using assms
proof (induction rule: rtranclp_induct)
  case (step u v)
  have "system_reachable X R C u" by (rule system_steps_reachable [OF step.hyps(1) step.prems])
  from system_step_bridge [OF this step.hyps(2)] step.IH [OF step.prems] bridge_step_browser show ?case by metis
qed simp

lemma map_fut_id_update: "fut_id f = fut_id (fs ! k) \<Longrightarrow> map fut_id (fs[k := f]) = map fut_id fs"
  by (rule map_update_same)

lemma quiet_step_ids:
  assumes "quiet_step X R b b'"
  shows "map fut_id (br_futs b') = map fut_id (br_futs b)"
proof -
  have "bridge_step X R b b'" "length (br_futs b') = length (br_futs b)"
    using assms by (simp_all add: quiet_step_def)
  then show ?thesis
    by (cases rule: bridge_step.cases)
      (simp_all add: poll_step_def drop_step_def check_step_def finish_step_def Let_def map_fut_id_update)
qed

definition opened_for ::
  "'e core_ext_scheme \<Rightarrow> ('r, 'y) request_ops_scheme \<Rightarrow> ('b, 'r, 'v) client \<Rightarrow> (uuid \<times> 'b) set \<Rightarrow> url \<Rightarrow>
     uuid \<Rightarrow> bool" where
  "opened_for X R C cs u i \<longleftrightarrow>
     (\<exists>(fresh, input) \<in> cs. \<exists>req port. cl_request C fresh input = Inr req \<and> r_id R req = i \<and>
        build_url X port i (r_url_kind R req) = Some u)"

definition opened_ok ::
  "'e core_ext_scheme \<Rightarrow> ('r, 'y) request_ops_scheme \<Rightarrow> ('b, 'r, 'v) client \<Rightarrow> ('b, 'r, 'v, 'x) system \<Rightarrow> bool" where
  "opened_ok X R C s \<longleftrightarrow>
     (case eng_browser (br_engine (sy_bridge s)) of
        BPrint \<Rightarrow> sy_opened s = []
      | BDefault \<Rightarrow>
          list_all2 (opened_for X R C (called s)) (sy_opened s) (map fut_id (br_futs (sy_bridge s))))"

lemma opened_ok_same:
  assumes "opened_ok X R C s" and "eng_browser (br_engine (sy_bridge s')) = eng_browser (br_engine (sy_bridge s))"
    and "sy_opened s' = sy_opened s" and "map fut_id (br_futs (sy_bridge s')) = map fut_id (br_futs (sy_bridge s))"
    and "called s \<subseteq> called s'"
  shows "opened_ok X R C s'"
proof -
  have "opened_for X R C (called s') u i" if "opened_for X R C (called s) u i" for u i
    using that assms(5) unfolding opened_for_def by blast
  with assms(1-4) show ?thesis
    by (auto simp: opened_ok_def intro: list_all2_mono split: browser_choice.splits)
qed

lemma opened_register:
  assumes "system_ok R C s" and "n < length (sy_tasks s)" and "task_register X R n s = Some s'"
    and "opened_ok X R C s"
  shows "opened_ok X R C s'"
  using assms(3)
proof (cases rule: task_register_cases)
  case (2 req port p st)
  have "task_ok R C (system_outs s) (sy_tasks s ! n)"
    using assms(1,2) by (simp add: system_ok_def tasks_ok_def)
  then have "cl_request C (tk_id (sy_tasks s ! n)) (tk_input (sy_tasks s ! n)) = Inr req"
    using 2(1) by (simp add: task_ok_def)
  moreover have "(tk_id (sy_tasks s ! n), tk_input (sy_tasks s ! n)) \<in> called s"
    using assms(2) by (simp add: called_def)
  moreover have "p_id p = r_id R req" "build_url X port (r_id R req) (r_url_kind R req) = Some (p_url p)"
    using 2(2) by (auto simp: register_def Let_def)
  ultimately have "opened_for X R C (called s) (p_url p) (p_id p)"
    unfolding opened_for_def by force
  moreover have "called s' = called s" by (simp add: 2(3))
  ultimately show ?thesis
    using assms(4) 2(3)
    by (auto simp: opened_ok_def engine_open_def browser_open_def put_store_def future_of_def
        intro!: list_all2_appendI split: browser_choice.splits)
qed (use assms(4) in simp)

lemma system_opened: "system_reachable X R C s \<Longrightarrow> opened_ok X R C s"
proof (induction rule: system_reachable.induct)
  case (init web_ui bind browser)
  then show ?case by (simp add: opened_ok_def system_init_def bridge_init_def split: browser_choice.split)
next
  case (step s s')
  have ok: "system_ok R C s" and b: "bridge_reachable X R (sy_bridge s)"
    using system_reachable_ok [OF step.hyps(1)] by simp_all
  have browser: "eng_browser (br_engine (sy_bridge s')) = eng_browser (br_engine (sy_bridge s))"
    using system_step_bridge [OF step.hyps] bridge_step_browser by metis
  from step.hyps(2) show ?case
  proof cases
    case (begins N fresh input)
    show ?thesis
      by (rule opened_ok_same [OF step.IH browser])
        (auto simp: begins task_begin_def split: sum.split prod.split)
  next
    case (registers n)
    then show ?thesis using opened_register [OF ok] step.IH by blast
  next
    case (finishes n)
    show ?thesis
      by (rule opened_ok_same [OF step.IH browser])
        (auto simp: finishes task_finish_def
          split: task_phase.split fut_state.split)
  next
    case (dropped n)
    show ?thesis
      by (rule opened_ok_same [OF step.IH browser])
        (auto simp: dropped task_drop_def drop_step_def map_fut_id_update
          split: task_phase.split)
  next
    case (bridge b')
    show ?thesis
      by (rule opened_ok_same [OF step.IH browser]) (simp_all add: bridge(1) quiet_step_ids [OF bridge(2)])
  qed
qed

end
