(* ===== verification/Serve_Properties.thy ===== *)
theory Serve_Properties
  imports Serve_System Task_Run Task_History
begin

section \<open>Properties of the control API at work\<close>

text \<open>
  What the bindings read from a running \<open>serve\<close>, what its bridge serves, and that it answers.
\<close>

definition connect_body :: json where
  "connect_body = JObject [(''type'', JString ''connect'')]"

lemma connect_body_request [simp]:
  "control_request (evm_ops ref_evm) \<lparr>cs_account = a\<rparr> 7 connect_body = Inr (evm_connect 7 None a)"
  by (cases a) (simp_all add: control_request_def evm_from_json_def str_field_def opt_address_def opt_parsed_def
      evm_connect_def evm_connect_with_def str_opt_def connect_body_def expect_account_def)

subsection \<open>Properties\<close>

text \<open>
  C2: A control request is answered with its own wallet result. In every reachable state of a running
  \<open>serve\<close>, with any number of control requests, wallets, timers and disconnects interleaved, a task that
  answered 200 had parsed its body into a request, which the configured account allows; the result in the
  answer's body passed the chain's check for that request, and is what a wallet posted under the id of that
  request, in a POST that was answered with 200.
\<close>

theorem serve_answers_own_request:
  assumes "system_reachable X R (serve_client R S) s" and "t \<in> set (sy_tasks s)"
    and "tk_phase t = TReturned sent rsp" and "rs_status rsp = 200"
  shows "\<exists>req res. sent = Some req \<and> control_request R S (tk_id t) (tk_input t) = Inr req \<and>
    r_check_result R req res = Inr () \<and> rs_body rsp = BJson (result_serialize (RSuccess res)) \<and>
    (\<exists>p \<in> set (br_posts (sy_bridge s)). po_id p = r_id R req \<and> po_result p = RSuccess res \<and>
       po_phase p = PAnswered completed)"
  using assms by (rule answered_200)

theorem serve_answers_own_request_witness:
  "\<exists>p \<in> set (br_posts (one_posted ref_evm (evm_ops ref_evm) (evm_connect 7 None None) (RSuccess ''ok''))).
     po_id p = r_id (evm_ops ref_evm) (evm_connect 7 None None) \<and> po_result p = RSuccess ''ok''"
proof -
  let ?req = "evm_connect 7 None None"
  have "answer_of (checked_result (evm_ops ref_evm) ?req (Inr ''ok'')) = success_response ''ok''"
    by (simp add: checked_result_def accept_any_def answer_of_def)
  then show ?thesis
    using serve_answers_own_request [OF one_task_returned [OF ref_url_laws(2), of "serve_client (evm_ops ref_evm) \<lparr>cs_account = None\<rparr>" 7 connect_body ?req "evm_ops ref_evm" "''ok''"]]
    by (simp add: one_task_def success_response_def json_response_def) blast
qed

text \<open>
  C3: A \<open>serve\<close> process with a configured account puts nothing before the wallet but requests for that
  account. In every reachable state of \<open>serve\<close> over EVM, TRON or Bitcoin, every request its bridge serves
  names the configured account, is filed under its own id, and is what the body of one of its control
  requests describes.
\<close>

theorem serve_serves_configured:
  "(system_reachable XE (evm_ops XE) (serve_client (evm_ops XE) \<lparr>cs_account = Some a\<rparr>) s \<longrightarrow>
      store_get (br_store (sy_bridge s)) i = Some r \<longrightarrow>
      evm_account r = Some a \<and> meta_id (evm_meta r) = i \<and>
      (\<exists>t \<in> set (sy_tasks s).
         control_request (evm_ops XE) \<lparr>cs_account = Some a\<rparr> (tk_id t) (tk_input t) = Inr r)) \<and>
   (system_reachable XT (tron_ops XT) (serve_client (tron_ops XT) \<lparr>cs_account = Some b\<rparr>) s' \<longrightarrow>
      store_get (br_store (sy_bridge s')) i = Some r' \<longrightarrow>
      tron_account r' = Some b \<and> meta_id (tron_meta r') = i \<and>
      (\<exists>t \<in> set (sy_tasks s').
         control_request (tron_ops XT) \<lparr>cs_account = Some b\<rparr> (tk_id t) (tk_input t) = Inr r')) \<and>
   (system_reachable XB (btc_ops XB env) (serve_client (btc_ops XB env) \<lparr>cs_account = Some u\<rparr>) s'' \<longrightarrow>
      store_get (br_store (sy_bridge s'')) i = Some r'' \<longrightarrow>
      btc_account_of r'' = Some (BtcAddress (unchecked_inner u)) \<and> meta_id (btc_meta r'') = i \<and>
      (\<exists>t \<in> set (sy_tasks s'').
         control_request (btc_ops XB env) \<lparr>cs_account = Some u\<rparr> (tk_id t) (tk_input t) = Inr r''))"
proof (intro conjI impI)
  assume s: "system_reachable XE (evm_ops XE) (serve_client (evm_ops XE) \<lparr>cs_account = Some a\<rparr>) s"
    and r: "store_get (br_store (sy_bridge s)) i = Some r"
  show "evm_account r = Some a" using evm.served_names [OF s r] by simp
  show "meta_id (evm_meta r) = i"
    "\<exists>t \<in> set (sy_tasks s).
       control_request (evm_ops XE) \<lparr>cs_account = Some a\<rparr> (tk_id t) (tk_input t) = Inr r"
    using served_from_body [OF s r] by simp_all
next
  assume s: "system_reachable XT (tron_ops XT) (serve_client (tron_ops XT) \<lparr>cs_account = Some b\<rparr>) s'"
    and r: "store_get (br_store (sy_bridge s')) i = Some r'"
  show "tron_account r' = Some b" using tron.served_names [OF s r] by simp
  show "meta_id (tron_meta r') = i"
    "\<exists>t \<in> set (sy_tasks s').
       control_request (tron_ops XT) \<lparr>cs_account = Some b\<rparr> (tk_id t) (tk_input t) = Inr r'"
    using served_from_body [OF s r] by simp_all
next
  assume s: "system_reachable XB (btc_ops XB env) (serve_client (btc_ops XB env) \<lparr>cs_account = Some u\<rparr>) s''"
    and r: "store_get (br_store (sy_bridge s'')) i = Some r''"
  show "btc_account_of r'' = Some (BtcAddress (unchecked_inner u))" using btc.served_names [OF s r] by simp
  show "meta_id (btc_meta r'') = i"
    "\<exists>t \<in> set (sy_tasks s'').
       control_request (btc_ops XB env) \<lparr>cs_account = Some u\<rparr> (tk_id t) (tk_input t) = Inr r''"
    using served_from_body [OF s r] by simp_all
qed

lemma connect_body_tron:
  "control_request (tron_ops ref_tron) \<lparr>cs_account = Some b\<rparr> 7 connect_body = Inr (tron_connect 7 None (Some b))"
  by (simp add: control_request_def tron_from_json_def str_field_def str_opt_def opt_tron_def opt_parsed_def
      connect_body_def tron_connect_def expect_account_def)

lemma connect_body_btc:
  "control_request (btc_ops ref_btc (\<lambda>v. EnvNotPresent)) \<lparr>cs_account = Some (Unchecked 5)\<rparr> 7 connect_body =
     Inr (BtcConnect (request_meta_new 7) BtcMainnet (Some (BtcAddress 5)))"
  by (simp add: control_request_def btc_from_json_def str_field_def str_opt_def opt_btc_def opt_parsed_def
      connect_body_def btc_connect_def btc_checked_def expect_account_def btc_default_network_def env_ok_def
      btc_expecting_def require_network_def ref_btc_def to_bitcoin_def)

text \<open>The bridge of one waiting task serves its request.\<close>

lemma one_bridge_serves: "store_get (br_store (one_bridge R req)) (r_id R req) = Some req"
  by (simp add: one_bridge_def br_store_def store_get_def)

theorem serve_serves_configured_witness:
  "(\<exists>r. store_get (br_store (one_bridge (evm_ops ref_evm) (evm_connect 7 None (Some (Address 255))))) 7 = Some r \<and>
      evm_account r = Some (Address 255)) \<and>
   (\<exists>r. store_get (br_store (one_bridge (tron_ops ref_tron) (tron_connect 7 None (Some (TronAddress [1]))))) 7 =
       Some r \<and> tron_account r = Some (TronAddress [1])) \<and>
   (\<exists>r. store_get (br_store (one_bridge (btc_ops ref_btc (\<lambda>v. EnvNotPresent))
       (BtcConnect (request_meta_new 7) BtcMainnet (Some (BtcAddress 5))))) 7 = Some r \<and>
      btc_account_of r = Some (BtcAddress 5))"
proof -
  let ?E = "evm_ops ref_evm" and ?e = "evm_connect 7 None (Some (Address 255))"
  let ?T = "tron_ops ref_tron" and ?t = "tron_connect 7 None (Some (TronAddress [1]))"
  let ?B = "btc_ops ref_btc (\<lambda>v. EnvNotPresent)"
  let ?b = "BtcConnect (request_meta_new 7) BtcMainnet (Some (BtcAddress 5)) :: (u64, u8 list) btc_request"
  have e: "system_reachable ref_evm ?E (serve_client ?E \<lparr>cs_account = Some (Address 255)\<rparr>)
      (one_task 7 connect_body (TWaiting ?e 0) (one_bridge ?E ?e))"
    by (rule one_task_waits [OF ref_url_laws(2)]) simp
  have t: "system_reachable ref_tron ?T (serve_client ?T \<lparr>cs_account = Some (TronAddress [1])\<rparr>)
      (one_task 7 connect_body (TWaiting ?t 0) (one_bridge ?T ?t))"
    by (rule one_task_waits [OF ref_url_laws(3)]) (simp add: connect_body_tron)
  have b: "system_reachable ref_btc ?B (serve_client ?B \<lparr>cs_account = Some (Unchecked 5)\<rparr>)
      (one_task 7 connect_body (TWaiting ?b 0) (one_bridge ?B ?b))"
    by (rule one_task_waits [OF ref_url_laws(4)]) (simp add: connect_body_btc)
  have get: "store_get (br_store (one_bridge ?E ?e)) 7 = Some ?e" "store_get (br_store (one_bridge ?T ?t)) 7 = Some ?t"
    "store_get (br_store (one_bridge ?B ?b)) 7 = Some ?b"
    using one_bridge_serves [of ?E ?e] one_bridge_serves [of ?T ?t] one_bridge_serves [of ?B ?b]
    by (simp_all add: evm_connect_def evm_connect_with_def tron_connect_def request_meta_new_def)
  note named = serve_serves_configured [where i = 7, THEN conjunct1, THEN mp, OF e, THEN mp]
    serve_serves_configured [where i = 7, THEN conjunct2, THEN conjunct1, THEN mp, OF t, THEN mp]
    serve_serves_configured [where i = 7, THEN conjunct2, THEN conjunct2, THEN mp, OF b, THEN mp]
  show ?thesis
    using named get by (simp add: one_task_def)
qed

end
