(* ===== verification/Signer_System.thy ===== *)
theory Signer_System
  imports Evm_Signer Tron_Signer Btc_Signer Task_History
begin

section \<open>The typed signers at work\<close>

text \<open>
  The methods of \<open>EvmSigner\<close>, \<open>TronSigner\<close> and \<open>BtcSigner\<close> that go to a wallet, as tasks over the signer's
  own bridge: any number of calls in flight. Each method is its request, built or refused, and what it
  reads from the wallet's text; \<open>method_client\<close> makes a client of these two. A call on its own is the
  method of the signer theory (\<open>evm_client_call\<close> and so on), so what is proved here of a running system is
  about those methods. \<open>prepare\<close>, \<open>open\<close> and \<open>shutdown\<close> only delegate to the engine; a \<open>shutdown\<close> is one of
  the bridge's quiet steps.
\<close>

subsection \<open>Delegation\<close>

definition evm_prepare ::
  "'e core_ext_scheme \<Rightarrow> (evm_request, 'y) request_ops_scheme \<Rightarrow> 'l net \<Rightarrow> evm_request \<Rightarrow> 'x evm_signer \<Rightarrow>
     (signer_error + prepared) option \<times> 'x evm_signer" where
  "evm_prepare X R N request S =
     (let prep = prepare X R N request (es_engine S) in (fst prep, S\<lparr>es_engine := snd prep\<rparr>))"

definition evm_open :: "'x evm_signer \<Rightarrow> url \<Rightarrow> url list" where
  "evm_open S url = engine_open (es_engine S) url"

definition evm_shutdown :: "'x evm_signer \<Rightarrow> 'x evm_signer" where
  "evm_shutdown S = S\<lparr>es_engine := shutdown (es_engine S)\<rparr>"

definition tron_prepare ::
  "'e core_ext_scheme \<Rightarrow> (tron_request, 'y) request_ops_scheme \<Rightarrow> 'l net \<Rightarrow> tron_request \<Rightarrow> 'x tron_signer \<Rightarrow>
     (signer_error + prepared) option \<times> 'x tron_signer" where
  "tron_prepare X R N request S =
     (let prep = prepare X R N request (tsg_engine S) in (fst prep, S\<lparr>tsg_engine := snd prep\<rparr>))"

definition tron_open :: "'x tron_signer \<Rightarrow> url \<Rightarrow> url list" where
  "tron_open S url = engine_open (tsg_engine S) url"

definition tron_shutdown :: "'x tron_signer \<Rightarrow> 'x tron_signer" where
  "tron_shutdown S = S\<lparr>tsg_engine := shutdown (tsg_engine S)\<rparr>"

definition btc_prepare ::
  "'e core_ext_scheme \<Rightarrow> (('a, 'p) btc_request, 'y) request_ops_scheme \<Rightarrow> 'l net \<Rightarrow> ('a, 'p) btc_request \<Rightarrow>
     ('a, 'p, 'x) btc_signer \<Rightarrow> (signer_error + prepared) option \<times> ('a, 'p, 'x) btc_signer" where
  "btc_prepare X R N request S =
     (let prep = prepare X R N request (bs_engine S) in (fst prep, S\<lparr>bs_engine := snd prep\<rparr>))"

definition btc_open :: "('a, 'p, 'x) btc_signer \<Rightarrow> url \<Rightarrow> url list" where
  "btc_open S url = engine_open (bs_engine S) url"

definition btc_shutdown :: "('a, 'p, 'x) btc_signer \<Rightarrow> ('a, 'p, 'x) btc_signer" where
  "btc_shutdown S = S\<lparr>bs_engine := shutdown (bs_engine S)\<rparr>"

subsection \<open>A method as a client\<close>

definition method_client ::
  "(uuid \<Rightarrow> 'b \<Rightarrow> signer_error + 'r) \<Rightarrow> ('b \<Rightarrow> string \<Rightarrow> signer_error + 'v) \<Rightarrow>
     ('b, 'r, signer_error + 'v) client" where
  "method_client build read =
     \<lparr>cl_request = (\<lambda>fresh m. map_err Inl (build fresh m)), cl_return = (\<lambda>m req out. and_then out (read m))\<rparr>"

lemma method_client_simps [simp]:
  "cl_request (method_client build read) fresh m = map_err Inl (build fresh m)"
  "cl_return (method_client build read) m req out = and_then out (read m)"
  by (simp_all add: method_client_def)

lemma method_client_call:
  "fst (client_call (method_client build read) submit fresh m) =
     and_then (build fresh m) (\<lambda>req. and_then (submit req) (read m))"
  by (cases "build fresh m") (simp_all add: client_call_def)

text \<open>What the method gives is what it reads from the text a wallet posted for its own request.\<close>

lemma method_returned:
  assumes "system_reachable X R (method_client build read) s" and "t \<in> set (sy_tasks s)"
    and "tk_phase t = TReturned sent (Inr v)"
  obtains req raw where "sent = Some req" and "build (tk_id t) (tk_input t) = Inr req"
    and "read (tk_input t) raw = Inr v"
    and "\<exists>p \<in> set (br_posts (sy_bridge s)). po_id p = r_id R req \<and> po_result p = RSuccess raw \<and>
      po_phase p = PAnswered completed"
proof (cases sent)
  case None
  then show ?thesis
    using refused_reason [OF assms(1,2)] assms(3) by (auto simp: map_err_Inl_iff)
next
  case (Some req)
  obtain out where out: "build (tk_id t) (tk_input t) = Inr req" "Inr v = and_then out (read (tk_input t))"
      "(\<exists>e. out = Inl (Http e)) \<or> explained X (br_posts (sy_bridge s)) (r_id R req) out"
    using returned_explained [OF assms(1,2) assms(3) [unfolded Some]] by (auto simp: result_iff)
  from out(2) obtain raw where "out = Inr raw" "read (tk_input t) raw = Inr v"
    by (cases out) auto
  with out show ?thesis using that Some posted_success by blast
qed

text \<open>
  Why a method fails: it refused its arguments, the bridge could not be started when the call began, a wallet
  rejected the request, it was cancelled or timed out, or the wallet's text does not read.
\<close>

definition method_failure ::
  "'e core_ext_scheme \<Rightarrow> (string \<Rightarrow> signer_error + 'v) \<Rightarrow> post list \<Rightarrow> uuid \<Rightarrow> signer_error \<Rightarrow> bool" where
  "method_failure X read ps i e \<longleftrightarrow>
     (case e of
        Http reason \<Rightarrow> False
      | Rejected err code \<Rightarrow> answered ps i (RError err code)
      | Cancelled j \<Rightarrow> j = x_uuid_show X i
      | Timeout secs \<Rightarrow> secs = of_nat REQUEST_TIMEOUT
      | _ \<Rightarrow> \<exists>raw. answered ps i (RSuccess raw) \<and> read raw = Inl e)"

lemma method_failed:
  assumes "system_reachable X R (method_client build read) s" and "t \<in> set (sy_tasks s)"
    and "tk_phase t = TReturned sent (Inl e)"
    and reads: "\<And>m raw e'. read m raw = Inl e' \<Longrightarrow> \<exists>reason. e' = Invalid reason"
  shows "case sent of
      None \<Rightarrow> build (tk_id t) (tk_input t) = Inl e
    | Some req \<Rightarrow> build (tk_id t) (tk_input t) = Inr req \<and>
        (start_failed X R (method_client build read) s (tk_id t) (tk_input t) e \<or>
         method_failure X (read (tk_input t)) (br_posts (sy_bridge s)) (r_id R req) e)"
proof (cases sent)
  case None
  then show ?thesis
    using refused_reason [OF assms(1,2)] assms(3) by (auto simp: map_err_Inl_iff)
next
  case (Some req)
  obtain out where out: "build (tk_id t) (tk_input t) = Inr req" "Inl e = and_then out (read (tk_input t))"
      "(\<exists>e. out = Inl e \<and> start_failed X R (method_client build read) s (tk_id t) (tk_input t) e) \<or>
       explained X (br_posts (sy_bridge s)) (r_id R req) out"
    using returned_because [OF assms(1,2) assms(3) [unfolded Some]] by (auto simp: result_iff)
  have "start_failed X R (method_client build read) s (tk_id t) (tk_input t) e \<or>
      method_failure X (read (tk_input t)) (br_posts (sy_bridge s)) (r_id R req) e"
  proof (cases out)
    case (Inl e')
    then have "e' = e" using out(2) by simp
    with Inl out(3) show ?thesis
      by (auto simp: method_failure_def explained_def cancelled_error_def timeout_error_def map_result_Inl_iff
          eq_commute [of "Inl e"])
  next
    case (Inr raw)
    then have r: "read (tk_input t) raw = Inl e" using out(2) by simp
    then obtain reason where "e = Invalid reason" using reads by blast
    with Inr r out(3) show ?thesis
      by (auto simp: method_failure_def explained_success)
  qed
  with Some out(1) show ?thesis by simp
qed

subsection \<open>EVM\<close>

datatype evm_method =
    EConnect "chain_id option" "address option"
  | ESend send_transaction_params
  | ESign signable_message "address option" "chain_id option"
  | ESignTyped typed_data "address option" "chain_id option"

datatype evm_value = EAddress address | EHash tx_hash | ESignature signature

fun evm_build :: "'x evm_signer \<Rightarrow> uuid \<Rightarrow> evm_method \<Rightarrow> signer_error + evm_request" where
  "evm_build S fresh (EConnect c a) = Inr (evm_connect fresh (Some (chain_or_default S c)) a)"
| "evm_build S fresh (ESend p) =
     map_ok (\<lambda>_. evm_send_transaction fresh (p\<lparr>sp_chain_id := Some (chain_or_default S (sp_chain_id p))\<rparr>))
       (map_err Invalid (send_check p))"
| "evm_build S fresh (ESign m a c) = Inr (evm_sign_message fresh m a (Some (chain_or_default S c)))"
| "evm_build S fresh (ESignTyped d a c) = Inr (evm_sign_typed_data fresh d a (Some (chain_or_default S c)))"

fun evm_read :: "'e evm_ext_scheme \<Rightarrow> evm_method \<Rightarrow> string \<Rightarrow> signer_error + evm_value" where
  "evm_read X (EConnect c a) =
     (\<lambda>raw. map_ok EAddress (evm_parse_signed X dpe_show (address_from_str X) raw ''address''))"
| "evm_read X (ESend p) =
     (\<lambda>raw. map_ok EHash (evm_parse_signed X (\<lambda>e. e) (tx_hash_from_str X) raw ''tx hash''))"
| "evm_read X (ESign m a c) =
     (\<lambda>raw. map_ok ESignature (evm_parse_signed X (\<lambda>e. e) (signature_from_str X) raw ''signature''))"
| "evm_read X (ESignTyped d a c) =
     (\<lambda>raw. map_ok ESignature (evm_parse_signed X (\<lambda>e. e) (signature_from_str X) raw ''signature''))"

definition evm_client ::
  "'e evm_ext_scheme \<Rightarrow> 'x evm_signer \<Rightarrow> (evm_method, evm_request, signer_error + evm_value) client" where
  "evm_client X S = method_client (evm_build S) (evm_read X)"

text \<open>The methods of \<open>Evm_Signer\<close>, by name.\<close>

fun evm_method_call ::
  "'e evm_ext_scheme \<Rightarrow> evm_request submitted \<Rightarrow> uuid \<Rightarrow> 'x evm_signer \<Rightarrow> evm_method \<Rightarrow>
     signer_error + evm_value" where
  "evm_method_call X submit fresh S (EConnect c a) = map_ok EAddress (evm_connect_wallet X submit fresh S c a)"
| "evm_method_call X submit fresh S (ESend p) = map_ok EHash (evm_send X submit fresh S p)"
| "evm_method_call X submit fresh S (ESign m a c) = map_ok ESignature (evm_sign X submit fresh S m a c)"
| "evm_method_call X submit fresh S (ESignTyped d a c) =
     map_ok ESignature (evm_sign_typed X submit fresh S d a c)"

text \<open>The laws of \<open>map_ok\<close> under \<open>and_then\<close>.\<close>

lemma map_ok_and_then: "map_ok f (and_then x k) = and_then x (\<lambda>v. map_ok f (k v))"
  by (cases x) simp_all

lemma and_then_map_ok: "and_then (map_ok f x) k = and_then x (\<lambda>v. k (f v))"
  by (cases x) simp_all

lemma evm_client_call: "fst (client_call (evm_client X S) submit fresh m) = evm_method_call X submit fresh S m"
  by (cases m)
    (simp_all add: evm_client_def method_client_call evm_connect_wallet_def evm_send_def evm_sign_def
      evm_sign_typed_def map_ok_and_then and_then_map_ok)

fun evm_chain_of :: "evm_request \<Rightarrow> chain_id option" where
  "evm_chain_of (EvmConnect m c a u n) = c"
| "evm_chain_of (EvmSendTransaction m c to from v d g f p) = c"
| "evm_chain_of (EvmSignMessage m c s a) = c"
| "evm_chain_of (EvmSignTypedData m c d a) = c"

lemmas evm_builders = evm_connect_def evm_connect_with_def evm_send_transaction_def evm_sign_message_def
  evm_sign_typed_data_def request_meta_new_def

lemma evm_build_Inr:
  assumes "evm_build S fresh m = Inr req"
  shows "meta_id (evm_meta req) = fresh" and "evm_chain_of req \<noteq> None" and "evm_wf X req"
  using assms
  by (cases m; auto simp: evm_builders result_iff evm_wf_def send_check_Inr_iff split: option.split)+

interpretation evm_calls: bridge_client X "evm_ops X" "evm_client X S"
  for X :: "'e evm_ext_scheme" and S :: "'x evm_signer"
  by unfold_locales (simp add: evm_client_def result_iff evm_build_Inr(1))

lemma evm_read_Inl: "evm_read X m raw = Inl e \<Longrightarrow> \<exists>reason. e = Invalid reason"
  by (cases m) (auto simp: map_ok_Inl_iff evm_parse_signed_def map_err_Inl_iff)

subsection \<open>TRON\<close>

datatype tron_method =
    TRConnect "tron_network option" "tron_address option"
  | TRSend tron_send_params
  | TRTrigger tron_trigger_params
  | TRDeploy tron_deploy_params
  | TRSign string "tron_address option" "tron_network option"
  | TRSignTyped tron_typed_data "tron_address option" "tron_network option"

datatype tron_value = TRAddress tron_address | TRHash tx_hash | TRDeployed deploy_result | TRSignature signature

fun tron_build :: "'x tron_signer \<Rightarrow> uuid \<Rightarrow> tron_method \<Rightarrow> signer_error + tron_request" where
  "tron_build S fresh (TRConnect n a) = Inr (tron_connect fresh (Some (network_or_default S n)) a)"
| "tron_build S fresh (TRSend p) =
     Inr (tron_send_transaction fresh (p\<lparr>ts_network := Some (network_or_default S (ts_network p))\<rparr>))"
| "tron_build S fresh (TRTrigger p) =
     Inr (tron_trigger_contract fresh (p\<lparr>tt_network := Some (network_or_default S (tt_network p))\<rparr>))"
| "tron_build S fresh (TRDeploy p) =
     Inr (tron_deploy_contract fresh (p\<lparr>tdp_network := Some (network_or_default S (tdp_network p))\<rparr>))"
| "tron_build S fresh (TRSign m a n) = Inr (tron_sign_message fresh m a (Some (network_or_default S n)))"
| "tron_build S fresh (TRSignTyped d a n) = Inr (tron_sign_typed_data fresh d a (Some (network_or_default S n)))"

fun tron_read :: "'e tron_ext_scheme \<Rightarrow> tron_method \<Rightarrow> string \<Rightarrow> signer_error + tron_value" where
  "tron_read X (TRConnect n a) =
     (\<lambda>raw. map_ok TRAddress (tron_parse_signed X dpe_show (tron_address_from_str X) raw ''tron address''))"
| "tron_read X (TRSend p) =
     (\<lambda>raw. map_ok TRHash (tron_parse_signed X (\<lambda>e. e) (tx_hash_from_str X) raw ''tx hash''))"
| "tron_read X (TRTrigger p) =
     (\<lambda>raw. map_ok TRHash (tron_parse_signed X (\<lambda>e. e) (tx_hash_from_str X) raw ''tx hash''))"
| "tron_read X (TRDeploy p) = (\<lambda>raw. map_ok TRDeployed (parse_deploy_result X raw))"
| "tron_read X (TRSign m a n) =
     (\<lambda>raw. map_ok TRSignature (tron_parse_signed X (\<lambda>e. e) (signature_from_str X) raw ''signature''))"
| "tron_read X (TRSignTyped d a n) =
     (\<lambda>raw. map_ok TRSignature (tron_parse_signed X (\<lambda>e. e) (signature_from_str X) raw ''signature''))"

definition tron_client ::
  "'e tron_ext_scheme \<Rightarrow> 'x tron_signer \<Rightarrow> (tron_method, tron_request, signer_error + tron_value) client" where
  "tron_client X S = method_client (tron_build S) (tron_read X)"

fun tron_method_call ::
  "'e tron_ext_scheme \<Rightarrow> tron_request submitted \<Rightarrow> uuid \<Rightarrow> 'x tron_signer \<Rightarrow> tron_method \<Rightarrow>
     signer_error + tron_value" where
  "tron_method_call X submit fresh S (TRConnect n a) = map_ok TRAddress (tron_connect_wallet X submit fresh S n a)"
| "tron_method_call X submit fresh S (TRSend p) = map_ok TRHash (tron_send X submit fresh S p)"
| "tron_method_call X submit fresh S (TRTrigger p) = map_ok TRHash (tron_trigger X submit fresh S p)"
| "tron_method_call X submit fresh S (TRDeploy p) = map_ok TRDeployed (tron_deploy X submit fresh S p)"
| "tron_method_call X submit fresh S (TRSign m a n) = map_ok TRSignature (tron_sign X submit fresh S m a n)"
| "tron_method_call X submit fresh S (TRSignTyped d a n) =
     map_ok TRSignature (tron_sign_typed X submit fresh S d a n)"

lemma tron_client_call: "fst (client_call (tron_client X S) submit fresh m) = tron_method_call X submit fresh S m"
  by (cases m)
    (simp_all add: tron_client_def method_client_call tron_connect_wallet_def tron_send_def tron_trigger_def
      tron_deploy_def tron_sign_def tron_sign_typed_def map_ok_and_then and_then_map_ok)

lemma tron_build_Inr:
  assumes "tron_build S fresh m = Inr req"
  shows "meta_id (tron_meta req) = fresh" and "tron_network_of req \<noteq> None"
  using assms by (cases m; auto simp: tron_builders request_meta_new_def)+

interpretation tron_calls: bridge_client X "tron_ops X" "tron_client X S"
  for X :: "'e tron_ext_scheme" and S :: "'x tron_signer"
  by unfold_locales (simp add: tron_client_def result_iff tron_build_Inr(1))

lemma parse_deploy_result_Inl: "parse_deploy_result X raw = Inl e \<Longrightarrow> \<exists>reason. e = Invalid reason"
  by (auto simp: parse_deploy_result_def and_then_Inl_iff map_err_Inl_iff)

lemma tron_read_Inl: "tron_read X m raw = Inl e \<Longrightarrow> \<exists>reason. e = Invalid reason"
  by (cases m) (auto simp: tron_parse_signed_def map_err_Inl_iff parse_deploy_result_Inl)

subsection \<open>Bitcoin\<close>

datatype ('a, 'p) btc_method =
    BConnect "btc_network option" "'a unchecked_address option"
  | BTransfer "'a send_transfer_params"
  | BSignPsbt "('a, 'p) sign_psbt_params"
  | BSignMessage "'a sign_message_params"

datatype ('a, 'k, 'p) btc_value =
    BAccount "('a, 'k) btc_account"
  | BTxid txid
  | BPsbt "'p signed_psbt"
  | BSignature message_signature

fun btc_build ::
  "('a, 'k, 'p, 'e) btc_ext_scheme \<Rightarrow> ('a, 'p, 'x) btc_signer \<Rightarrow> uuid \<Rightarrow> ('a, 'p) btc_method \<Rightarrow>
     signer_error + ('a, 'p) btc_request" where
  "btc_build X S fresh (BConnect n a) =
     map_err btc_invalid (btc_connect X fresh (unwrap_or n (bs_default_network S)) a)"
| "btc_build X S fresh (BTransfer p) = map_err btc_invalid (btc_send_transfer X fresh p)"
| "btc_build X S fresh (BSignPsbt p) = map_err btc_invalid (btc_sign_psbt X fresh p)"
| "btc_build X S fresh (BSignMessage p) = map_err btc_invalid (btc_sign_message X fresh p)"

fun btc_read ::
  "('a, 'k, 'p, 'e) btc_ext_scheme \<Rightarrow> ('a, 'p, 'x) btc_signer \<Rightarrow> ('a, 'p) btc_method \<Rightarrow> string \<Rightarrow>
     signer_error + ('a, 'k, 'p) btc_value" where
  "btc_read X S (BConnect n a) =
     (\<lambda>raw. map_ok BAccount (parse_btc_account X raw (unwrap_or n (bs_default_network S))))"
| "btc_read X S (BTransfer p) = (\<lambda>raw. map_ok BTxid (parse_btc_txid X raw))"
| "btc_read X S (BSignPsbt p) = (\<lambda>raw. map_ok BPsbt (parse_signed_psbt X (pp_psbt p) raw))"
| "btc_read X S (BSignMessage p) =
     (\<lambda>raw. map_ok BSignature (btc_parse_signed X dpe_show (message_signature_from_str X) raw ''signature''))"

definition btc_client ::
  "('a, 'k, 'p, 'e) btc_ext_scheme \<Rightarrow> ('a, 'p, 'x) btc_signer \<Rightarrow>
     (('a, 'p) btc_method, ('a, 'p) btc_request, signer_error + ('a, 'k, 'p) btc_value) client" where
  "btc_client X S = method_client (btc_build X S) (btc_read X S)"

fun btc_method_call ::
  "('a, 'k, 'p, 'e) btc_ext_scheme \<Rightarrow> ('a, 'p) btc_request submitted \<Rightarrow> uuid \<Rightarrow> ('a, 'p, 'x) btc_signer \<Rightarrow>
     ('a, 'p) btc_method \<Rightarrow> signer_error + ('a, 'k, 'p) btc_value" where
  "btc_method_call X submit fresh S (BConnect n a) = map_ok BAccount (btc_connect_wallet X submit fresh S n a)"
| "btc_method_call X submit fresh S (BTransfer p) = map_ok BTxid (btc_transfer X submit fresh p)"
| "btc_method_call X submit fresh S (BSignPsbt p) = map_ok BPsbt (btc_sign_psbt_wallet X submit fresh p)"
| "btc_method_call X submit fresh S (BSignMessage p) =
     map_ok BSignature (btc_sign_message_wallet X submit fresh p)"

lemma btc_client_call: "fst (client_call (btc_client X S) submit fresh m) = btc_method_call X submit fresh S m"
  by (cases m)
    (simp_all add: btc_client_def method_client_call btc_connect_wallet_def btc_transfer_def
      btc_sign_psbt_wallet_def btc_sign_message_wallet_def map_ok_and_then Let_def)

lemma btc_build_Inr:
  assumes "btc_build X S fresh m = Inr req"
  shows "meta_id (btc_meta req) = fresh"
    and "list_all (on_network X (btc_network_of req)) (btc_addresses req)"
  using assms
  by (cases m; auto simp: btc_built_iff request_meta_new_def result_iff btc_checked_Inr_iff
      require_network_Inr_iff)+

interpretation btc_calls: bridge_client X "btc_ops X env" "btc_client X S"
  for X :: "('a, 'k, 'p, 'e) btc_ext_scheme" and env :: environment and S :: "('a, 'p, 'x) btc_signer"
  by unfold_locales (simp add: btc_client_def result_iff btc_build_Inr(1))

lemma btc_parse_signed_Inl: "btc_parse_signed X se parse raw what = Inl e \<Longrightarrow> \<exists>reason. e = Invalid reason"
  by (auto simp: btc_parse_signed_def map_err_Inl_iff)

lemma parse_btc_account_Inl: "parse_btc_account X raw n = Inl e \<Longrightarrow> \<exists>reason. e = Invalid reason"
  by (auto simp: parse_btc_account_def result_field_def btc_invalid_def and_then_Inl_iff map_err_Inl_iff
      dest: btc_parse_signed_Inl)

lemma parse_signed_psbt_Inl: "parse_signed_psbt X psbt raw = Inl e \<Longrightarrow> \<exists>reason. e = Invalid reason"
  by (auto simp: parse_signed_psbt_def parse_btc_txid_def check_broadcast_def and_then_Inl_iff map_err_Inl_iff
      transpose_opt_Inl_iff Let_def dest: btc_parse_signed_Inl split: if_splits option.splits)

lemma btc_read_Inl: "btc_read X S m raw = Inl e \<Longrightarrow> \<exists>reason. e = Invalid reason"
  by (cases m) (auto simp: parse_btc_txid_def dest: btc_parse_signed_Inl parse_btc_account_Inl parse_signed_psbt_Inl)

end
