(* ===== verification/Signer_Properties.thy ===== *)
theory Signer_Properties
  imports Signer_System Task_Run Chain_Properties Btc_Properties
begin

section \<open>Properties of the typed signers at work\<close>

text \<open>
  What a caller of a typed signer gets from a method and why a method fails, with any number of calls in
  flight, and what the signers' bridges put before a wallet.
\<close>

subsection \<open>Values\<close>

text \<open>
  C6: A method of a running \<open>EvmSigner\<close> gives its own wallet's answer. In every reachable state, with any
  number of calls, wallets, timers and dropped calls interleaved, a call that returned a value had built a
  well-formed request under its own id that names a chain; a wallet posted a text under that id, in a POST
  answered with 200; and the value is what the method gives when its await gives that text.
\<close>

theorem evm_signer_returns_own_answer:
  assumes "system_reachable X (evm_ops X) (evm_client X S) s" and "t \<in> set (sy_tasks s)"
    and "tk_phase t = TReturned sent (Inr v)"
  shows "\<exists>req raw. sent = Some req \<and> meta_id (evm_meta req) = tk_id t \<and> evm_wf X req \<and> evm_chain_of req \<noteq> None \<and>
    evm_method_call X (\<lambda>r. Inr raw) (tk_id t) S (tk_input t) = Inr v \<and>
    (\<exists>p \<in> set (br_posts (sy_bridge s)). po_id p = tk_id t \<and> po_result p = RSuccess raw \<and>
       po_phase p = PAnswered completed)"
proof -
  obtain req raw where r: "sent = Some req" "evm_build S (tk_id t) (tk_input t) = Inr req"
      "evm_read X (tk_input t) raw = Inr v"
      "\<exists>p \<in> set (br_posts (sy_bridge s)). po_id p = r_id (evm_ops X) req \<and> po_result p = RSuccess raw \<and>
         po_phase p = PAnswered completed"
    using method_returned [OF assms [unfolded evm_client_def]] by blast
  have "fst (client_call (evm_client X S) (\<lambda>r. Inr raw) (tk_id t) (tk_input t)) = Inr v"
    using r(2,3) by (simp add: evm_client_def method_client_call)
  then show ?thesis
    using r(1,4) evm_build_Inr [OF r(2)] by (auto simp: evm_client_call)
qed

definition evm_sample_signer :: "unit evm_signer" where
  "evm_sample_signer = evm_signer_new ''page'' Ephemeral (ChainId 1) BPrint"

definition evm_sample_request :: evm_request where
  "evm_sample_request = evm_send_transaction 7 (evm_sample_params\<lparr>sp_chain_id := Some (ChainId 1)\<rparr>)"

lemma evm_sample_call [simp]:
  "cl_request (evm_client ref_evm evm_sample_signer) 7 (ESend evm_sample_params) = Inr evm_sample_request"
  "cl_return (evm_client ref_evm evm_sample_signer) (ESend evm_sample_params) req
     (Inr (ref_hex_encode (replicate 32 7))) = Inr (EHash (TxHash (replicate 32 7)))"
  by (simp_all add: evm_client_def evm_sample_request_def evm_sample_signer_def evm_sample_params_def
      send_check_def chain_or_default_def evm_signer_new_def evm_parse_signed_def tx_hash_from_str_def
      evm_sample_hash)

theorem evm_signer_returns_own_answer_witness:
  "\<exists>raw. evm_method_call ref_evm (\<lambda>r. Inr raw) 7 evm_sample_signer (ESend evm_sample_params) =
      Inr (EHash (TxHash (replicate 32 7))) \<and>
    (\<exists>p \<in> set (br_posts (one_posted ref_evm (evm_ops ref_evm) evm_sample_request
         (RSuccess (ref_hex_encode (replicate 32 7))))).
       po_id p = 7 \<and> po_result p = RSuccess raw)"
proof -
  let ?raw = "ref_hex_encode (replicate 32 7)" and ?v = "EHash (TxHash (replicate 32 7))"
  have "system_reachable ref_evm (evm_ops ref_evm) (evm_client ref_evm evm_sample_signer)
      (one_task 7 (ESend evm_sample_params) (TReturned (Some evm_sample_request) (Inr ?v))
        (one_posted ref_evm (evm_ops ref_evm) evm_sample_request (RSuccess ?raw)))"
    using one_task_returned [OF ref_url_laws(2) evm_sample_call(1), of "evm_ops ref_evm" ?raw] by simp
  from evm_signer_returns_own_answer [OF this, of "\<lparr>tk_id = 7, tk_input = ESend evm_sample_params,
      tk_phase = TReturned (Some evm_sample_request) (Inr ?v)\<rparr>" "Some evm_sample_request" ?v]
  show ?thesis
    by (simp add: one_task_def del: evm_method_call.simps) blast
qed

text \<open>The same of the other two chains.\<close>

theorem tron_signer_returns_own_answer:
  assumes "system_reachable X (tron_ops X) (tron_client X S) s" and "t \<in> set (sy_tasks s)"
    and "tk_phase t = TReturned sent (Inr v)"
  shows "\<exists>req raw. sent = Some req \<and> meta_id (tron_meta req) = tk_id t \<and> tron_network_of req \<noteq> None \<and>
    tron_method_call X (\<lambda>r. Inr raw) (tk_id t) S (tk_input t) = Inr v \<and>
    (\<exists>p \<in> set (br_posts (sy_bridge s)). po_id p = tk_id t \<and> po_result p = RSuccess raw \<and>
       po_phase p = PAnswered completed)"
proof -
  obtain req raw where r: "sent = Some req" "tron_build S (tk_id t) (tk_input t) = Inr req"
      "tron_read X (tk_input t) raw = Inr v"
      "\<exists>p \<in> set (br_posts (sy_bridge s)). po_id p = r_id (tron_ops X) req \<and> po_result p = RSuccess raw \<and>
         po_phase p = PAnswered completed"
    using method_returned [OF assms [unfolded tron_client_def]] by blast
  have "fst (client_call (tron_client X S) (\<lambda>r. Inr raw) (tk_id t) (tk_input t)) = Inr v"
    using r(2,3) by (simp add: tron_client_def method_client_call)
  then show ?thesis
    using r(1,4) tron_build_Inr [OF r(2)] by (auto simp: tron_client_call)
qed

theorem btc_signer_returns_own_answer:
  assumes "system_reachable X (btc_ops X env) (btc_client X S) s" and "t \<in> set (sy_tasks s)"
    and "tk_phase t = TReturned sent (Inr v)"
  shows "\<exists>req raw. sent = Some req \<and> meta_id (btc_meta req) = tk_id t \<and>
    btc_method_call X (\<lambda>r. Inr raw) (tk_id t) S (tk_input t) = Inr v \<and>
    (\<exists>p \<in> set (br_posts (sy_bridge s)). po_id p = tk_id t \<and> po_result p = RSuccess raw \<and>
       po_phase p = PAnswered completed)"
proof -
  obtain req raw where r: "sent = Some req" "btc_build X S (tk_id t) (tk_input t) = Inr req"
      "btc_read X S (tk_input t) raw = Inr v"
      "\<exists>p \<in> set (br_posts (sy_bridge s)). po_id p = r_id (btc_ops X env) req \<and> po_result p = RSuccess raw \<and>
         po_phase p = PAnswered completed"
    using method_returned [OF assms [unfolded btc_client_def]] by blast
  have "fst (client_call (btc_client X S) (\<lambda>r. Inr raw) (tk_id t) (tk_input t)) = Inr v"
    using r(2,3) by (simp add: btc_client_def method_client_call)
  then show ?thesis
    using r(1,4) btc_build_Inr [OF r(2)] by (auto simp: btc_client_call)
qed

text \<open>
  C7: A PSBT that a running \<open>BtcSigner\<close> returns is for the caller's transaction: it has the txid of the
  PSBT the call was made with, a broadcast txid, if any, is that one, and it was read from a text that a
  wallet posted under the call's own id.
\<close>

theorem btc_signer_same_transaction:
  assumes "system_reachable X (btc_ops X env) (btc_client X S) s" and "t \<in> set (sy_tasks s)"
    and "tk_input t = BSignPsbt p" and "tk_phase t = TReturned sent (Inr v)"
  shows "\<exists>sn raw. v = BPsbt sn \<and> unsigned_txid X (sn_psbt sn) = unsigned_txid X (pp_psbt p) \<and>
    (sn_txid sn = None \<or> sn_txid sn = Some (unsigned_txid X (pp_psbt p))) \<and>
    parse_signed_psbt X (pp_psbt p) raw = Inr sn \<and>
    (\<exists>q \<in> set (br_posts (sy_bridge s)). po_id q = tk_id t \<and> po_result q = RSuccess raw \<and>
       po_phase q = PAnswered completed)"
proof -
  obtain req raw where r: "sent = Some req" "btc_build X S (tk_id t) (tk_input t) = Inr req"
      "btc_read X S (tk_input t) raw = Inr v"
      "\<exists>q \<in> set (br_posts (sy_bridge s)). po_id q = r_id (btc_ops X env) req \<and> po_result q = RSuccess raw \<and>
         po_phase q = PAnswered completed"
    by (rule method_returned [OF assms(1,2,4) [unfolded btc_client_def]])
  have "map_ok BPsbt (parse_signed_psbt X (pp_psbt p) raw) = Inr v"
    using r(3) by (simp add: assms(3))
  then obtain sn where sn: "v = BPsbt sn" "parse_signed_psbt X (pp_psbt p) raw = Inr sn"
    unfolding map_ok_Inr_iff by blast
  have "r_id (btc_ops X env) req = tk_id t" using btc_build_Inr(1) [OF r(2)] by simp
  with r(4) sn parse_signed_psbt_same [OF sn(2)] show ?thesis by auto
qed

definition btc_sample_signer :: "(u64, u8 list, unit) btc_signer" where
  "btc_sample_signer = btc_signer_new ''page'' Ephemeral BtcSignet BPrint"

theorem btc_signer_same_transaction_witness:
  "\<exists>raw. parse_signed_psbt ref_btc (pp_psbt psbt_sample_params) raw =
     Inr \<lparr>sn_psbt = PsbtData [1, 0], sn_txid = Some 2\<rparr>"
proof -
  let ?C = "btc_client ref_btc btc_sample_signer" and ?R = "btc_ops ref_btc (\<lambda>v. EnvNotPresent)"
  let ?m = "BSignPsbt psbt_sample_params"
  let ?v = "BPsbt \<lparr>sn_psbt = PsbtData [1, 0], sn_txid = Some 2\<rparr>"
  have "btc_sign_psbt ref_btc 1 psbt_sample_params = Inr btc_sample"
    by (simp add: btc_sign_psbt_def psbt_sample_params_def btc_sample_def ref_btc_def
        psbt_input_count_def to_bitcoin_def spends_script_path_def script_path_inputs_def
        btc_checked_def require_network_def)
  then have built: "cl_request ?C 1 ?m = Inr btc_sample" by (simp add: btc_client_def)
  have "parse_signed_psbt ref_btc (PsbtData [1, 0]) ''signed'' =
      Inr \<lparr>sn_psbt = PsbtData [1, 0], sn_txid = Some 2\<rparr>"
    using parse_signed_psbt_accepts [of ref_btc "''signed''"
        "JObject [(''psbt'', JString (ref_hex_encode [1, 0])), (''txid'', JString ''2'')]"
        "ref_hex_encode [1, 0]" "PsbtData [1, 0]" "PsbtData [1, 0]" "Some ''2''"]
      ref_psbt_parses ref_txid_parses
    by (simp add: ref_btc_def ref_json_parse_def unsigned_txid_def)
  moreover have "pp_psbt psbt_sample_params = PsbtData [1, 0]" by (simp add: psbt_sample_params_def)
  ultimately have read: "cl_return ?C ?m btc_sample (Inr ''signed'') = Inr ?v" by (simp add: btc_client_def)
  have "system_reachable ref_btc ?R ?C (one_task 1 ?m (TReturned (Some btc_sample) (Inr ?v))
      (one_posted ref_btc ?R btc_sample (RSuccess ''signed'')))"
    using one_task_returned [OF ref_url_laws(4) built, of ?R "''signed''"] unfolding read .
  from btc_signer_same_transaction [OF this, of "\<lparr>tk_id = 1, tk_input = ?m,
      tk_phase = TReturned (Some btc_sample) (Inr ?v)\<rparr>" psbt_sample_params "Some btc_sample" ?v]
  show ?thesis by (simp add: one_task_def) blast
qed

subsection \<open>Failures\<close>

text \<open>
  C8: Why a method of a running \<open>EvmSigner\<close> fails. A call that returned an error either submitted nothing,
  and then it was a transaction with neither recipient nor init code; or the error is that of the bridge's
  start, tried and failed in an earlier state, the one in which the call began; or a wallet rejected the call's own request with that message and code; or the request was cancelled,
  with its own id in the error, or timed out after 300 seconds; or a wallet posted a text for it that the
  method cannot read.
\<close>

theorem evm_signer_failure:
  assumes "system_reachable X (evm_ops X) (evm_client X S) s" and "t \<in> set (sy_tasks s)"
    and "tk_phase t = TReturned sent (Inl e)"
  shows "case sent of
      None \<Rightarrow> \<exists>p reason. tk_input t = ESend p \<and> send_check p = Inl reason \<and> e = Invalid reason
    | Some req \<Rightarrow> meta_id (evm_meta req) = tk_id t \<and>
        (case e of
           Http reason \<Rightarrow>
             \<exists>s0 N. system_reachable X (evm_ops X) (evm_client X S) s0 \<and>
               fst (start (N :: nat net) (br_engine (sy_bridge s0))) = Inl (Http reason) \<and>
               (system_step X (evm_ops X) (evm_client X S))\<^sup>*\<^sup>*
                 (task_begin (evm_client X S) N (tk_id t) (tk_input t) s0) s
         | Rejected err code \<Rightarrow> answered (br_posts (sy_bridge s)) (tk_id t) (RError err code)
         | Cancelled i \<Rightarrow> i = x_uuid_show X (tk_id t)
         | Timeout secs \<Rightarrow> secs = 300
         | _ \<Rightarrow> \<exists>raw. answered (br_posts (sy_bridge s)) (tk_id t) (RSuccess raw) \<and>
             evm_read X (tk_input t) raw = Inl e)"
proof -
  have failed: "case sent of
      None \<Rightarrow> evm_build S (tk_id t) (tk_input t) = Inl e
    | Some req \<Rightarrow> evm_build S (tk_id t) (tk_input t) = Inr req \<and>
        (start_failed X (evm_ops X) (evm_client X S) s (tk_id t) (tk_input t) e \<or>
         method_failure X (evm_read X (tk_input t)) (br_posts (sy_bridge s)) (r_id (evm_ops X) req) e)"
    unfolding evm_client_def by (rule method_failed [OF assms [unfolded evm_client_def] evm_read_Inl])
  show ?thesis
  proof (cases sent)
    case None
    then show ?thesis
      using failed by (cases "tk_input t") (auto simp: map_err_Inl_iff)
  next
    case (Some req)
    then have "evm_build S (tk_id t) (tk_input t) = Inr req" using failed by simp
    note id = evm_build_Inr(1) [OF this]
    have why: "start_failed X (evm_ops X) (evm_client X S) s (tk_id t) (tk_input t) e \<or>
        method_failure X (evm_read X (tk_input t)) (br_posts (sy_bridge s)) (r_id (evm_ops X) req) e"
      using failed Some by simp
    show ?thesis
    proof (cases "\<exists>reason. e = Http reason")
      case True
      then obtain reason where e: "e = Http reason" ..
      with why have "start_failed X (evm_ops X) (evm_client X S) s (tk_id t) (tk_input t) (Http reason)"
        by (simp add: method_failure_def)
      then show ?thesis
        unfolding start_failed_def Some option.case e signer_error.case using id by blast
    next
      case False
      with why start_failed_Http [of X "evm_ops X" "evm_client X S" s "tk_id t" "tk_input t" e] have
        "method_failure X (evm_read X (tk_input t)) (br_posts (sy_bridge s)) (r_id (evm_ops X) req) e" by blast
      with False Some id show ?thesis
        by (cases e) (simp_all add: method_failure_def REQUEST_TIMEOUT_def)
    qed
  qed
qed

theorem evm_signer_failure_witness:
  "answered (br_posts (poll_step ref_evm 0 (one_posted ref_evm (evm_ops ref_evm) evm_sample_request
     (RError ''no'' (Some ''USER_REJECTED''))))) 7 (RError ''no'' (Some ''USER_REJECTED''))"
proof -
  let ?C = "evm_client ref_evm evm_sample_signer" and ?e = "Rejected ''no'' (Some ''USER_REJECTED'')"
  have "cl_return ?C (ESend evm_sample_params) evm_sample_request (Inl ?e) = Inl ?e"
    by (simp add: evm_client_def)
  then have "system_reachable ref_evm (evm_ops ref_evm) ?C
      (one_task 7 (ESend evm_sample_params) (TReturned (Some evm_sample_request) (Inl ?e))
        (poll_step ref_evm 0 (one_posted ref_evm (evm_ops ref_evm) evm_sample_request
          (RError ''no'' (Some ''USER_REJECTED'')))))"
    using one_task_rejected [OF ref_url_laws(2) evm_sample_call(1),
        of "evm_ops ref_evm" "''no''" "Some ''USER_REJECTED''"] by simp
  from evm_signer_failure [OF this, of "\<lparr>tk_id = 7, tk_input = ESend evm_sample_params,
      tk_phase = TReturned (Some evm_sample_request) (Inl ?e)\<rparr>" "Some evm_sample_request" ?e]
  show ?thesis by (simp add: one_task_def)
qed

subsection \<open>Returning, and what is served\<close>

text \<open>
  C9: Every call returns. From every reachable state in which a call of any client waits, whatever
  happened before, three polls of its future, with 300 seconds passing after the first, and the call's last
  step are steps of the system and have it return what the client makes of an outcome.
\<close>

theorem submit_returns:
  assumes "system_reachable X R C s" and "n < length (sy_tasks s)"
    and "tk_phase (sy_tasks s ! n) = TWaiting req k"
  shows "let b = poll_step X k (sy_bridge s);
             b' = poll_step X k (poll_step X k (b\<lparr>br_now := br_now b + 300\<rparr>));
             s' = task_finish C n (s\<lparr>sy_bridge := b'\<rparr>)
         in (system_step X R C)\<^sup>*\<^sup>* s s' \<and>
            (\<exists>out. tk_phase (sy_tasks s' ! n) =
               TReturned (Some req) (cl_return C (tk_input (sy_tasks s ! n)) req out))"
  using task_returns [OF assms] by (simp add: timed_polls_def Let_def REQUEST_TIMEOUT_def)

theorem submit_returns_witness:
  "let C = evm_client ref_evm evm_sample_signer;
       b = poll_step ref_evm 0 (one_bridge (evm_ops ref_evm) evm_sample_request);
       b' = poll_step ref_evm 0 (poll_step ref_evm 0 (b\<lparr>br_now := br_now b + 300\<rparr>));
       s' = task_finish C 0 (one_task 7 (ESend evm_sample_params) (TWaiting evm_sample_request 0) b')
   in \<exists>out. tk_phase (sy_tasks s' ! 0) =
        TReturned (Some evm_sample_request) (cl_return C (ESend evm_sample_params) evm_sample_request out)"
proof -
  let ?C = "evm_client ref_evm evm_sample_signer"
  let ?s = "one_task 7 (ESend evm_sample_params) (TWaiting evm_sample_request 0)
    (one_bridge (evm_ops ref_evm) evm_sample_request)"
  have s: "system_reachable ref_evm (evm_ops ref_evm) ?C ?s"
    by (rule one_task_waits [OF ref_url_laws(2) evm_sample_call(1)])
  have "0 < length (sy_tasks ?s)" "tk_phase (sy_tasks ?s ! 0) = TWaiting evm_sample_request 0"
    by (simp_all add: one_task_def)
  from submit_returns [OF s this] show ?thesis
    by (simp add: one_task_def Let_def)
qed

text \<open>
  C10: What a running \<open>EvmSigner\<close> puts before a wallet. In every reachable state, every request its bridge
  serves under an id is the one that the call with that id was made for; it names a chain, and a
  transaction has a recipient or init code.
\<close>

theorem evm_signer_serves:
  assumes "system_reachable X (evm_ops X) (evm_client X S) s"
    and "store_get (br_store (sy_bridge s)) i = Some r"
  shows "evm_chain_of r \<noteq> None \<and> evm_wf X r \<and>
    (\<exists>t \<in> set (sy_tasks s). tk_id t = i \<and> evm_build S i (tk_input t) = Inr r)"
proof -
  obtain t where "t \<in> set (sy_tasks s)" "tk_id t = i" "evm_build S i (tk_input t) = Inr r"
    using evm_calls.served_own [OF assms] by (auto simp: evm_client_def result_iff)
  then show ?thesis using evm_build_Inr by blast
qed

theorem evm_signer_serves_witness:
  "evm_chain_of evm_sample_request \<noteq> None \<and> evm_wf ref_evm evm_sample_request \<and>
   store_get (br_store (one_bridge (evm_ops ref_evm) evm_sample_request)) 7 = Some evm_sample_request"
proof -
  have "store_get (br_store (one_bridge (evm_ops ref_evm) evm_sample_request)) 7 = Some evm_sample_request"
    by (simp add: one_bridge_def br_store_def store_get_def evm_sample_request_def evm_builders)
  then show ?thesis
    using evm_signer_serves [OF one_task_waits [OF ref_url_laws(2) evm_sample_call(1), of "evm_ops ref_evm"],
        of 7 evm_sample_request]
    by (simp add: one_task_def)
qed

text \<open>The other two chains: a network is named, and a Bitcoin request's addresses are all on it.\<close>

theorem tron_signer_serves:
  assumes "system_reachable X (tron_ops X) (tron_client X S) s"
    and "store_get (br_store (sy_bridge s)) i = Some r"
  shows "tron_network_of r \<noteq> None \<and>
    (\<exists>t \<in> set (sy_tasks s). tk_id t = i \<and> tron_build S i (tk_input t) = Inr r)"
proof -
  obtain t where "t \<in> set (sy_tasks s)" "tk_id t = i" "tron_build S i (tk_input t) = Inr r"
    using tron_calls.served_own [OF assms] by (auto simp: tron_client_def result_iff)
  then show ?thesis using tron_build_Inr by blast
qed

theorem btc_signer_serves:
  assumes "system_reachable X (btc_ops X env) (btc_client X S) s"
    and "store_get (br_store (sy_bridge s)) i = Some r"
  shows "list_all (on_network X (btc_network_of r)) (btc_addresses r) \<and>
    (\<exists>t \<in> set (sy_tasks s). tk_id t = i \<and> btc_build X S i (tk_input t) = Inr r)"
proof -
  obtain t where "t \<in> set (sy_tasks s)" "tk_id t = i" "btc_build X S i (tk_input t) = Inr r"
    using btc_calls.served_own [OF assms] by (auto simp: btc_client_def result_iff)
  then show ?thesis using btc_build_Inr by blast
qed

end
