(* ===== verification/Core_Tests.thy ===== *)
theory Core_Tests
  imports Test_Std
begin

section \<open>The unit tests of the core crate\<close>

text \<open>
  The test modules of \<open>bytes.rs\<close>, \<open>types.rs\<close> and \<open>config.rs\<close> of \<open>browser-web3-signer-core\<close>, run on the
  model. \<open>core_test_facts\<close> is what they assume of the hex package on their inputs, and that the
  variable one of them reads is not set.
\<close>

subsection \<open>A port in JSON\<close>

text \<open>The derived \<open>Serialize\<close> and \<open>Deserialize\<close>: a \<open>NonZeroU16\<close>.\<close>

definition port_json :: "port \<Rightarrow> json" where
  "port_json p = JNumber (PosInt (ucast (port_get p)))"

definition port_from_json :: "json \<Rightarrow> port option" where
  "port_from_json v =
     Option.bind (as_u64 v) (\<lambda>n. if n < 65536 then port_try_new (ucast n) else None)"

lemma port_json_roundtrip: "port_ok p \<Longrightarrow> port_from_json (port_json p) = Some p"
proof -
  have "(ucast w :: u64) < 65536" for w :: u16
    by transfer (simp add: take_bit_eq_mod)
  then show "port_ok p \<Longrightarrow> ?thesis"
    by (simp add: port_json_def port_from_json_def port_try_new_get ucast_up_ucast_id is_up)
qed

subsection \<open>bytes.rs\<close>

definition AB64 :: string where
  "AB64 = concat (replicate 32 ''ab'')"

definition tx_hash_parses_with_and_without_prefix :: "'x core_ext_scheme \<Rightarrow> unit option" where
  "tx_hash_parses_with_and_without_prefix X =
     do {
       a \<leftarrow> ok (tx_hash_from_str X (''0x'' @ AB64));
       b \<leftarrow> ok (tx_hash_from_str X AB64);
       test_assert (a = b);
       test_assert (length (tx_hash_to_hex X a) = 64);
       test_assert (strip_prefix ''0x'' (tx_hash_show X a) \<noteq> None);
       test_assert (is_err (tx_hash_from_str X ''0x12''))
     }"

definition signature_roundtrips_hex :: "'x core_ext_scheme \<Rightarrow> unit option" where
  "signature_roundtrips_hex X =
     do {
       s \<leftarrow> ok (signature_from_str X ''0xdeadbeef'');
       test_assert (signature_show X s = ''0xdeadbeef'');
       test_assert (sig_bytes s = [0xde, 0xad, 0xbe, 0xef]);
       test_assert (is_err (signature_from_str X ''0x''))
     }"

subsection \<open>types.rs\<close>

definition success_serializes_with_boolean_true :: "unit option" where
  "success_serializes_with_boolean_true =
     test_assert (result_serialize (RSuccess ''0xabc'') =
       JObject [(''success'', JBool True), (''result'', JString ''0xabc'')])"

definition error_serializes_with_code_when_present :: "unit option" where
  "error_serializes_with_code_when_present =
     test_assert (result_serialize (RError ''nope'' (Some ''WRONG_WALLET_ADDRESS'')) =
       JObject [(''success'', JBool False), (''error'', JString ''nope''),
         (''code'', JString ''WRONG_WALLET_ADDRESS'')])"

definition error_omits_code_when_absent :: "unit option" where
  "error_omits_code_when_absent =
     test_assert (result_serialize (RError ''nope'' None) =
       JObject [(''success'', JBool False), (''error'', JString ''nope'')])"

definition complete_body_maps_to_result :: "unit option" where
  "complete_body_maps_to_result =
     do {
       body \<leftarrow> complete_deserialize (JObject [(''success'', JBool True), (''result'', JString ''0x1'')]);
       test_assert (result_from_complete body = RSuccess ''0x1'')
     }"

definition expect_account_defaults_keeps_and_refuses :: "unit option" where
  "expect_account_defaults_keeps_and_refuses =
     do {
       unset \<leftarrow> ok (expect_account dec None 7);
       test_assert (unset = Some 7);
       same \<leftarrow> ok (expect_account dec (Some 7) 7);
       test_assert (same = Some 7);
       err \<leftarrow> unwrap_err (expect_account dec (Some 8) 7);
       test_assert (str_contains err ''8'' \<and> str_contains err ''7'')
     }"

subsection \<open>config.rs\<close>

definition port_rejects_zero :: "'x core_ext_scheme \<Rightarrow> unit option" where
  "port_rejects_zero X =
     do {
       test_assert (port_try_new 0 = None);
       test_assert (is_err (port_from_str X ''0''));
       p \<leftarrow> ok (port_from_str X ''3847'');
       test_assert (port_get p = 3847)
     }"

definition port_serializes_as_number :: "unit option" where
  "port_serializes_as_number =
     do {
       p \<leftarrow> port_try_new 3847;
       test_assert (port_json p = JNumber (PosInt 3847));
       back \<leftarrow> port_from_json (JNumber (PosInt 3847));
       test_assert (back = p)
     }"

definition account_variable_is_optional_and_parsed :: "'x core_ext_scheme \<Rightarrow> environment \<Rightarrow> unit option" where
  "account_variable_is_optional_and_parsed X env =
     do {
       test_assert (account_from_env (\<lambda>e. e) (port_from_str X) env ''BROWSER_WEB3_TEST_UNSET_ACCOUNT'' = Inr None);
       test_assert (parse_account (\<lambda>e. e) (port_from_str X) [] = Inr None);
       test_assert (parse_account (\<lambda>e. e) (port_from_str X) ''3847'' = Inr (port_try_new 3847));
       e \<leftarrow> unwrap_err (port_from_str X ''nope'');
       test_assert (parse_account (\<lambda>e. e) (port_from_str X) ''nope'' = Inl e)
     }"

subsection \<open>They pass\<close>

definition core_tests :: "'x core_ext_scheme \<Rightarrow> environment \<Rightarrow> unit option list" where
  "core_tests X env =
     [tx_hash_parses_with_and_without_prefix X, signature_roundtrips_hex X,
      success_serializes_with_boolean_true, error_serializes_with_code_when_present,
      error_omits_code_when_absent, complete_body_maps_to_result,
      expect_account_defaults_keeps_and_refuses, port_rejects_zero X, port_serializes_as_number,
      account_variable_is_optional_and_parsed X env]"

definition core_test_facts :: "'x core_ext_scheme \<Rightarrow> environment \<Rightarrow> bool" where
  "core_test_facts X env \<longleftrightarrow>
     hex_laws X \<and>
     x_hex_decode X AB64 = Inr (replicate 32 0xab) \<and>
     x_hex_decode X ''12'' = Inr [0x12] \<and>
     x_hex_decode X ''deadbeef'' = Inr [0xde, 0xad, 0xbe, 0xef] \<and>
     x_hex_encode X [0xde, 0xad, 0xbe, 0xef] = ''deadbeef'' \<and>
     x_hex_decode X [] = Inr [] \<and>
     env ''BROWSER_WEB3_TEST_UNSET_ACCOUNT'' = EnvNotPresent"

lemma port_texts:
  "parse_word ''3847'' = (Inr 3847 :: int_error + u16)" "parse_word ''0'' = (Inr 0 :: int_error + u16)"
  "parse_word ''nope'' = (Inl InvalidDigit :: int_error + u16)"
  by (simp_all add: parse_word_def parse_uint_def digit_of_def)

lemma dec_texts: "dec 7 = ''7''" "dec 8 = ''8''"
  by code_simp+

lemma hex_raw_texts [simp]:
  "hex_raw (''0x'' @ s) = s" "hex_raw (CHR ''0'' # CHR ''x'' # s) = s" "hex_raw AB64 = AB64"
  by (simp_all add: hex_raw_def strip_prefix_def AB64_def numeral_eq_Suc)

lemma core_tests_pass:
  assumes "core_test_facts X env"
  shows "list_all (\<lambda>t. t = Some ()) (core_tests X env)"
proof -
  note facts = assms [unfolded core_test_facts_def]
  have "tx_hash_parses_with_and_without_prefix X = Some ()" "signature_roundtrips_hex X = Some ()"
    using facts
    by (simp_all add: tx_hash_parses_with_and_without_prefix_def signature_roundtrips_hex_def
        tx_hash_from_str_def signature_from_str_def tx_hash_to_hex_def tx_hash_show_def signature_show_def
        hex_prefixed_def hex_laws_length strip_prefix_def)
  moreover have "port_rejects_zero X = Some ()" "account_variable_is_optional_and_parsed X env = Some ()"
    using facts
    by (simp_all add: port_rejects_zero_def account_variable_is_optional_and_parsed_def port_from_str_def
        port_texts port_try_new_def parse_account_def account_from_env_def)
  moreover have "expect_account_defaults_keeps_and_refuses = Some ()"
    using account_mismatch_contains [of dec "8 :: nat" 7]
    by (simp add: expect_account_defaults_keeps_and_refuses_def expect_account_cases dec_texts)
  moreover have "port_serializes_as_number = Some ()"
    by (simp add: port_serializes_as_number_def port_try_new_def port_json_def port_from_json_def)
  ultimately show ?thesis
    by (simp add: core_tests_def success_serializes_with_boolean_true_def
        error_serializes_with_code_when_present_def error_omits_code_when_absent_def opt_field_Some
        complete_body_maps_to_result_def complete_deserialize_def de_field_def de_arity_def
        result_from_complete_def)
qed

end
