(* ===== verification/Evm_Tests.thy ===== *)
theory Evm_Tests
  imports Test_Std Evm_Types
begin

section \<open>The unit tests of the EVM crate\<close>

text \<open>
  The test modules of \<open>domain.rs\<close> and \<open>types.rs\<close> of \<open>browser-web3-signer-evm\<close>, run on the model. The ids
  that the builders draw are arguments; \<open>evm_test_facts\<close> is what the tests assume of \<open>alloy\<close> on their
  inputs.
\<close>

subsection \<open>domain.rs\<close>

definition EVM_ADDRESS :: string where
  "EVM_ADDRESS = ''0x52908400098527886E0F7030069857D2E4169EE7''"

definition EVM_LOWER :: string where
  "EVM_LOWER = ''0x52908400098527886e0f7030069857d2e4169ee7''"

definition EVM_OTHER :: string where
  "EVM_OTHER = ''0x8617e340b3d01fa5f11f306f4090fd50e238070d''"

definition ONE_ETHER :: string where
  "ONE_ETHER = ''1000000000000000000''"

definition address_roundtrips_lowercase :: "'x evm_ext_scheme \<Rightarrow> unit option" where
  "address_roundtrips_lowercase X =
     do {
       a \<leftarrow> ok (address_from_str X EVM_ADDRESS);
       test_assert (JString (address_show X a) = JString EVM_LOWER)
     }"

definition wei_serializes_decimal :: "'x evm_ext_scheme \<Rightarrow> unit option" where
  "wei_serializes_decimal X =
     do {
       w \<leftarrow> ok (wei_from_str X ONE_ETHER);
       test_assert (JString (wei_show X w) = JString ONE_ETHER);
       test_assert (wei_to_ether_string X w = ''1.000000000000000000'')
     }"

definition chain_id_serializes_number :: "unit option" where
  "chain_id_serializes_number = test_assert (chain_id_json (ChainId 137) = JNumber (PosInt 137))"

definition calldata_serializes_hex :: "'x evm_ext_scheme \<Rightarrow> unit option" where
  "calldata_serializes_hex X =
     do {
       d \<leftarrow> ok (call_data_from_str X ''0xdeadbeef'');
       test_assert (JString (call_data_show X d) = JString ''0xdeadbeef'')
     }"

definition bad_address_is_rejected :: "'x evm_ext_scheme \<Rightarrow> unit option" where
  "bad_address_is_rejected X = test_assert (is_err (address_from_str X ''0x1234''))"

subsection \<open>types.rs\<close>

definition connect_serializes_with_type_and_camelcase :: "'x evm_ext_scheme \<Rightarrow> uuid \<Rightarrow> unit option" where
  "connect_serializes_with_type_and_camelcase X i =
     (let req = evm_connect i (Some (ChainId 1)) None; json = evm_serialize X req
      in do {
        test_assert (jindex json ''type'' = JString ''connect'');
        test_assert (jindex json ''chainId'' = JNumber (PosInt 1));
        test_assert (jget json ''id'' \<noteq> None);
        test_assert (jget json ''address'' = None)
      })"

text \<open>The parameters that two of the tests build.\<close>

definition evm_test_params :: "'x evm_ext_scheme \<Rightarrow> send_transaction_params option" where
  "evm_test_params X =
     do {
       to \<leftarrow> ok (address_from_str X EVM_ADDRESS);
       value \<leftarrow> ok (wei_from_str X ''1000'');
       data \<leftarrow> ok (call_data_from_str X ''0xdead'');
       gas \<leftarrow> ok (wei_from_str X ''21000'');
       fee \<leftarrow> ok (wei_from_str X ''5'');
       Some \<lparr>sp_to = Some to, sp_from = None, sp_value = Some value, sp_data = Some data,
         sp_chain_id = Some (ChainId 8453), sp_gas_limit = Some gas, sp_max_fee_per_gas = Some fee,
         sp_max_priority_fee_per_gas = None\<rparr>
     }"

definition send_transaction_emits_wire_field_names :: "'x evm_ext_scheme \<Rightarrow> uuid \<Rightarrow> unit option" where
  "send_transaction_emits_wire_field_names X i =
     do {
       params \<leftarrow> evm_test_params X;
       let json = evm_serialize X (evm_send_transaction i params);
       test_assert (jindex json ''type'' = JString ''send_transaction'');
       test_assert (jindex json ''to'' = JString EVM_LOWER);
       test_assert (jindex json ''value'' = JString ''1000'');
       test_assert (jindex json ''data'' = JString ''0xdead'');
       test_assert (jindex json ''gasLimit'' = JString ''21000'');
       test_assert (jindex json ''maxFeePerGas'' = JString ''5'');
       test_assert (jget json ''maxPriorityFeePerGas'' = None);
       test_assert (jget json ''from'' = None)
     }"

definition a_contract_creation_omits_to_and_round_trips :: "'x evm_ext_scheme \<Rightarrow> uuid \<Rightarrow> uuid \<Rightarrow> unit option" where
  "a_contract_creation_omits_to_and_round_trips X i j =
     do {
       data \<leftarrow> ok (call_data_from_str X ''0x6080'');
       let original = evm_send_transaction i
         \<lparr>sp_to = None, sp_from = None, sp_value = None, sp_data = Some data,
          sp_chain_id = Some (ChainId 42161), sp_gas_limit = None, sp_max_fee_per_gas = None,
          sp_max_priority_fee_per_gas = None\<rparr>;
       let wire = evm_serialize X original;
       test_assert (jget wire ''to'' = None);
       test_assert (jindex wire ''data'' = JString ''0x6080'');
       parsed \<leftarrow> ok (evm_from_json X j wire);
       (case parsed of
          EvmSendTransaction m c to from v data g f p \<Rightarrow>
            do {
              test_assert (to = None);
              data \<leftarrow> data;
              test_assert (cd_bytes data = [0x60, 0x80])
            }
        | _ \<Rightarrow> None)
     }"

definition a_contract_creation_without_init_code_is_refused :: "'x evm_ext_scheme \<Rightarrow> uuid \<Rightarrow> unit option" where
  "a_contract_creation_without_init_code_is_refused X i =
     test_all
       (\<lambda>body. do {
          err \<leftarrow> unwrap_err (evm_from_json X i body);
          test_assert (str_contains err (''deploys a contract from '' @ quoted ''data''))
        })
       [JObject [(''type'', JString ''send_transaction'')],
        JObject [(''type'', JString ''send_transaction''), (''data'', JString ''0x'')]]"

definition typed_data_flattens_fields :: "'x evm_ext_scheme \<Rightarrow> uuid \<Rightarrow> unit option" where
  "typed_data_flattens_fields X i =
     (let req = evm_sign_typed_data i
            \<lparr>td_domain = JObject [(''name'', JString ''X''), (''chainId'', JNumber (PosInt 1))],
             td_types = JObject [(''EIP712Domain'', JArray [])], td_primary_type = ''Mail'',
             td_message = JObject [(''a'', JNumber (PosInt 1))]\<rparr> None (Some (ChainId 1));
          json = evm_serialize X req
      in do {
        test_assert (jindex json ''type'' = JString ''sign_typed_data'');
        test_assert (jindex json ''primaryType'' = JString ''Mail'');
        test_assert (jindex (jindex json ''domain'') ''name'' = JString ''X'');
        test_assert (jindex (jindex json ''message'') ''a'' = JNumber (PosInt 1))
      })"

definition sign_message_wire_shape_is_text_or_raw_hex :: "'x evm_ext_scheme \<Rightarrow> uuid \<Rightarrow> uuid \<Rightarrow> unit option" where
  "sign_message_wire_shape_is_text_or_raw_hex X i j =
     do {
       let text = evm_sign_message i (MsgText ''hi'') None None;
       test_assert (jindex (evm_serialize X text) ''message'' = JString ''hi'');
       let raw = evm_sign_message i (MsgRaw (replicate 2 0xff)) None None;
       let wire = evm_serialize X raw;
       test_assert (jindex wire ''message'' = JObject [(''raw'', JString ''0xffff'')]);
       parsed \<leftarrow> ok (evm_from_json X j wire);
       (case parsed of
          EvmSignMessage m c message a \<Rightarrow> test_assert (message = MsgRaw (replicate 2 0xff))
        | _ \<Rightarrow> None)
     }"

definition sign_message_rejects_a_malformed_message :: "'x evm_ext_scheme \<Rightarrow> uuid \<Rightarrow> unit option" where
  "sign_message_rejects_a_malformed_message X i =
     test_all
       (\<lambda>message. test_assert (is_err (evm_from_json X i
          (JObject [(''type'', JString ''sign_message''), (''message'', message)]))))
       [JObject [(''raw'', JString ''nothex'')], JObject [], JNumber (PosInt 5)]"

definition evm_from_json_round_trips_send_transaction :: "'x evm_ext_scheme \<Rightarrow> uuid \<Rightarrow> uuid \<Rightarrow> unit option" where
  "evm_from_json_round_trips_send_transaction X i j =
     do {
       params \<leftarrow> evm_test_params X;
       let wire = evm_serialize X (evm_send_transaction i params);
       parsed \<leftarrow> ok (evm_from_json X j wire);
       let reparsed = evm_serialize X parsed;
       test_all (\<lambda>v. test_assert (jindex v ''type'' = JString ''send_transaction'')) [wire, reparsed];
       test_all (\<lambda>k. test_assert (jindex wire k = jindex reparsed k))
         [''to'', ''value'', ''data'', ''chainId'', ''gasLimit'', ''maxFeePerGas'']
     }"

definition evm_from_json_rejects_unknown_type_and_bad_field :: "'x evm_ext_scheme \<Rightarrow> uuid \<Rightarrow> unit option" where
  "evm_from_json_rejects_unknown_type_and_bad_field X i =
     do {
       test_assert (is_err (evm_from_json X i (JObject [(''type'', JString ''nope'')])));
       test_assert (is_err (evm_from_json X i (JObject [(''type'', JString ''send_transaction'')])));
       test_assert (is_err (evm_from_json X i
         (JObject [(''type'', JString ''connect''), (''address'', JString ''0xnothex'')])))
     }"

definition evm_from_json_parses_typed_data :: "'x evm_ext_scheme \<Rightarrow> uuid \<Rightarrow> unit option" where
  "evm_from_json_parses_typed_data X i =
     do {
       req \<leftarrow> ok (evm_from_json X i (JObject
         [(''type'', JString ''sign_typed_data''), (''primaryType'', JString ''Mail''),
          (''domain'', JObject [(''name'', JString ''X'')]),
          (''types'', JObject [(''EIP712Domain'', JArray [])]),
          (''message'', JObject [(''a'', JNumber (PosInt 1))]), (''chainId'', JNumber (PosInt 1))]));
       let json = evm_serialize X req;
       test_assert (jindex json ''primaryType'' = JString ''Mail'');
       test_assert (jindex (jindex json ''domain'') ''name'' = JString ''X'')
     }"

definition evm_unset_cases :: "(json \<times> string) list" where
  "evm_unset_cases =
     [(JObject [(''type'', JString ''connect'')], ''address''),
      (JObject [(''type'', JString ''send_transaction''), (''to'', JString EVM_OTHER)], ''from''),
      (JObject [(''type'', JString ''sign_message''), (''message'', JString ''hi'')], ''address''),
      (JObject [(''type'', JString ''sign_typed_data''), (''primaryType'', JString ''Mail'')], ''address'')]"

definition evm_expected :: "'x evm_ext_scheme \<Rightarrow> uuid \<Rightarrow> address \<Rightarrow> json \<Rightarrow> string + json" where
  "evm_expected X i account body =
     map_ok (evm_serialize X) (and_then (evm_from_json X i body) (\<lambda>req. evm_expecting X req account))"

definition evm_expecting_defaults_keeps_and_refuses :: "'x evm_ext_scheme \<Rightarrow> uuid \<Rightarrow> unit option" where
  "evm_expecting_defaults_keeps_and_refuses X i =
     do {
       account \<leftarrow> ok (address_from_str X EVM_ADDRESS);
       let lower = to_ascii_lowercase EVM_ADDRESS;
       test_all
         (\<lambda>(body, field). do {
            let same = jset body field (JString EVM_ADDRESS);
            let other = jset body field (JString EVM_OTHER);
            unset_json \<leftarrow> ok (evm_expected X i account body);
            test_assert (jindex unset_json field = JString lower);
            same_json \<leftarrow> ok (evm_expected X i account same);
            test_assert (jindex same_json field = JString lower);
            err \<leftarrow> unwrap_err (evm_expected X i account other);
            test_assert (str_contains err EVM_OTHER \<and> str_contains err lower)
          })
         evm_unset_cases
     }"

subsection \<open>They pass\<close>

definition evm_tests :: "'x evm_ext_scheme \<Rightarrow> uuid \<Rightarrow> uuid \<Rightarrow> unit option list" where
  "evm_tests X i j =
     [address_roundtrips_lowercase X, wei_serializes_decimal X, chain_id_serializes_number,
      calldata_serializes_hex X, bad_address_is_rejected X,
      connect_serializes_with_type_and_camelcase X i, send_transaction_emits_wire_field_names X i,
      a_contract_creation_omits_to_and_round_trips X i j,
      a_contract_creation_without_init_code_is_refused X i, typed_data_flattens_fields X i,
      sign_message_wire_shape_is_text_or_raw_hex X i j, sign_message_rejects_a_malformed_message X i,
      evm_from_json_round_trips_send_transaction X i j,
      evm_from_json_rejects_unknown_type_and_bad_field X i, evm_from_json_parses_typed_data X i,
      evm_expecting_defaults_keeps_and_refuses X i]"

definition evm_test_facts :: "'x evm_ext_scheme \<Rightarrow> bool" where
  "evm_test_facts X \<longleftrightarrow>
     evm_laws X \<and>
     x_addr_parse X EVM_ADDRESS = Inr 0x52908400098527886E0F7030069857D2E4169EE7 \<and>
     x_addr_lower X 0x52908400098527886E0F7030069857D2E4169EE7 = EVM_LOWER \<and>
     x_addr_parse X EVM_OTHER = Inr 0x8617e340b3d01fa5f11f306f4090fd50e238070d \<and>
     x_addr_lower X 0x8617e340b3d01fa5f11f306f4090fd50e238070d = EVM_OTHER \<and>
     is_err (x_addr_parse X ''0x1234'') \<and> is_err (x_addr_parse X ''0xnothex'') \<and>
     x_u256_parse X ONE_ETHER = Inr 1000000000000000000 \<and> x_u256_show X 1000000000000000000 = ONE_ETHER \<and>
     x_format_ether X 1000000000000000000 = ''1.000000000000000000'' \<and>
     x_u256_parse X ''1000'' = Inr 1000 \<and> x_u256_show X 1000 = ''1000'' \<and>
     x_u256_parse X ''21000'' = Inr 21000 \<and> x_u256_show X 21000 = ''21000'' \<and>
     x_u256_parse X ''5'' = Inr 5 \<and> x_u256_show X 5 = ''5'' \<and>
     x_bytes_parse X ''0xdeadbeef'' = Inr [0xde, 0xad, 0xbe, 0xef] \<and>
     x_bytes_show X [0xde, 0xad, 0xbe, 0xef] = ''0xdeadbeef'' \<and>
     x_bytes_parse X ''0xdead'' = Inr [0xde, 0xad] \<and> x_bytes_show X [0xde, 0xad] = ''0xdead'' \<and>
     x_bytes_parse X ''0x6080'' = Inr [0x60, 0x80] \<and> x_bytes_show X [0x60, 0x80] = ''0x6080'' \<and>
     x_bytes_show X [0xff, 0xff] = ''0xffff'' \<and>
     x_bytes_parse X ''0x'' = Inr [] \<and> is_err (x_bytes_parse X ''nothex'')"

lemma evm_lower: "to_ascii_lowercase EVM_ADDRESS = EVM_LOWER"
  by code_simp

lemmas evm_parsers = address_from_str_def wei_from_str_def call_data_from_str_def address_show_def
  wei_show_def call_data_show_def

lemma evm_domain_tests_pass:
  assumes "evm_test_facts X"
  shows "address_roundtrips_lowercase X = Some ()" "wei_serializes_decimal X = Some ()"
    "chain_id_serializes_number = Some ()" "calldata_serializes_hex X = Some ()"
    "bad_address_is_rejected X = Some ()"
  using assms [unfolded evm_test_facts_def]
  by (simp_all add: address_roundtrips_lowercase_def wei_serializes_decimal_def chain_id_serializes_number_def
      calldata_serializes_hex_def bad_address_is_rejected_def evm_parsers wei_to_ether_string_def
      chain_id_json_def)

lemma evm_test_addresses:
  assumes "evm_test_facts X"
  shows "address_from_str X EVM_ADDRESS = Inr (Address 0x52908400098527886E0F7030069857D2E4169EE7)"
    "address_show X (Address 0x52908400098527886E0F7030069857D2E4169EE7) = EVM_LOWER"
    "address_from_str X EVM_OTHER = Inr (Address 0x8617e340b3d01fa5f11f306f4090fd50e238070d)"
    "address_show X (Address 0x8617e340b3d01fa5f11f306f4090fd50e238070d) = EVM_OTHER"
  using assms [unfolded evm_test_facts_def] by (simp_all add: evm_parsers)

lemma evm_test_params_eq:
  assumes "evm_test_facts X"
  shows "evm_test_params X = Some
    \<lparr>sp_to = Some (Address 0x52908400098527886E0F7030069857D2E4169EE7), sp_from = None,
     sp_value = Some (Wei 1000), sp_data = Some (CallData [0xde, 0xad]), sp_chain_id = Some (ChainId 8453),
     sp_gas_limit = Some (Wei 21000), sp_max_fee_per_gas = Some (Wei 5), sp_max_priority_fee_per_gas = None\<rparr>"
  using assms [unfolded evm_test_facts_def] evm_test_addresses [OF assms]
  by (simp add: evm_test_params_def wei_from_str_def call_data_from_str_def)

lemmas evm_test_wire = wire jindex_def evm_send_transaction_def evm_sign_message_def evm_sign_typed_data_def
  evm_connect_def evm_connect_with_def evm_wf_def

lemma evm_wire_tests_pass:
  assumes "evm_test_facts X"
  shows "connect_serializes_with_type_and_camelcase X i = Some ()"
    "send_transaction_emits_wire_field_names X i = Some ()"
    "a_contract_creation_omits_to_and_round_trips X i j = Some ()"
    "typed_data_flattens_fields X i = Some ()"
    "sign_message_wire_shape_is_text_or_raw_hex X i j = Some ()"
    "evm_from_json_round_trips_send_transaction X i j = Some ()"
proof -
  note facts = assms [unfolded evm_test_facts_def]
  have laws: "evm_laws X" using facts by simp
  have two: "replicate 2 x = [x, x]" for x :: u8 by (simp add: numeral_2_eq_2)
  show "connect_serializes_with_type_and_camelcase X i = Some ()"
    by (simp add: connect_serializes_with_type_and_camelcase_def evm_test_wire chain_id_json_def)
  show "send_transaction_emits_wire_field_names X i = Some ()"
    using facts evm_test_addresses [OF assms]
    by (simp add: send_transaction_emits_wire_field_names_def evm_test_params_eq [OF assms] evm_test_wire
        wei_show_def call_data_show_def)
  show "a_contract_creation_omits_to_and_round_trips X i j = Some ()"
    using facts evm_request_reads_back [OF laws, of "EvmSendTransaction (request_meta_new i)
        (Some (ChainId 42161)) None None None (Some (CallData [0x60, 0x80])) None None None" j]
    by (simp add: a_contract_creation_omits_to_and_round_trips_def call_data_from_str_def
        evm_send_transaction_def evm_wf_def del: evm_serialize.simps)
      (simp add: evm_test_wire call_data_show_def)
  show "typed_data_flattens_fields X i = Some ()"
    by (simp add: typed_data_flattens_fields_def evm_test_wire)
  show "sign_message_wire_shape_is_text_or_raw_hex X i j = Some ()"
    using facts evm_request_reads_back [OF laws, of "EvmSignMessage (request_meta_new i) None
        (MsgRaw [0xff, 0xff]) None" j]
    by (simp add: sign_message_wire_shape_is_text_or_raw_hex_def evm_sign_message_def evm_wf_def
        two del: evm_serialize.simps)
      (simp add: evm_test_wire message_json_def two)
  show "evm_from_json_round_trips_send_transaction X i j = Some ()"
    using evm_request_reads_back [OF laws, of "EvmSendTransaction (request_meta_new i) (Some (ChainId 8453))
        (Some (Address 0x52908400098527886E0F7030069857D2E4169EE7)) None (Some (Wei 1000))
        (Some (CallData [0xde, 0xad])) (Some (Wei 21000)) (Some (Wei 5)) None" j]
    by (simp add: evm_from_json_round_trips_send_transaction_def evm_test_params_eq [OF assms]
        evm_send_transaction_def evm_wf_def del: evm_serialize.simps)
      (simp add: evm_test_wire)
qed

lemma init_code_text:
  "str_contains (''a transaction without '' @ quoted ''to'' @ '' deploys a contract from '' @ quoted ''data'' @ r)
     (''deploys a contract from '' @ quoted ''data'')"
  unfolding str_contains_def sublist_def
  by (rule exI [of _ "''a transaction without '' @ quoted ''to'' @ '' ''"], rule exI [of _ r]) simp

lemma evm_reading_tests_pass:
  assumes "evm_test_facts X"
  shows "a_contract_creation_without_init_code_is_refused X i = Some ()"
    "sign_message_rejects_a_malformed_message X i = Some ()"
    "evm_from_json_rejects_unknown_type_and_bad_field X i = Some ()"
    "evm_from_json_parses_typed_data X i = Some ()"
proof -
  note facts = assms [unfolded evm_test_facts_def]
  note read = evm_from_json_def str_field_def opt_address_def opt_wei_def opt_parsed_def evm_send_params_def
    send_check_def evm_message_from_json_def req_parsed_def json_field_def
  show "a_contract_creation_without_init_code_is_refused X i = Some ()"
    using facts
    by (simp add: a_contract_creation_without_init_code_is_refused_def read call_data_from_str_def
        init_code_text del: append.simps)
  show "sign_message_rejects_a_malformed_message X i = Some ()"
    using facts by (auto simp: sign_message_rejects_a_malformed_message_def read is_err_iff)
  show "evm_from_json_rejects_unknown_type_and_bad_field X i = Some ()"
    using facts
    by (auto simp: evm_from_json_rejects_unknown_type_and_bad_field_def read address_from_str_def is_err_iff)
  show "evm_from_json_parses_typed_data X i = Some ()"
    by (simp add: evm_from_json_parses_typed_data_def read evm_sign_typed_data_def)
      (simp add: evm_test_wire)
qed

lemma evm_expecting_test_passes:
  assumes "evm_test_facts X"
  shows "evm_expecting_defaults_keeps_and_refuses X i = Some ()"
proof -
  note addr = evm_test_addresses [OF assms]
  let ?A = "Address 0x52908400098527886E0F7030069857D2E4169EE7"
  let ?B = "Address 0x8617e340b3d01fa5f11f306f4090fd50e238070d"
  have err: "str_contains (account_mismatch (address_show X) ?B ?A) EVM_OTHER"
      "str_contains (account_mismatch (address_show X) ?B ?A) EVM_LOWER"
    using account_mismatch_contains [of "address_show X" ?B ?A] by (simp_all add: addr)
  show ?thesis
    by (simp add: evm_expecting_defaults_keeps_and_refuses_def addr evm_lower evm_unset_cases_def
        evm_expected_def evm_from_json_def str_field_def opt_address_def opt_wei_def opt_parsed_def
        evm_send_params_def send_check_def evm_message_from_json_def json_field_def
        expect_account_cases err evm_test_wire address_field_def)
qed

lemma evm_tests_pass:
  assumes "evm_test_facts X"
  shows "list_all (\<lambda>t. t = Some ()) (evm_tests X i j)"
  by (simp add: evm_tests_def evm_domain_tests_pass [OF assms] evm_wire_tests_pass [OF assms]
      evm_reading_tests_pass [OF assms] evm_expecting_test_passes [OF assms])

end
