(* ===== verification/Tron_Tests.thy ===== *)
theory Tron_Tests
  imports Test_Std Tron_Signer
begin

section \<open>The unit tests of the TRON crate\<close>

text \<open>
  The test modules of \<open>domain.rs\<close>, \<open>types.rs\<close> and \<open>signer.rs\<close> of \<open>browser-web3-signer-tron\<close>, run on the
  model. \<open>tron_test_facts\<close> is what they assume of Base58Check, hex, JSON and \<open>format_units\<close> on their
  inputs.
\<close>

subsection \<open>domain.rs\<close>

definition TRON_ADDRESS :: string where
  "TRON_ADDRESS = ''TJRyWwFs9wTFGZg3JbrVriFbNfCug5tDeC''"

definition TRON_OTHER :: string where
  "TRON_OTHER = ''TR7NHqjeKQxGTCi8q8ZY4pL8otSzgjLj6t''"

definition AA64 :: string where
  "AA64 = concat (replicate 32 ''aa'')"

definition tron_network_roundtrip :: "unit option" where
  "tron_network_roundtrip =
     do {
       n \<leftarrow> ok (tron_network_from_str ''MAINNET'');
       test_assert (n = TronMainnet);
       test_assert (JString (tron_network_id Nile) = JString ''nile'');
       test_assert (is_err (tron_network_from_str ''foo''))
     }"

definition address_validates_and_serializes :: "'x tron_ext_scheme \<Rightarrow> unit option" where
  "address_validates_and_serializes X =
     do {
       a \<leftarrow> ok (tron_address_from_str X TRON_ADDRESS);
       test_assert (tron_json X a = JString TRON_ADDRESS);
       test_assert (length (to_hex20 X a) = 40);
       test_assert (is_err (tron_address_from_str X ''0xabc''))
     }"

definition sun_serializes_decimal_and_formats_trx :: "'x tron_ext_scheme \<Rightarrow> unit option" where
  "sun_serializes_decimal_and_formats_trx X =
     do {
       s \<leftarrow> ok (sun_from_str ''1500000'');
       test_assert (JString (sun_show s) = JString ''1500000'');
       test_assert (to_trx_string X s = ''1.500000'')
     }"

definition txhash_requires_32_bytes :: "'x tron_ext_scheme \<Rightarrow> unit option" where
  "txhash_requires_32_bytes X =
     do {
       test_assert (is_err (tx_hash_from_str X ''ab''));
       t \<leftarrow> ok (tx_hash_from_str X AA64);
       test_assert (length (tx_hash_to_hex X t) = 64)
     }"

subsection \<open>types.rs\<close>

definition tron_send_transaction_emits_wire_shape :: "'x tron_ext_scheme \<Rightarrow> uuid \<Rightarrow> unit option" where
  "tron_send_transaction_emits_wire_shape X i =
     do {
       to \<leftarrow> ok (tron_address_from_str X TRON_ADDRESS);
       amount \<leftarrow> ok (sun_from_str ''1500000'');
       let json = tron_serialize X (tron_send_transaction i
         \<lparr>ts_to = to, ts_from = None, ts_amount = amount, ts_data = None, ts_network = Some TronMainnet\<rparr>);
       test_assert (jindex json ''type'' = JString ''send_transaction'');
       test_assert (jindex json ''amount'' = JString ''1500000'');
       test_assert (jindex json ''network'' = JString ''mainnet'');
       test_assert (jindex json ''to'' = JString TRON_ADDRESS)
     }"

text \<open>The request that two of the tests build.\<close>

definition tron_test_trigger :: "'x tron_ext_scheme \<Rightarrow> uuid \<Rightarrow> tron_network option \<Rightarrow> tron_request option" where
  "tron_test_trigger X i network =
     do {
       contract \<leftarrow> ok (tron_address_from_str X TRON_ADDRESS);
       fee \<leftarrow> ok (sun_from_str ''150000000'');
       Some (tron_trigger_contract i
         \<lparr>tt_contract_address = contract, tt_from = None,
          tt_function_selector = ''transfer(address,uint256)'',
          tt_parameters = Some (JArray [JObject [(''type'', JString ''uint256''), (''value'', JString ''1'')]]),
          tt_fee_limit = Some fee, tt_call_value = None, tt_network = network\<rparr>)
     }"

definition trigger_contract_uses_camelcase :: "'x tron_ext_scheme \<Rightarrow> uuid \<Rightarrow> unit option" where
  "trigger_contract_uses_camelcase X i =
     do {
       req \<leftarrow> tron_test_trigger X i None;
       let json = tron_serialize X req;
       test_assert (jindex json ''type'' = JString ''trigger_contract'');
       test_assert (jindex json ''functionSelector'' = JString ''transfer(address,uint256)'');
       test_assert (jindex json ''feeLimit'' = JString ''150000000'');
       test_assert (jget json ''callValue'' = None)
     }"

definition tron_from_json_round_trips_trigger_contract :: "'x tron_ext_scheme \<Rightarrow> uuid \<Rightarrow> uuid \<Rightarrow> unit option" where
  "tron_from_json_round_trips_trigger_contract X i j =
     do {
       original \<leftarrow> tron_test_trigger X i (Some TronMainnet);
       let wire = tron_serialize X original;
       parsed \<leftarrow> ok (tron_from_json X j wire);
       let reparsed = tron_serialize X parsed;
       test_all (\<lambda>k. test_assert (jindex wire k = jindex reparsed k))
         [''type'', ''contractAddress'', ''functionSelector'', ''feeLimit'', ''parameters'', ''network'']
     }"

definition tron_from_json_parses_deploy_contract :: "'x tron_ext_scheme \<Rightarrow> uuid \<Rightarrow> unit option" where
  "tron_from_json_parses_deploy_contract X i =
     do {
       req \<leftarrow> ok (tron_from_json X i (JObject
         [(''type'', JString ''deploy_contract''),
          (''abi'', JArray [JObject [(''type'', JString ''constructor''), (''inputs'', JArray [])]]),
          (''bytecode'', JString ''0x6080''), (''contractName'', JString ''Greeter''),
          (''feeLimit'', JString ''1500000000''), (''network'', JString ''mainnet'')]));
       let json = tron_serialize X req;
       test_assert (jindex json ''type'' = JString ''deploy_contract'');
       test_assert (jindex json ''contractName'' = JString ''Greeter'');
       test_assert (jindex json ''feeLimit'' = JString ''1500000000'')
     }"

definition tron_from_json_rejects_unknown_type_and_bad_field :: "'x tron_ext_scheme \<Rightarrow> uuid \<Rightarrow> unit option" where
  "tron_from_json_rejects_unknown_type_and_bad_field X i =
     do {
       test_assert (is_err (tron_from_json X i (JObject [(''type'', JString ''nope'')])));
       test_assert (is_err (tron_from_json X i (JObject [(''type'', JString ''send_transaction'')])));
       test_assert (is_err (tron_from_json X i
         (JObject [(''type'', JString ''connect''), (''address'', JString ''Tnot-valid'')])))
     }"

definition tron_unset_cases :: "(json \<times> string) list" where
  "tron_unset_cases =
     [(JObject [(''type'', JString ''connect'')], ''address''),
      (JObject [(''type'', JString ''send_transaction''), (''to'', JString TRON_OTHER),
         (''amount'', JString ''1'')], ''from''),
      (JObject [(''type'', JString ''trigger_contract''), (''contractAddress'', JString TRON_OTHER),
         (''functionSelector'', JString ''f()'')], ''from''),
      (JObject [(''type'', JString ''deploy_contract''), (''abi'', JArray []),
         (''bytecode'', JString ''0x60'')], ''from''),
      (JObject [(''type'', JString ''sign_message''), (''message'', JString ''hi'')], ''address''),
      (JObject [(''type'', JString ''sign_typed_data''), (''primaryType'', JString ''Mail'')], ''address'')]"

definition tron_expected :: "'x tron_ext_scheme \<Rightarrow> uuid \<Rightarrow> tron_address \<Rightarrow> json \<Rightarrow> string + json" where
  "tron_expected X i account body =
     map_ok (tron_serialize X) (and_then (tron_from_json X i body) (\<lambda>req. tron_expecting X req account))"

definition tron_expecting_defaults_keeps_and_refuses :: "'x tron_ext_scheme \<Rightarrow> uuid \<Rightarrow> unit option" where
  "tron_expecting_defaults_keeps_and_refuses X i =
     do {
       account \<leftarrow> ok (tron_address_from_str X TRON_ADDRESS);
       test_all
         (\<lambda>(body, field). do {
            let same = jset body field (JString TRON_ADDRESS);
            let other = jset body field (JString TRON_OTHER);
            unset_json \<leftarrow> ok (tron_expected X i account body);
            test_assert (jindex unset_json field = JString TRON_ADDRESS);
            same_json \<leftarrow> ok (tron_expected X i account same);
            test_assert (jindex same_json field = JString TRON_ADDRESS);
            err \<leftarrow> unwrap_err (tron_expected X i account other);
            test_assert (str_contains err TRON_OTHER \<and> str_contains err TRON_ADDRESS)
          })
         tron_unset_cases
     }"

subsection \<open>signer.rs\<close>

definition DEPLOY_HASH :: string where
  "DEPLOY_HASH = ''aabbccddeeff00112233445566778899aabbccddeeff00112233445566778899''"

definition deploy_raw :: string where
  "deploy_raw =
     ''{'' @ [CHR 0x22] @ ''txHash'' @ [CHR 0x22] @ '':'' @ [CHR 0x22] @ DEPLOY_HASH @ [CHR 0x22] @ '','' @
     [CHR 0x22] @ ''contractAddress'' @ [CHR 0x22] @ '':'' @ [CHR 0x22] @ TRON_ADDRESS @ [CHR 0x22] @ ''}''"

definition deploy_result_parses :: "'x tron_ext_scheme \<Rightarrow> unit option" where
  "deploy_result_parses X =
     do {
       r \<leftarrow> ok (parse_deploy_result X deploy_raw);
       test_assert (length (tx_hash_to_hex X (dr_tx_hash r)) = 64);
       test_assert (to_base58 X (dr_contract_address r) = TRON_ADDRESS)
     }"

subsection \<open>They pass\<close>

definition tron_tests :: "'x tron_ext_scheme \<Rightarrow> uuid \<Rightarrow> uuid \<Rightarrow> unit option list" where
  "tron_tests X i j =
     [tron_network_roundtrip, address_validates_and_serializes X, sun_serializes_decimal_and_formats_trx X,
      txhash_requires_32_bytes X, tron_send_transaction_emits_wire_shape X i,
      trigger_contract_uses_camelcase X i, tron_from_json_round_trips_trigger_contract X i j,
      tron_from_json_parses_deploy_contract X i, tron_from_json_rejects_unknown_type_and_bad_field X i,
      tron_expecting_defaults_keeps_and_refuses X i, deploy_result_parses X]"

text \<open>The payloads of the two addresses.\<close>

definition tron_payload :: "u8 list" where
  "tron_payload =
     [0x41, 0x5c, 0xd0, 0xfb, 0x0a, 0xb3, 0xce, 0x40, 0xf3, 0x05, 0x14, 0x14, 0xc6, 0x04, 0xb2, 0x77, 0x56,
      0xe6, 0x9e, 0x43, 0xdb]"

definition tron_other_payload :: "u8 list" where
  "tron_other_payload =
     [0x41, 0xa6, 0x14, 0xf8, 0x03, 0xb6, 0xfd, 0x78, 0x09, 0x86, 0xa4, 0x2c, 0x78, 0xec, 0x9c, 0x7f, 0x77,
      0xe6, 0xde, 0xd1, 0x3c]"

definition deploy_hash_bytes :: "u8 list" where
  "deploy_hash_bytes =
     concat (replicate 2 [0xaa, 0xbb, 0xcc, 0xdd, 0xee, 0xff, 0x00, 0x11, 0x22, 0x33, 0x44, 0x55, 0x66, 0x77,
       0x88, 0x99])"

definition tron_test_facts :: "'x tron_ext_scheme \<Rightarrow> bool" where
  "tron_test_facts X \<longleftrightarrow>
     hex_laws X \<and> tron_laws X \<and>
     x_b58check_encode X tron_payload = TRON_ADDRESS \<and> x_b58check_encode X tron_other_payload = TRON_OTHER \<and>
     is_err (x_b58check_decode X ''0xabc'') \<and> is_err (x_b58check_decode X ''Tnot-valid'') \<and>
     x_tron_format_units X 1500000 6 = Some ''1.500000'' \<and>
     x_hex_decode X ''ab'' = Inr [0xab] \<and> x_hex_decode X AA64 = Inr (replicate 32 0xaa) \<and>
     x_hex_decode X ''6080'' = Inr [0x60, 0x80] \<and> x_hex_decode X ''60'' = Inr [0x60] \<and>
     x_hex_decode X DEPLOY_HASH = Inr deploy_hash_bytes \<and>
     x_json_parse X deploy_raw =
       Inr (JObject [(''txHash'', JString DEPLOY_HASH), (''contractAddress'', JString TRON_ADDRESS)])"

lemma tron_test_addresses:
  assumes "tron_test_facts X"
  shows "tron_address_from_str X TRON_ADDRESS = Inr (TronAddress tron_payload)"
    "to_base58 X (TronAddress tron_payload) = TRON_ADDRESS"
    "tron_address_from_str X TRON_OTHER = Inr (TronAddress tron_other_payload)"
    "to_base58 X (TronAddress tron_other_payload) = TRON_OTHER"
proof -
  note facts = assms [unfolded tron_test_facts_def tron_laws_def]
  have ok: "tron_address_ok (TronAddress tron_payload)" "tron_address_ok (TronAddress tron_other_payload)"
    by (simp_all add: tron_address_ok_def tron_payload_def tron_other_payload_def)
  from facts show "to_base58 X (TronAddress tron_payload) = TRON_ADDRESS"
      "to_base58 X (TronAddress tron_other_payload) = TRON_OTHER"
    by (simp_all add: to_base58_def)
  with ok assms show "tron_address_from_str X TRON_ADDRESS = Inr (TronAddress tron_payload)"
      "tron_address_from_str X TRON_OTHER = Inr (TronAddress tron_other_payload)"
    using tron_address_reads_back [of X] by (metis tron_test_facts_def)+
qed

lemma tron_payload_ok: "tron_address_ok (TronAddress tron_payload)"
  by (simp add: tron_address_ok_def tron_payload_def)

lemma sun_texts:
  "sun_from_str ''1500000'' = Inr (Sun 1500000)" "sun_from_str ''150000000'' = Inr (Sun 150000000)"
  "sun_from_str ''1500000000'' = Inr (Sun 1500000000)" "sun_from_str ''1'' = Inr (Sun 1)"
  by (simp_all add: sun_from_str_def parse_word_def parse_uint_def digit_of_def)

lemma sun_shows:
  "sun_show (Sun 1500000) = ''1500000''" "sun_show (Sun 150000000) = ''150000000''"
  "sun_show (Sun 1500000000) = ''1500000000''"
  by (simp_all add: sun_show_def show_texts)

lemma tron_hex_raw: "hex_raw AA64 = AA64" "hex_raw ''ab'' = ''ab''" "hex_raw DEPLOY_HASH = DEPLOY_HASH"
  by (simp_all add: hex_raw_def strip_prefix_def AA64_def DEPLOY_HASH_def numeral_eq_Suc)

lemma deploy_hash_length: "length deploy_hash_bytes = 32"
  by (simp add: deploy_hash_bytes_def numeral_2_eq_2)

lemma tron_domain_tests_pass:
  assumes "tron_test_facts X"
  shows "tron_network_roundtrip = Some ()" "address_validates_and_serializes X = Some ()"
    "sun_serializes_decimal_and_formats_trx X = Some ()" "txhash_requires_32_bytes X = Some ()"
    "deploy_result_parses X = Some ()"
proof -
  note facts = assms [unfolded tron_test_facts_def] and addr = tron_test_addresses [OF assms]
  have laws: "hex_laws X" using facts by simp
  show "tron_network_roundtrip = Some ()" by code_simp
  show "address_validates_and_serializes X = Some ()"
    using facts
    by (simp add: address_validates_and_serializes_def addr tron_json_def to_hex20_length [OF laws tron_payload_ok])
      (simp add: tron_address_from_str_def)
  show "sun_serializes_decimal_and_formats_trx X = Some ()"
    using facts
    by (simp add: sun_serializes_decimal_and_formats_trx_def sun_texts sun_shows to_trx_string_def TRX_DECIMALS_def)
  show "txhash_requires_32_bytes X = Some ()"
    using facts
    by (simp add: txhash_requires_32_bytes_def tx_hash_from_str_def tron_hex_raw tx_hash_to_hex_def
        hex_laws_length)
  show "deploy_result_parses X = Some ()"
    using facts
    by (simp add: deploy_result_parses_def parse_deploy_result_def tx_hash_from_str_def tron_hex_raw
        addr tx_hash_to_hex_def hex_laws_length deploy_hash_length)
qed

lemma tron_test_trigger_eq:
  assumes "tron_test_facts X"
  shows "tron_test_trigger X i n = Some (TronTriggerContract (request_meta_new i) n (TronAddress tron_payload)
    None ''transfer(address,uint256)''
    (Some (JArray [JObject [(''type'', JString ''uint256''), (''value'', JString ''1'')]]))
    (Some (Sun 150000000)) None)"
  by (simp add: tron_test_trigger_def tron_test_addresses [OF assms] sun_texts tron_builders)

lemma tron_wire_tests_pass:
  assumes "tron_test_facts X"
  shows "tron_send_transaction_emits_wire_shape X i = Some ()" "trigger_contract_uses_camelcase X i = Some ()"
    "tron_from_json_round_trips_trigger_contract X i j = Some ()"
proof -
  have laws: "hex_laws X" "tron_laws X" using assms by (simp_all add: tron_test_facts_def)
  note addr = tron_test_addresses [OF assms]
  show "tron_send_transaction_emits_wire_shape X i = Some ()"
    by (simp add: tron_send_transaction_emits_wire_shape_def addr sun_texts sun_shows tron_builders jindex_def
        tron_json_def tron_network_id_def wire)
  show "trigger_contract_uses_camelcase X i = Some ()"
    by (simp add: trigger_contract_uses_camelcase_def tron_test_trigger_eq [OF assms] jindex_def sun_shows wire)
  show "tron_from_json_round_trips_trigger_contract X i j = Some ()"
    using tron_request_reads_back [OF laws, of "TronTriggerContract (request_meta_new i) (Some TronMainnet)
        (TronAddress tron_payload) None ''transfer(address,uint256)''
        (Some (JArray [JObject [(''type'', JString ''uint256''), (''value'', JString ''1'')]]))
        (Some (Sun 150000000)) None" j]
    by (simp add: tron_from_json_round_trips_trigger_contract_def tron_test_trigger_eq [OF assms] tron_wf_def
        tron_payload_ok del: tron_serialize.simps)
      (simp add: jindex_def wire)
qed

lemmas tron_readers = tron_from_json_def str_field_def opt_parsed_def req_parsed_def opt_tron_def req_tron_def
  opt_sun_def tron_read_send_def tron_read_trigger_def tron_read_deploy_def tron_json_field_def

lemma tron_hex_texts:
  assumes "tron_test_facts X"
  shows "hex_data_from_str X ''0x6080'' = Inr (HexData [0x60, 0x80])"
    "hex_data_from_str X ''0x60'' = Inr (HexData [0x60])"
  using assms by (simp_all add: tron_test_facts_def hex_data_from_str_def hex_raw_def strip_prefix_def)

lemma tron_network_texts: "tron_network_from_str ''mainnet'' = Inr TronMainnet"
  by code_simp

lemma tron_reading_tests_pass:
  assumes "tron_test_facts X"
  shows "tron_from_json_parses_deploy_contract X i = Some ()"
    "tron_from_json_rejects_unknown_type_and_bad_field X i = Some ()"
proof -
  note facts = assms [unfolded tron_test_facts_def]
  show "tron_from_json_parses_deploy_contract X i = Some ()"
    by (simp add: tron_from_json_parses_deploy_contract_def tron_readers tron_hex_texts [OF assms] sun_texts
        tron_network_texts tron_builders jindex_def sun_shows wire)
  have "is_err (tron_address_from_str X ''Tnot-valid'')"
    using facts by (simp add: tron_address_from_str_def)
  then show "tron_from_json_rejects_unknown_type_and_bad_field X i = Some ()"
    by (auto simp: tron_from_json_rejects_unknown_type_and_bad_field_def tron_readers is_err_iff)
qed

lemma tron_expecting_test_passes:
  assumes "tron_test_facts X"
  shows "tron_expecting_defaults_keeps_and_refuses X i = Some ()"
proof -
  note addr = tron_test_addresses [OF assms]
  let ?A = "TronAddress tron_payload" and ?B = "TronAddress tron_other_payload"
  have "?B \<noteq> ?A" by (simp add: tron_payload_def tron_other_payload_def)
  moreover have "str_contains (account_mismatch (to_base58 X) ?B ?A) TRON_OTHER"
      "str_contains (account_mismatch (to_base58 X) ?B ?A) TRON_ADDRESS"
    using account_mismatch_contains [of "to_base58 X" ?B ?A] by (simp_all add: addr)
  ultimately show ?thesis
    by (simp add: tron_expecting_defaults_keeps_and_refuses_def addr tron_unset_cases_def tron_expected_def
        tron_readers tron_hex_texts [OF assms] sun_texts expect_account_cases tron_builders jindex_def
        tron_json_def wire)
qed

lemma tron_tests_pass:
  assumes "tron_test_facts X"
  shows "list_all (\<lambda>t. t = Some ()) (tron_tests X i j)"
  by (simp add: tron_tests_def tron_domain_tests_pass [OF assms] tron_wire_tests_pass [OF assms]
      tron_reading_tests_pass [OF assms] tron_expecting_test_passes [OF assms])

end
