(* ===== verification/Btc_Tests.thy ===== *)
theory Btc_Tests
  imports Test_Std Btc_Types
begin

section \<open>The unit tests of the Bitcoin crate\<close>

text \<open>
  The test modules of \<open>domain.rs\<close>, \<open>types.rs\<close> and \<open>signer.rs\<close> of \<open>browser-web3-signer-btc\<close>, run on the
  model. What \<open>rust-bitcoin\<close> makes of their inputs is a record of samples: three addresses, a key, a
  PSBT, the PSBT with a script-path input that one test builds with the library, and the PSBT with
  another output value. \<open>btc_test_facts\<close> is what the tests assume of the library on these.
\<close>

subsection \<open>The samples\<close>

definition PSBT_HEX :: string where
  "PSBT_HEX =
     ''70736274ff01003f0200000001ffffffffffffffffffffffffffffffffffffffffffffffffffffffffffffffff000000'' @
     ''0000ffffffff010000000000000000036a010000000000000a0f0102030405060708090f0102030405060708090a0b0c'' @
     ''0d0e0f0000''"

definition SCRIPT_PATH_PSBT_HEX :: string where
  "SCRIPT_PATH_PSBT_HEX =
     ''70736274ff0100680200000002ffffffffffffffffffffffffffffffffffffffffffffffffffffffffffffffff000000'' @
     ''0000ffffffffffffffffffffffffffffffffffffffffffffffffffffffffffffffffffffffff0000000000ffffffff01'' @
     ''0000000000000000036a010000000000002215c179be667ef9dcbbac55a06295ce870b07029bfcdb2dce28d959f2815b'' @
     ''16f81798232079be667ef9dcbbac55a06295ce870b07029bfcdb2dce28d959f2815b16f81798acc00a0f010203040506'' @
     ''0708090f0102030405060708090a0b0c0d0e0f000000''"

definition BTC_MAIN :: string where
  "BTC_MAIN = ''bc1qar0srrr7xfkvy5l643lydnw9re59gtzzwf5mdq''"

definition BTC_TEST :: string where
  "BTC_TEST = ''tb1qw508d6qejxtdg4y5r3zarvary0c5xw7kxpjzsx''"

definition BTC_OTHER :: string where
  "BTC_OTHER = ''tb1qrp33g0q5c5txsp9arysrx4k6zdkfs4nce4xj0gdcccefvpysxf3q0sl5k7''"

definition BTC_KEY :: string where
  "BTC_KEY = ''0279be667ef9dcbbac55a06295ce870b07029bfcdb2dce28d959f2815b16f81798''"

definition BTC_KEY_UNCOMPRESSED :: string where
  "BTC_KEY_UNCOMPRESSED =
     ''0479be667ef9dcbbac55a06295ce870b07029bfcdb2dce28d959f2815b16f81798483ada7726a3c4655da4fbfc0e1108'' @
     ''a8fd17b448a68554199c47d08ffb10d4b8''"

definition PSBT_B64 :: string where
  "PSBT_B64 =
     ''cHNidP8BAD8CAAAAAf//////////////////////////////////////////AAAAAAD/////AQAAAAAAAAAAA2oBAAAAAAAA'' @
     ''Cg8BAgMEBQYHCAkPAQIDBAUGBwgJCgsMDQ4PAAA=''"

definition PSBT_TXID :: string where
  "PSBT_TXID = ''75c5c9665a570569ad77dd1279e6fd4628a093c4dcbf8d41532614044c14c115''"

definition ZERO_TXID :: string where
  "ZERO_TXID = concat (replicate 32 ''00'')"

definition ONE_TXID :: string where
  "ONE_TXID = concat (replicate 31 ''00'') @ ''01''"

record ('a, 'k, 'p) btc_samples =
  bs_main :: 'a
  bs_test :: 'a
  bs_other :: 'a
  bs_key :: 'k
  bs_psbt :: 'p
  bs_script_psbt :: 'p
  bs_changed_psbt :: 'p
  bs_psbt_bytes :: "u8 list"

subsection \<open>domain.rs\<close>

definition btc_network_round_trips :: "unit option" where
  "btc_network_round_trips =
     do {
       n \<leftarrow> ok (btc_network_from_str ''TESTNET4'');
       test_assert (n = BtcTestnet4);
       test_assert (JString (btc_network_id BtcSignet) = JString ''signet'');
       n \<leftarrow> ok (btc_network_from_str ''regtest'');
       test_assert (n = BtcRegtest);
       testnet3 \<leftarrow> ok (btc_network_from_str ''testnet3'');
       test_assert (testnet3 = BtcTestnet);
       test_assert (btc_network_id testnet3 = ''testnet'');
       test_assert (is_err (btc_network_from_str ''devnet''))
     }"

definition address_is_checked_against_network :: "('a, 'k, 'p, 'x) btc_ext_scheme \<Rightarrow> unit option" where
  "address_is_checked_against_network X =
     do {
       main \<leftarrow> ok (unchecked_from_str X BTC_MAIN);
       test_assert (is_ok (require_network X main BtcMainnet));
       test_assert (is_err (require_network X main BtcSignet));
       test \<leftarrow> ok (unchecked_from_str X BTC_TEST);
       checked \<leftarrow> ok (require_network X test BtcTestnet4);
       test_assert (btc_address_show X checked = BTC_TEST);
       test_assert (is_err (require_network X test BtcMainnet));
       test_assert (is_err (unchecked_from_str X ''bc1qnotanaddress''))
     }"

text \<open>\<open>x_only\<close> is the text of \<open>BtcPublicKey::x_only\<close>, the library's conversion.\<close>

definition public_key_parses_hex_and_serializes_compressed ::
  "('a, 'k, 'p, 'x) btc_ext_scheme \<Rightarrow> ('k \<Rightarrow> string) \<Rightarrow> unit option" where
  "public_key_parses_hex_and_serializes_compressed X x_only =
     do {
       key \<leftarrow> ok (key_from_str X BTC_KEY);
       test_assert (key_show X key = BTC_KEY);
       uncompressed \<leftarrow> ok (key_from_str X BTC_KEY_UNCOMPRESSED);
       test_assert (uncompressed = key);
       test_assert (x_only (key_inner key) = drop 2 BTC_KEY);
       test_assert (is_err (key_from_str X (drop 2 BTC_KEY)));
       test_assert (is_err (key_from_str X ''02ff''))
     }"

definition sats_format_as_btc :: "unit option" where
  "sats_format_as_btc =
     do {
       test_assert (to_btc_string (Sats 150000000) = ''1.5'');
       test_assert (to_btc_string (Sats 1) = ''0.00000001'');
       test_assert (to_btc_string (Sats 100000000) = ''1'');
       test_assert (to_btc_string (Sats 0) = ''0'');
       test_assert (is_err (sats_from_str ''-1''));
       test_assert (is_err (rate_from_str ''0''))
     }"

text \<open>\<open>serialize\<close> is \<open>Psbt::serialize\<close> of the library.\<close>

definition psbt_parses_hex_and_base64_and_serializes_hex ::
  "('a, 'k, 'p, 'x) btc_ext_scheme \<Rightarrow> ('p \<Rightarrow> u8 list) \<Rightarrow> unit option" where
  "psbt_parses_hex_and_base64_and_serializes_hex X serialize =
     do {
       from_hex \<leftarrow> ok (psbt_from_str X PSBT_HEX);
       let b64 = x_b64_encode X (serialize (psbt_inner from_hex));
       from_b64 \<leftarrow> ok (psbt_from_str X b64);
       test_assert (from_hex = from_b64);
       test_assert (psbt_show X from_hex = PSBT_HEX);
       test_assert (x_txid_show X (unsigned_txid X from_hex) = PSBT_TXID);
       test_assert (is_err (psbt_from_str X ''70736274''))
     }"

definition message_signature_is_base64 :: "('a, 'k, 'p, 'x) btc_ext_scheme \<Rightarrow> unit option" where
  "message_signature_is_base64 X =
     do {
       sig \<leftarrow> ok (message_signature_from_str X ''AkcwRAIg'');
       test_assert (message_signature_show X sig = ''AkcwRAIg'');
       test_assert (is_err (message_signature_from_str X ''not base64!''));
       test_assert (is_err (message_signature_from_str X []))
     }"

subsection \<open>types.rs\<close>

definition send_transfer_emits_wire_shape :: "('a, 'k, 'p, 'x) btc_ext_scheme \<Rightarrow> uuid \<Rightarrow> unit option" where
  "send_transfer_emits_wire_shape X i =
     do {
       to \<leftarrow> ok (unchecked_from_str X BTC_TEST);
       rate \<leftarrow> ok (rate_from_str ''3'');
       req \<leftarrow> ok (btc_send_transfer X i \<lparr>st_network = BtcSignet, st_to = to, st_from = None,
         st_amount = Sats 1500, st_fee_rate = Some rate\<rparr>);
       let json = btc_serialize X req;
       test_assert (jindex json ''type'' = JString ''send_transfer'');
       test_assert (jindex json ''network'' = JString ''signet'');
       test_assert (jindex json ''to'' = JString BTC_TEST);
       test_assert (jindex json ''amount'' = JString ''1500'');
       test_assert (jindex json ''feeRate'' = JString ''3'');
       test_assert (jget json ''from'' = None)
     }"

definition account_json :: "string \<Rightarrow> json" where
  "account_json address = JObject [(''address'', JString address), (''publicKey'', JString BTC_KEY)]"

definition psbt_json :: "string \<Rightarrow> string option \<Rightarrow> json" where
  "psbt_json psbt txid = JObject ([(''psbt'', JString psbt)] @ opt_field ''txid'' JString txid)"

definition check_result_applies_the_signer_checks ::
  "('a, 'k, 'p, 'x) btc_ext_scheme \<Rightarrow> environment \<Rightarrow> uuid \<Rightarrow> uuid \<Rightarrow> unit option" where
  "check_result_applies_the_signer_checks X env i j =
     do {
       connect \<leftarrow> ok (btc_from_json X env i
         (JObject [(''type'', JString ''connect''), (''network'', JString ''signet'')]));
       test_assert (is_ok (btc_check_result X connect (x_json_show X (account_json BTC_TEST))));
       test_assert (is_err (btc_check_result X connect (x_json_show X (account_json BTC_MAIN))));
       test_assert (is_err (btc_check_result X connect BTC_TEST));
       sign \<leftarrow> ok (btc_from_json X env j
         (JObject [(''type'', JString ''sign_psbt''), (''network'', JString ''mainnet''),
           (''psbt'', JString PSBT_HEX)]));
       test_assert (is_ok (btc_check_result X sign (x_json_show X (psbt_json PSBT_HEX None))));
       test_assert (is_err (btc_check_result X sign PSBT_HEX));
       let wrong_txid = psbt_json PSBT_HEX (Some ZERO_TXID);
       test_assert (is_err (btc_check_result X sign (x_json_show X wrong_txid)))
     }"

definition address_on_the_wrong_network_is_rejected_at_build ::
  "('a, 'k, 'p, 'x) btc_ext_scheme \<Rightarrow> environment \<Rightarrow> uuid \<Rightarrow> unit option" where
  "address_on_the_wrong_network_is_rejected_at_build X env i =
     do {
       to \<leftarrow> ok (unchecked_from_str X BTC_MAIN);
       let err = btc_send_transfer X i \<lparr>st_network = BtcSignet, st_to = to, st_from = None,
         st_amount = Sats 1, st_fee_rate = None\<rparr>;
       test_assert (is_err err);
       test_assert (is_err (btc_from_json X env i
         (JObject [(''type'', JString ''connect''), (''network'', JString ''mainnet''),
           (''address'', JString BTC_TEST)])))
     }"

definition sign_psbt_broadcast_implies_finalize_and_checks_indexes ::
  "('a, 'k, 'p, 'x) btc_ext_scheme \<Rightarrow> environment \<Rightarrow> uuid \<Rightarrow> unit option" where
  "sign_psbt_broadcast_implies_finalize_and_checks_indexes X env i =
     do {
       psbt \<leftarrow> ok (psbt_from_str X PSBT_HEX);
       req \<leftarrow> ok (btc_from_json X env i
         (JObject [(''type'', JString ''sign_psbt''), (''network'', JString ''mainnet''),
           (''psbt'', JString (psbt_show X psbt)), (''signInputs'', JArray [JNumber (PosInt 0)]),
           (''broadcast'', JBool True)]));
       let json = btc_serialize X req;
       test_assert (jindex json ''finalize'' = JBool True);
       test_assert (jindex json ''broadcast'' = JBool True);
       test_assert (jindex json ''signInputs'' = JArray [JNumber (PosInt 0)]);
       test_assert (jindex json ''psbt'' = JString PSBT_HEX);
       test_assert (is_err (btc_from_json X env i
         (JObject [(''type'', JString ''sign_psbt''), (''network'', JString ''mainnet''),
           (''psbt'', JString (psbt_show X psbt)), (''signInputs'', JArray [JNumber (PosInt 1)])])))
     }"

text \<open>
  \<open>built\<close> is the PSBT that this test makes from the sample with the library's builders; what it asks of
  it is that its hex is the constant and what it lists.
\<close>

definition sign_psbt_names_the_listed_script_path_inputs ::
  "('a, 'k, 'p, 'x) btc_ext_scheme \<Rightarrow> 'p \<Rightarrow> environment \<Rightarrow> uuid \<Rightarrow> unit option" where
  "sign_psbt_names_the_listed_script_path_inputs X built env i =
     do {
       let hex = x_psbt_hex X built;
       test_assert (hex = SCRIPT_PATH_PSBT_HEX);
       let request = (\<lambda>sign_inputs. map_option (btc_serialize X) (ok (btc_from_json X env i
         (JObject [(''type'', JString ''sign_psbt''), (''network'', JString ''mainnet''),
           (''psbt'', JString hex), (''signInputs'', sign_inputs)]))));
       both \<leftarrow> request (JArray [JNumber (PosInt 0), JNumber (PosInt 1)]);
       test_assert (jindex both ''scriptPathInputs'' = JArray [JNumber (PosInt 0)]);
       second \<leftarrow> request (JArray [JNumber (PosInt 1)]);
       test_assert (jget second ''scriptPathInputs'' = None)
     }"

definition sign_message_defaults_to_bip322 ::
  "('a, 'k, 'p, 'x) btc_ext_scheme \<Rightarrow> environment \<Rightarrow> uuid \<Rightarrow> unit option" where
  "sign_message_defaults_to_bip322 X env i =
     do {
       req \<leftarrow> ok (btc_from_json X env i
         (JObject [(''type'', JString ''sign_message''), (''network'', JString ''mainnet''),
           (''message'', JString ''hi''), (''address'', JString BTC_MAIN)]));
       let json = btc_serialize X req;
       test_assert (jindex json ''protocol'' = JString ''bip322'');
       test_assert (jindex json ''address'' = JString BTC_MAIN)
     }"

definition btc_from_json_rejects_unknown_type_and_missing_fields ::
  "('a, 'k, 'p, 'x) btc_ext_scheme \<Rightarrow> environment \<Rightarrow> uuid \<Rightarrow> unit option" where
  "btc_from_json_rejects_unknown_type_and_missing_fields X env i =
     do {
       test_assert (is_err (btc_from_json X env i (JObject [(''type'', JString ''nope'')])));
       test_assert (is_err (btc_from_json X env i
         (JObject [(''type'', JString ''send_transfer''), (''amount'', JString ''1'')])));
       test_assert (is_err (btc_from_json X env i
         (JObject [(''type'', JString ''sign_psbt''), (''psbt'', JString PSBT_HEX),
           (''finalize'', JString ''yes'')])))
     }"

definition btc_unset_cases :: "(json \<times> string) list" where
  "btc_unset_cases =
     [(JObject [(''type'', JString ''connect''), (''network'', JString ''signet'')], ''address''),
      (JObject [(''type'', JString ''send_transfer''), (''network'', JString ''signet''),
         (''to'', JString BTC_OTHER), (''amount'', JString ''1'')], ''from''),
      (JObject [(''type'', JString ''sign_psbt''), (''network'', JString ''signet''),
         (''psbt'', JString PSBT_HEX)], ''from''),
      (JObject [(''type'', JString ''sign_message''), (''network'', JString ''signet''),
         (''message'', JString ''hi'')], ''address'')]"

definition btc_expected ::
  "('a, 'k, 'p, 'x) btc_ext_scheme \<Rightarrow> environment \<Rightarrow> uuid \<Rightarrow> 'a unchecked_address \<Rightarrow> json \<Rightarrow> string + json" where
  "btc_expected X env i account body =
     map_ok (btc_serialize X)
       (and_then (btc_from_json X env i body) (\<lambda>req. btc_expecting X req account))"

definition btc_expecting_defaults_keeps_and_refuses ::
  "('a, 'k, 'p, 'x) btc_ext_scheme \<Rightarrow> environment \<Rightarrow> uuid \<Rightarrow> unit option" where
  "btc_expecting_defaults_keeps_and_refuses X env i =
     do {
       account \<leftarrow> ok (unchecked_from_str X BTC_TEST);
       test_all
         (\<lambda>(body, field). do {
            let same = jset body field (JString BTC_TEST);
            let other = jset body field (JString BTC_OTHER);
            let mainnet = jset body ''network'' (JString ''mainnet'');
            let mainnet = (if jget mainnet ''to'' \<noteq> None then jset mainnet ''to'' (JString BTC_MAIN) else mainnet);
            test_assert (is_ok (btc_from_json X env i mainnet));
            unset_json \<leftarrow> ok (btc_expected X env i account body);
            test_assert (jindex unset_json field = JString BTC_TEST);
            same_json \<leftarrow> ok (btc_expected X env i account same);
            test_assert (jindex same_json field = JString BTC_TEST);
            err \<leftarrow> unwrap_err (btc_expected X env i account other);
            test_assert (str_contains err BTC_OTHER \<and> str_contains err BTC_TEST);
            err \<leftarrow> unwrap_err (btc_expected X env i account mainnet);
            test_assert (str_contains err ''not a mainnet address'')
          })
         btc_unset_cases
     }"

subsection \<open>signer.rs\<close>

definition signed_psbt_for_the_same_tx_is_accepted :: "('a, 'k, 'p, 'x) btc_ext_scheme \<Rightarrow> unit option" where
  "signed_psbt_for_the_same_tx_is_accepted X =
     do {
       unsigned \<leftarrow> ok (psbt_from_str X PSBT_HEX);
       let txid = unsigned_txid X unsigned;
       let raw = x_json_show X (psbt_json PSBT_HEX (Some (x_txid_show X txid)));
       signed \<leftarrow> ok (parse_signed_psbt X unsigned raw);
       test_assert (sn_txid signed = Some txid);
       let no_txid = x_json_show X (psbt_json PSBT_HEX None);
       signed \<leftarrow> ok (parse_signed_psbt X unsigned no_txid);
       test_assert (sn_txid signed = None)
     }"

text \<open>\<open>changed\<close> is the PSBT with its output's value set to one satoshi.\<close>

definition signed_psbt_for_a_different_tx_is_rejected ::
  "('a, 'k, 'p, 'x) btc_ext_scheme \<Rightarrow> 'p \<Rightarrow> unit option" where
  "signed_psbt_for_a_different_tx_is_rejected X changed =
     do {
       unsigned \<leftarrow> ok (psbt_from_str X PSBT_HEX);
       let raw = x_json_show X (psbt_json (x_psbt_hex X changed) None);
       err \<leftarrow> unwrap_err (parse_signed_psbt X unsigned raw);
       test_assert (str_contains (signer_error_show err) ''different transaction'')
     }"

definition broadcast_txid_must_match_the_psbt :: "('a, 'k, 'p, 'x) btc_ext_scheme \<Rightarrow> unit option" where
  "broadcast_txid_must_match_the_psbt X =
     do {
       unsigned \<leftarrow> ok (psbt_from_str X PSBT_HEX);
       let raw = x_json_show X (psbt_json PSBT_HEX (Some ONE_TXID));
       test_assert (is_err (parse_signed_psbt X unsigned raw))
     }"

definition connected_account_must_match_the_network_and_carry_a_key ::
  "('a, 'k, 'p, 'x) btc_ext_scheme \<Rightarrow> unit option" where
  "connected_account_must_match_the_network_and_carry_a_key X =
     do {
       let raw = x_json_show X (account_json BTC_TEST);
       account \<leftarrow> ok (parse_btc_account X raw BtcSignet);
       test_assert (btc_address_show X (ba_address account) = BTC_TEST);
       test_assert (key_show X (ba_public_key account) = BTC_KEY);
       test_assert (is_err (parse_btc_account X raw BtcMainnet));
       test_assert (is_err (parse_btc_account X BTC_TEST BtcSignet));
       let no_key = x_json_show X (JObject [(''address'', JString BTC_TEST)]);
       test_assert (is_err (parse_btc_account X no_key BtcSignet))
     }"

subsection \<open>They pass\<close>

definition btc_tests ::
  "('a, 'k, 'p, 'x) btc_ext_scheme \<Rightarrow> ('a, 'k, 'p) btc_samples \<Rightarrow> ('k \<Rightarrow> string) \<Rightarrow> ('p \<Rightarrow> u8 list) \<Rightarrow>
     environment \<Rightarrow> uuid \<Rightarrow> uuid \<Rightarrow> unit option list" where
  "btc_tests X S x_only serialize env i j =
     [btc_network_round_trips, address_is_checked_against_network X,
      public_key_parses_hex_and_serializes_compressed X x_only, sats_format_as_btc,
      psbt_parses_hex_and_base64_and_serializes_hex X serialize, message_signature_is_base64 X,
      send_transfer_emits_wire_shape X i, check_result_applies_the_signer_checks X env i j,
      address_on_the_wrong_network_is_rejected_at_build X env i,
      sign_psbt_broadcast_implies_finalize_and_checks_indexes X env i,
      sign_psbt_names_the_listed_script_path_inputs X (bs_script_psbt S) env i,
      sign_message_defaults_to_bip322 X env i,
      btc_from_json_rejects_unknown_type_and_missing_fields X env i,
      btc_expecting_defaults_keeps_and_refuses X env i, signed_psbt_for_the_same_tx_is_accepted X,
      signed_psbt_for_a_different_tx_is_rejected X (bs_changed_psbt S),
      broadcast_txid_must_match_the_psbt X, connected_account_must_match_the_network_and_carry_a_key X]"

definition sample_txid :: txid where
  "sample_txid = 0x75c5c9665a570569ad77dd1279e6fd4628a093c4dcbf8d41532614044c14c115"

definition btc_address_facts :: "('a, 'k, 'p, 'x) btc_ext_scheme \<Rightarrow> ('a, 'k, 'p) btc_samples \<Rightarrow> bool" where
  "btc_address_facts X S \<longleftrightarrow>
     x_btc_addr_show X (bs_main S) = BTC_MAIN \<and> x_btc_addr_show X (bs_test S) = BTC_TEST \<and>
     x_btc_addr_show X (bs_other S) = BTC_OTHER \<and> is_err (x_btc_addr_parse X ''bc1qnotanaddress'') \<and>
     x_btc_addr_valid X (bs_main S) Bitcoin \<and> \<not> x_btc_addr_valid X (bs_main S) BSignet \<and>
     x_btc_addr_valid X (bs_test S) BTestnet4 \<and> x_btc_addr_valid X (bs_test S) BSignet \<and>
     \<not> x_btc_addr_valid X (bs_test S) Bitcoin \<and> x_btc_addr_valid X (bs_other S) BSignet"

definition btc_key_facts ::
  "('a, 'k, 'p, 'x) btc_ext_scheme \<Rightarrow> ('a, 'k, 'p) btc_samples \<Rightarrow> ('k \<Rightarrow> string) \<Rightarrow> bool" where
  "btc_key_facts X S x_only \<longleftrightarrow>
     x_key_parse X BTC_KEY = Inr (bs_key S) \<and> x_key_parse X BTC_KEY_UNCOMPRESSED = Inr (bs_key S) \<and>
     x_key_show X (bs_key S) = BTC_KEY \<and> x_only (bs_key S) = drop 2 BTC_KEY \<and>
     is_err (x_key_parse X (drop 2 BTC_KEY)) \<and> is_err (x_key_parse X ''02ff'')"

definition btc_psbt_facts ::
  "('a, 'k, 'p, 'x) btc_ext_scheme \<Rightarrow> ('a, 'k, 'p) btc_samples \<Rightarrow> ('p \<Rightarrow> u8 list) \<Rightarrow> bool" where
  "btc_psbt_facts X S serialize \<longleftrightarrow>
     x_psbt_hex X (bs_psbt S) = PSBT_HEX \<and> x_psbt_hex X (bs_script_psbt S) = SCRIPT_PATH_PSBT_HEX \<and>
     serialize (bs_psbt S) = bs_psbt_bytes S \<and> x_psbt_deserialize X (bs_psbt_bytes S) = Inr (bs_psbt S) \<and>
     x_b64_encode X (bs_psbt_bytes S) = PSBT_B64 \<and> x_b64_decode X PSBT_B64 = Inr (bs_psbt_bytes S) \<and>
     is_err (and_then (x_from_hex X ''70736274'') (x_psbt_deserialize X)) \<and>
     x_psbt_leaves X (bs_psbt S) = [0] \<and> x_psbt_leaves X (bs_script_psbt S) = [1, 0] \<and>
     x_psbt_txid X (bs_psbt S) = sample_txid \<and> x_psbt_txid X (bs_changed_psbt S) \<noteq> sample_txid \<and>
     x_txid_show X sample_txid = PSBT_TXID \<and> x_txid_parse X PSBT_TXID = Inr sample_txid \<and>
     x_txid_parse X ZERO_TXID = Inr 0 \<and> x_txid_parse X ONE_TXID = Inr 1"

text \<open>The JSON texts the tests print read back, and what is no JSON does not.\<close>

definition btc_text_facts :: "('a, 'k, 'p, 'x) btc_ext_scheme \<Rightarrow> ('a, 'k, 'p) btc_samples \<Rightarrow> bool" where
  "btc_text_facts X S \<longleftrightarrow>
     x_b64_decode X ''AkcwRAIg'' = Inr [0x02, 0x47, 0x30, 0x44, 0x02, 0x20] \<and>
     x_b64_encode X [0x02, 0x47, 0x30, 0x44, 0x02, 0x20] = ''AkcwRAIg'' \<and>
     is_err (x_b64_decode X ''not base64!'') \<and> x_b64_decode X [] = Inr [] \<and>
     list_all (\<lambda>v. x_json_parse X (x_json_show X v) = Inr v)
       [account_json BTC_TEST, account_json BTC_MAIN, JObject [(''address'', JString BTC_TEST)],
        psbt_json PSBT_HEX None, psbt_json PSBT_HEX (Some PSBT_TXID), psbt_json PSBT_HEX (Some ZERO_TXID),
        psbt_json PSBT_HEX (Some ONE_TXID), psbt_json (x_psbt_hex X (bs_changed_psbt S)) None] \<and>
     is_err (x_json_parse X BTC_TEST) \<and> is_err (x_json_parse X PSBT_HEX)"

definition btc_test_facts ::
  "('a, 'k, 'p, 'x) btc_ext_scheme \<Rightarrow> ('a, 'k, 'p) btc_samples \<Rightarrow> ('k \<Rightarrow> string) \<Rightarrow> ('p \<Rightarrow> u8 list) \<Rightarrow> bool" where
  "btc_test_facts X S x_only serialize \<longleftrightarrow>
     btc_laws X \<and> btc_address_facts X S \<and> btc_key_facts X S x_only \<and> btc_psbt_facts X S serialize \<and>
     btc_text_facts X S"

lemma btc_test_addresses:
  assumes "btc_laws X" and "btc_address_facts X S"
  shows "unchecked_from_str X BTC_MAIN = Inr (Unchecked (bs_main S))"
    "unchecked_from_str X BTC_TEST = Inr (Unchecked (bs_test S))"
    "unchecked_from_str X BTC_OTHER = Inr (Unchecked (bs_other S))"
    "btc_address_show X (BtcAddress (bs_main S)) = BTC_MAIN"
    "btc_address_show X (BtcAddress (bs_test S)) = BTC_TEST"
    "btc_address_show X (BtcAddress (bs_other S)) = BTC_OTHER"
proof -
  have read: "unchecked_from_str X (x_btc_addr_show X a) = Inr (Unchecked a)" for a
    using assms(1) by (simp add: btc_laws_def unchecked_from_str_def)
  show "unchecked_from_str X BTC_MAIN = Inr (Unchecked (bs_main S))"
    "unchecked_from_str X BTC_TEST = Inr (Unchecked (bs_test S))"
    "unchecked_from_str X BTC_OTHER = Inr (Unchecked (bs_other S))"
    using assms(2) read [of "bs_main S"] read [of "bs_test S"] read [of "bs_other S"]
    by (simp_all add: btc_address_facts_def)
  show "btc_address_show X (BtcAddress (bs_main S)) = BTC_MAIN"
    "btc_address_show X (BtcAddress (bs_test S)) = BTC_TEST"
    "btc_address_show X (BtcAddress (bs_other S)) = BTC_OTHER"
    using assms(2) by (simp_all add: btc_address_facts_def btc_address_show_def)
qed

lemma btc_test_psbts:
  assumes "btc_laws X" and "btc_psbt_facts X S serialize"
  shows "psbt_from_str X PSBT_HEX = Inr (PsbtData (bs_psbt S))"
    "psbt_from_str X SCRIPT_PATH_PSBT_HEX = Inr (PsbtData (bs_script_psbt S))"
    "psbt_from_str X (x_psbt_hex X p) = Inr (PsbtData p)"
    "psbt_show X (PsbtData (bs_psbt S)) = PSBT_HEX"
proof -
  have read: "psbt_from_str X (x_psbt_hex X p) = Inr (PsbtData p)" for p
    using wire_codec.parse_render [OF psbt_codec [OF assms(1)], of "PsbtData p"] by (simp add: psbt_show_def)
  then show "psbt_from_str X (x_psbt_hex X p) = Inr (PsbtData p)" .
  show "psbt_from_str X PSBT_HEX = Inr (PsbtData (bs_psbt S))"
    "psbt_from_str X SCRIPT_PATH_PSBT_HEX = Inr (PsbtData (bs_script_psbt S))"
    "psbt_show X (PsbtData (bs_psbt S)) = PSBT_HEX"
    using assms(2) read [of "bs_psbt S"] read [of "bs_script_psbt S"]
    by (simp_all add: btc_psbt_facts_def psbt_show_def)
qed

lemma trim_b64: "trim PSBT_B64 = PSBT_B64"
proof -
  have "some_prefix whitespace PSBT_B64 = None" "some_prefix (map rev whitespace) (rev PSBT_B64) = None"
    by code_simp+
  then show ?thesis by (simp add: trim_def trim_with_id)
qed

lemma b64_no_hex: "\<not> list_all is_ascii_hexdigit PSBT_B64"
  by (simp add: PSBT_B64_def is_ascii_hexdigit_def)

lemma btc_amount_texts:
  "to_btc_string (Sats 150000000) = ''1.5''" "to_btc_string (Sats 1) = ''0.00000001''"
  "to_btc_string (Sats 100000000) = ''1''" "to_btc_string (Sats 0) = ''0''"
proof -
  have seven: "replicate 7 c = [c, c, c, c, c, c, c]" for c :: char
    by (simp add: numeral_eq_Suc)
  show "to_btc_string (Sats 150000000) = ''1.5''" "to_btc_string (Sats 1) = ''0.00000001''"
    "to_btc_string (Sats 100000000) = ''1''" "to_btc_string (Sats 0) = ''0''"
    by (simp_all add: to_btc_string_def pad_zeros_def trim_end_matches_def show_texts seven)
qed

lemma btc_domain_tests_pass:
  assumes "btc_test_facts X S x_only serialize"
  shows "btc_network_round_trips = Some ()" "address_is_checked_against_network X = Some ()"
    "public_key_parses_hex_and_serializes_compressed X x_only = Some ()" "sats_format_as_btc = Some ()"
    "psbt_parses_hex_and_base64_and_serializes_hex X serialize = Some ()"
    "message_signature_is_base64 X = Some ()"
proof -
  have facts: "btc_laws X" "btc_address_facts X S" "btc_key_facts X S x_only" "btc_psbt_facts X S serialize"
      "btc_text_facts X S"
    using assms by (simp_all add: btc_test_facts_def)
  note addr = btc_test_addresses [OF facts(1,2)] and psbt = btc_test_psbts [OF facts(1,4)]
  show "btc_network_round_trips = Some ()" by code_simp
  show "address_is_checked_against_network X = Some ()"
    using facts(2)
    by (simp add: address_is_checked_against_network_def addr require_network_def to_bitcoin_def
        btc_address_facts_def) (simp add: unchecked_from_str_def)
  show "public_key_parses_hex_and_serializes_compressed X x_only = Some ()"
    using facts(3)
    by (simp add: public_key_parses_hex_and_serializes_compressed_def btc_key_facts_def key_from_str_def key_show_def)
  show "sats_format_as_btc = Some ()"
    by (simp add: sats_format_as_btc_def btc_amount_texts sats_from_str_def rate_from_str_def
        parse_nonzero_def parse_word_def parse_uint_def digit_of_def)
  have "trim ''70736274'' = ''70736274''"
    by (rule trim_hexdigits) (simp add: is_ascii_hexdigit_def)
  then have "is_err (psbt_from_str X ''70736274'')"
    using facts(4) by (cases "x_from_hex X ''70736274''")
      (simp_all add: psbt_from_str_def is_ascii_hexdigit_def btc_psbt_facts_def)
  moreover have "psbt_from_str X PSBT_B64 = Inr (PsbtData (bs_psbt S))"
    using facts(4) by (simp add: psbt_from_str_def trim_b64 b64_no_hex btc_psbt_facts_def)
  ultimately show "psbt_parses_hex_and_base64_and_serializes_hex X serialize = Some ()"
    using facts(4)
    by (simp add: psbt_parses_hex_and_base64_and_serializes_hex_def psbt btc_psbt_facts_def unsigned_txid_def)
  show "message_signature_is_base64 X = Some ()"
    using facts(5)
    by (simp add: message_signature_is_base64_def btc_text_facts_def message_signature_from_str_def
        message_signature_show_def)
qed

subsection \<open>The tests of the requests\<close>

lemma btc_network_texts:
  "btc_network_from_str ''mainnet'' = Inr BtcMainnet" "btc_network_from_str ''signet'' = Inr BtcSignet"
  by code_simp+

lemma btc_number_texts:
  "sats_from_str ''1'' = Inr (Sats 1)" "sats_show (Sats 1500) = ''1500''"
  "rate_from_str ''3'' = Inr (SatPerVb 3)" "rate_show (SatPerVb 3) = ''3''"
  by (simp_all add: sats_from_str_def rate_from_str_def parse_nonzero_def parse_word_def parse_uint_def
      digit_of_def sats_show_def rate_show_def show_texts)

lemmas btc_readers = btc_from_json_def str_field_def opt_parsed_def req_parsed_def opt_btc_def req_btc_def
  btc_read_transfer_def btc_read_psbt_def btc_read_message_def bool_field_def sign_inputs_field_def
  sign_index_def btc_network_texts

lemmas btc_builders = btc_connect_def btc_send_transfer_def btc_sign_psbt_def btc_sign_message_def
  btc_checked_def require_network_def to_bitcoin_def protocol_default_def

lemma btc_build_tests_pass:
  assumes "btc_test_facts X S x_only serialize"
  shows "send_transfer_emits_wire_shape X i = Some ()"
    "address_on_the_wrong_network_is_rejected_at_build X env i = Some ()"
    "sign_message_defaults_to_bip322 X env i = Some ()"
    "btc_from_json_rejects_unknown_type_and_missing_fields X env i = Some ()"
proof -
  have facts: "btc_laws X" "btc_address_facts X S" "btc_psbt_facts X S serialize"
    using assms by (simp_all add: btc_test_facts_def)
  note addr = btc_test_addresses [OF facts(1,2)] and valid = facts(2) [unfolded btc_address_facts_def]
    and psbt = btc_test_psbts [OF facts(1,3)]
  show "send_transfer_emits_wire_shape X i = Some ()"
    using valid
    by (simp add: send_transfer_emits_wire_shape_def addr btc_number_texts btc_builders jindex_def wire
        btc_network_field_def btc_network_id_def btc_addr_json_def)
  show "address_on_the_wrong_network_is_rejected_at_build X env i = Some ()"
    using valid
    by (simp add: address_on_the_wrong_network_is_rejected_at_build_def addr btc_builders btc_readers)
  show "sign_message_defaults_to_bip322 X env i = Some ()"
    using valid
    by (simp add: sign_message_defaults_to_bip322_def addr btc_builders btc_readers jindex_def wire
        btc_addr_json_def protocol_id_def btc_network_field_def)
  show "btc_from_json_rejects_unknown_type_and_missing_fields X env i = Some ()"
    by (simp add: btc_from_json_rejects_unknown_type_and_missing_fields_def btc_readers psbt)
qed

lemma btc_psbt_tests_pass:
  assumes "btc_test_facts X S x_only serialize"
  shows "sign_psbt_broadcast_implies_finalize_and_checks_indexes X env i = Some ()"
    "sign_psbt_names_the_listed_script_path_inputs X (bs_script_psbt S) env i = Some ()"
proof -
  have facts: "btc_laws X" "btc_psbt_facts X S serialize"
    using assms by (simp_all add: btc_test_facts_def)
  note psbt = btc_test_psbts [OF facts]
  show "sign_psbt_broadcast_implies_finalize_and_checks_indexes X env i = Some ()"
    using facts(2)
    by (simp add: sign_psbt_broadcast_implies_finalize_and_checks_indexes_def psbt btc_readers btc_builders
        psbt_input_count_def script_path_inputs_def spends_script_path_def btc_psbt_facts_def jindex_def wire
        btc_network_field_def index_list_json_def)
  show "sign_psbt_names_the_listed_script_path_inputs X (bs_script_psbt S) env i = Some ()"
    using facts(2)
    by (simp add: sign_psbt_names_the_listed_script_path_inputs_def psbt btc_readers btc_builders
        psbt_input_count_def script_path_inputs_def spends_script_path_def btc_psbt_facts_def jindex_def wire
        btc_network_field_def index_list_json_def)
qed

subsection \<open>The tests of the wallet's results\<close>

lemma btc_test_results:
  assumes "btc_text_facts X S"
  shows "x_json_parse X (x_json_show X (account_json BTC_TEST)) = Inr (account_json BTC_TEST)"
    "x_json_parse X (x_json_show X (account_json BTC_MAIN)) = Inr (account_json BTC_MAIN)"
    "x_json_parse X (x_json_show X (JObject [(''address'', JString BTC_TEST)])) =
      Inr (JObject [(''address'', JString BTC_TEST)])"
    "x_json_parse X (x_json_show X (psbt_json PSBT_HEX None)) = Inr (psbt_json PSBT_HEX None)"
    "t \<in> {PSBT_TXID, ZERO_TXID, ONE_TXID} \<Longrightarrow>
      x_json_parse X (x_json_show X (psbt_json PSBT_HEX (Some t))) = Inr (psbt_json PSBT_HEX (Some t))"
    "x_json_parse X (x_json_show X (psbt_json (x_psbt_hex X (bs_changed_psbt S)) None)) =
      Inr (psbt_json (x_psbt_hex X (bs_changed_psbt S)) None)"
    "is_err (x_json_parse X BTC_TEST)" "is_err (x_json_parse X PSBT_HEX)"
  using assms by (auto simp: btc_text_facts_def)

lemma jget_test_results:
  "jget (account_json a) ''address'' = Some (JString a)" "jget (account_json a) ''publicKey'' = Some (JString BTC_KEY)"
  "jget (psbt_json p t) ''psbt'' = Some (JString p)" "jget (psbt_json p t) ''txid'' = map_option JString t"
  by (simp_all add: account_json_def psbt_json_def wire)

text \<open>What \<open>parse_account\<close> and \<open>parse_signed_psbt\<close> make of them.\<close>

lemma btc_account_results:
  assumes "btc_test_facts X S x_only serialize"
  shows "parse_btc_account X (x_json_show X (account_json BTC_TEST)) BtcSignet =
      Inr \<lparr>ba_address = BtcAddress (bs_test S), ba_public_key = BtcPublicKey (bs_key S)\<rparr>"
    "is_err (parse_btc_account X (x_json_show X (account_json BTC_TEST)) BtcMainnet)"
    "is_err (parse_btc_account X (x_json_show X (account_json BTC_MAIN)) BtcSignet)"
    "is_err (parse_btc_account X BTC_TEST BtcSignet)"
    "is_err (parse_btc_account X (x_json_show X (JObject [(''address'', JString BTC_TEST)])) BtcSignet)"
proof -
  have facts: "btc_laws X" "btc_address_facts X S" "btc_key_facts X S x_only" "btc_text_facts X S"
    using assms by (simp_all add: btc_test_facts_def)
  note rules = parse_btc_account_def result_field_def btc_parse_signed_def jget_test_results
    btc_test_results [OF facts(4)] btc_test_addresses [OF facts(1,2)] require_network_def to_bitcoin_def key_from_str_def
  from facts(2,3) show "parse_btc_account X (x_json_show X (account_json BTC_TEST)) BtcSignet =
      Inr \<lparr>ba_address = BtcAddress (bs_test S), ba_public_key = BtcPublicKey (bs_key S)\<rparr>"
    "is_err (parse_btc_account X (x_json_show X (account_json BTC_TEST)) BtcMainnet)"
    "is_err (parse_btc_account X (x_json_show X (account_json BTC_MAIN)) BtcSignet)"
    "is_err (parse_btc_account X BTC_TEST BtcSignet)"
    "is_err (parse_btc_account X (x_json_show X (JObject [(''address'', JString BTC_TEST)])) BtcSignet)"
    by (simp_all add: rules btc_address_facts_def btc_key_facts_def)
qed

lemma btc_psbt_results:
  assumes "btc_test_facts X S x_only serialize"
  shows "parse_signed_psbt X (PsbtData (bs_psbt S)) (x_json_show X (psbt_json PSBT_HEX None)) =
      Inr \<lparr>sn_psbt = PsbtData (bs_psbt S), sn_txid = None\<rparr>"
    "parse_signed_psbt X (PsbtData (bs_psbt S)) (x_json_show X (psbt_json PSBT_HEX (Some PSBT_TXID))) =
      Inr \<lparr>sn_psbt = PsbtData (bs_psbt S), sn_txid = Some sample_txid\<rparr>"
    "is_err (parse_signed_psbt X (PsbtData (bs_psbt S)) (x_json_show X (psbt_json PSBT_HEX (Some ZERO_TXID))))"
    "is_err (parse_signed_psbt X (PsbtData (bs_psbt S)) (x_json_show X (psbt_json PSBT_HEX (Some ONE_TXID))))"
    "is_err (parse_signed_psbt X (PsbtData (bs_psbt S)) PSBT_HEX)"
    "\<exists>r. parse_signed_psbt X (PsbtData (bs_psbt S))
        (x_json_show X (psbt_json (x_psbt_hex X (bs_changed_psbt S)) None)) =
      Inl (Invalid (''wallet returned a PSBT for a different transaction: expected txid '' @ r))"
proof -
  have facts: "btc_laws X" "btc_psbt_facts X S serialize" "btc_text_facts X S"
    using assms by (simp_all add: btc_test_facts_def)
  have txids: "sample_txid \<noteq> 0" "sample_txid \<noteq> 1" by (simp_all add: sample_txid_def)
  note rules = parse_signed_psbt_def btc_parse_signed_def jget_test_results btc_test_results [OF facts(3)]
    btc_test_psbts [OF facts(1,2)] unsigned_txid_def parse_btc_txid_def check_broadcast_def txids
  from facts(2) txids show "parse_signed_psbt X (PsbtData (bs_psbt S)) (x_json_show X (psbt_json PSBT_HEX None)) =
      Inr \<lparr>sn_psbt = PsbtData (bs_psbt S), sn_txid = None\<rparr>"
    "parse_signed_psbt X (PsbtData (bs_psbt S)) (x_json_show X (psbt_json PSBT_HEX (Some PSBT_TXID))) =
      Inr \<lparr>sn_psbt = PsbtData (bs_psbt S), sn_txid = Some sample_txid\<rparr>"
    "is_err (parse_signed_psbt X (PsbtData (bs_psbt S)) (x_json_show X (psbt_json PSBT_HEX (Some ZERO_TXID))))"
    "is_err (parse_signed_psbt X (PsbtData (bs_psbt S)) (x_json_show X (psbt_json PSBT_HEX (Some ONE_TXID))))"
    "is_err (parse_signed_psbt X (PsbtData (bs_psbt S)) PSBT_HEX)"
    by (simp_all add: rules btc_psbt_facts_def)
  from facts(2) show "\<exists>r. parse_signed_psbt X (PsbtData (bs_psbt S))
        (x_json_show X (psbt_json (x_psbt_hex X (bs_changed_psbt S)) None)) =
      Inl (Invalid (''wallet returned a PSBT for a different transaction: expected txid '' @ r))"
    by (auto simp: rules btc_psbt_facts_def Let_def)
qed

lemma different_transaction_text:
  "str_contains (signer_error_show (Invalid
     (''wallet returned a PSBT for a different transaction: expected txid '' @ r))) ''different transaction''"
  unfolding str_contains_def sublist_def
  by (rule exI [of _ "''invalid input: wallet returned a PSBT for a ''"], rule exI [of _ "'': expected txid '' @ r"])
    simp

lemma btc_result_tests_pass:
  assumes "btc_test_facts X S x_only serialize"
  shows "check_result_applies_the_signer_checks X env i j = Some ()"
    "signed_psbt_for_the_same_tx_is_accepted X = Some ()"
    "signed_psbt_for_a_different_tx_is_rejected X (bs_changed_psbt S) = Some ()"
    "broadcast_txid_must_match_the_psbt X = Some ()"
    "connected_account_must_match_the_network_and_carry_a_key X = Some ()"
proof -
  have facts: "btc_laws X" "btc_address_facts X S" "btc_key_facts X S x_only" "btc_psbt_facts X S serialize"
    using assms by (simp_all add: btc_test_facts_def)
  note psbt = btc_test_psbts [OF facts(1,4)] and addr = btc_test_addresses [OF facts(1,2)]
    and results = btc_account_results [OF assms] btc_psbt_results(1-5) [OF assms]
  show "check_result_applies_the_signer_checks X env i j = Some ()"
    using facts(4)
    by (simp add: check_result_applies_the_signer_checks_def btc_readers btc_builders psbt results
        psbt_input_count_def btc_psbt_facts_def)
  have txid: "unsigned_txid X (PsbtData (bs_psbt S)) = sample_txid" "x_txid_show X sample_txid = PSBT_TXID"
    using facts(4) by (simp_all add: btc_psbt_facts_def unsigned_txid_def)
  show "signed_psbt_for_the_same_tx_is_accepted X = Some ()"
    by (simp add: signed_psbt_for_the_same_tx_is_accepted_def psbt txid results)
  obtain r where "parse_signed_psbt X (PsbtData (bs_psbt S))
        (x_json_show X (psbt_json (x_psbt_hex X (bs_changed_psbt S)) None)) =
      Inl (Invalid (''wallet returned a PSBT for a different transaction: expected txid '' @ r))"
    using btc_psbt_results(6) [OF assms] ..
  then show "signed_psbt_for_a_different_tx_is_rejected X (bs_changed_psbt S) = Some ()"
    using different_transaction_text [of r]
    by (simp add: signed_psbt_for_a_different_tx_is_rejected_def psbt del: signer_error_show.simps append.simps)
  show "broadcast_txid_must_match_the_psbt X = Some ()"
    by (simp add: broadcast_txid_must_match_the_psbt_def psbt results)
  show "connected_account_must_match_the_network_and_carry_a_key X = Some ()"
    using facts(3)
    by (simp add: connected_account_must_match_the_network_and_carry_a_key_def results addr key_show_def
        btc_key_facts_def)
qed

subsection \<open>The test of the expected account\<close>

definition network_mismatch ::
  "('a, 'k, 'p, 'x) btc_ext_scheme \<Rightarrow> 'a unchecked_address \<Rightarrow> btc_network \<Rightarrow> string" where
  "network_mismatch X u network =
     ''expected account: '' @ dpe_show (dpe_new ''bitcoin address'' (x_btc_addr_show X (unchecked_inner u))
       (''not a '' @ btc_network_id network @ '' address''))"

lemma btc_expecting_cases:
  "x_btc_addr_valid X a (to_bitcoin (btc_network_of r)) \<Longrightarrow> btc_account_of r = None \<Longrightarrow>
     btc_expecting X r (Unchecked a) = Inr (btc_set_account (Some (BtcAddress a)) r)"
  "x_btc_addr_valid X a (to_bitcoin (btc_network_of r)) \<Longrightarrow> btc_account_of r = Some (BtcAddress a) \<Longrightarrow>
     btc_expecting X r (Unchecked a) = Inr (btc_set_account (Some (BtcAddress a)) r)"
  "x_btc_addr_valid X a (to_bitcoin (btc_network_of r)) \<Longrightarrow> btc_account_of r = Some (BtcAddress b) \<Longrightarrow> b \<noteq> a \<Longrightarrow>
     btc_expecting X r (Unchecked a) = Inl (account_mismatch (btc_address_show X) (BtcAddress b) (BtcAddress a))"
  "\<not> x_btc_addr_valid X a (to_bitcoin (btc_network_of r)) \<Longrightarrow>
     btc_expecting X r (Unchecked a) = Inl (network_mismatch X (Unchecked a) (btc_network_of r))"
  by (simp_all add: btc_expecting_def require_network_def expect_account_cases network_mismatch_def)

lemma mainnet_mismatch: "str_contains (network_mismatch X u BtcMainnet) ''not a mainnet address''"
proof -
  have id: "''not a '' @ btc_network_id BtcMainnet @ '' address'' = ''not a mainnet address''"
    by (simp add: btc_network_id_def)
  show ?thesis
    unfolding network_mismatch_def id dpe_show_def dpe_new_def domain_parse_error.select_convs
    by (rule str_contains_append(1))+ (rule str_contains_append(3))
qed

lemma btc_expecting_test_passes:
  assumes "btc_test_facts X S x_only serialize"
  shows "btc_expecting_defaults_keeps_and_refuses X env i = Some ()"
proof -
  have facts: "btc_laws X" "btc_address_facts X S" "btc_psbt_facts X S serialize"
    using assms by (simp_all add: btc_test_facts_def)
  note addr = btc_test_addresses [OF facts(1,2)] and valid = facts(2) [unfolded btc_address_facts_def]
    and psbt = btc_test_psbts [OF facts(1,3)]
  have "BTC_OTHER \<noteq> BTC_TEST" by (simp add: BTC_OTHER_def BTC_TEST_def)
  then have other: "bs_other S \<noteq> bs_test S" using valid by metis
  have "str_contains (account_mismatch (btc_address_show X) (BtcAddress (bs_other S)) (BtcAddress (bs_test S))) BTC_OTHER"
      "str_contains (account_mismatch (btc_address_show X) (BtcAddress (bs_other S)) (BtcAddress (bs_test S))) BTC_TEST"
    using account_mismatch_contains [of "btc_address_show X" "BtcAddress (bs_other S)" "BtcAddress (bs_test S)"]
    by (simp_all add: addr)
  then show ?thesis
    using valid other
    by (simp add: btc_expecting_defaults_keeps_and_refuses_def addr btc_unset_cases_def btc_expected_def
        btc_readers btc_builders psbt btc_number_texts btc_expecting_cases mainnet_mismatch psbt_input_count_def
        script_path_inputs_def jindex_def wire btc_addr_json_def btc_network_field_def)
qed

lemma btc_tests_pass:
  assumes "btc_test_facts X S x_only serialize"
  shows "list_all (\<lambda>t. t = Some ()) (btc_tests X S x_only serialize env i j)"
  by (simp add: btc_tests_def btc_domain_tests_pass [OF assms] btc_build_tests_pass [OF assms]
      btc_psbt_tests_pass [OF assms] btc_result_tests_pass [OF assms] btc_expecting_test_passes [OF assms])

end
