(* ===== verification/Test_Properties.thy ===== *)
theory Test_Properties
  imports Core_Tests Evm_Tests Tron_Tests Btc_Tests Reference
begin

section \<open>The unit tests pass\<close>

text \<open>
  All the unit tests of the four libraries at once, and functions for which the facts they assume of
  their libraries hold.
\<close>

subsection \<open>Functions with these facts\<close>

lemma show_word_digits: "c \<in> set (show_word w) \<Longrightarrow> digit_of c \<noteq> None"
  using all_digits_dec [of "unat w"] by (auto simp: show_word_def all_digits_def)

lemma hex_chars:
  "char_of (97 :: nat) = CHR ''a''" "char_of (98 :: nat) = CHR ''b''" "char_of (99 :: nat) = CHR ''c''"
  "char_of (100 :: nat) = CHR ''d''" "char_of (101 :: nat) = CHR ''e''" "char_of (102 :: nat) = CHR ''f''"
  by code_simp+

definition sample_evm :: evm_ext where
  "sample_evm =
     ref_evm\<lparr>x_addr_parse := (\<lambda>s.
         if s = EVM_ADDRESS \<or> s = EVM_LOWER then Inr 0x52908400098527886E0F7030069857D2E4169EE7
         else if s = EVM_OTHER then Inr 0x8617e340b3d01fa5f11f306f4090fd50e238070d
         else ref_word s),
       x_addr_lower := (\<lambda>a.
         if a = 0x52908400098527886E0F7030069857D2E4169EE7 then EVM_LOWER
         else if a = 0x8617e340b3d01fa5f11f306f4090fd50e238070d then EVM_OTHER
         else show_word a),
       x_format_ether := (\<lambda>w. if w = 1000000000000000000 then ''1.000000000000000000'' else show_word w)\<rparr>"

lemma sample_evm_facts: "evm_test_facts sample_evm"
proof -
  have x: "CHR ''x'' \<notin> set (show_word w)" for w :: "160 word"
    using show_word_digits [of "CHR ''x''" w] by (auto simp: digit_of_def)
  have "CHR ''x'' \<in> set EVM_ADDRESS" "CHR ''x'' \<in> set EVM_LOWER" "CHR ''x'' \<in> set EVM_OTHER"
    by (simp_all add: EVM_ADDRESS_def EVM_LOWER_def EVM_OTHER_def)
  then have no: "show_word w \<noteq> EVM_ADDRESS" "show_word w \<noteq> EVM_LOWER" "show_word w \<noteq> EVM_OTHER" for w :: "160 word"
    using x by metis+
  have "EVM_OTHER \<noteq> EVM_ADDRESS" "EVM_OTHER \<noteq> EVM_LOWER"
    by (simp_all add: EVM_ADDRESS_def EVM_LOWER_def EVM_OTHER_def)
  moreover have "''0x1234'' \<noteq> EVM_ADDRESS" "''0x1234'' \<noteq> EVM_LOWER" "''0x1234'' \<noteq> EVM_OTHER"
      "''0xnothex'' \<noteq> EVM_ADDRESS" "''0xnothex'' \<noteq> EVM_LOWER" "''0xnothex'' \<noteq> EVM_OTHER"
    by (simp_all add: EVM_ADDRESS_def EVM_LOWER_def EVM_OTHER_def)
  moreover have "evm_laws sample_evm"
    using no calculation
    by (simp add: evm_laws_def sample_evm_def ref_evm_def hex_raw_def strip_prefix_def)
  ultimately show ?thesis
    by (simp add: evm_test_facts_def sample_evm_def ref_evm_def ref_word_def parse_word_def parse_uint_def
        digit_of_def show_texts ONE_ETHER_def hex_raw_def strip_prefix_def hex_digit_of_def hex_char_def
        digit_chars hex_chars)
qed

definition sample_tron :: tron_ext where
  "sample_tron =
     ref_tron\<lparr>x_b58check_decode := (\<lambda>s.
         if s = TRON_ADDRESS then Inr tron_payload else if s = TRON_OTHER then Inr tron_other_payload
         else ref_hex_decode s),
       x_b58check_encode := (\<lambda>bs.
         if bs = tron_payload then TRON_ADDRESS else if bs = tron_other_payload then TRON_OTHER
         else ref_hex_encode bs),
       x_tron_format_units := (\<lambda>w d. if w = 1500000 \<and> d = 6 then Some ''1.500000'' else None),
       x_json_parse := (\<lambda>s.
         if s = deploy_raw then
           Inr (JObject [(''txHash'', JString DEPLOY_HASH), (''contractAddress'', JString TRON_ADDRESS)])
         else ref_json_parse s)\<rparr>"

lemma ref_decode_repeat:
  "ref_hex_decode (concat (replicate n ''aa'')) = Inr (replicate n 0xaa)"
  "ref_hex_decode (concat (replicate n ''ab'')) = Inr (replicate n 0xab)"
  by (induction n) (simp_all add: hex_digit_of_def)

lemma deploy_hash_decodes: "ref_hex_decode DEPLOY_HASH = Inr deploy_hash_bytes"
  by (simp add: DEPLOY_HASH_def deploy_hash_bytes_def hex_digit_of_def numeral_2_eq_2)

lemmas ref_decode_texts = ref_decode_repeat [of 32, folded AA64_def AB64_def] deploy_hash_decodes

lemma sample_tron_facts: "tron_test_facts sample_tron"
proof -
  have "ref_hex_encode bs \<noteq> TRON_ADDRESS" "ref_hex_encode bs \<noteq> TRON_OTHER" for bs
    using ref_hex_encode_digits [of bs]
    by (auto simp: TRON_ADDRESS_def TRON_OTHER_def is_ascii_hexdigit_def)
  moreover have "TRON_OTHER \<noteq> TRON_ADDRESS" "tron_other_payload \<noteq> tron_payload"
    by (simp_all add: TRON_ADDRESS_def TRON_OTHER_def tron_payload_def tron_other_payload_def)
  ultimately have "tron_laws sample_tron"
    by (simp add: tron_laws_def sample_tron_def ref_tron_def)
  moreover have "hex_laws sample_tron"
    using ref_hex_laws(2) by (simp add: hex_laws_def sample_tron_def)
  moreover have "tron_other_payload \<noteq> tron_payload"
    by (simp add: tron_payload_def tron_other_payload_def)
  moreover have "''0xabc'' \<noteq> TRON_ADDRESS" "''0xabc'' \<noteq> TRON_OTHER" "''Tnot-valid'' \<noteq> TRON_ADDRESS"
      "''Tnot-valid'' \<noteq> TRON_OTHER"
    by (simp_all add: TRON_ADDRESS_def TRON_OTHER_def)
  ultimately show ?thesis
    by (simp add: tron_test_facts_def sample_tron_def ref_tron_def ref_decode_texts hex_digit_of_def)
qed

lemma sample_core_facts: "core_test_facts ref_core (\<lambda>v. EnvNotPresent)"
  by (simp add: core_test_facts_def ref_decode_texts) 
    (simp add: ref_core_def ref_decode_texts hex_digit_of_def hex_char_def hex_chars digit_chars)

text \<open>For Bitcoin a type of three names serves for the addresses and for the PSBTs.\<close>

datatype sample = SampleA | SampleB | SampleC

fun sample_address :: "sample \<Rightarrow> string" where
  "sample_address SampleA = BTC_MAIN"
| "sample_address SampleB = BTC_TEST"
| "sample_address SampleC = BTC_OTHER"

fun sample_psbt :: "sample \<Rightarrow> string" where
  "sample_psbt SampleA = PSBT_HEX"
| "sample_psbt SampleB = SCRIPT_PATH_PSBT_HEX"
| "sample_psbt SampleC = ''00''"

definition find_sample :: "(sample \<Rightarrow> string) \<Rightarrow> string \<Rightarrow> string + sample" where
  "find_sample show_sample s = ok_or (find (\<lambda>x. show_sample x = s) [SampleA, SampleB, SampleC]) ''unknown''"

definition sample_results :: "json list" where
  "sample_results =
     [account_json BTC_TEST, account_json BTC_MAIN, JObject [(''address'', JString BTC_TEST)],
      psbt_json PSBT_HEX None, psbt_json PSBT_HEX (Some PSBT_TXID), psbt_json PSBT_HEX (Some ZERO_TXID),
      psbt_json PSBT_HEX (Some ONE_TXID), psbt_json ''00'' None]"

text \<open>The JSON text of an object of strings.\<close>

fun sample_text :: "json \<Rightarrow> string" where
  "sample_text (JObject fs) = ''{'' @ concat (map (\<lambda>(k, v). k @ '':'' @ sample_text v @ '','') fs) @ ''}''"
| "sample_text (JString s) = [CHR 0x22] @ s @ [CHR 0x22]"
| "sample_text v = []"

definition sample_btc :: "(sample, unit, sample) btc_ext" where
  "sample_btc =
     \<lparr>x_debug = (\<lambda>s. s), x_hex_encode = ref_hex_encode, x_hex_decode = ref_hex_decode,
      x_json_parse = (\<lambda>s. ok_or (find (\<lambda>v. sample_text v = s) sample_results) ''expected value''),
      x_json_show = sample_text, x_uuid_show = show_word, x_uuid_parse = (\<lambda>s. ok (parse_word s)),
      x_url_parse = Inr, x_btc_addr_parse = find_sample sample_address,
      x_btc_addr_valid = (\<lambda>a n. (a = SampleA) = (n = Bitcoin)), x_btc_addr_show = sample_address,
      x_key_parse = (\<lambda>s. if s = BTC_KEY \<or> s = BTC_KEY_UNCOMPRESSED then Inr () else Inl ''malformed''),
      x_key_show = (\<lambda>k. BTC_KEY),
      x_psbt_deserialize = (\<lambda>bs. if bs = [0] then Inr SampleA else if bs = [1] then Inr SampleB
        else if bs = [2] then Inr SampleC else Inl ''invalid magic''),
      x_psbt_hex = sample_psbt, x_psbt_txid = (\<lambda>p. if p = SampleC then 0 else sample_txid),
      x_psbt_leaves = (\<lambda>p. if p = SampleB then [1, 0] else [0]),
      x_from_hex = (\<lambda>s. if s = PSBT_HEX then Inr [0] else if s = SCRIPT_PATH_PSBT_HEX then Inr [1]
        else if s = ''00'' then Inr [2] else Inr []),
      x_b64_decode = (\<lambda>s. if s = PSBT_B64 then Inr [0]
        else if s = ''AkcwRAIg'' then Inr [0x02, 0x47, 0x30, 0x44, 0x02, 0x20]
        else if s = [] then Inr [] else Inl ''invalid symbol''),
      x_b64_encode = (\<lambda>bs. if bs = [0] then PSBT_B64 else ''AkcwRAIg''),
      x_txid_parse = (\<lambda>s. if s = PSBT_TXID then Inr sample_txid else if s = ZERO_TXID then Inr 0
        else if s = ONE_TXID then Inr 1 else Inl ''bad hex''),
      x_txid_show = (\<lambda>t. PSBT_TXID)\<rparr>"

definition sample_record :: "(sample, unit, sample) btc_samples" where
  "sample_record =
     \<lparr>bs_main = SampleA, bs_test = SampleB, bs_other = SampleC, bs_key = (), bs_psbt = SampleA,
      bs_script_psbt = SampleB, bs_changed_psbt = SampleC, bs_psbt_bytes = [0]\<rparr>"

lemmas sample_texts = BTC_MAIN_def BTC_TEST_def BTC_OTHER_def PSBT_HEX_def SCRIPT_PATH_PSBT_HEX_def BTC_KEY_def
  BTC_KEY_UNCOMPRESSED_def PSBT_B64_def PSBT_TXID_def

lemma sample_results_distinct:
  "distinct (map sample_text sample_results)"
  "BTC_TEST \<notin> set (map sample_text sample_results)" "PSBT_HEX \<notin> set (map sample_text sample_results)"
  by code_simp+

lemma sample_results_read:
  "list_all (\<lambda>v. ok_or (find (\<lambda>w. sample_text w = sample_text v) sample_results) e = Inr v) sample_results"
proof -
  have "find (\<lambda>w. sample_text w = sample_text v) sample_results = Some v" if "v \<in> set sample_results" for v
    using find_distinct_key [OF sample_results_distinct(1), of "sample_text v" v] that by blast
  then show ?thesis by (simp add: list_all_iff)
qed

lemma sample_results_unread:
  "find (\<lambda>w. sample_text w = BTC_TEST) sample_results = None"
  "find (\<lambda>w. sample_text w = PSBT_HEX) sample_results = None"
  using sample_results_distinct(2,3) unfolding find_None_iff by force+

lemma sample_addresses:
  "find_sample sample_address (sample_address a) = Inr a"
  "is_err (find_sample sample_address ''bc1qnotanaddress'')"
  by (cases a) (simp_all add: find_sample_def BTC_MAIN_def BTC_TEST_def BTC_OTHER_def)

lemma sample_psbts:
  "list_all is_ascii_hexdigit (sample_psbt p)"
  "PSBT_HEX \<noteq> SCRIPT_PATH_PSBT_HEX" "PSBT_HEX \<noteq> ''00''" "SCRIPT_PATH_PSBT_HEX \<noteq> ''00''"
  "''70736274'' \<noteq> PSBT_HEX" "''70736274'' \<noteq> SCRIPT_PATH_PSBT_HEX"
  by (cases p) (simp_all add: is_ascii_hexdigit_def PSBT_HEX_def SCRIPT_PATH_PSBT_HEX_def)

lemma sample_others:
  "drop 2 BTC_KEY \<noteq> BTC_KEY" "drop 2 BTC_KEY \<noteq> BTC_KEY_UNCOMPRESSED" "''02ff'' \<noteq> BTC_KEY"
  "''02ff'' \<noteq> BTC_KEY_UNCOMPRESSED" "''AkcwRAIg'' \<noteq> PSBT_B64" "''not base64!'' \<noteq> PSBT_B64" "[] \<noteq> PSBT_B64"
  "ZERO_TXID \<noteq> PSBT_TXID" "ONE_TXID \<noteq> PSBT_TXID" "ONE_TXID \<noteq> ZERO_TXID" "sample_txid \<noteq> 0"
  by code_simp+

lemma sample_btc_facts: "btc_test_facts sample_btc sample_record (\<lambda>k. drop 2 BTC_KEY) (\<lambda>p. [0])"
proof -
  have "\<exists>bytes. x_from_hex sample_btc (sample_psbt p) = Inr bytes \<and> x_psbt_deserialize sample_btc bytes = Inr p" for p
    using sample_psbts by (cases p) (simp_all add: sample_btc_def)
  then have "btc_laws sample_btc"
    using sample_addresses(1) sample_psbts(1) by (simp add: btc_laws_def) (simp add: sample_btc_def)
  moreover have "btc_address_facts sample_btc sample_record" "btc_key_facts sample_btc sample_record (\<lambda>k. drop 2 BTC_KEY)"
    using sample_addresses sample_others
    by (simp_all add: btc_address_facts_def btc_key_facts_def sample_btc_def sample_record_def)
  moreover have "btc_psbt_facts sample_btc sample_record (\<lambda>p. [0])"
    using sample_psbts sample_others
    by (simp add: btc_psbt_facts_def sample_btc_def sample_record_def)
  moreover have "btc_text_facts sample_btc sample_record"
    using sample_results_read [of "''expected value''"] sample_results_unread sample_others
    by (simp add: btc_text_facts_def sample_btc_def sample_record_def sample_results_def [symmetric])
  ultimately show ?thesis by (simp add: btc_test_facts_def)
qed

subsection \<open>The property\<close>

text \<open>
  The unit tests of the four libraries pass. With libraries that do on the tests' inputs what they
  document, and whatever ids are drawn, none of the 55 tests of the eleven test modules fails an assertion
  or an unwrap: the wire forms, the refusals, the round trips and the checks of the wallet's results.
\<close>

theorem unit_tests_pass:
  assumes "core_test_facts X env" and "evm_test_facts E" and "tron_test_facts T"
    and "btc_test_facts B S x_only serialize"
  shows "list_all (\<lambda>t. t = Some ())
    (core_tests X env @ evm_tests E i j @ tron_tests T i j @ btc_tests B S x_only serialize env i j)"
  using core_tests_pass [OF assms(1)] evm_tests_pass [OF assms(2)] tron_tests_pass [OF assms(3)]
    btc_tests_pass [OF assms(4)]
  by simp

theorem unit_tests_pass_witness:
  "list_all (\<lambda>t. t = Some ())
    (core_tests ref_core (\<lambda>v. EnvNotPresent) @ evm_tests sample_evm 1 2 @ tron_tests sample_tron 1 2 @
     btc_tests sample_btc sample_record (\<lambda>k. drop 2 BTC_KEY) (\<lambda>p. [0]) (\<lambda>v. EnvNotPresent) 1 2)"
  by (rule unit_tests_pass [OF sample_core_facts sample_evm_facts sample_tron_facts sample_btc_facts])

end
