(* ===== verification/Spec2Isabelle.thy ===== *)
theory Spec2Isabelle
  imports Bridge_Properties Core_Properties Chain_Properties Btc_Properties Cli_Properties
    Harness_Properties Roundtrip_Properties Serve_Properties Signer_Properties Test_Properties
begin

text \<open>
  A verification development for \<open>browser-web3-signer\<close>: a program that hands wallet operations (connect,
  send, sign) to a wallet in the user's browser and never holds a key.

  \<^bold>\<open>The program.\<close> A caller (the typed signer of a chain crate, the command line, or the control API of
  \<open>serve\<close>) builds a request and passes it to the engine. The engine starts a local HTTP server once (the
  bridge), registers the request in a store of pending requests under its id together with the sending
  half of a oneshot channel, and returns the URL of the approval page and a future for the result. The
  page reads the request with \<open>GET /api/pending/{id}\<close>, asks the wallet, and posts the result to
  \<open>POST /api/complete/{id}\<close>; the handler takes the entry out of the store and sends the result down the
  channel. The future waits for that for at most 300 seconds, maps the result to a value or a
  \<open>SignerError\<close>, and removes the entry if it ended in any other way.

  \<^bold>\<open>Theories and sources\<close> (under \<open>crates/\<close>; \<open>core\<close> is \<open>browser-web3-signer-core/src\<close>, and so on):
  \<^item> \<open>Prelude\<close>, \<open>Rust_Std\<close>, \<open>Json\<close>: results and options with the combinators the code uses, association
    lists, words; what the sources use of Rust's standard library (integer parsing and printing, string
    operations); JSON values and the record \<open>core_ext\<close> of the library functions that are parameters.
  \<^item> \<open>Core_Parse\<close> (\<open>core/errors.rs\<close>, \<open>parse.rs\<close>), \<open>Core_Config\<close> (\<open>config.rs\<close>, \<open>browser.rs\<close>), \<open>Core_Bytes\<close>
    (\<open>bytes.rs\<close>), \<open>Core_Types\<close> (\<open>types.rs\<close>).
  \<^item> \<open>Core_Store\<close> (\<open>pending_store.rs\<close>): a store is a map from ids to entries and a heap of channels, whose
    two ends are dropped where the code drops them. The mutex makes every operation one atomic step.
  \<^item> \<open>Core_Engine\<close> (\<open>engine.rs\<close>): the server's state, binding, \<open>prepare\<close>, and the result future as the state
    machine that its \<open>async\<close> block compiles to: not yet polled, waiting until a deadline, with an
    outcome but the cleanup to do, done, dropped.
  \<^item> \<open>Core_Http\<close> (\<open>http.rs\<close>): the router and the handlers. \<open>post_complete\<close> takes the store's lock twice, so it
    is also given as two steps, \<open>post_check\<close> and \<open>post_finish\<close>, between which anything else can run.
  \<^item> \<open>Bridge\<close>, \<open>Bridge_Invariant\<close>: the whole bridge as a transition system whose steps are the atomic
    operations above, by any number of callers, pages and timers, in any order; its reachable states and
    their invariant.
  \<^item> \<open>Tasks\<close>, \<open>Task_Invariant\<close>: the callers of the bridge. \<open>Engine::submit\<close> with what its callers put around
    it, as tasks that build a request, start the bridge, register, wait and return, or are dropped, any
    number of them over one bridge; \<open>prepare\<close> is two steps here, between which other tasks can run. The state
    keeps the URLs the engine opened, in order. A caller is a \<open>client\<close>: the control API and the three typed
    signers are instances. \<open>Task_History\<close>: what a running system has done, from its reachable states: why each
    task returned what it returned, and which task each opened URL belongs to.
  \<^item> \<open>Evm_Domain\<close>, \<open>Evm_Types\<close>, \<open>Evm_Signer\<close> (\<open>browser-web3-signer-evm/src\<close>: \<open>domain.rs\<close> and \<open>config.rs\<close>,
    \<open>types.rs\<close>, \<open>signer.rs\<close>), and the same for \<open>Tron_\<close> and \<open>Btc_\<close>; \<open>Btc_Results\<close> holds the checks of a
    Bitcoin wallet's result (\<open>parse_account\<close>, \<open>parse_signed_psbt\<close> of \<open>signer.rs\<close>).
  \<^item> \<open>Signer_System\<close>: the methods of the three typed signers as clients, so with any number of calls in
    flight, and that a call on its own is the method of \<open>Evm_Signer\<close>, \<open>Tron_Signer\<close>, \<open>Btc_Signer\<close>.
  \<^item> \<open>Serve\<close> (\<open>browser-web3-signer/src/serve.rs\<close>): the control API.
  \<^item> \<open>Serve_System\<close>: \<open>serve\<close> as it runs, a client whose calls are its \<open>handle_request\<close> tasks: every 200
    carries its own wallet's checked result, and what the bridge serves comes from the body of a request.
  \<^item> \<open>Broker\<close>: what the bridge promises, as a machine of four atomic steps, and that the bridge refines it.
  \<^item> \<open>Cli_Flow\<close> (\<open>browser-web3-signer/src\<close>: \<open>main.rs\<close>, \<open>flow.rs\<close>, \<open>output.rs\<close>): a command as what it writes and
    opens, in order, with its result; \<open>Cli_Contract\<close>: the contract every chain's commands keep, as the locale
    \<open>one_shot\<close>; \<open>Cli_Evm\<close>, \<open>Cli_Tron\<close>, \<open>Cli_Btc\<close> (\<open>evm.rs\<close>, \<open>tron.rs\<close>, \<open>btc.rs\<close>): the commands, one definition
    each, and an interpretation of that locale; \<open>Cli_Main\<close>: the dispatch of \<open>main\<close> and the start of \<open>serve\<close>,
    with what it announces and the state it leaves running.
  \<^item> \<open>Harness\<close> (\<open>browser-web3-signer/src/bin/common/harness.rs\<close>): the browser-test harness, whose result cache
    and spawned tasks are a transition system over the bridge's.
  \<^item> \<open>Http_Roundtrip\<close> (\<open>browser-web3-signer-core/tests/http_roundtrip.rs\<close>): the integration tests of the
    bridge, as functions that run on the model.
  \<^item> \<open>Core_Tests\<close>, \<open>Evm_Tests\<close>, \<open>Tron_Tests\<close>, \<open>Btc_Tests\<close>: the unit tests of the four crates (the \<open>tests\<close>
    modules of their files), one function per \<open>#[test]\<close>, over \<open>Test_Std\<close> (\<open>assert!\<close>, \<open>unwrap_err\<close>, indexing of
    JSON). Each theory names the facts about third-party code that its tests rely on (\<open>core_test_facts\<close> and so
    on: what a library gives on the inputs the tests use) and proves that the tests then pass.
  \<^item> \<open>Reference\<close>: concrete library functions and a concrete run, for the witnesses.
  \<^item> \<open>Bridge_Properties\<close>, \<open>Core_Properties\<close>, \<open>Chain_Properties\<close>, \<open>Btc_Properties\<close>, \<open>Cli_Properties\<close>,
    \<open>Harness_Properties\<close>, \<open>Roundtrip_Properties\<close>, \<open>Serve_Properties\<close>, \<open>Signer_Properties\<close>, \<open>Test_Properties\<close>
    and this theory (over the run of \<open>Task_Run\<close> and the libraries of \<open>Reference\<close>):
    the properties, each with a concrete instance.

  \<^bold>\<open>Interfaces.\<close> The trait \<open>Request\<close> is the record \<open>request_ops\<close>, one field per method; the laws an
  implementation has to keep are the locales \<open>request_impl\<close> and \<open>account_impl\<close>, interpreted on \<open>evm_ops\<close>,
  \<open>tron_ops\<close> and \<open>btc_ops\<close>. A type with \<open>FromStr\<close> and \<open>Display\<close> is an instance of \<open>wire_codec\<close>, from which
  the round trips of whole requests follow. \<open>pending_store\<close> states what the store promises (a finite map
  with delivery through a channel), interpreted on the store's own operations; \<open>bridge_client\<close> that
  a client builds its request under the id it was given, interpreted on the typed signers and, by a
  \<open>sublocale\<close>, on the control API over every chain; \<open>one_shot\<close> what a command
  line of a chain promises, interpreted on the three \<open>run\<close> functions.

  \<^bold>\<open>What the lemmas show.\<close> The bridge: a result is the one a wallet posted, for that request, at most once,
  in bounded time, under every interleaving, and the bridge refines the broker. The core: each handler's
  answer and effect. The chains: what \<open>from_json\<close> accepts, that it inverts serialization, that a configured
  account is enforced, that a signed PSBT is for the transaction that was sent. The control API: a
  200 carries the request's own checked wallet result; with a configured account everything served names it, on
  each of the three chains; what each answer is; which URLs it opens, and that \<open>--print\<close> opens none. Every
  client, the control API among them: a call returns in bounded time. The Rust tests of the core and chain
  crates: the model passes them, given what they assert of third-party code on their inputs. The typed signers:
  a method's value is what it reads from its own wallet's answer, every failure has one of six causes (a failed
  start of the bridge is one that was tried), and what is served names a chain. The command line: what it prints
  and opens, that it does not panic, and where it agrees with the typed signers and where it differs.

  \<^bold>\<open>Parameters.\<close> Third-party code is not defined here. Hex, UUID, URL, Base58Check and JSON parsing,
  256-bit decimals, alloy's unit conversion and \<open>get_absolute\<close>, and what rust-bitcoin computes (address validity, the txid
  of a PSBT, its leaf scripts) are fields of \<open>core_ext\<close>, \<open>evm_ext\<close>, \<open>tron_ext\<close>, \<open>btc_ext\<close>; sockets are \<open>net\<close>,
  axum's extraction is \<open>axum\<close>. A oneshot channel of tokio and its \<open>timeout\<close> are written out by their
  documented effects, in \<open>Core_Store\<close> and \<open>Core_Engine\<close>. Theorems about round trips assume the documented laws of these
  (\<open>hex_laws\<close>, \<open>evm_laws\<close>, \<open>tron_laws\<close>, \<open>btc_laws\<close>: printing then parsing gives the value back); theorems about
  approval URLs that \<open>Url::parse\<close> reads the text \<open>build_url\<close> formats and leaves the default port 80 out of it
  (\<open>bridge_url_laws\<close>); the one about \<open>trx_to_sun\<close> that \<open>get_absolute\<close> takes the sign off (\<open>units_laws\<close>).
  \<open>Reference\<close> instantiates them all.

  \<^bold>\<open>Bounds.\<close> No definition needs fuel: every loop of the sources is structural or ends by a measure, and the
  await of a result, which sleeps and polls again, is proved to end. Integers keep their width (\<open>u16\<close>
  ports, \<open>u64\<close> amounts and chain ids, \<open>u256\<close> wei). Time is a number of seconds; the only deadline is
  \<open>REQUEST_TIMEOUT\<close>, 300 seconds from a future's first poll.

  \<^bold>\<open>Not modelled.\<close> The approval pages (JavaScript in the browser), the Go and TypeScript bindings,
  logging, process signals, the \<open>Arc\<close> wrapper of \<open>shared.rs\<close>, accessors and conversions that only wrap or
  unwrap a newtype (they are the constructors and selectors), the argument grammar of clap and the printing
  itself. Ids are given to the constructors rather than drawn at random; where distinctness matters it is
  a hypothesis, and what happens without it is a theorem of its own.
\<close>

section \<open>Properties across the components\<close>

subsection \<open>The control API over the bridge\<close>

text \<open>
  What a binding gets from the control API is what the wallet sent. In every reachable state of the
  bridge, when \<open>POST /api/v1/request\<close> answers 200 for the outcome of a finished future, that future's
  request was answered by a wallet's POST with the very result in the answer's body, and the chain's
  check of that result against the submitted request passed.
\<close>

theorem control_api_end_to_end:
  assumes "bridge_reachable X R b" and "f \<in> set (br_futs b)" and "fut_state f = FDone out"
    and "handle_request R (\<lambda>r. out) S i body = (rsp, sent)" and "rs_status rsp = 200"
  shows "\<exists>req res. sent = Some req \<and> control_request R S i body = Inr req \<and>
    r_check_result R req res = Inr () \<and> rs_body rsp = BJson (result_serialize (RSuccess res)) \<and>
    (\<exists>p \<in> set (br_posts b). po_id p = fut_id f \<and> po_result p = RSuccess res \<and>
       po_phase p = PAnswered completed)"
proof -
  obtain req res where r: "sent = Some req" "control_request R S i body = Inr req" "out = Inr res"
      "r_check_result R req res = Inr ()" "rsp = success_response res"
    using handle_request_success [OF assms(4)] assms(5) by blast
  have "explained X (br_posts b) (fut_id f) (Inr res)"
    using reachable_outcome [OF assms(1,2)] assms(3) r(3) by (simp add: fut_outcome_def)
  then have "\<exists>p \<in> set (br_posts b). po_id p = fut_id f \<and> po_result p = RSuccess res \<and>
       po_phase p = PAnswered completed"
    by (auto simp: explained_success answered_def is_answer_def)
  moreover have "rs_body rsp = BJson (result_serialize (RSuccess res))"
    using r(5) answer_of_body [of res] by (simp add: answer_of_def)
  ultimately show ?thesis using r by blast
qed

theorem control_api_end_to_end_witness:
  "\<exists>p \<in> set (br_posts (demo_done (RSuccess ''ok''))). po_id p = 7 \<and> po_result p = RSuccess ''ok''"
proof -
  let ?h = "handle_request (evm_ops ref_evm) (\<lambda>r. Inr ''ok'') \<lparr>cs_account = None\<rparr> 7 evm_connect_body"
  have c: "control_request (evm_ops ref_evm) \<lparr>cs_account = None\<rparr> 7 evm_connect_body =
      Inr (evm_connect 7 None None)"
    by (simp add: control_request_def evm_from_json_def evm_connect_body_def str_field_def
        opt_address_def opt_parsed_def evm_connect_def str_opt_def)
  then have h: "?h = (success_response ''ok'', Some (evm_connect 7 None None))"
    by (simp add: handle_request_def checked_result_def accept_any_def answer_of_def)
  have f: "br_futs (demo_done (RSuccess ''ok'')) ! 0 \<in> set (br_futs (demo_done (RSuccess ''ok'')))"
    "fut_state (br_futs (demo_done (RSuccess ''ok'')) ! 0) = FDone (Inr ''ok'')"
    "fut_id (br_futs (demo_done (RSuccess ''ok'')) ! 0) = 7"
    by (simp_all add: demo_done_states settle_def map_result_def)
  obtain res where "rs_body (success_response ''ok'') = BJson (result_serialize (RSuccess res))"
      "\<exists>p \<in> set (br_posts (demo_done (RSuccess ''ok''))). po_id p = 7 \<and> po_result p = RSuccess res"
    using control_api_end_to_end [OF demo_done_reachable f(1,2) h success_response_status] f(3) by auto
  then show ?thesis by (simp add: success_response_def json_response_def)
qed

text \<open>
  C25: Every answer of \<open>POST /api/v1/request\<close>. A body that gives no request, or one for another account
  than the configured one, is 400 and nothing is submitted; a wallet's rejection, a timeout and a
  cancellation are 409; a result that fails the chain's check and any other error are 500; otherwise it is
  200. An error's body is a failed \<open>RequestResult\<close> with the error's text and code.
\<close>

theorem control_api_answers:
  "(case control_request R S i body of
      Inl reason \<Rightarrow> handle_request R submit S i body = (json_error 400 reason, None)
    | Inr req \<Rightarrow> snd (handle_request R submit S i body) = Some req \<and>
        (case submit req of
           Inr res \<Rightarrow>
             (case r_check_result R req res of
                Inr u \<Rightarrow> fst (handle_request R submit S i body) = success_response res
              | Inl e \<Rightarrow> fst (handle_request R submit S i body) =
                  json_response 500 (result_serialize (RError (''invalid input: '' @ e) None)))
         | Inl e \<Rightarrow> fst (handle_request R submit S i body) =
             json_response
               (case e of Rejected m c \<Rightarrow> 409 | Timeout s \<Rightarrow> 409 | Cancelled s \<Rightarrow> 409 | _ \<Rightarrow> 500)
               (result_serialize (RError (signer_error_show e) (error_code e)))))"
proof (cases "control_request R S i body")
  case (Inr req)
  have err: "signer_error_response e = json_response (error_status e)
      (result_serialize (RError (signer_error_show e) (error_code e)))" for e
    by (simp add: signer_error_response_def)
  from Inr show ?thesis
    by (cases "submit req"; cases "r_check_result R req (projr (submit req))")
      (auto simp: handle_request_def checked_result_def answer_of_def err error_status_def
        simp del: result_serialize.simps)
qed (simp add: handle_request_def)

text \<open>
  C5: Through a running \<open>serve\<close> too, a signed PSBT is for the transaction of the request: when a task
  answers a \<open>sign_psbt\<close> with 200, its body described that request, a wallet posted the answer's text under
  the request's id, \<open>parse_signed_psbt\<close> accepts the text, and the PSBT in it has the txid of the PSBT in
  the request.
\<close>

theorem serve_psbt_same_transaction:
  assumes "system_reachable X (btc_ops X env) (serve_client (btc_ops X env) S) s" and "t \<in> set (sy_tasks s)"
    and "tk_phase t = TReturned (Some (BtcSignPsbt m n psbt from is ps f b)) rsp"
    and "rs_status rsp = 200"
  shows "control_request (btc_ops X env) S (tk_id t) (tk_input t) = Inr (BtcSignPsbt m n psbt from is ps f b) \<and>
    (\<exists>raw sn. rs_body rsp = BJson (result_serialize (RSuccess raw)) \<and>
       parse_signed_psbt X psbt raw = Inr sn \<and> unsigned_txid X (sn_psbt sn) = unsigned_txid X psbt \<and>
       (\<exists>p \<in> set (br_posts (sy_bridge s)). po_id p = meta_id m \<and> po_result p = RSuccess raw \<and>
          po_phase p = PAnswered completed))"
proof -
  let ?req = "BtcSignPsbt m n psbt from is ps f b"
  obtain raw where r: "control_request (btc_ops X env) S (tk_id t) (tk_input t) = Inr ?req"
      "btc_check_result X ?req raw = Inr ()" "rs_body rsp = BJson (result_serialize (RSuccess raw))"
      "\<exists>p \<in> set (br_posts (sy_bridge s)). po_id p = meta_id m \<and> po_result p = RSuccess raw \<and>
         po_phase p = PAnswered completed"
    using answered_200 [OF assms] by auto
  then obtain sn where "parse_signed_psbt X psbt raw = Inr sn" by (auto simp: map_ok_Inr_iff)
  with r parse_signed_psbt_same(1) show ?thesis by blast
qed

theorem serve_psbt_same_transaction_witness:
  "\<exists>sn. parse_signed_psbt ref_btc (PsbtData [1, 0]) ''signed'' = Inr sn \<and>
     unsigned_txid ref_btc (sn_psbt sn) = unsigned_txid ref_btc (PsbtData [1, 0])"
proof -
  let ?r = "BtcSignPsbt (request_meta_new 2) BtcSignet (PsbtData [1, 0]) (Some (BtcAddress 5000))
    (Some [0, 1]) [0] True True"
  let ?body = "btc_serialize ref_btc btc_sample" and ?R = "btc_ops ref_btc (\<lambda>v. EnvNotPresent)"
  have c: "control_request ?R \<lparr>cs_account = None\<rparr> 2 ?body = Inr ?r"
    using btc_request_reads_back [OF ref_btc_laws btc_sample_wf, of "\<lambda>v. EnvNotPresent" 2]
    by (simp add: control_request_def btc_sample_def del: btc_serialize.simps)
  have "parse_signed_psbt ref_btc (PsbtData [1, 0]) ''signed'' =
      Inr \<lparr>sn_psbt = PsbtData [1, 0], sn_txid = Some 2\<rparr>"
    using parse_signed_psbt_accepts [of ref_btc "''signed''"
        "JObject [(''psbt'', JString (ref_hex_encode [1, 0])), (''txid'', JString ''2'')]"
        "ref_hex_encode [1, 0]" "PsbtData [1, 0]" "PsbtData [1, 0]" "Some ''2''"]
      ref_psbt_parses ref_txid_parses
    by (simp add: ref_btc_def ref_json_parse_def unsigned_txid_def)
  then have answer: "answer_of (checked_result ?R ?r (Inr ''signed'')) = success_response ''signed''"
    by (simp add: checked_result_def answer_of_def)
  let ?C = "serve_client ?R \<lparr>cs_account = None\<rparr>"
  have "cl_request ?C 2 ?body = Inr ?r" using c by (simp del: btc_serialize.simps)
  from one_task_returned [OF ref_url_laws(4) this, of ?R "''signed''"]
  have "system_reachable ref_btc ?R ?C
      (one_task 2 ?body (TReturned (Some ?r) (success_response ''signed''))
        (one_posted ref_btc ?R ?r (RSuccess ''signed'')))"
    using answer by (simp del: btc_serialize.simps)
  from serve_psbt_same_transaction [OF this, of "\<lparr>tk_id = 2, tk_input = ?body,
      tk_phase = TReturned (Some ?r) (success_response ''signed'')\<rparr>"]
  show ?thesis
    by (simp add: one_task_def success_response_def json_response_def del: btc_serialize.simps) blast
qed

subsection \<open>The browser of a running serve\<close>

text \<open>
  What a \<open>serve\<close> process that holds this engine opens, in every state it gets to: nothing, or one URL for
  each request it has registered, in order, the approval page of a request that a control request describes.
\<close>

definition opens_as_asked ::
  "'e core_ext_scheme \<Rightarrow> ('r, 'a, 'y) account_ops_scheme \<Rightarrow> bool \<Rightarrow> ('r, 'a control_state) engine \<Rightarrow> bool" where
  "opens_as_asked X R print eng \<longleftrightarrow>
     (\<forall>S s. (system_step X R (serve_client R S))\<^sup>*\<^sup>* (system_init eng) s \<longrightarrow>
        (if print then sy_opened s = []
         else list_all2
           (\<lambda>u i. \<exists>t \<in> set (sy_tasks s). \<exists>req port.
              control_request R S (tk_id t) (tk_input t) = Inr req \<and> r_id R req = i \<and>
              build_url X port i (r_url_kind R req) = Some u)
           (sy_opened s) (map fut_id (br_futs (sy_bridge s)))))"

lemma serve_cli_opens:
  assumes "snd (serve_cli R env N web_ui port_opt (open_browser_choice (opts_open_mode opts))) = Inr eng"
  shows "opens_as_asked X R (go_print opts) eng"
  unfolding opens_as_asked_def
proof (intro allI impI)
  fix S s
  let ?C = "serve_client R S" and ?browser = "open_browser_choice (opts_open_mode opts)"
  assume steps: "(system_step X R ?C)\<^sup>*\<^sup>* (system_init eng) s"
  obtain port where "serve_run R env N web_ui port_opt ?browser = Inr (port, eng)"
    using assms by (auto simp: serve_cli_cases(1) result_iff)
  then obtain state where started: "start_with N (Some state) (engine_new web_ui port_opt ?browser) = (Inr port, eng)"
    by (auto simp: serve_run_def and_then_Inr_iff dest: serve_started_Inr)
  have init: "system_reachable X R ?C (system_init eng)" by (rule system_started [OF started])
  have "eng_browser eng = ?browser"
    using started by (auto simp: start_with_def engine_new_def split: sum.splits)
  then have browser: "eng_browser (br_engine (sy_bridge s)) = ?browser"
    using system_steps_browser [OF steps init] by (simp add: system_init_def bridge_init_def)
  have opened: "opened_ok X R ?C s" by (rule system_opened [OF system_steps_reachable [OF steps init]])
  have request: "\<exists>t \<in> set (sy_tasks s). \<exists>req port. control_request R S (tk_id t) (tk_input t) = Inr req \<and>
      r_id R req = i \<and> build_url X port i (r_url_kind R req) = Some u"
    if "opened_for X R ?C (called s) u i" for u i
    using that unfolding opened_for_def called_def by (auto simp: result_iff)
  show "if go_print opts then sy_opened s = []
      else list_all2 (\<lambda>u i. \<exists>t \<in> set (sy_tasks s). \<exists>req port.
          control_request R S (tk_id t) (tk_input t) = Inr req \<and> r_id R req = i \<and>
          build_url X port i (r_url_kind R req) = Some u)
        (sy_opened s) (map fut_id (br_futs (sy_bridge s)))"
  proof (cases "go_print opts")
    case True
    then show ?thesis
      using opened browser by (simp add: opened_ok_def open_browser_choice_def opts_open_mode_def)
  next
    case False
    then have "list_all2 (opened_for X R ?C (called s)) (sy_opened s) (map fut_id (br_futs (sy_bridge s)))"
      using opened browser by (simp add: opened_ok_def open_browser_choice_def opts_open_mode_def)
    with False list_all2_mono [OF this request] show ?thesis by simp
  qed
qed

text \<open>
  C4: The browser of a running \<open>serve\<close>. With \<open>--print\<close>, however many control requests a process serves and
  however they interleave, it never opens a URL. Without it, it opens exactly one for each request that it
  registers, in the order in which it registers them: the connect or sign page of that request, under the
  request's id, for a request that the body of one of its control requests describes.
\<close>

theorem serve_browser_contract:
  assumes "snd (run_serve XE XT XB WE WT WB (cli_context_of opts) chain) = Inr served"
  shows "case served of
      ServedEvm eng \<Rightarrow> opens_as_asked XE (evm_ops XE) (go_print opts) eng
    | ServedTron eng \<Rightarrow> opens_as_asked XT (tron_ops XT) (go_print opts) eng
    | ServedBtc eng \<Rightarrow> opens_as_asked XB (btc_ops XB (cw_env WB)) (go_print opts) eng"
  using assms
  by (cases chain) (auto simp: run_serve_def cli_context_of_def map_ok_Inr_iff intro: serve_cli_opens)

definition demo_served :: "(evm_request, address control_state) engine" where
  "demo_served =
     \<lparr>eng_store = store_new, eng_index_html = ''page'', eng_bind = Preferred DEFAULT_PORT,
      eng_browser = BDefault,
      eng_server = Some \<lparr>srv_port = DEFAULT_PORT, srv_extra = Some \<lparr>cs_account = None\<rparr>\<rparr>\<rparr>"

lemma demo_run_serve:
  "snd (run_serve ref_evm ref_tron ref_btc (demo_world (\<lambda>r. Inr [])) (demo_world (\<lambda>r. Inr []))
     (demo_world (\<lambda>r. Inr [])) (cli_context_of \<lparr>go_print = False, go_json = False\<rparr>) ChainEvm) =
   Inr (ServedEvm demo_served)"
  by (simp add: run_serve_def serve_cli_cases(1) serve_run_def control_configured_def configured_account_def
      account_from_env_def start_with_def engine_new_def demo_bind demo_served_def cli_context_of_def
      opts_open_mode_def open_browser_choice_def demo_world_def evm_port_def port_from_env_def env_ok_def)

theorem serve_browser_contract_witness:
  "\<exists>s u port. (system_step ref_evm (evm_ops ref_evm) (serve_client (evm_ops ref_evm) \<lparr>cs_account = None\<rparr>))\<^sup>*\<^sup>*
     (system_init demo_served) s \<and> sy_opened s = [u] \<and> build_url ref_evm port 7 KConnect = Some u"
proof -
  let ?R = "evm_ops ref_evm" and ?req = "evm_connect 7 None None"
  let ?C = "serve_client ?R \<lparr>cs_account = None\<rparr>"
  let ?s1 = "task_begin ?C ref_net 7 connect_body (system_init demo_served)"
  have s1: "?s1 = add_task 7 connect_body (TStarted ?req DEFAULT_PORT) demo_served (system_init demo_served)"
    by (simp add: task_begin_def start_def start_with_def demo_served_def system_init_def bridge_init_def)
  have "port_ok DEFAULT_PORT" by (simp add: port_ok_def DEFAULT_PORT_def)
  note url = build_url_eq [OF ref_url_laws(2) this]
  obtain s2 where s2: "task_register ref_evm ?R 0 ?s1 = Some s2"
    "map fut_id (br_futs (sy_bridge s2)) = [7]" "sy_tasks s2 = [\<lparr>tk_id = 7, tk_input = connect_body,
       tk_phase = TWaiting ?req 0\<rparr>]"
    unfolding s1
    by (simp add: task_register_def register_def Let_def url system_init_def bridge_init_def future_of_def
        evm_connect_def evm_connect_with_def request_meta_new_def)
  have "system_step ref_evm ?R ?C (system_init demo_served) ?s1" by (rule system_step.begins)
  moreover have "system_step ref_evm ?R ?C ?s1 s2"
    by (rule system_step.registers [OF _ s2(1)]) (simp add: s1)
  ultimately have steps: "(system_step ref_evm ?R ?C)\<^sup>*\<^sup>* (system_init demo_served) s2" by simp
  have "opens_as_asked ref_evm ?R False demo_served"
    using serve_browser_contract [OF demo_run_serve] by simp
  with steps s2(2,3) obtain u port where "sy_opened s2 = [u]" "build_url ref_evm port 7 KConnect = Some u"
    unfolding opens_as_asked_def
    by (fastforce simp: list_all2_Cons2 evm_connect_def evm_connect_with_def)
  with steps show ?thesis by blast
qed

subsection \<open>Edges of the lifecycle\<close>

text \<open>
  C36: A request registered under an id that is still pending takes the id over and cancels both. The
  first future finds its channel closed at its next poll; the cleanup of its cancellation then removes the
  second request, whose future is cancelled in turn.
\<close>

theorem reused_id_cancels_both:
  assumes "store_inv R st" and "store_abs st (r_id R r) = Some (r0, fut_rx f)"
    and "fut_id f = r_id R r" and "fut_live f"
  shows "let created = store_create R st r;
             once = fut_poll X t (fst created) f;
             twice = fut_poll X t (fst once) (snd once)
         in fut_state (snd twice) = FDone (Inl (Cancelled (x_uuid_show X (r_id R r)))) \<and>
            get_pending R (fst once) (r_id R r) =
              json_response 200 (pending_response (r_serialize R r)) \<and>
            get_pending R (fst twice) (r_id R r) = not_found \<and>
            store_recv (fst twice) (snd created) = TxDropped"
proof -
  let ?st1 = "fst (store_create R st r)" and ?c = "snd (store_create R st r)"
  let ?e = "cancelled_error X (fut_id f)"
  let ?st2 = "store_drop_rx ?st1 (fut_rx f)"
  have old: "fut_rx f \<noteq> ?c"
    using ps.contents_known [OF assms(1,2)] ps.create_unknown [of st R r] by auto
  then have "store_recv ?st1 (fut_rx f) = TxDropped"
    using assms(2) by (simp add: ps.recv_create [OF assms(1)])
  then have once: "fut_poll X t ?st1 f = (?st2, f\<lparr>fut_state := FClosing ?e\<rparr>)"
    using assms(4)
    by (auto simp: fut_live_def fut_poll_def poll_waiting_def poll_timeout_def settle_def
        split: fut_state.splits)
  then have twice: "fut_poll X t (fst (fut_poll X t ?st1 f)) (snd (fut_poll X t ?st1 f)) =
      (fst (store_cancel ?st2 (fut_id f)), f\<lparr>fut_state := FDone (Inl ?e)\<rparr>)"
    by (simp add: fut_poll_def)
  have inv2: "store_inv R ?st2"
    using ps.inv_create [OF assms(1)] by simp
  have abs2: "store_abs ?st2 (r_id R r) = Some (r, ?c)"
    by (simp add: ps.contents_create)
  have "store_recv (fst (store_cancel ?st2 (fut_id f))) ?c = TxDropped"
    using abs2 assms(3) by (simp add: ps.recv_cancel [OF inv2])
  with once twice abs2 assms(3) show ?thesis
    by (simp add: Let_def get_pending_abs ps.contents_cancel cancelled_error_def)
qed

theorem reused_id_cancels_both_witness:
  "get_pending (evm_ops ref_evm)
     (fst (fut_poll ref_evm 0
       (fst (fut_poll ref_evm 0 (fst (store_create (evm_ops ref_evm) (br_store demo_waiting) demo_request))
          (br_futs demo_waiting ! 0)))
       (snd (fut_poll ref_evm 0 (fst (store_create (evm_ops ref_evm) (br_store demo_waiting) demo_request))
          (br_futs demo_waiting ! 0))))) 7 = not_found"
  using reused_id_cancels_both [OF reachable_store_inv [OF demo_waiting_reachable], of demo_request
      demo_request "br_futs demo_waiting ! 0" ref_evm 0]
  by (simp add: demo_states store_abs_def demo_request_def evm_connect_def evm_connect_with_def
      request_meta_new_def fut_live_def Let_def)

text \<open>
  C37: Dropping an awaited future does not withdraw its request. The bridge goes on serving it, and a
  wallet's POST for it is answered with 200 although the result reaches nobody.
\<close>

theorem dropped_future_still_served:
  assumes "store_inv R st" and "store_abs st (fut_id f) = Some (r, fut_rx f)" and "fut_live f"
  shows "let st' = fst (fut_drop st f)
         in get_pending R st' (fut_id f) = json_response 200 (pending_response (r_serialize R r)) \<and>
            snd (post_complete st' (fut_id f) body) = completed \<and>
            store_recv (fst (post_complete st' (fut_id f) body)) (fut_rx f) = TxDropped"
proof -
  have st': "fst (fut_drop st f) = store_drop_rx st (fut_rx f)"
    using assms(3) by (auto simp: fut_live_def fut_drop_def split: fut_state.splits)
  have inv: "store_inv R (store_drop_rx st (fut_rx f))" using assms(1) by simp
  show ?thesis
    using assms(2)
    by (simp add: st' Let_def get_pending_abs post_complete_eq ps.recv_complete [OF inv])
qed

theorem dropped_future_still_served_witness:
  "snd (post_complete (fst (fut_drop (br_store demo_waiting) (br_futs demo_waiting ! 0))) 7
     \<lparr>car_success = True, car_result = Some ''ok'', car_error = None, car_code = None\<rparr>) = completed"
  using dropped_future_still_served [OF reachable_store_inv [OF demo_waiting_reachable],
      of "br_futs demo_waiting ! 0" demo_request
      "\<lparr>car_success = True, car_result = Some ''ok'', car_error = None, car_code = None\<rparr>"]
  by (simp add: demo_states store_abs_def fut_live_def Let_def)

end
